(* ===== verification/Prelude.thy ===== *)
theory Prelude
  imports Main "HOL-Library.AList" "HOL-Library.Word"
begin

text \<open>
  Shared vocabulary of the development: machine integers, peer IDs, clock readings, the
  outcome of a Rust function that may panic, hash maps (also nested ones) as association
  lists, tables of rows, and the interfaces (locales) several components are clients of.
\<close>

section \<open>Basic types\<close>

type_synonym u8 = "8 word"
type_synonym u32 = "32 word"
type_synonym u64 = "64 word"
type_synonym bytes = "u8 list"

text \<open>
  A libp2p peer ID is its byte string (\<open>PeerId::to_bytes\<close>). The database stores the
  base58 text of it, which \<open>PeerId::from_str\<close> reads back; the model stores the ID itself.
\<close>

datatype peer_id = PeerId (peer_bytes: bytes)

text \<open>
  A \<open>chrono::DateTime<Utc>\<close> is the number of nanoseconds since the Unix epoch.
  \<open>timestamp\<close> is chrono's method of that name (whole seconds, rounded down). SQLite's
  \<open>CURRENT_TIMESTAMP\<close> and the wire format \<open>chrono::serde::ts_seconds\<close> both keep whole
  seconds only, which \<open>trunc_seconds\<close> writes out.
\<close>

type_synonym datetime = int

definition timestamp :: "datetime \<Rightarrow> int" where
  "timestamp t = t div 1000000000"

definition trunc_seconds :: "datetime \<Rightarrow> datetime" where
  "trunc_seconds t = timestamp t * 1000000000"

text \<open>
  A Rust function either returns or panics (\<open>unwrap\<close>, \<open>expect\<close>, \<open>unwrap_none\<close>,
  \<open>unreachable!\<close>).
\<close>

datatype 'a outcome = Return 'a | Panic

fun and_then :: "'a outcome \<Rightarrow> ('a \<Rightarrow> 'b outcome) \<Rightarrow> 'b outcome" where
  "and_then (Return x) f = f x"
| "and_then Panic f = Panic"

fun fold_outcome :: "('e \<Rightarrow> 's \<Rightarrow> 's outcome) \<Rightarrow> 'e list \<Rightarrow> 's \<Rightarrow> 's outcome" where
  "fold_outcome f [] s = Return s"
| "fold_outcome f (e # es) s = and_then (f e s) (fold_outcome f es)"

lemma and_then_Return_iff [simp]:
  "and_then m f = Return y \<longleftrightarrow> (\<exists>x. m = Return x \<and> f x = Return y)"
  by (cases m) auto

lemma fold_outcome_append:
  "fold_outcome f (xs @ ys) s = and_then (fold_outcome f xs s) (fold_outcome f ys)"
proof (induction xs arbitrary: s)
  case (Cons x xs)
  then show ?case by (cases "f x s") simp_all
qed simp

section \<open>Clocks\<close>

lemma trunc_seconds_le: "trunc_seconds t \<le> t"
  by (simp add: trunc_seconds_def timestamp_def)

lemma timestamp_mono: "s \<le> t \<Longrightarrow> timestamp s \<le> timestamp t"
  by (simp add: timestamp_def zdiv_mono1)

lemma trunc_seconds_mono: "s \<le> t \<Longrightarrow> trunc_seconds s \<le> trunc_seconds t"
  by (simp add: trunc_seconds_def timestamp_mono)

lemma trunc_seconds_idem [simp]: "trunc_seconds (trunc_seconds t) = trunc_seconds t"
  by (simp add: trunc_seconds_def timestamp_def)

lemma trunc_seconds_eq_iff: "trunc_seconds s = trunc_seconds t \<longleftrightarrow> timestamp s = timestamp t"
  by (simp add: trunc_seconds_def)

lemma trunc_seconds_less_iff: "trunc_seconds s < trunc_seconds t \<longleftrightarrow> timestamp s < timestamp t"
  by (simp add: trunc_seconds_def)

section \<open>Hash maps\<close>

text \<open>
  A Rust \<open>HashMap\<close> is an association list with distinct keys; the order of the list is the
  (arbitrary) iteration order, so a fact proved for every list holds for every order. The
  operations are those of \<open>HOL-Library.AList\<close>: \<open>map_of\<close> looks a key up,
  \<open>AList.update\<close> inserts or overwrites, \<open>AList.delete\<close> removes.
\<close>

type_synonym ('k, 'v) hash_map = "('k \<times> 'v) list"

definition hm_ok :: "('k, 'v) hash_map \<Rightarrow> bool" where
  "hm_ok m \<longleftrightarrow> distinct (map fst m)"

lemma hm_ok_Nil [simp]: "hm_ok []"
  by (simp add: hm_ok_def)

lemma hm_ok_single [simp]: "hm_ok [(k, v)]"
  by (simp add: hm_ok_def)

lemma hm_ok_update [simp]: "hm_ok m \<Longrightarrow> hm_ok (AList.update k v m)"
  by (simp add: hm_ok_def distinct_update)

lemma hm_ok_delete [simp]: "hm_ok m \<Longrightarrow> hm_ok (AList.delete k m)"
  by (simp add: hm_ok_def distinct_delete)

lemma hm_ok_Cons: "hm_ok ((k, v) # m) \<longleftrightarrow> map_of m k = None \<and> hm_ok m"
  by (auto simp: hm_ok_def map_of_eq_None_iff)

lemma hm_ok_in_set: "hm_ok m \<Longrightarrow> (k, v) \<in> set m \<longleftrightarrow> map_of m k = Some v"
  by (simp add: hm_ok_def)

lemma map_of_update [simp]: "map_of (AList.update k v m) = (map_of m)(k \<mapsto> v)"
  by (rule update_conv')

lemma map_of_delete_eq: "map_of (AList.delete k m) = (map_of m)(k := None)"
  by (rule delete_conv')

text \<open>A hash map of hash maps, as the offer tables are (protocol, then offer).\<close>

definition nested_get :: "('a, ('b, 'c) hash_map) hash_map \<Rightarrow> 'a \<Rightarrow> 'b \<Rightarrow> 'c option" where
  "nested_get m a b = (case map_of m a of None \<Rightarrow> None | Some inner \<Rightarrow> map_of inner b)"

definition nested_insert ::
  "'a \<Rightarrow> 'b \<Rightarrow> 'c \<Rightarrow> ('a, ('b, 'c) hash_map) hash_map \<Rightarrow> ('a, ('b, 'c) hash_map) hash_map" where
  "nested_insert a b v m =
     (let inner = (case map_of m a of Some x \<Rightarrow> x | None \<Rightarrow> [])
      in AList.update a (AList.update b v inner) m)"

definition nested_ok :: "('a, ('b, 'c) hash_map) hash_map \<Rightarrow> bool" where
  "nested_ok m \<longleftrightarrow> hm_ok m \<and> (\<forall>(a, inner) \<in> set m. hm_ok inner \<and> inner \<noteq> [])"

lemma nested_get_Nil [simp]: "nested_get [] a b = None"
  by (simp add: nested_get_def)

lemma nested_get_insert:
  "nested_get (nested_insert a b v m) a' b' =
     (if a' = a \<and> b' = b then Some v else nested_get m a' b')"
  by (simp add: nested_get_def nested_insert_def Let_def split: option.splits)

lemma nested_ok_Nil [simp]: "nested_ok []"
  by (simp add: nested_ok_def)

lemma nested_ok_hm [dest]: "nested_ok m \<Longrightarrow> hm_ok m"
  by (simp add: nested_ok_def)

lemma nested_ok_inner: "nested_ok m \<Longrightarrow> map_of m a = Some inner \<Longrightarrow> hm_ok inner \<and> inner \<noteq> []"
  unfolding nested_ok_def by (fastforce dest: map_of_SomeD)

lemma nested_okI:
  assumes "hm_ok m" and "\<And>a inner. map_of m a = Some inner \<Longrightarrow> hm_ok inner \<and> inner \<noteq> []"
  shows "nested_ok m"
  using assms unfolding nested_ok_def by (auto simp: hm_ok_in_set simp del: not_None_eq) blast

lemma nested_ok_insert: "nested_ok m \<Longrightarrow> nested_ok (nested_insert a b v m)"
  by (rule nested_okI)
    (auto simp: nested_insert_def Let_def split: option.splits if_splits dest: nested_ok_inner)

lemma nested_ok_delete: "nested_ok m \<Longrightarrow> nested_ok (AList.delete a m)"
  by (rule nested_okI) (auto simp: map_of_delete_eq split: if_splits dest: nested_ok_inner)

section \<open>Tables\<close>

text \<open>
  A table is the list of its rows in the order of the row IDs. \<open>update_where\<close> is an SQL
  \<open>UPDATE\<close>; \<open>next_rowid\<close> is the row ID SQLite gives a new row of a table whose
  \<open>INTEGER PRIMARY KEY\<close> is not set by the insert: one more than the largest in use.
\<close>

definition update_where :: "('r \<Rightarrow> bool) \<Rightarrow> ('r \<Rightarrow> 'r) \<Rightarrow> 'r list \<Rightarrow> 'r list" where
  "update_where P f t = map (\<lambda>r. if P r then f r else r) t"

definition next_rowid :: "int list \<Rightarrow> int" where
  "next_rowid ks = foldr max ks 0 + 1"

lemma foldr_max_upper: "k \<in> set ks \<Longrightarrow> k \<le> foldr max ks (b :: int)"
  by (induction ks) auto

lemma next_rowid_fresh: "next_rowid ks \<notin> set ks"
  using foldr_max_upper [of "next_rowid ks" ks 0] by (auto simp: next_rowid_def)

lemma set_update_where:
  "set (update_where P f t) = {r \<in> set t. \<not> P r} \<union> f ` {r \<in> set t. P r}"
  by (auto simp: update_where_def)

lemma ball_update_where:
  "(\<forall>r' \<in> set (update_where P f t). Q r') \<longleftrightarrow> (\<forall>r \<in> set t. Q (if P r then f r else r))"
  by (induction t) (auto simp: update_where_def)

lemma bex_update_where:
  "(\<exists>r' \<in> set (update_where P f t). Q r') \<longleftrightarrow> (\<exists>r \<in> set t. Q (if P r then f r else r))"
  by (induction t) (auto simp: update_where_def)

lemma map_update_where:
  assumes "\<And>r. P r \<Longrightarrow> g (f r) = g r"
  shows "map g (update_where P f t) = map g t"
  using assms by (auto simp: update_where_def)

lemma find_SomeD: "List.find P t = Some r \<Longrightarrow> r \<in> set t \<and> P r"
  by (auto simp: find_Some_iff)

lemma find_NoneD: "List.find P t = None \<Longrightarrow> r \<in> set t \<Longrightarrow> \<not> P r"
  by (simp add: find_None_iff)

lemma find_unique:
  assumes "r \<in> set t" and "P r" and "\<And>r'. r' \<in> set t \<Longrightarrow> P r' \<Longrightarrow> r' = r"
  shows "List.find P t = Some r"
proof (cases "List.find P t")
  case None
  with assms(1,2) show ?thesis by (auto dest: find_NoneD)
next
  case (Some r')
  with assms(3) show ?thesis by (auto dest: find_SomeD)
qed

lemma find_key:
  assumes "distinct (map key t)" and "r \<in> set t"
  shows "List.find (\<lambda>r'. key r' = key r) t = Some r"
  using assms by (intro find_unique) (auto simp: distinct_map inj_on_def)

lemma find_append:
  "List.find P (xs @ ys) = (case List.find P xs of None \<Rightarrow> List.find P ys | Some r \<Rightarrow> Some r)"
  by (induction xs) auto

lemma find_map: "List.find P (map g xs) = map_option g (List.find (P \<circ> g) xs)"
  by (induction xs) auto

lemma distinct_key_eq:
  "distinct (map key t) \<Longrightarrow> r \<in> set t \<Longrightarrow> r' \<in> set t \<Longrightarrow> key r = key r' \<Longrightarrow> r = r'"
  by (auto simp: distinct_map inj_on_def)

lemma find_update_where:
  assumes "\<And>r. P r \<Longrightarrow> Q (f r) = Q r"
  shows "List.find Q (update_where P f t) =
     map_option (\<lambda>r. if P r then f r else r) (List.find Q t)"
  using assms by (induction t) (auto simp: update_where_def)

section \<open>Interfaces\<close>

text \<open>
  A component whose operations are steps on a state. Each step keeps an invariant and does
  not panic, provided the operation is allowed in the state it is applied to (what the
  environment guarantees). \<open>legal_run\<close>: every operation of a run is allowed where it is
  applied.
\<close>

fun legal_run ::
  "('e \<Rightarrow> 's \<Rightarrow> 's outcome) \<Rightarrow> ('e \<Rightarrow> 's \<Rightarrow> bool) \<Rightarrow> 'e list \<Rightarrow> 's \<Rightarrow> bool" where
  "legal_run step allowed [] s = True"
| "legal_run step allowed (e # es) s =
     (allowed e s \<and> (case step e s of Panic \<Rightarrow> True | Return s' \<Rightarrow> legal_run step allowed es s'))"

locale safe_system =
  fixes step :: "'e \<Rightarrow> 's \<Rightarrow> 's outcome" and inv :: "'s \<Rightarrow> bool"
    and allowed :: "'e \<Rightarrow> 's \<Rightarrow> bool"
  assumes step_safe: "inv s \<Longrightarrow> allowed e s \<Longrightarrow> \<exists>s'. step e s = Return s' \<and> inv s'"
begin

lemma run_safe:
  assumes "inv s" and "legal_run step allowed es s"
  shows "\<exists>s'. fold_outcome step es s = Return s' \<and> inv s'"
  using assms
proof (induction es arbitrary: s)
  case (Cons e es)
  then obtain s1 where "step e s = Return s1" and "inv s1"
    using step_safe by fastforce
  with Cons show ?case by simp
qed simp

end

text \<open>Facts about the state that, once true, no later step can undo.\<close>

locale monotone_system = safe_system step inv allowed
  for step :: "'e \<Rightarrow> 's \<Rightarrow> 's outcome" and inv :: "'s \<Rightarrow> bool"
    and allowed :: "'e \<Rightarrow> 's \<Rightarrow> bool" +
  fixes facts :: "'s \<Rightarrow> 'f set"
  assumes step_mono: "inv s \<Longrightarrow> allowed e s \<Longrightarrow> step e s = Return s' \<Longrightarrow> facts s \<subseteq> facts s'"
begin

lemma run_mono:
  assumes "inv s" and "legal_run step allowed es s" and "fold_outcome step es s = Return s'"
  shows "facts s \<subseteq> facts s'"
  using assms
proof (induction es arbitrary: s)
  case (Cons e es)
  then obtain s1 where s1: "step e s = Return s1" "inv s1"
    using step_safe by fastforce
  with Cons have "facts s1 \<subseteq> facts s'" by simp
  moreover have "facts s \<subseteq> facts s1"
    by (rule step_mono [OF Cons.prems(1) _ s1(1)]) (use Cons.prems(2) in simp)
  ultimately show ?case by simp
qed simp

end

text \<open>A system that implements another one: every step is the abstract step on what it means.\<close>

locale refined_system = safe_system step inv allowed
  for step :: "'e \<Rightarrow> 's \<Rightarrow> 's outcome" and inv :: "'s \<Rightarrow> bool"
    and allowed :: "'e \<Rightarrow> 's \<Rightarrow> bool" +
  fixes abstract :: "'s \<Rightarrow> 'a" and abstract_step :: "'e \<Rightarrow> 'a \<Rightarrow> 'a"
  assumes step_abstract: "inv s \<Longrightarrow> allowed e s \<Longrightarrow> step e s = Return s' \<Longrightarrow>
    abstract s' = abstract_step e (abstract s)"
begin

lemma run_abstract:
  assumes "inv s" and "legal_run step allowed es s"
  shows "\<exists>s'. fold_outcome step es s = Return s' \<and> inv s' \<and>
    abstract s' = fold abstract_step es (abstract s)"
  using assms
proof (induction es arbitrary: s)
  case (Cons e es)
  then obtain s1 where s1: "step e s = Return s1" "inv s1"
    using step_safe by fastforce
  moreover have "abstract s1 = abstract_step e (abstract s)"
    by (rule step_abstract [OF Cons.prems(1) _ s1(1)]) (use Cons.prems(2) in simp)
  ultimately show ?case using Cons by fastforce
qed simp

end

text \<open>
  A loop over entries with different keys, each iteration of which works on the cell of the
  state that belongs to its key and leaves the other cells alone.
\<close>

locale keyed_loop =
  fixes step :: "'e \<Rightarrow> 's \<Rightarrow> 's outcome" and inv :: "'s \<Rightarrow> bool" and key :: "'e \<Rightarrow> 'k"
    and cell :: "'s \<Rightarrow> 'k \<Rightarrow> 'c" and pre :: "'e \<Rightarrow> 'c \<Rightarrow> bool" and post :: "'e \<Rightarrow> 'c \<Rightarrow> 'c \<Rightarrow> bool"
  assumes step_cell: "inv s \<Longrightarrow> pre e (cell s (key e)) \<Longrightarrow>
    \<exists>s'. step e s = Return s' \<and> inv s' \<and> post e (cell s (key e)) (cell s' (key e)) \<and>
      (\<forall>k. k \<noteq> key e \<longrightarrow> cell s' k = cell s k)"
begin

lemma loop_cells:
  assumes "inv s" and "distinct (map key es)" and "\<And>e. e \<in> set es \<Longrightarrow> pre e (cell s (key e))"
  shows "\<exists>s'. fold_outcome step es s = Return s' \<and> inv s' \<and>
    (\<forall>e \<in> set es. post e (cell s (key e)) (cell s' (key e))) \<and>
    (\<forall>k. k \<notin> key ` set es \<longrightarrow> cell s' k = cell s k)"
  using assms
proof (induction es arbitrary: s)
  case (Cons e es)
  from step_cell [OF Cons.prems(1)] Cons.prems(3) obtain s1 where
    s1: "step e s = Return s1" "inv s1" "post e (cell s (key e)) (cell s1 (key e))"
      "\<And>k. k \<noteq> key e \<Longrightarrow> cell s1 k = cell s k"
    by fastforce
  have other: "cell s1 (key e') = cell s (key e')" "key e' \<noteq> key e" if "e' \<in> set es" for e'
    using that Cons.prems(2) s1(4) by (auto simp: image_iff)
  from Cons.IH [of s1] s1 Cons.prems other obtain s' where
    s': "fold_outcome step es s1 = Return s'" "inv s'"
      "\<forall>e \<in> set es. post e (cell s1 (key e)) (cell s' (key e))"
      "\<forall>k. k \<notin> key ` set es \<longrightarrow> cell s' k = cell s1 k"
    by auto
  have "cell s' (key e) = cell s1 (key e)" using s'(4) other(2) by force
  with s1 s' other show ?case by auto
qed simp

end

text \<open>
  A source of identifiers: a machine-word counter that is bumped by one for each new entry
  of a table keyed by it. As long as the counter has not wrapped round, every new
  identifier is unused.
\<close>

locale id_source =
  fixes counter :: "'s \<Rightarrow> 'w::len word" and used :: "'s \<Rightarrow> 'w word set"
    and alloc :: "'s \<Rightarrow> 's" and given :: "'s \<Rightarrow> 'w word"
  assumes counter_alloc: "counter (alloc s) = counter s + 1"
    and used_alloc: "used (alloc s) = insert (given s) (used s)"
    and given_counter: "given s = counter s \<or> given s = counter s + 1"
    and given_uniform: "given s = counter s \<longleftrightarrow> given s' = counter s'"
begin

text \<open>
  Every identifier in use was given out earlier: it lies below the counter (or at it, for a
  counter that is bumped before use).
\<close>

definition below :: "'s \<Rightarrow> bool" where
  "below s \<longleftrightarrow> (\<forall>i \<in> used s. if given s = counter s then i < counter s else i \<le> counter s)"

definition not_full :: "'s \<Rightarrow> bool" where
  "not_full s \<longleftrightarrow> unat (counter s) + 1 < 2 ^ LENGTH('w)"

lemma not_full_less: "not_full s \<Longrightarrow> counter s < counter s + 1"
  unfolding not_full_def by (simp add: word_less_nat_alt unat_word_ariths)

lemma given_fresh: "below s \<Longrightarrow> not_full s \<Longrightarrow> given s \<notin> used s"
  using given_counter [of s] not_full_less [of s] unfolding below_def by fastforce

lemma alloc_below: "below s \<Longrightarrow> not_full s \<Longrightarrow> below (alloc s)"
  using given_counter [of s] given_uniform [of s "alloc s"] not_full_less [of s]
  unfolding below_def by (fastforce simp: counter_alloc used_alloc)

end

end
