(* ===== verification/Db_Schema.thy ===== *)
theory Db_Schema
  imports Prelude
begin

text \<open>
  The node's SQLite database (\<open>src/src/db/migrations\<close>) and the records handed to other
  parts of the program (\<open>src/src/dto.rs\<close>): the three tables, their constraints and the
  statements on \<open>offer_snapshots\<close> that several operations share.
\<close>

section \<open>Data transfer objects\<close>

datatype currency = Polygon

definition currency_to_i64 :: "currency \<Rightarrow> int" where
  "currency_to_i64 c = (case c of Polygon \<Rightarrow> 0)"

definition currency_try_from :: "int \<Rightarrow> string + currency" where
  "currency_try_from v = (if v = 0 then Inr Polygon else Inl ''Invalid value for Currency'')"

definition currency_code :: "currency \<Rightarrow> string" where
  "currency_code c = (case c of Polygon \<Rightarrow> ''POL'')"

record offer_snapshot =
  os_snapshot_id :: int
  os_active :: bool
  os_provider_peer_id :: peer_id
  os_protocol_id :: string
  os_offer_id :: string
  os_protocol_payload :: string

record offer_removed =
  or_snapshot_id :: int
  or_provider_peer_id :: peer_id
  or_protocol_id :: string
  or_offer_id :: string

record provider_heartbeat =
  ph_peer_id :: peer_id
  ph_latest_heartbeat_at :: datetime

record provider_record =
  pr_peer_id :: peer_id
  pr_name :: "string option"
  pr_teaser :: "string option"
  pr_description :: "string option"
  pr_updated_at :: datetime
  pr_latest_heartbeat_at :: datetime

record job_record =
  jr_job_rowid :: int
  jr_provider_job_id :: string
  jr_provider_peer_id :: peer_id
  jr_consumer_peer_id :: peer_id
  jr_offer_id :: string
  jr_offer_snapshot_rowid :: int
  jr_offer_protocol_id :: string
  jr_offer_payload :: string
  jr_offer_active :: bool
  jr_currency :: currency
  jr_balance_delta :: "string option"
  jr_public_payload :: "string option"
  jr_private_payload :: "string option"
  jr_reason :: "string option"
  jr_reason_class :: "int option"
  jr_created_at_local :: datetime
  jr_created_at_sync :: int
  jr_completed_at_local :: "datetime option"
  jr_completed_at_sync :: "int option"
  jr_signature_confirmed_at_local :: "datetime option"
  jr_confirmation_error :: "string option"

text \<open>The events broadcast to RPC connections (\<open>RpcEvent\<close>, \<open>src/src/state.rs\<close>).\<close>

datatype rpc_event =
    OfferRemoved offer_removed
  | OfferUpdated offer_snapshot
  | ProviderHeartbeat provider_heartbeat
  | ProviderUpdated provider_record
  | JobUpdated job_record

section \<open>Tables\<close>

record peer_row =
  peer_peer_id :: peer_id
  peer_provider_name :: "string option"
  peer_provider_teaser :: "string option"
  peer_provider_description :: "string option"
  peer_their_provider_updated_at :: "datetime option"
  peer_our_provider_updated_at :: "datetime option"
  peer_their_latest_heartbeat_timestamp :: "datetime option"
  peer_our_latest_heartbeat_timestamp :: "datetime option"

record snapshot_row =
  snap_rowid :: int
  snap_provider_peer_id :: peer_id
  snap_protocol_id :: string
  snap_offer_id :: string
  snap_protocol_payload :: string
  snap_active :: bool

record job_row =
  job_rowid :: int
  job_offer_snapshot_rowid :: int
  job_consumer_peer_id :: peer_id
  job_currency :: currency
  job_args :: "string option"
  job_provider_job_id :: string
  job_private_payload :: "string option"
  job_reason :: "string option"
  job_reason_class :: "int option"
  job_created_at_local :: datetime
  job_created_at_sync :: int
  job_completed_at_local :: "datetime option"
  job_completed_at_sync :: "int option"
  job_public_payload :: "string option"
  job_balance_delta :: "string option"
  job_hash :: "bytes option"
  job_consumer_signature :: "bytes option"
  job_signature_confirmed_at_local :: "datetime option"
  job_confirmation_error :: "string option"

record database =
  peers :: "peer_row list"
  offer_snapshots :: "snapshot_row list"
  service_jobs :: "job_row list"

definition empty_database :: database where
  "empty_database = \<lparr>peers = [], offer_snapshots = [], service_jobs = []\<rparr>"

subsection \<open>Keys and constraints\<close>

text \<open>
  \<open>snap_key\<close> is the triple of \<open>idx_offer_snapshots_main_active\<close> (unique among active
  snapshots); \<open>snap_ident\<close> the four columns of \<open>idx_offer_snapshots_protocol_payload\<close>
  (unique among all snapshots).
\<close>

type_synonym offer_key = "peer_id \<times> string \<times> string"

definition snap_key :: "snapshot_row \<Rightarrow> offer_key" where
  "snap_key r = (snap_provider_peer_id r, snap_protocol_id r, snap_offer_id r)"

definition snap_ident :: "snapshot_row \<Rightarrow> offer_key \<times> string" where
  "snap_ident r = (snap_key r, snap_protocol_payload r)"

definition wf_snapshots :: "snapshot_row list \<Rightarrow> bool" where
  "wf_snapshots t \<longleftrightarrow> distinct (map snap_rowid t) \<and> distinct (map snap_ident t) \<and>
     distinct (map snap_key (filter snap_active t))"

definition peer_ids :: "database \<Rightarrow> peer_id set" where
  "peer_ids db = peer_peer_id ` set (peers db)"

text \<open>
  The declared constraints: primary keys, the two unique indexes and the two foreign keys
  (which the bundled SQLite enforces by default).
\<close>

definition wf_database :: "database \<Rightarrow> bool" where
  "wf_database db \<longleftrightarrow>
     distinct (map peer_peer_id (peers db)) \<and>
     wf_snapshots (offer_snapshots db) \<and>
     snap_provider_peer_id ` set (offer_snapshots db) \<subseteq> peer_ids db \<and>
     distinct (map job_rowid (service_jobs db)) \<and>
     job_offer_snapshot_rowid ` set (service_jobs db) \<subseteq> snap_rowid ` set (offer_snapshots db)"

text \<open>
  What the snapshot table means: the payload currently on offer under a key, if any.
\<close>

definition active_row :: "snapshot_row list \<Rightarrow> offer_key \<Rightarrow> snapshot_row option" where
  "active_row t k = List.find (\<lambda>r. snap_active r \<and> snap_key r = k) t"

definition active_payload :: "snapshot_row list \<Rightarrow> offer_key \<Rightarrow> string option" where
  "active_payload t k = map_option snap_protocol_payload (active_row t k)"

subsection \<open>Statements on \<open>offer_snapshots\<close>\<close>

definition new_snapshot ::
  "snapshot_row list \<Rightarrow> offer_key \<Rightarrow> string \<Rightarrow> snapshot_row" where
  "new_snapshot t k payload =
     \<lparr>snap_rowid = next_rowid (map snap_rowid t), snap_provider_peer_id = fst k,
      snap_protocol_id = fst (snd k), snap_offer_id = snd (snd k),
      snap_protocol_payload = payload, snap_active = True\<rparr>"

text \<open>The rows a new active row for \<open>k\<close> with this payload violates a unique index with.\<close>

definition conflicts :: "snapshot_row list \<Rightarrow> offer_key \<Rightarrow> string \<Rightarrow> snapshot_row list" where
  "conflicts t k payload =
     filter (\<lambda>r. snap_ident r = (k, payload) \<or> (snap_active r \<and> snap_key r = k)) t"

definition set_active :: "bool \<Rightarrow> int \<Rightarrow> snapshot_row list \<Rightarrow> snapshot_row list" where
  "set_active b rid = update_where (\<lambda>r. snap_rowid r = rid) (\<lambda>r. r\<lparr>snap_active := b\<rparr>)"

text \<open>\<open>UPDATE offer_snapshots SET active = 0 WHERE ROWID = ?1\<close>.\<close>

definition deactivate :: "int \<Rightarrow> snapshot_row list \<Rightarrow> snapshot_row list" where
  "deactivate rid t = set_active False rid t"

text \<open>
  \<open>SET active = 1\<close> on one row: a constraint error, which the code unwraps, if another
  snapshot of the same offer is active.
\<close>

definition activate :: "snapshot_row \<Rightarrow> snapshot_row list \<Rightarrow> snapshot_row list outcome" where
  "activate row t =
     (if list_ex (\<lambda>r. snap_rowid r \<noteq> snap_rowid row \<and> snap_active r \<and> snap_key r = snap_key row) t
      then Panic
      else Return (set_active True (snap_rowid row) t))"

text \<open>
  \<open>INSERT INTO offer_snapshots (\<dots>, active, \<dots>) VALUES (\<dots>, 1, \<dots>)\<close>; returns the new row ID.
\<close>

definition insert_snapshot ::
  "offer_key \<Rightarrow> string \<Rightarrow> snapshot_row list \<Rightarrow> (snapshot_row list \<times> int) outcome" where
  "insert_snapshot k payload t =
     (if conflicts t k payload \<noteq> [] then Panic
      else Return (t @ [new_snapshot t k payload], snap_rowid (new_snapshot t k payload)))"

text \<open>
  The same with \<open>ON CONFLICT DO UPDATE SET active = 1 RETURNING ROWID\<close>, without a conflict
  target: the update applies to the row of whichever unique index fails first. SQLite does
  not specify the order of these checks, so the choice is the parameter \<open>pick\<close>.
\<close>

definition upsert_snapshot ::
  "(snapshot_row list \<Rightarrow> snapshot_row) \<Rightarrow> offer_key \<Rightarrow> string \<Rightarrow> snapshot_row list \<Rightarrow>
     (snapshot_row list \<times> int) outcome" where
  "upsert_snapshot pick k payload t =
     (case conflicts t k payload of
        [] \<Rightarrow> insert_snapshot k payload t
      | c # cs \<Rightarrow>
          (let row = pick (c # cs)
           in and_then (activate row t) (\<lambda>t'. Return (t', snap_rowid row))))"

text \<open>
  With the target \<open>ON CONFLICT (provider_peer_id, protocol_id, offer_id, protocol_payload)\<close>
  this index is checked first and its conflict is turned into the update; a conflict with
  another active snapshot of the offer alone is a constraint error.
\<close>

definition upsert_snapshot_target ::
  "offer_key \<Rightarrow> string \<Rightarrow> snapshot_row list \<Rightarrow> (snapshot_row list \<times> int) outcome" where
  "upsert_snapshot_target k payload t =
     (case List.find (\<lambda>r. snap_ident r = (k, payload)) t of
        None \<Rightarrow> insert_snapshot k payload t
      | Some row \<Rightarrow> and_then (activate row t) (\<lambda>t'. Return (t', snap_rowid row)))"

end
