(* ===== verification/Snapshot_Table.thy ===== *)
theory Snapshot_Table
  imports Db_Schema
begin

text \<open>
  How the statements of \<open>Db_Schema\<close> act on the meaning of the snapshot table
  (\<open>active_payload\<close>), on its constraints (\<open>wf_snapshots\<close>) and on what a row ID stands for
  (\<open>snapshot_idents\<close>, which no statement ever takes back).
\<close>

definition snapshot_idents :: "snapshot_row list \<Rightarrow> (int \<times> offer_key \<times> string) set" where
  "snapshot_idents t = (\<lambda>r. (snap_rowid r, snap_ident r)) ` set t"

lemma snap_simps [simp]:
  "snap_key (r\<lparr>snap_active := b\<rparr>) = snap_key r"
  "snap_ident (r\<lparr>snap_active := b\<rparr>) = snap_ident r"
  by (simp_all add: snap_key_def snap_ident_def)

lemma new_snapshot_simps [simp]:
  "snap_key (new_snapshot t k payload) = k"
  "snap_ident (new_snapshot t k payload) = (k, payload)"
  "snap_active (new_snapshot t k payload)"
  "snap_protocol_payload (new_snapshot t k payload) = payload"
  "snap_rowid (new_snapshot t k payload) = next_rowid (map snap_rowid t)"
  by (simp_all add: new_snapshot_def snap_key_def snap_ident_def)

lemma wf_snapshots_Nil [simp]: "wf_snapshots []"
  by (simp add: wf_snapshots_def)

lemma wf_snapshots_iff:
  "wf_snapshots t \<longleftrightarrow> distinct (map snap_rowid t) \<and> distinct (map snap_ident t) \<and>
     (\<forall>r \<in> set t. \<forall>r' \<in> set t. snap_active r \<and> snap_active r' \<and> snap_key r = snap_key r' \<longrightarrow>
        snap_rowid r = snap_rowid r')"
proof -
  have "distinct (map snap_key (filter snap_active t)) \<longleftrightarrow>
      (\<forall>r \<in> set t. \<forall>r' \<in> set t. snap_active r \<and> snap_active r' \<and> snap_key r = snap_key r' \<longrightarrow>
        snap_rowid r = snap_rowid r')" if "distinct (map snap_rowid t)"
    using that by (auto simp: distinct_map inj_on_def)
  then show ?thesis by (auto simp: wf_snapshots_def)
qed

lemma wf_snapshotsI:
  assumes "distinct (map snap_rowid t)" "distinct (map snap_ident t)"
    and "\<And>r r'. r \<in> set t \<Longrightarrow> r' \<in> set t \<Longrightarrow> snap_active r \<Longrightarrow> snap_active r' \<Longrightarrow>
      snap_key r = snap_key r' \<Longrightarrow> snap_rowid r = snap_rowid r'"
  shows "wf_snapshots t"
  unfolding wf_snapshots_iff using assms by blast

lemma wf_rowid_eq:
  "wf_snapshots t \<Longrightarrow> r \<in> set t \<Longrightarrow> r' \<in> set t \<Longrightarrow> snap_rowid r = snap_rowid r' \<Longrightarrow> r = r'"
  by (auto simp: wf_snapshots_def dest: distinct_key_eq)

lemma wf_active_eq:
  assumes "wf_snapshots t" "r \<in> set t" "r' \<in> set t" "snap_active r" "snap_active r'"
    "snap_key r = snap_key r'"
  shows "r = r'"
  using assms distinct_key_eq [of snap_key "filter snap_active t" r r']
  by (simp add: wf_snapshots_def)

lemma wf_active_rowid_iff:
  assumes "wf_snapshots t" "r \<in> set t" "r' \<in> set t" "snap_active r" "snap_active r'"
  shows "snap_rowid r = snap_rowid r' \<longleftrightarrow> snap_key r = snap_key r'"
  using assms wf_active_eq [OF assms(1-5)] wf_rowid_eq [OF assms(1-3)] by auto

lemma active_row_SomeD:
  "active_row t k = Some r \<Longrightarrow> r \<in> set t \<and> snap_active r \<and> snap_key r = k"
  unfolding active_row_def by (auto dest: find_SomeD)

lemma active_row_NoneD:
  "active_row t k = None \<Longrightarrow> r \<in> set t \<Longrightarrow> snap_active r \<Longrightarrow> snap_key r \<noteq> k"
  unfolding active_row_def by (auto dest: find_NoneD)

lemma active_row_iff:
  "wf_snapshots t \<Longrightarrow>
     active_row t k = Some r \<longleftrightarrow> r \<in> set t \<and> snap_active r \<and> snap_key r = k"
  unfolding active_row_def
  by (auto dest: find_SomeD intro!: find_unique intro: wf_active_eq)

lemma active_payload_None_iff:
  "active_payload t k = None \<longleftrightarrow> active_row t k = None"
  by (simp add: active_payload_def)

text \<open>
  Two well-formed tables with the same active rows up to one key have the same meaning up
  to that key: the form in which each statement's effect is proved.
\<close>

lemma active_rowI:
  assumes "wf_snapshots t'" "wf_snapshots t"
    and "\<And>r. r \<in> set t' \<and> snap_active r \<Longrightarrow>
      (if snap_key r = k then v = Some r else r \<in> set t)"
    and "\<And>r. r \<in> set t \<Longrightarrow> snap_active r \<Longrightarrow> snap_key r \<noteq> k \<Longrightarrow> r \<in> set t'"
    and "\<And>r. v = Some r \<Longrightarrow> r \<in> set t' \<and> snap_active r \<and> snap_key r = k"
  shows "active_row t' = (active_row t)(k := v)"
proof (rule ext)
  fix k'
  have "active_row t' k' = Some r \<longleftrightarrow> ((active_row t)(k := v)) k' = Some r" for r
  proof (cases "k' = k")
    case True
    have "active_row t' k = Some r \<longleftrightarrow> v = Some r"
      unfolding active_row_iff [OF assms(1)] using assms(3) [of r] assms(5) [of r] by argo
    with True show ?thesis by simp
  next
    case False
    have "active_row t' k' = Some r \<longleftrightarrow> active_row t k' = Some r"
      unfolding active_row_iff [OF assms(1)] active_row_iff [OF assms(2)]
      using False assms(3) [of r] assms(4) [of r] by metis
    with False show ?thesis by simp
  qed
  then show "active_row t' k' = ((active_row t)(k := v)) k'"
    by (cases "active_row t' k'") (metis option.exhaust)+
qed

subsection \<open>Setting the active flag\<close>

lemma maps_set_active [simp]:
  "map snap_rowid (set_active b rid t) = map snap_rowid t"
  "map snap_ident (set_active b rid t) = map snap_ident t"
  "map snap_provider_peer_id (set_active b rid t) = map snap_provider_peer_id t"
  by (auto simp: set_active_def intro: map_update_where)

lemma image_provider_set_active [simp]:
  "snap_provider_peer_id ` set (set_active b rid t) = snap_provider_peer_id ` set t"
  by (metis maps_set_active(3) set_map)

lemma image_rowid_set_active [simp]: "snap_rowid ` set (set_active b rid t) = snap_rowid ` set t"
  by (metis maps_set_active(1) set_map)

lemma snapshot_idents_set_active [simp]: "snapshot_idents (set_active b rid t) = snapshot_idents t"
  by (induction t) (auto simp: snapshot_idents_def set_active_def update_where_def)

lemma ball_set_active:
  "(\<forall>r' \<in> set (set_active b rid t). Q r') \<longleftrightarrow>
     (\<forall>r \<in> set t. Q (if snap_rowid r = rid then r\<lparr>snap_active := b\<rparr> else r))"
  by (simp add: set_active_def ball_update_where)

lemma bex_set_active:
  "(\<exists>r' \<in> set (set_active b rid t). Q r') \<longleftrightarrow>
     (\<exists>r \<in> set t. Q (if snap_rowid r = rid then r\<lparr>snap_active := b\<rparr> else r))"
  by (simp add: set_active_def bex_update_where)

lemma in_set_active_iff:
  "r' \<in> set (set_active b rid t) \<longleftrightarrow>
     (\<exists>r \<in> set t. r' = (if snap_rowid r = rid then r\<lparr>snap_active := b\<rparr> else r))"
  using bex_set_active [of b rid t "\<lambda>r. r' = r"] by blast

lemma deactivate_active:
  assumes "r \<in> set (deactivate rid t)" and "snap_active r"
  shows "r \<in> set t \<and> snap_rowid r \<noteq> rid"
proof -
  obtain r0 where "r0 \<in> set t" "r = (if snap_rowid r0 = rid then r0\<lparr>snap_active := False\<rparr> else r0)"
    using assms(1) by (auto simp: deactivate_def in_set_active_iff)
  with assms(2) show ?thesis by (cases "snap_rowid r0 = rid") simp_all
qed

lemma wf_snapshots_deactivate:
  assumes "wf_snapshots t"
  shows "wf_snapshots (deactivate rid t)"
proof (rule wf_snapshotsI)
  show "distinct (map snap_rowid (deactivate rid t))" "distinct (map snap_ident (deactivate rid t))"
    using assms by (simp_all add: deactivate_def wf_snapshots_def)
  show "snap_rowid r = snap_rowid r'" if "r \<in> set (deactivate rid t)"
      "r' \<in> set (deactivate rid t)" "snap_active r" "snap_active r'" "snap_key r = snap_key r'"
    for r r'
    using that assms wf_active_rowid_iff deactivate_active by metis
qed

lemma active_row_deactivate:
  assumes "wf_snapshots t" and "r \<in> set t" and "snap_active r"
  shows "active_row (deactivate (snap_rowid r) t) = (active_row t)(snap_key r := None)"
proof (rule active_rowI)
  show "wf_snapshots (deactivate (snap_rowid r) t)" "wf_snapshots t"
    using assms by (simp_all add: wf_snapshots_deactivate)
  have other: "snap_rowid r' = snap_rowid r \<longleftrightarrow> snap_key r' = snap_key r"
    if "r' \<in> set t" "snap_active r'" for r'
    using wf_active_rowid_iff [OF assms(1) that(1) assms(2) that(2) assms(3)] .
  show "if snap_key r' = snap_key r then None = Some r' else r' \<in> set t"
    if "r' \<in> set (deactivate (snap_rowid r) t) \<and> snap_active r'" for r'
    using that other deactivate_active by metis
  show "r' \<in> set (deactivate (snap_rowid r) t)"
    if "r' \<in> set t" "snap_active r'" "snap_key r' \<noteq> snap_key r" for r'
    using that other [of r'] by (auto simp: deactivate_def in_set_active_iff intro: bexI [of _ r'])
qed simp

lemma activate_Return:
  assumes "active_row t (snap_key row) = None"
  shows "activate row t = Return (set_active True (snap_rowid row) t)"
  using active_row_NoneD [OF assms] by (auto simp: activate_def list_ex_iff)

lemma wf_snapshots_activate:
  assumes "wf_snapshots t" and "row \<in> set t" and "active_row t (snap_key row) = None"
  shows "wf_snapshots (set_active True (snap_rowid row) t)"
proof (rule wf_snapshotsI)
  let ?t = "set_active True (snap_rowid row) t"
  show "distinct (map snap_rowid ?t)" "distinct (map snap_ident ?t)"
    using assms(1) by (simp_all add: wf_snapshots_def)
  have old: "snap_rowid r = snap_rowid row \<and> snap_key r = snap_key row \<or>
      r \<in> set t \<and> snap_active r \<and> snap_key r \<noteq> snap_key row"
    if r: "r \<in> set ?t" "snap_active r" for r
  proof -
    from r(1) obtain r0 where r0: "r0 \<in> set t"
      "r = (if snap_rowid r0 = snap_rowid row then r0\<lparr>snap_active := True\<rparr> else r0)"
      by (auto simp: in_set_active_iff)
    show ?thesis
    proof (cases "snap_rowid r0 = snap_rowid row")
      case True
      then have "r0 = row" using r0(1) assms(1,2) wf_rowid_eq by blast
      with r0 show ?thesis by simp
    next
      case False
      with r0 r(2) active_row_NoneD [OF assms(3)] show ?thesis by simp
    qed
  qed
  show "snap_rowid r = snap_rowid r'" if "r \<in> set ?t" "r' \<in> set ?t"
    "snap_active r" "snap_active r'" "snap_key r = snap_key r'" for r r'
    using old [OF that(1,3)] old [OF that(2,4)] that(5) assms(1) wf_active_rowid_iff by metis
qed

lemma active_row_activate:
  assumes "wf_snapshots t" and "row \<in> set t" and "active_row t (snap_key row) = None"
  shows "active_row (set_active True (snap_rowid row) t) =
    (active_row t)(snap_key row \<mapsto> row\<lparr>snap_active := True\<rparr>)"
proof (rule active_rowI)
  let ?t = "set_active True (snap_rowid row) t"
  show "wf_snapshots t" "wf_snapshots ?t"
    using assms wf_snapshots_activate by blast+
  have same: "snap_active r \<Longrightarrow> snap_key r \<noteq> snap_key row"
      "snap_rowid r = snap_rowid row \<Longrightarrow> r = row" if "r \<in> set t" for r
    using that assms wf_rowid_eq active_row_NoneD by blast+
  show "if snap_key r = snap_key row then Some (row\<lparr>snap_active := True\<rparr>) = Some r else r \<in> set t"
    if "r \<in> set ?t \<and> snap_active r" for r
    using that by (auto simp: in_set_active_iff split: if_splits dest: same)
  show "r \<in> set ?t" if "r \<in> set t" "snap_active r" "snap_key r \<noteq> snap_key row" for r
    using that same [of r] by (auto simp: in_set_active_iff intro: bexI [of _ r])
  show "r \<in> set ?t \<and> snap_active r \<and> snap_key r = snap_key row"
    if "Some (row\<lparr>snap_active := True\<rparr>) = Some r" for r
    using that assms(2) by (auto simp: in_set_active_iff)
qed

subsection \<open>Insertion\<close>

lemma conflicts_Nil_iff:
  "conflicts t k payload = [] \<longleftrightarrow>
     (\<forall>r \<in> set t. snap_ident r \<noteq> (k, payload)) \<and> active_row t k = None"
  by (auto simp: conflicts_def filter_empty_conv active_row_def find_None_iff)

lemma insert_snapshot_Return:
  assumes "wf_snapshots t" and "conflicts t k payload = []"
  shows "insert_snapshot k payload t =
      Return (t @ [new_snapshot t k payload], next_rowid (map snap_rowid t))"
    and "wf_snapshots (t @ [new_snapshot t k payload])"
    and "active_row (t @ [new_snapshot t k payload]) =
      (active_row t)(k \<mapsto> new_snapshot t k payload)"
proof -
  show "insert_snapshot k payload t =
      Return (t @ [new_snapshot t k payload], next_rowid (map snap_rowid t))"
    using assms by (simp add: insert_snapshot_def)
  have none: "active_row t k = None" and "\<forall>r \<in> set t. snap_ident r \<noteq> (k, payload)"
    using assms(2) by (simp_all add: conflicts_Nil_iff)
  note new_ident = this(2)
  from none have no_active: "\<forall>r \<in> set t. snap_active r \<longrightarrow> snap_key r \<noteq> k"
    by (blast dest: active_row_NoneD)
  show wf: "wf_snapshots (t @ [new_snapshot t k payload])"
  proof (rule wf_snapshotsI)
    show "distinct (map snap_rowid (t @ [new_snapshot t k payload]))"
      "distinct (map snap_ident (t @ [new_snapshot t k payload]))"
      using assms(1) next_rowid_fresh [of "map snap_rowid t"] new_ident
      by (auto simp: wf_snapshots_def)
    show "snap_rowid r = snap_rowid r'" if "r \<in> set (t @ [new_snapshot t k payload])"
      "r' \<in> set (t @ [new_snapshot t k payload])"
      "snap_active r" "snap_active r'" "snap_key r = snap_key r'" for r r'
      using that no_active wf_active_rowid_iff [OF assms(1), of r r'] by auto
  qed
  show "active_row (t @ [new_snapshot t k payload]) = (active_row t)(k \<mapsto> new_snapshot t k payload)"
    by (rule active_rowI [OF wf assms(1)]) (use no_active in auto)
qed

lemma snapshot_idents_insert:
  "snapshot_idents (t @ [new_snapshot t k payload]) =
     insert (next_rowid (map snap_rowid t), k, payload) (snapshot_idents t)"
  by (simp add: snapshot_idents_def)

subsection \<open>Upserts\<close>

text \<open>
  What both upserts promise where no snapshot of the offer is active: they succeed, make
  the payload the active one, change no other offer, and return the ID of a row that stands
  for exactly this offer and payload.
\<close>

definition upserted ::
  "offer_key \<Rightarrow> string \<Rightarrow> snapshot_row list \<Rightarrow> snapshot_row list \<Rightarrow> int \<Rightarrow> bool" where
  "upserted k payload t t' rid \<longleftrightarrow> wf_snapshots t' \<and>
     (\<exists>row. active_row t' = (active_row t)(k \<mapsto> row) \<and> snap_rowid row = rid \<and>
        snap_ident row = (k, payload)) \<and>
     snapshot_idents t \<subseteq> snapshot_idents t' \<and>
     snap_provider_peer_id ` set t' \<subseteq> insert (fst k) (snap_provider_peer_id ` set t)"

lemma upserted_insert:
  assumes "wf_snapshots t" and "conflicts t k payload = []"
  shows "\<exists>t' rid. insert_snapshot k payload t = Return (t', rid) \<and> upserted k payload t t' rid"
proof -
  have "snap_provider_peer_id (new_snapshot t k payload) = fst k"
    by (simp add: new_snapshot_def)
  with insert_snapshot_Return [OF assms] show ?thesis
    by (auto simp: upserted_def snapshot_idents_insert)
qed

lemma upserted_activate:
  assumes "wf_snapshots t" and "row \<in> set t" and "snap_ident row = (k, payload)"
    and "active_row t k = None"
  shows "\<exists>t'. activate row t = Return t' \<and> upserted k payload t t' (snap_rowid row)"
proof -
  have k: "snap_key row = k" "snap_protocol_payload row = payload"
    using assms(3) by (simp_all add: snap_ident_def)
  from k assms wf_snapshots_activate [of t row] active_row_activate [of t row] show ?thesis
    by (auto simp: upserted_def activate_Return)
qed

lemma upsert_snapshot_upserted:
  assumes "wf_snapshots t" and "active_row t k = None"
    and pick: "\<And>rs. rs \<noteq> [] \<Longrightarrow> pick rs \<in> set rs"
  shows "\<exists>t' rid. upsert_snapshot pick k payload t = Return (t', rid) \<and>
    upserted k payload t t' rid"
proof (cases "conflicts t k payload")
  case Nil
  with upserted_insert [OF assms(1) Nil] show ?thesis by (simp add: upsert_snapshot_def)
next
  case (Cons c cs)
  let ?row = "pick (c # cs)"
  have "?row \<in> set (conflicts t k payload)" using pick [of "c # cs"] Cons by simp
  then have "?row \<in> set t" and "snap_ident ?row = (k, payload)"
    using active_row_NoneD [OF assms(2)] by (auto simp: conflicts_def)
  from upserted_activate [OF assms(1) this assms(2)] Cons show ?thesis
    by (auto simp: upsert_snapshot_def Let_def)
qed

lemma upsert_snapshot_target_upserted:
  assumes "wf_snapshots t" and "active_row t k = None"
  shows "\<exists>t' rid. upsert_snapshot_target k payload t = Return (t', rid) \<and>
    upserted k payload t t' rid"
proof (cases "List.find (\<lambda>r. snap_ident r = (k, payload)) t")
  case None
  then have "conflicts t k payload = []"
    using assms(2) by (auto simp: conflicts_Nil_iff dest: find_NoneD)
  with upserted_insert [OF assms(1) this] None show ?thesis
    by (simp add: upsert_snapshot_target_def)
next
  case (Some row)
  then have "row \<in> set t" and "snap_ident row = (k, payload)"
    by (auto dest: find_SomeD)
  from upserted_activate [OF assms(1) this assms(2)] Some show ?thesis
    by (auto simp: upsert_snapshot_target_def)
qed

end
