(* ===== verification/Offers.thy ===== *)
theory Offers
  imports Snapshot_Table
begin

text \<open>
  Offer snapshots and providers (\<open>src/src/db/offers.rs\<close>, \<open>src/src/db/providers.rs\<close>): the
  queries, and \<open>upsert\<close>, by which the node records an offer it provides itself.
\<close>

section \<open>Operations\<close>

definition row_to_snapshot :: "snapshot_row \<Rightarrow> offer_snapshot" where
  "row_to_snapshot r =
     \<lparr>os_snapshot_id = snap_rowid r, os_active = snap_active r,
      os_provider_peer_id = snap_provider_peer_id r, os_protocol_id = snap_protocol_id r,
      os_offer_id = snap_offer_id r, os_protocol_payload = snap_protocol_payload r\<rparr>"

definition query_offer_snapshots_by_rowid :: "database \<Rightarrow> int list \<Rightarrow> offer_snapshot list" where
  "query_offer_snapshots_by_rowid db snapshot_ids =
     map row_to_snapshot (filter (\<lambda>r. snap_rowid r \<in> set snapshot_ids) (offer_snapshots db))"

text \<open>An absent filter adds no condition to the statement; two filters are both applied.\<close>

definition in_filter :: "'a list option \<Rightarrow> 'a \<Rightarrow> bool" where
  "in_filter f x = (case f of None \<Rightarrow> True | Some xs \<Rightarrow> x \<in> set xs)"

definition query_active_offers ::
  "database \<Rightarrow> string list option \<Rightarrow> peer_id list option \<Rightarrow> offer_snapshot list" where
  "query_active_offers db protocol_ids provider_peer_ids =
     map row_to_snapshot (filter (\<lambda>r. snap_active r \<and>
       in_filter protocol_ids (snap_protocol_id r) \<and>
       in_filter provider_peer_ids (snap_provider_peer_id r)) (offer_snapshots db))"

definition offers_find :: "database \<Rightarrow> int \<Rightarrow> offer_snapshot option" where
  "offers_find db snapshot_id =
     map_option row_to_snapshot
       (List.find (\<lambda>r. snap_rowid r = snapshot_id) (offer_snapshots db))"

definition new_peer :: "peer_id \<Rightarrow> peer_row" where
  "new_peer p =
     \<lparr>peer_peer_id = p, peer_provider_name = None, peer_provider_teaser = None,
      peer_provider_description = None, peer_their_provider_updated_at = None,
      peer_our_provider_updated_at = None, peer_their_latest_heartbeat_timestamp = None,
      peer_our_latest_heartbeat_timestamp = None\<rparr>"

definition ensure_peer :: "peer_id \<Rightarrow> database \<Rightarrow> database" where
  "ensure_peer p db =
     (if list_ex (\<lambda>r. peer_peer_id r = p) (peers db) then db
      else db\<lparr>peers := peers db @ [new_peer p]\<rparr>)"

definition upsert ::
  "(snapshot_row list \<Rightarrow> snapshot_row) \<Rightarrow> database \<Rightarrow> peer_id \<Rightarrow> string \<Rightarrow> string \<Rightarrow> string \<Rightarrow>
     (database \<times> int) outcome" where
  "upsert pick db provider_peer_id offer_id protocol_id protocol_payload =
     (let db1 = ensure_peer provider_peer_id db
      in and_then
        (upsert_snapshot pick (provider_peer_id, protocol_id, offer_id) protocol_payload
          (offer_snapshots db1))
        (\<lambda>(t', rowid). Return (db1\<lparr>offer_snapshots := t'\<rparr>, rowid)))"

text \<open>
  Reading a provider record unwraps \<open>our_provider_updated_at\<close> and
  \<open>our_latest_heartbeat_timestamp\<close>, whose columns may be NULL.
\<close>

definition row_to_provider :: "peer_row \<Rightarrow> provider_record outcome" where
  "row_to_provider r =
     (case (peer_our_provider_updated_at r, peer_our_latest_heartbeat_timestamp r) of
        (Some u, Some h) \<Rightarrow> Return
          \<lparr>pr_peer_id = peer_peer_id r, pr_name = peer_provider_name r,
           pr_teaser = peer_provider_teaser r, pr_description = peer_provider_description r,
           pr_updated_at = u, pr_latest_heartbeat_at = h\<rparr>
      | _ \<Rightarrow> Panic)"

definition query_providers_by_peer_id ::
  "database \<Rightarrow> peer_id list \<Rightarrow> provider_record list outcome" where
  "query_providers_by_peer_id db provider_peer_ids =
     fold_outcome (\<lambda>r acc. and_then (row_to_provider r) (\<lambda>p. Return (acc @ [p])))
       (filter (\<lambda>r. peer_peer_id r \<in> set provider_peer_ids) (peers db)) []"

definition query_active_providers :: "database \<Rightarrow> nat \<Rightarrow> datetime \<Rightarrow> peer_id list" where
  "query_active_providers db heartbeat_timeout now =
     map peer_peer_id (filter (\<lambda>r. peer_our_provider_updated_at r \<noteq> None \<and>
       (case peer_our_latest_heartbeat_timestamp r of None \<Rightarrow> False
        | Some h \<Rightarrow> trunc_seconds now - int heartbeat_timeout * 1000000000 \<le> h)) (peers db))"

section \<open>Lemmas\<close>

lemma wf_empty_database [simp]: "wf_database empty_database"
  by (simp add: wf_database_def empty_database_def peer_ids_def)

lemma ensure_peer_simps [simp]:
  "offer_snapshots (ensure_peer p db) = offer_snapshots db"
  "service_jobs (ensure_peer p db) = service_jobs db"
  "peer_ids (ensure_peer p db) = insert p (peer_ids db)"
  by (auto simp: ensure_peer_def peer_ids_def list_ex_iff new_peer_def)

lemma distinct_ensure_peer:
  "distinct (map peer_peer_id (peers db)) \<Longrightarrow> distinct (map peer_peer_id (peers (ensure_peer p db)))"
  by (auto simp: ensure_peer_def list_ex_iff new_peer_def)

lemma wf_ensure_peer: "wf_database db \<Longrightarrow> wf_database (ensure_peer p db)"
  using distinct_ensure_peer [of db p] unfolding wf_database_def by auto

lemma snap_rowid_idents: "snap_rowid ` set t = fst ` snapshot_idents t"
  by (auto simp: snapshot_idents_def image_image)

text \<open>
  A well-formed database stays so under any change of the snapshot table that keeps the
  table well-formed, takes no row ID back and adds only offers of peers that are known.
\<close>

lemma wf_set_snapshots:
  assumes "wf_database db" and "wf_snapshots t'"
    and "snapshot_idents (offer_snapshots db) \<subseteq> snapshot_idents t'"
    and "snap_provider_peer_id ` set t' \<subseteq> peer_ids db"
  shows "wf_database (db\<lparr>offer_snapshots := t'\<rparr>)"
proof -
  have "snap_rowid ` set (offer_snapshots db) \<subseteq> snap_rowid ` set t'"
    unfolding snap_rowid_idents using assms(3) by (rule image_mono)
  with assms show ?thesis
    by (simp add: wf_database_def peer_ids_def) (meson subset_trans)
qed

lemma wf_upserted:
  assumes "wf_database db" and "upserted k payload (offer_snapshots db) t' rid"
    and "fst k \<in> peer_ids db"
  shows "wf_database (db\<lparr>offer_snapshots := t'\<rparr>)"
proof (rule wf_set_snapshots)
  have "insert (fst k) (snap_provider_peer_id ` set (offer_snapshots db)) \<subseteq> peer_ids db"
    using assms(1,3) by (simp add: wf_database_def)
  with assms(2) show "snap_provider_peer_id ` set t' \<subseteq> peer_ids db"
    unfolding upserted_def by (meson subset_trans)
qed (use assms in \<open>simp_all add: upserted_def\<close>)

lemma wf_databaseD: "wf_database db \<Longrightarrow> wf_snapshots (offer_snapshots db)"
  by (simp add: wf_database_def)

text \<open>The snapshot that is already active is its own, only, conflict.\<close>

lemma conflicts_active:
  assumes "wf_snapshots t" and "active_row t k = Some r"
  shows "set (conflicts t k payload) = insert r {r' \<in> set t. snap_ident r' = (k, payload)}"
  using assms by (auto simp: conflicts_def active_row_iff dest: wf_active_eq)

lemma set_active_id:
  assumes "wf_snapshots t" and "active_row t k = Some r"
  shows "set_active True (snap_rowid r) t = t"
proof -
  have "r' = r" if "r' \<in> set t" "snap_rowid r' = snap_rowid r" for r'
    using that assms active_row_SomeD wf_rowid_eq by blast
  moreover have "r\<lparr>snap_active := True\<rparr> = r"
    using assms by (auto dest: active_row_SomeD)
  ultimately show ?thesis
    unfolding set_active_def update_where_def by (intro map_idI) auto
qed

lemma activate_active:
  assumes "wf_snapshots t" and "active_row t k = Some r"
  shows "activate r t = Return t"
  using assms set_active_id [OF assms]
  by (auto simp: activate_def list_ex_iff active_row_iff dest: wf_active_eq)

lemma activate_blocked:
  assumes "active_row t (snap_key row) = Some r" and "snap_rowid r \<noteq> snap_rowid row"
  shows "activate row t = Panic"
  using assms active_row_SomeD [OF assms(1)] by (auto simp: activate_def list_ex_iff)

text \<open>Recording the payload that is already on offer changes nothing.\<close>

lemma upsert_snapshot_same:
  assumes "wf_snapshots t" and "active_row t k = Some r" and "snap_protocol_payload r = payload"
    and pick: "\<And>rs. rs \<noteq> [] \<Longrightarrow> pick rs \<in> set rs"
  shows "upsert_snapshot pick k payload t = Return (t, snap_rowid r)"
proof -
  have r: "r \<in> set t" "snap_key r = k" "snap_ident r = (k, payload)"
    using active_row_SomeD [OF assms(2)] assms(3) by (auto simp: snap_ident_def)
  have dist: "distinct (map snap_ident t)" using assms(1) by (simp add: wf_snapshots_def)
  have "r' = r" if "r' \<in> set t" "snap_ident r' = (k, payload)" for r'
    by (rule distinct_key_eq [OF dist that(1) r(1)]) (simp add: that(2) r(3))
  then have "{r' \<in> set t. snap_ident r' = (k, payload)} \<subseteq> {r}" by blast
  then have all: "set (conflicts t k payload) = {r}"
    unfolding conflicts_active [OF assms(1,2)] by blast
  then obtain c cs where c: "conflicts t k payload = c # cs"
    by (cases "conflicts t k payload") auto
  with all pick [of "c # cs"] have "pick (c # cs) = r" by auto
  with c activate_active [OF assms(1,2)] show ?thesis by (simp add: upsert_snapshot_def)
qed

text \<open>
  Whatever conflict SQLite picks, an upsert cannot displace another active payload: it
  fails, or it changes nothing and names the row of the other payload.
\<close>

lemma upsert_snapshot_other:
  assumes "wf_snapshots t" and "active_row t k = Some r" and "snap_protocol_payload r \<noteq> payload"
    and pick: "\<And>rs. rs \<noteq> [] \<Longrightarrow> pick rs \<in> set rs"
  shows "upsert_snapshot pick k payload t = Panic \<or>
    upsert_snapshot pick k payload t = Return (t, snap_rowid r)"
proof -
  have r: "r \<in> set t" "snap_key r = k" "snap_active r"
    using active_row_SomeD [OF assms(2)] by auto
  have "set (conflicts t k payload) = insert r {r' \<in> set t. snap_ident r' = (k, payload)}"
    by (rule conflicts_active [OF assms(1,2)])
  then obtain c cs where c: "conflicts t k payload = c # cs"
    by (cases "conflicts t k payload") auto
  let ?row = "pick (c # cs)"
  have "?row \<in> set (conflicts t k payload)" using pick [of "c # cs"] c by simp
  then consider "?row = r" | "?row \<in> set t" "snap_ident ?row = (k, payload)"
    using conflicts_active [OF assms(1,2), of payload] by auto
  then show ?thesis
  proof cases
    case 1
    with c activate_active [OF assms(1,2)] show ?thesis by (simp add: upsert_snapshot_def)
  next
    case 2
    then have "snap_key ?row = k" "snap_protocol_payload ?row = payload"
      by (simp_all add: snap_ident_def)
    moreover from this have "r \<noteq> ?row" using assms(3) by metis
    ultimately have "snap_rowid r \<noteq> snap_rowid ?row" "active_row t (snap_key ?row) = Some r"
      using wf_rowid_eq [OF assms(1) r(1) 2(1)] assms(2) by metis+
    with activate_blocked [of t ?row r] c show ?thesis by (simp add: upsert_snapshot_def)
  qed
qed

section \<open>Recording an offer\<close>

lemma offers_find_row:
  assumes "wf_snapshots (offer_snapshots db)" and "r \<in> set (offer_snapshots db)"
  shows "offers_find db (snap_rowid r) = Some (row_to_snapshot r)"
proof -
  have "List.find (\<lambda>r'. snap_rowid r' = snap_rowid r) (offer_snapshots db) = Some r"
    by (rule find_key) (use assms in \<open>simp_all add: wf_snapshots_def\<close>)
  then show ?thesis by (simp add: offers_find_def)
qed

lemma ensure_peer_same [simp]:
  "(ensure_peer p db)\<lparr>offer_snapshots := offer_snapshots db\<rparr> = ensure_peer p db"
  by (simp add: ensure_peer_def)

text \<open>
  The effect of \<open>upsert\<close> where no other payload is on offer under the key.
\<close>

lemma upsert_run:
  assumes "wf_database db" and "\<And>rs. rs \<noteq> [] \<Longrightarrow> pick rs \<in> set rs"
    and "active_payload (offer_snapshots db) (me, p, o') \<in> {None, Some payload}"
  shows "\<exists>db' rid snap. upsert pick db me o' p payload = Return (db', rid) \<and> wf_database db' \<and>
    active_payload (offer_snapshots db') =
      (active_payload (offer_snapshots db))((me, p, o') \<mapsto> payload) \<and>
    offers_find db' rid = Some snap \<and> os_provider_peer_id snap = me \<and> os_protocol_id snap = p \<and>
    os_offer_id snap = o' \<and> os_protocol_payload snap = payload \<and> os_active snap \<and>
    snapshot_idents (offer_snapshots db) \<subseteq> snapshot_idents (offer_snapshots db') \<and>
    (rid, (me, p, o'), payload) \<in> snapshot_idents (offer_snapshots db') \<and>
    service_jobs db' = service_jobs db"
proof -
  let ?k = "(me, p, o')"
  let ?db1 = "ensure_peer me db" and ?t = "offer_snapshots db"
  note wf = wf_databaseD [OF assms(1)]
  have wf1: "wf_database ?db1" using assms(1) by (rule wf_ensure_peer)
  obtain t' rid row where up: "upsert_snapshot pick ?k payload ?t = Return (t', rid)"
    and mono: "snapshot_idents ?t \<subseteq> snapshot_idents t'" and wf': "wf_database (?db1\<lparr>offer_snapshots := t'\<rparr>)"
    and row: "active_row t' = (active_row ?t)(?k \<mapsto> row)" "snap_rowid row = rid"
      "snap_ident row = (?k, payload)"
  proof (cases "active_row ?t ?k")
    case None
    from upsert_snapshot_upserted [OF wf None assms(2), of payload] obtain t' rid where
      "upsert_snapshot pick ?k payload ?t = Return (t', rid)" "upserted ?k payload ?t t' rid" by blast
    with that wf_upserted [OF wf1, of ?k payload t' rid] show ?thesis
      unfolding upserted_def by auto
  next
    case (Some r)
    then have pay: "snap_protocol_payload r = payload" using assms(3) by (simp add: active_payload_def)
    from upsert_snapshot_same [OF wf Some pay assms(2)] wf1 Some active_row_SomeD [OF Some] pay
    show ?thesis by (intro that [of ?t "snap_rowid r" r]) (auto simp: snap_ident_def)
  qed
  let ?db' = "?db1\<lparr>offer_snapshots := t'\<rparr>"
  have in_t: "row \<in> set t'" "snap_active row"
    using active_row_SomeD [of t' ?k row] row(1) by simp_all
  have "upsert pick db me o' p payload = Return (?db', rid)"
    using up by (simp add: upsert_def Let_def)
  moreover have "offers_find ?db' rid = Some (row_to_snapshot row)"
    using offers_find_row [OF wf_databaseD [OF wf'], of row] in_t(1) row(2) by simp
  moreover have "active_payload (offer_snapshots ?db') = (active_payload ?t)(?k \<mapsto> payload)"
    using row(1,3) by (auto simp: active_payload_def fun_eq_iff snap_ident_def)
  moreover have "(rid, ?k, payload) \<in> snapshot_idents t'"
    using in_t(1) row(2,3) by (auto simp: snapshot_idents_def image_iff intro!: bexI [of _ row])
  ultimately show ?thesis using wf' row(3) in_t(2) mono
    by (intro exI [of _ ?db'] exI [of _ rid] exI [of _ "row_to_snapshot row"])
      (simp add: row_to_snapshot_def snap_ident_def snap_key_def)
qed

end
