(* ===== verification/Job_Hash.thy ===== *)
theory Job_Hash
  imports Db_Schema "HOL-Library.Char_ord"
begin

text \<open>
  The job hash both peers compute over a completed job and the Consumer signs
  (\<open>src/src/db/service_jobs.rs\<close>). The third-party functions it rests on are the fields of
  the parameter record \<open>crypto\<close>.
\<close>

section \<open>Third-party functions\<close>

text \<open>
  \<open>sha2::Sha256\<close>, \<open>hex::encode\<close>, whether \<open>str::parse::<alloy_primitives::U256>\<close> succeeds,
  \<open>libp2p::identity::PublicKey::try_decode_protobuf\<close> and \<open>PublicKey::verify\<close>.
\<close>

record 'pk crypto =
  sha256 :: "bytes \<Rightarrow> bytes"
  hex_encode :: "bytes \<Rightarrow> string"
  parse_u256_ok :: "string \<Rightarrow> bool"
  try_decode_protobuf :: "bytes \<Rightarrow> 'pk option"
  verify :: "'pk \<Rightarrow> bytes \<Rightarrow> bytes \<Rightarrow> bool"

section \<open>Text of strings and integers\<close>

definition str_bytes :: "string \<Rightarrow> bytes" where
  "str_bytes s = map of_char s"

definition digit_char :: "nat \<Rightarrow> char" where
  "digit_char d = char_of (48 + d)"

fun nat_to_string :: "nat \<Rightarrow> string" where
  "nat_to_string n =
     (if n < 10 then [digit_char n] else nat_to_string (n div 10) @ [digit_char (n mod 10)])"

declare nat_to_string.simps [simp del]

text \<open>\<open>i64::to_string\<close>.\<close>

definition i64_to_string :: "int \<Rightarrow> string" where
  "i64_to_string i = (if i < 0 then ''-'' @ nat_to_string (nat (- i)) else nat_to_string (nat i))"

section \<open>The hash\<close>

record job_hashing_payload =
  hp_consumer_peer_id :: peer_id
  hp_provider_peer_id :: peer_id
  hp_protocol_id :: string
  hp_offer_payload :: string
  hp_currency :: string
  hp_provider_job_id :: string
  hp_job_created_at_sync :: int
  hp_job_public_payload :: string
  hp_job_completed_at_sync :: int
  hp_balance_delta :: "string option"

text \<open>The bytes fed to the hasher, in the order of the \<open>update\<close> calls.\<close>

definition hash_input :: "job_hashing_payload \<Rightarrow> bytes" where
  "hash_input job =
     peer_bytes (hp_consumer_peer_id job) @
     peer_bytes (hp_provider_peer_id job) @
     str_bytes (hp_protocol_id job) @
     str_bytes (hp_offer_payload job) @
     str_bytes (hp_currency job) @
     str_bytes (hp_provider_job_id job) @
     str_bytes (i64_to_string (hp_job_created_at_sync job)) @
     str_bytes (hp_job_public_payload job) @
     str_bytes (i64_to_string (hp_job_completed_at_sync job)) @
     (case hp_balance_delta job of None \<Rightarrow> [] | Some balance_delta \<Rightarrow> str_bytes balance_delta)"

definition hash_job :: "'pk crypto \<Rightarrow> job_hashing_payload \<Rightarrow> bytes" where
  "hash_job cr job = sha256 cr (hash_input job)"

definition validate_balance_delta :: "'pk crypto \<Rightarrow> string \<Rightarrow> currency \<Rightarrow> bool" where
  "validate_balance_delta cr balance_delta c =
     (case c of Polygon \<Rightarrow> parse_u256_ok cr balance_delta)"

section \<open>Decimal text is faithful\<close>

definition string_to_nat :: "string \<Rightarrow> nat" where
  "string_to_nat s = fold (\<lambda>c n. 10 * n + (of_char c - 48)) s 0"

lemma of_char_digit: "d < 10 \<Longrightarrow> of_char (digit_char d) = 48 + (d :: nat)"
  by (simp add: digit_char_def)

lemma string_to_nat_snoc: "string_to_nat (s @ [c]) = 10 * string_to_nat s + (of_char c - 48)"
  by (simp add: string_to_nat_def)

lemma string_to_nat_to_string: "string_to_nat (nat_to_string n) = n"
proof (induction n rule: nat_to_string.induct)
  case (1 n)
  show ?case
  proof (cases "n < 10")
    case True
    then show ?thesis
      by (subst nat_to_string.simps) (simp add: string_to_nat_def of_char_digit)
  next
    case False
    with 1 have "string_to_nat (nat_to_string (n div 10)) = n div 10" by simp
    with False show ?thesis
      by (subst nat_to_string.simps) (simp add: string_to_nat_snoc of_char_digit)
  qed
qed

lemma nat_to_string_inject [simp]: "nat_to_string m = nat_to_string n \<longleftrightarrow> m = n"
  by (metis string_to_nat_to_string)

lemma digit_not_minus: "d < 10 \<Longrightarrow> digit_char d \<noteq> CHR ''-''"
proof
  assume "d < 10" and "digit_char d = CHR ''-''"
  then have "of_char (digit_char d) = (45 :: nat)" by simp
  with of_char_digit [OF \<open>d < 10\<close>] show False by simp
qed

lemma nat_to_string_no_minus: "CHR ''-'' \<notin> set (nat_to_string n)"
proof (induction n rule: nat_to_string.induct)
  case (1 n)
  show ?case
  proof (cases "n < 10")
    case True
    then show ?thesis
      using digit_not_minus [of n] by (subst nat_to_string.simps) auto
  next
    case False
    with 1 show ?thesis
      using digit_not_minus [of "n mod 10"] by (subst nat_to_string.simps) auto
  qed
qed

lemma i64_to_string_inject [simp]: "i64_to_string i = i64_to_string j \<longleftrightarrow> i = j"
proof -
  have "''-'' @ nat_to_string m \<noteq> nat_to_string n" for m n
    by (metis append_Cons list.set_intros(1) nat_to_string_no_minus)
  then show ?thesis
    by (auto simp: i64_to_string_def split: if_splits) (metis append_Cons append_Nil)+
qed

end
