(* ===== verification/Jobs.thy ===== *)
theory Jobs
  imports Offers Job_Hash
begin

text \<open>
  The operations on \<open>service_jobs\<close> (\<open>src/src/db/service_jobs\<close>): one definition per Rust
  function, with every early return as a value of its error type. Each runs in a
  transaction that is dropped (rolled back) on an early return; none of them writes before
  its last early return, so the model returns the error alone. \<open>now\<close> is the clock reading.
\<close>

section \<open>Reading jobs\<close>

text \<open>\<open>service_jobs JOIN offer_snapshots ON offer_snapshots.rowid = offer_snapshot_rowid\<close>.\<close>

definition joined_jobs :: "database \<Rightarrow> (job_row \<times> snapshot_row) list" where
  "joined_jobs db = concat (map (\<lambda>j. map (\<lambda>s. (j, s))
     (filter (\<lambda>s. snap_rowid s = job_offer_snapshot_rowid j) (offer_snapshots db)))
     (service_jobs db))"

definition row_to_job_record :: "job_row \<Rightarrow> snapshot_row \<Rightarrow> job_record" where
  "row_to_job_record j s =
     \<lparr>jr_job_rowid = job_rowid j,
      jr_provider_job_id = job_provider_job_id j,
      jr_provider_peer_id = snap_provider_peer_id s,
      jr_consumer_peer_id = job_consumer_peer_id j,
      jr_offer_id = snap_offer_id s,
      jr_offer_snapshot_rowid = snap_rowid s,
      jr_offer_protocol_id = snap_protocol_id s,
      jr_offer_payload = snap_protocol_payload s,
      jr_offer_active = snap_active s,
      jr_currency = job_currency j,
      jr_balance_delta = job_balance_delta j,
      jr_public_payload = job_public_payload j,
      jr_private_payload = job_private_payload j,
      jr_reason = job_reason j,
      jr_reason_class = job_reason_class j,
      jr_created_at_local = job_created_at_local j,
      jr_created_at_sync = job_created_at_sync j,
      jr_completed_at_local = job_completed_at_local j,
      jr_completed_at_sync = job_completed_at_sync j,
      jr_signature_confirmed_at_local = job_signature_confirmed_at_local j,
      jr_confirmation_error = job_confirmation_error j\<rparr>"

definition find_by_rowid :: "database \<Rightarrow> int \<Rightarrow> job_record option" where
  "find_by_rowid db rid =
     map_option (\<lambda>(j, s). row_to_job_record j s)
       (List.find (\<lambda>(j, s). job_rowid j = rid) (joined_jobs db))"

text \<open>
  The row with this provider and provider job ID; without a unique index there may be
  several, of which SQLite returns the first of its scan (in the model, the oldest).
\<close>

definition find_job_row :: "database \<Rightarrow> peer_id \<Rightarrow> string \<Rightarrow> (job_row \<times> snapshot_row) option" where
  "find_job_row db provider_peer_id provider_job_id =
     List.find (\<lambda>(j, s). snap_provider_peer_id s = provider_peer_id \<and>
       job_provider_job_id j = provider_job_id) (joined_jobs db)"

definition find_by_job_id :: "database \<Rightarrow> peer_id \<Rightarrow> string \<Rightarrow> job_record option" where
  "find_by_job_id db provider_peer_id provider_job_id =
     map_option (\<lambda>(j, s). row_to_job_record j s)
       (find_job_row db provider_peer_id provider_job_id)"

text \<open>
  \<open>query_jobs\<close> builds its \<open>WHERE\<close> clause from the filters that are set. With none set the
  clause is empty, the statement is a syntax error and \<open>prepare_cached(..).unwrap()\<close> panics.
  The statement has no \<open>ORDER BY\<close>; the model lists rows in row ID order.
\<close>

definition query_jobs ::
  "database \<Rightarrow> int option \<Rightarrow> string list option \<Rightarrow> peer_id list option \<Rightarrow> peer_id list option \<Rightarrow>
     int \<Rightarrow> job_record list outcome" where
  "query_jobs db rowid_cursor protocol_ids provider_peer_ids consumer_peer_ids limit_n =
     (if rowid_cursor = None \<and> protocol_ids = None \<and> provider_peer_ids = None \<and>
         consumer_peer_ids = None
      then Panic
      else let rows = filter (\<lambda>(j, s).
          (case rowid_cursor of None \<Rightarrow> True | Some c \<Rightarrow> c < job_rowid j) \<and>
          in_filter protocol_ids (snap_protocol_id s) \<and>
          in_filter provider_peer_ids (snap_provider_peer_id s) \<and>
          in_filter consumer_peer_ids (job_consumer_peer_id j)) (joined_jobs db)
        in Return (map (\<lambda>(j, s). row_to_job_record j s)
          (if limit_n < 0 then rows else take (nat limit_n) rows)))"

record unconfirmed_job =
  uj_rowid :: int
  uj_provider_peer_id :: peer_id
  uj_provider_job_id :: string
  uj_hash :: bytes
  uj_consumer_signature :: bytes

text \<open>Reading a row unwraps its \<open>hash\<close>, which the statement does not require to be set.\<close>

definition row_to_unconfirmed :: "job_row \<Rightarrow> snapshot_row \<Rightarrow> unconfirmed_job outcome" where
  "row_to_unconfirmed j s =
     (case (job_hash j, job_consumer_signature j) of
        (Some h, Some sig) \<Rightarrow> Return
          \<lparr>uj_rowid = job_rowid j, uj_provider_peer_id = snap_provider_peer_id s,
           uj_provider_job_id = job_provider_job_id j, uj_hash = h, uj_consumer_signature = sig\<rparr>
      | _ \<Rightarrow> Panic)"

definition query_unconfirmed_jobs :: "database \<Rightarrow> peer_id \<Rightarrow> unconfirmed_job list outcome" where
  "query_unconfirmed_jobs db consumer_peer_id =
     fold_outcome (\<lambda>(j, s) acc. and_then (row_to_unconfirmed j s) (\<lambda>u. Return (acc @ [u])))
       (filter (\<lambda>(j, s). job_consumer_peer_id j = consumer_peer_id \<and>
          job_consumer_signature j \<noteq> None \<and> job_signature_confirmed_at_local j = None)
         (joined_jobs db)) []"

section \<open>Writing jobs\<close>

definition update_job :: "int \<Rightarrow> (job_row \<Rightarrow> job_row) \<Rightarrow> database \<Rightarrow> database" where
  "update_job rid f db =
     db\<lparr>service_jobs := update_where (\<lambda>j. job_rowid j = rid) f (service_jobs db)\<rparr>"

definition create_job ::
  "database \<Rightarrow> int \<Rightarrow> peer_id \<Rightarrow> currency \<Rightarrow> string option \<Rightarrow> string \<Rightarrow> int \<Rightarrow> datetime \<Rightarrow>
     (database \<times> int) outcome" where
  "create_job db offer_snapshot_rowid consumer_peer_id c args provider_job_id created_at_sync now =
     (if \<not> list_ex (\<lambda>s. snap_rowid s = offer_snapshot_rowid) (offer_snapshots db) then Panic
      else let rid = next_rowid (map job_rowid (service_jobs db)) in
        Return (db\<lparr>service_jobs := service_jobs db @
          [\<lparr>job_rowid = rid, job_offer_snapshot_rowid = offer_snapshot_rowid,
            job_consumer_peer_id = consumer_peer_id, job_currency = c, job_args = args,
            job_provider_job_id = provider_job_id, job_private_payload = None,
            job_reason = None, job_reason_class = None,
            job_created_at_local = trunc_seconds now, job_created_at_sync = created_at_sync,
            job_completed_at_local = None, job_completed_at_sync = None,
            job_public_payload = None, job_balance_delta = None, job_hash = None,
            job_consumer_signature = None, job_signature_confirmed_at_local = None,
            job_confirmation_error = None\<rparr>]\<rparr>, rid))"

subsection \<open>Failing a job\<close>

datatype fail_job_error =
    Fail_InvalidJobId
  | Fail_AlreadyCompleted
  | Fail_AlreadyFailed string "int option"

definition fail_job ::
  "database \<Rightarrow> peer_id \<Rightarrow> string \<Rightarrow> string \<Rightarrow> int option \<Rightarrow> string option \<Rightarrow> datetime \<Rightarrow>
     fail_job_error + database" where
  "fail_job db provider_peer_id provider_job_id reason reason_class private_payload now =
     (case find_job_row db provider_peer_id provider_job_id of
        None \<Rightarrow> Inl Fail_InvalidJobId
      | Some (job, _) \<Rightarrow>
          (case job_reason job of
             Some r \<Rightarrow> Inl (Fail_AlreadyFailed r (job_reason_class job))
           | None \<Rightarrow>
               if job_completed_at_local job \<noteq> None then Inl Fail_AlreadyCompleted
               else Inr (update_job (job_rowid job) (\<lambda>j. j\<lparr>job_reason := Some reason,
                 job_reason_class := reason_class, job_private_payload := private_payload,
                 job_completed_at_local := Some (trunc_seconds now)\<rparr>) db)))"

subsection \<open>Completing a job, Provider side\<close>

datatype provider_complete_job_error =
    PComplete_JobNotFound
  | PComplete_AlreadyCompleted int
  | PComplete_AlreadyFailed string "int option"
  | PComplete_InvalidBalanceDelta

text \<open>\<open>CASE WHEN (?4 IS NOT NULL) THEN ?4 ELSE private_payload END\<close>.\<close>

definition coalesce :: "'a option \<Rightarrow> 'a option \<Rightarrow> 'a option" where
  "coalesce new old = (if new \<noteq> None then new else old)"

definition invalid_balance_delta :: "'pk crypto \<Rightarrow> string option \<Rightarrow> currency \<Rightarrow> bool" where
  "invalid_balance_delta cr balance_delta c =
     (case balance_delta of None \<Rightarrow> False | Some d \<Rightarrow> \<not> validate_balance_delta cr d c)"

definition provider_complete_job ::
  "'pk crypto \<Rightarrow> database \<Rightarrow> peer_id \<Rightarrow> string \<Rightarrow> string option \<Rightarrow> string option \<Rightarrow> string \<Rightarrow>
     datetime \<Rightarrow> (provider_complete_job_error + database \<times> job_record) outcome" where
  "provider_complete_job cr db provider_peer_id provider_job_id balance_delta private_payload
       public_payload now =
     (case find_job_row db provider_peer_id provider_job_id of
        None \<Rightarrow> Return (Inl PComplete_JobNotFound)
      | Some (job, _) \<Rightarrow>
          (case job_reason job of
             Some r \<Rightarrow> Return (Inl (PComplete_AlreadyFailed r (job_reason_class job)))
           | None \<Rightarrow>
          (case job_completed_at_sync job of
             Some t \<Rightarrow> Return (Inl (PComplete_AlreadyCompleted t))
           | None \<Rightarrow>
               if invalid_balance_delta cr balance_delta (job_currency job)
               then Return (Inl PComplete_InvalidBalanceDelta)
               else
                 (let db' = update_job (job_rowid job) (\<lambda>j. j\<lparr>job_balance_delta := balance_delta,
                    job_public_payload := Some public_payload,
                    job_private_payload := coalesce private_payload (job_private_payload j),
                    job_completed_at_sync := Some (timestamp now)\<rparr>) db
                  in case find_by_rowid db' (job_rowid job) of
                       None \<Rightarrow> Panic
                     | Some record \<Rightarrow> Return (Inr (db', record))))))"

subsection \<open>Completing and signing a job, Consumer side\<close>

datatype consumer_complete_job_error =
    CComplete_InvalidJobId
  | CComplete_ConsumerPeerIdMismatch
  | CComplete_AlreadyFailed string "int option"
  | CComplete_AlreadyCompleted
  | CComplete_InvalidBalanceDelta

definition hashing_payload ::
  "job_record \<Rightarrow> string \<Rightarrow> string \<Rightarrow> int \<Rightarrow> string option \<Rightarrow> job_hashing_payload" where
  "hashing_payload job provider_job_id public_payload completed_at_sync balance_delta =
     \<lparr>hp_consumer_peer_id = jr_consumer_peer_id job,
      hp_provider_peer_id = jr_provider_peer_id job,
      hp_protocol_id = jr_offer_protocol_id job,
      hp_offer_payload = jr_offer_payload job,
      hp_currency = currency_code (jr_currency job),
      hp_provider_job_id = provider_job_id,
      hp_job_created_at_sync = jr_created_at_sync job,
      hp_job_public_payload = public_payload,
      hp_job_completed_at_sync = completed_at_sync,
      hp_balance_delta = balance_delta\<rparr>"

definition hex_balance :: "'pk crypto \<Rightarrow> string option \<Rightarrow> string option" where
  "hex_balance cr = map_option (\<lambda>d. hex_encode cr (str_bytes d))"

definition consumer_complete_job ::
  "'pk crypto \<Rightarrow> database \<Rightarrow> peer_id \<Rightarrow> peer_id \<Rightarrow> string \<Rightarrow> string option \<Rightarrow> string \<Rightarrow>
     string option \<Rightarrow> int \<Rightarrow> (bytes \<Rightarrow> bytes) \<Rightarrow> datetime \<Rightarrow>
     consumer_complete_job_error + database \<times> job_record" where
  "consumer_complete_job cr db consumer_peer_id provider_peer_id provider_job_id balance_delta
       public_payload private_payload completed_at_sync sign_fn now =
     (case find_by_job_id db provider_peer_id provider_job_id of
        None \<Rightarrow> Inl CComplete_InvalidJobId
      | Some job \<Rightarrow>
          if jr_consumer_peer_id job \<noteq> consumer_peer_id then Inl CComplete_ConsumerPeerIdMismatch
          else (case jr_reason job of
             Some r \<Rightarrow> Inl (CComplete_AlreadyFailed r (jr_reason_class job))
           | None \<Rightarrow>
               if jr_completed_at_local job \<noteq> None then Inl CComplete_AlreadyCompleted
               else if invalid_balance_delta cr balance_delta (jr_currency job)
               then Inl CComplete_InvalidBalanceDelta
               else
                 (let bd = hex_balance cr balance_delta;
                      h = hash_job cr (hashing_payload job (jr_provider_job_id job)
                            public_payload completed_at_sync bd);
                      sig = sign_fn h
                  in Inr (update_job (jr_job_rowid job) (\<lambda>j. j\<lparr>job_balance_delta := bd,
                       job_public_payload := Some public_payload,
                       job_private_payload := coalesce private_payload (job_private_payload j),
                       job_completed_at_local := Some now,
                       job_completed_at_sync := Some completed_at_sync,
                       job_hash := Some h, job_consumer_signature := Some sig\<rparr>) db,
                     job\<lparr>jr_balance_delta := bd, jr_public_payload := Some public_payload,
                       jr_private_payload := coalesce private_payload (jr_private_payload job),
                       jr_completed_at_local := Some now,
                       jr_completed_at_sync := Some completed_at_sync\<rparr>))))"

subsection \<open>Confirming a job, Consumer side\<close>

datatype consumer_confirm_job_error =
    CConfirm_InvalidJobId
  | CConfirm_NotSignedYet
  | CConfirm_AlreadyConfirmed

definition find_job_by_rowid :: "database \<Rightarrow> int \<Rightarrow> job_row option" where
  "find_job_by_rowid db rid = List.find (\<lambda>j. job_rowid j = rid) (service_jobs db)"

definition consumer_confirm_job ::
  "database \<Rightarrow> int \<Rightarrow> datetime \<Rightarrow> (consumer_confirm_job_error + database \<times> job_record) outcome"
where
  "consumer_confirm_job db rid now =
     (case find_job_by_rowid db rid of
        None \<Rightarrow> Return (Inl CConfirm_InvalidJobId)
      | Some job \<Rightarrow>
          if job_signature_confirmed_at_local job \<noteq> None
          then Return (Inl CConfirm_AlreadyConfirmed)
          else if job_consumer_signature job = None then Return (Inl CConfirm_NotSignedYet)
          else
            (let db' = update_job rid (\<lambda>j. j\<lparr>
               job_signature_confirmed_at_local := Some (trunc_seconds now),
               job_confirmation_error := None\<rparr>) db
             in case find_by_rowid db' rid of
                  None \<Rightarrow> Panic
                | Some record \<Rightarrow> Return (Inr (db', record))))"

datatype set_confirmation_error_result =
    SetErr_Ok database
  | SetErr_InvalidJobId
  | SetErr_AlreadyConfirmed

definition set_job_confirmation_error ::
  "database \<Rightarrow> int \<Rightarrow> string \<Rightarrow> set_confirmation_error_result" where
  "set_job_confirmation_error db rid confirmation_error =
     (case find_job_by_rowid db rid of
        None \<Rightarrow> SetErr_InvalidJobId
      | Some job \<Rightarrow>
          if job_signature_confirmed_at_local job \<noteq> None then SetErr_AlreadyConfirmed
          else SetErr_Ok (update_job rid
            (\<lambda>j. j\<lparr>job_confirmation_error := Some confirmation_error\<rparr>) db))"

subsection \<open>Confirming a job, Provider side\<close>

datatype provider_confirm_job_error =
    PConfirm_JobNotFound
  | PConfirm_ConsumerPeerIdMismatch
  | PConfirm_NotCompletedYet
  | PConfirm_AlreadyFailed
  | PConfirm_HashMismatch int bytes
  | PConfirm_AlreadyConfirmed
  | PConfirm_PublicKeyDecodingFailed
  | PConfirm_SignatureVerificationFailed int

definition provider_confirm_job ::
  "'pk crypto \<Rightarrow> database \<Rightarrow> peer_id \<Rightarrow> peer_id \<Rightarrow> string \<Rightarrow> bytes \<Rightarrow> bytes \<Rightarrow> bytes \<Rightarrow>
     datetime \<Rightarrow> (provider_confirm_job_error + database) outcome" where
  "provider_confirm_job cr db consumer_peer_id provider_peer_id provider_job_id received_hash
       consumer_public_key consumer_signature now =
     (case find_by_job_id db provider_peer_id provider_job_id of
        None \<Rightarrow> Return (Inl PConfirm_JobNotFound)
      | Some job \<Rightarrow>
          if jr_consumer_peer_id job \<noteq> consumer_peer_id
          then Return (Inl PConfirm_ConsumerPeerIdMismatch)
          else if jr_signature_confirmed_at_local job \<noteq> None
          then Return (Inl PConfirm_AlreadyConfirmed)
          else (case jr_completed_at_sync job of
             None \<Rightarrow> Return (Inl PConfirm_NotCompletedYet)
           | Some completed_at_sync \<Rightarrow>
          if jr_reason job \<noteq> None then Return (Inl PConfirm_AlreadyFailed)
          else (case jr_public_payload job of
             None \<Rightarrow> Panic
           | Some public_payload \<Rightarrow>
               (let expected_hash = hash_job cr (hashing_payload job provider_job_id
                      public_payload completed_at_sync (hex_balance cr (jr_balance_delta job)))
                in if received_hash \<noteq> expected_hash
                   then Return (Inl (PConfirm_HashMismatch (jr_job_rowid job) expected_hash))
                   else case try_decode_protobuf cr consumer_public_key of
                     None \<Rightarrow> Return (Inl PConfirm_PublicKeyDecodingFailed)
                   | Some public_key \<Rightarrow>
                       if \<not> verify cr public_key received_hash consumer_signature
                       then Return (Inl (PConfirm_SignatureVerificationFailed (jr_job_rowid job)))
                       else Return (Inr (update_job (jr_job_rowid job) (\<lambda>j. j\<lparr>
                         job_consumer_signature := Some consumer_signature,
                         job_signature_confirmed_at_local := Some now,
                         job_confirmation_error := None\<rparr>) db))))))"

end
