(* ===== verification/Job_Machine.thy ===== *)
theory Job_Machine
  imports Jobs
begin

text \<open>
  The life of a job as a state machine: \<open>row_step\<close> is the abstract specification of what
  may happen to one row of \<open>service_jobs\<close> on the node with peer ID \<open>me\<close>; \<open>job_step\<close> runs
  one database operation of \<open>Jobs\<close> and is shown to refine it.
\<close>

section \<open>Phases\<close>

text \<open>
  Open, then Completed (Provider only), then Signed (Consumer only), then Confirmed; a job
  also records whether it has failed.
\<close>

datatype job_phase = Open | Completed | Signed | Confirmed

primrec phase_rank :: "job_phase \<Rightarrow> nat" where
  "phase_rank Open = 0"
| "phase_rank Completed = 1"
| "phase_rank Signed = 2"
| "phase_rank Confirmed = 3"

lemma phase_rank_inject: "phase_rank p = phase_rank q \<longleftrightarrow> p = q"
  by (cases p; cases q) simp_all

instantiation job_phase :: linorder
begin

definition less_eq_job_phase :: "job_phase \<Rightarrow> job_phase \<Rightarrow> bool" where
  "p \<le> q \<longleftrightarrow> phase_rank p \<le> phase_rank q"

definition less_job_phase :: "job_phase \<Rightarrow> job_phase \<Rightarrow> bool" where
  "p < q \<longleftrightarrow> phase_rank p < phase_rank q"

instance
  by standard (auto simp: less_eq_job_phase_def less_job_phase_def phase_rank_inject)

end

lemma phase_order [simp]:
  "Open \<le> p" "p \<le> Confirmed" "Completed \<le> Signed" "\<not> Confirmed \<le> Open" "\<not> Signed \<le> Open"
  "\<not> Completed \<le> Open" "\<not> Signed \<le> Completed" "\<not> Confirmed \<le> Completed" "\<not> Confirmed \<le> Signed"
  by (cases p; simp add: less_eq_job_phase_def)+

definition job_phase_of :: "job_row \<Rightarrow> job_phase" where
  "job_phase_of j =
     (if job_signature_confirmed_at_local j \<noteq> None then Confirmed
      else if job_consumer_signature j \<noteq> None then Signed
      else if job_completed_at_sync j \<noteq> None then Completed else Open)"

section \<open>The row-level machine\<close>

inductive row_step :: "peer_id \<Rightarrow> job_row \<Rightarrow> job_row \<Rightarrow> bool" for me where
  fail: "job_reason j = None \<Longrightarrow> job_completed_at_local j = None \<Longrightarrow>
    row_step me j (j\<lparr>job_reason := Some r, job_reason_class := c, job_private_payload := pp,
      job_completed_at_local := Some t\<rparr>)"
| provider_complete: "job_reason j = None \<Longrightarrow> job_completed_at_sync j = None \<Longrightarrow>
    row_step me j (j\<lparr>job_balance_delta := bd, job_public_payload := Some pub,
      job_private_payload := pp, job_completed_at_sync := Some ts\<rparr>)"
| consumer_complete: "job_consumer_peer_id j = me \<Longrightarrow> job_reason j = None \<Longrightarrow>
    job_completed_at_local j = None \<Longrightarrow>
    row_step me j (j\<lparr>job_balance_delta := bd, job_public_payload := Some pub,
      job_private_payload := pp, job_completed_at_local := Some t,
      job_completed_at_sync := Some ts, job_hash := Some h, job_consumer_signature := Some sig\<rparr>)"
| consumer_confirm: "job_signature_confirmed_at_local j = None \<Longrightarrow>
    job_consumer_signature j \<noteq> None \<Longrightarrow>
    row_step me j (j\<lparr>job_signature_confirmed_at_local := Some t, job_confirmation_error := None\<rparr>)"
| confirmation_error: "job_signature_confirmed_at_local j = None \<Longrightarrow>
    row_step me j (j\<lparr>job_confirmation_error := Some e\<rparr>)"
| provider_confirm: "job_consumer_peer_id j \<noteq> me \<Longrightarrow> job_signature_confirmed_at_local j = None \<Longrightarrow>
    job_completed_at_sync j \<noteq> None \<Longrightarrow> job_reason j = None \<Longrightarrow>
    row_step me j (j\<lparr>job_consumer_signature := Some sig,
      job_signature_confirmed_at_local := Some t, job_confirmation_error := None\<rparr>)"

text \<open>What the columns of a row say about each other on the node \<open>me\<close>.\<close>

definition job_ok :: "peer_id \<Rightarrow> job_row \<Rightarrow> bool" where
  "job_ok me j \<longleftrightarrow>
     (job_signature_confirmed_at_local j \<noteq> None \<longrightarrow> job_consumer_signature j \<noteq> None \<and>
        job_confirmation_error j = None \<and> job_completed_at_sync j \<noteq> None) \<and>
     (job_completed_at_sync j \<noteq> None \<longrightarrow> job_public_payload j \<noteq> None) \<and>
     (job_consumer_peer_id j = me \<longrightarrow> job_consumer_signature j \<noteq> None \<longrightarrow>
        job_hash j \<noteq> None \<and> job_completed_at_local j \<noteq> None \<and>
        job_completed_at_sync j \<noteq> None \<and> job_reason j = None) \<and>
     (job_consumer_peer_id j \<noteq> me \<longrightarrow> job_consumer_signature j \<noteq> None \<longrightarrow>
        job_signature_confirmed_at_local j \<noteq> None)"

text \<open>The columns written when the job is created, and never again.\<close>

definition job_identity ::
  "job_row \<Rightarrow> int \<times> int \<times> peer_id \<times> currency \<times> string option \<times> string \<times> datetime \<times> int" where
  "job_identity j =
     (job_rowid j, job_offer_snapshot_rowid j, job_consumer_peer_id j, job_currency j, job_args j,
      job_provider_job_id j, job_created_at_local j, job_created_at_sync j)"

text \<open>
  Facts about a job that are final: its identity, having reached a phase, a failure with its
  reason and the phase it happened in at the latest, and the settled content of a confirmed
  job.
\<close>

datatype job_fact =
    Identity "int \<times> int \<times> peer_id \<times> currency \<times> string option \<times> string \<times> datetime \<times> int"
  | Reached int job_phase
  | Failed_for_good int string "int option" job_phase
  | Settled int "bytes option" "string option" "string option" "int option" "bytes option"

definition row_facts :: "job_row \<Rightarrow> job_fact set" where
  "row_facts j =
     {Identity (job_identity j)} \<union>
     {Reached (job_rowid j) p | p. p \<le> job_phase_of j} \<union>
     {Failed_for_good (job_rowid j) r (job_reason_class j) (job_phase_of j) | r.
        job_reason j = Some r} \<union>
     (if job_signature_confirmed_at_local j \<noteq> None
      then {Settled (job_rowid j) (job_consumer_signature j) (job_balance_delta j)
              (job_public_payload j) (job_completed_at_sync j) (job_hash j)}
      else {})"

lemma row_step_identity: "row_step me j j' \<Longrightarrow> job_identity j' = job_identity j"
  by (induction rule: row_step.induct) (simp_all add: job_identity_def)

lemma row_step_ok: "row_step me j j' \<Longrightarrow> job_ok me j \<Longrightarrow> job_ok me j'"
  by (induction rule: row_step.induct) (auto simp: job_ok_def)

lemma row_step_phase: "row_step me j j' \<Longrightarrow> job_ok me j \<Longrightarrow> job_phase_of j \<le> job_phase_of j'"
  by (induction rule: row_step.induct) (auto simp: job_ok_def job_phase_of_def)

lemma row_step_failed:
  "row_step me j j' \<Longrightarrow> job_ok me j \<Longrightarrow> job_reason j = Some r \<Longrightarrow>
     job_reason j' = Some r \<and> job_reason_class j' = job_reason_class j \<and>
     job_phase_of j' = job_phase_of j"
  by (induction rule: row_step.induct) (auto simp: job_ok_def job_phase_of_def)

lemma row_step_settled:
  "row_step me j j' \<Longrightarrow> job_ok me j \<Longrightarrow> job_signature_confirmed_at_local j \<noteq> None \<Longrightarrow>
     job_signature_confirmed_at_local j' = job_signature_confirmed_at_local j \<and>
     job_consumer_signature j' = job_consumer_signature j \<and>
     job_balance_delta j' = job_balance_delta j \<and>
     job_public_payload j' = job_public_payload j \<and>
     job_completed_at_sync j' = job_completed_at_sync j \<and> job_hash j' = job_hash j"
  by (induction rule: row_step.induct) (auto simp: job_ok_def)

lemma row_step_facts: "row_step me j j' \<Longrightarrow> job_ok me j \<Longrightarrow> row_facts j \<subseteq> row_facts j'"
  using row_step_identity [of me j j'] row_step_phase [of me j j'] row_step_failed [of me j j']
    row_step_settled [of me j j']
  unfolding row_facts_def job_identity_def by (auto simp: order_trans)

end
