(* ===== verification/Job_Ledger.thy ===== *)
theory Job_Ledger
  imports Job_Machine
begin

text \<open>
  The operations of \<open>Jobs\<close> refine the row-level machine of \<open>Job_Machine\<close>: every one that
  changes the database appends a fresh row or takes one row a \<open>row_step\<close> further. From
  this follow the invariant of the job table, the absence of panics and the final facts.
\<close>

section \<open>Joined rows\<close>

lemma in_joined_jobs:
  "(j, s) \<in> set (joined_jobs db) \<longleftrightarrow> j \<in> set (service_jobs db) \<and>
     s \<in> set (offer_snapshots db) \<and> snap_rowid s = job_offer_snapshot_rowid j"
  by (auto simp: joined_jobs_def)

lemma find_job_rowD:
  "find_job_row db p jid = Some (j, s) \<Longrightarrow>
     j \<in> set (service_jobs db) \<and> s \<in> set (offer_snapshots db) \<and>
     snap_rowid s = job_offer_snapshot_rowid j \<and> snap_provider_peer_id s = p \<and>
     job_provider_job_id j = jid"
  unfolding find_job_row_def by (auto dest!: find_SomeD simp: in_joined_jobs)

lemma wf_snapshot_of:
  assumes "wf_database db" and "j \<in> set (service_jobs db)"
  shows "\<exists>s. s \<in> set (offer_snapshots db) \<and> snap_rowid s = job_offer_snapshot_rowid j"
  using assms unfolding wf_database_def by (force simp: image_subset_iff)

lemma wf_job_rowid_eq:
  "wf_database db \<Longrightarrow> j \<in> set (service_jobs db) \<Longrightarrow> j' \<in> set (service_jobs db) \<Longrightarrow>
     job_rowid j = job_rowid j' \<Longrightarrow> j = j'"
  by (auto simp: wf_database_def dest: distinct_key_eq)

lemma joined_unique:
  assumes "wf_database db" and "(j, s) \<in> set (joined_jobs db)" and "(j', s') \<in> set (joined_jobs db)"
    and "job_rowid j = job_rowid j'"
  shows "j = j' \<and> s = s'"
proof -
  have "j = j'"
    using assms wf_job_rowid_eq [OF assms(1)] unfolding in_joined_jobs by blast
  moreover from this have "s = s'"
    using assms(2,3) wf_rowid_eq [OF wf_databaseD [OF assms(1)], of s s']
    unfolding in_joined_jobs by metis
  ultimately show ?thesis by blast
qed

lemma find_by_rowid_wf:
  assumes "wf_database db" and "(j, s) \<in> set (joined_jobs db)"
  shows "find_by_rowid db (job_rowid j) = Some (row_to_job_record j s)"
proof -
  have "List.find (\<lambda>(j', s). job_rowid j' = job_rowid j) (joined_jobs db) = Some (j, s)"
  proof (rule find_unique)
    show "js = (j, s)" if "js \<in> set (joined_jobs db)"
      "case js of (j', s') \<Rightarrow> job_rowid j' = job_rowid j" for js
    proof -
      obtain j' s' where js: "js = (j', s')" by (cases js)
      with that have "j' = j \<and> s' = s" by (intro joined_unique [OF assms(1) _ assms(2)]) simp_all
      with js show ?thesis by simp
    qed
  qed (use assms(2) in simp_all)
  then show ?thesis by (simp add: find_by_rowid_def)
qed

lemma find_job_by_rowidD:
  "find_job_by_rowid db rid = Some j \<Longrightarrow> j \<in> set (service_jobs db) \<and> job_rowid j = rid"
  unfolding find_job_by_rowid_def by (auto dest: find_SomeD)

lemma find_job_by_rowid_wf:
  "wf_database db \<Longrightarrow> j \<in> set (service_jobs db) \<Longrightarrow> find_job_by_rowid db (job_rowid j) = Some j"
  unfolding find_job_by_rowid_def by (rule find_key) (simp_all add: wf_database_def)

section \<open>Updating one row\<close>

lemma update_job_simps [simp]:
  "peers (update_job rid f db) = peers db"
  "offer_snapshots (update_job rid f db) = offer_snapshots db"
  "service_jobs (update_job rid f db) =
     update_where (\<lambda>j. job_rowid j = rid) f (service_jobs db)"
  by (simp_all add: update_job_def)

text \<open>An update that leaves the keys of a row alone acts row by row on every lookup.\<close>

definition keeps_keys :: "(job_row \<Rightarrow> job_row) \<Rightarrow> bool" where
  "keeps_keys f \<longleftrightarrow> (\<forall>j. job_identity (f j) = job_identity j)"

lemma keeps_keysD:
  assumes "keeps_keys f"
  shows "job_rowid (f j) = job_rowid j"
    and "job_offer_snapshot_rowid (f j) = job_offer_snapshot_rowid j"
    and "job_provider_job_id (f j) = job_provider_job_id j"
    and "job_consumer_peer_id (f j) = job_consumer_peer_id j"
  using assms by (simp_all add: keeps_keys_def job_identity_def)

lemma joined_update_job:
  assumes "keeps_keys f"
  shows "joined_jobs (update_job rid f db) =
    map (\<lambda>(j, s). (if job_rowid j = rid then f j else j, s)) (joined_jobs db)"
  using keeps_keysD [OF assms]
  by (simp add: joined_jobs_def update_where_def map_concat comp_def)
    (rule arg_cong [where f = concat], auto)

lemma find_job_row_update:
  assumes "keeps_keys f"
  shows "find_job_row (update_job rid f db) p jid =
    map_option (\<lambda>(j, s). (if job_rowid j = rid then f j else j, s)) (find_job_row db p jid)"
proof -
  have "(\<lambda>(j :: job_row, s :: snapshot_row).
        snap_provider_peer_id s = p \<and> job_provider_job_id j = jid) \<circ>
      (\<lambda>(j, s). (if job_rowid j = rid then f j else j, s)) =
      (\<lambda>(j, s). snap_provider_peer_id s = p \<and> job_provider_job_id j = jid)"
    using keeps_keysD [OF assms] by (auto simp: fun_eq_iff)
  then show ?thesis
    by (simp only: find_job_row_def joined_update_job [OF assms] find_map)
qed

lemma wf_update_job:
  assumes "wf_database db" and "keeps_keys f"
  shows "wf_database (update_job rid f db)"
proof -
  have "map job_rowid (service_jobs (update_job rid f db)) = map job_rowid (service_jobs db)"
    and "map job_offer_snapshot_rowid (service_jobs (update_job rid f db)) =
      map job_offer_snapshot_rowid (service_jobs db)"
    using keeps_keysD [OF assms(2)] by (simp_all add: map_update_where)
  then have "map job_rowid (service_jobs (update_job rid f db)) = map job_rowid (service_jobs db)"
    and "job_offer_snapshot_rowid ` set (service_jobs (update_job rid f db)) =
      job_offer_snapshot_rowid ` set (service_jobs db)"
    by (simp, metis set_map)
  with assms(1) show ?thesis by (simp add: wf_database_def peer_ids_def)
qed

lemma find_by_rowid_update:
  assumes "wf_database db" and "keeps_keys f" and "(j, s) \<in> set (joined_jobs db)"
  shows "find_by_rowid (update_job (job_rowid j) f db) (job_rowid j) =
    Some (row_to_job_record (f j) s)"
proof -
  have "(f j, s) \<in> set (joined_jobs (update_job (job_rowid j) f db))"
    using assms(3) by (force simp: joined_update_job [OF assms(2)])
  from find_by_rowid_wf [OF wf_update_job [OF assms(1,2)] this] show ?thesis
    by (simp add: keeps_keysD [OF assms(2)])
qed

section \<open>The invariant of the job table\<close>

text \<open>
  A node is never its own counterparty: \<open>no_self_jobs\<close>. (libp2p authenticates the peer a
  request comes from, and a node cannot dial itself.)
\<close>

definition no_self_jobs :: "database \<Rightarrow> bool" where
  "no_self_jobs db \<longleftrightarrow>
     (\<forall>(j, s) \<in> set (joined_jobs db). snap_provider_peer_id s \<noteq> job_consumer_peer_id j)"

definition ledger_ok :: "peer_id \<Rightarrow> database \<Rightarrow> bool" where
  "ledger_ok me db \<longleftrightarrow> wf_database db \<and> no_self_jobs db \<and> (\<forall>j \<in> set (service_jobs db). job_ok me j)"

definition ledger_facts :: "database \<Rightarrow> job_fact set" where
  "ledger_facts db = (\<Union>j \<in> set (service_jobs db). row_facts j)"

lemma ledger_ok_wf: "ledger_ok me db \<Longrightarrow> wf_database db"
  by (simp add: ledger_ok_def)

lemma ledger_ok_job: "ledger_ok me db \<Longrightarrow> j \<in> set (service_jobs db) \<Longrightarrow> job_ok me j"
  by (simp add: ledger_ok_def)

text \<open>A row update whose function is a \<open>row_step\<close> on the row it hits.\<close>

lemma update_job_row_step:
  assumes "ledger_ok me db" and "j \<in> set (service_jobs db)" and "row_step me j (f j)"
    and "keeps_keys f"
  shows "ledger_ok me (update_job (job_rowid j) f db)"
    and "ledger_facts db \<subseteq> ledger_facts (update_job (job_rowid j) f db)"
proof -
  note wf = ledger_ok_wf [OF assms(1)]
  have hit: "job_rowid j' = job_rowid j \<longleftrightarrow> j' = j" if "j' \<in> set (service_jobs db)" for j'
    using that assms(2) wf_job_rowid_eq [OF wf] by blast
  have "job_ok me (if job_rowid j' = job_rowid j then f j' else j')"
    if "j' \<in> set (service_jobs db)" for j'
    using hit [OF that] ledger_ok_job [OF assms(1) that] row_step_ok [OF assms(3)]
    by (simp split: if_split) metis
  moreover have "no_self_jobs (update_job (job_rowid j) f db)"
  proof -
    have "\<forall>(j, s) \<in> set (joined_jobs db). snap_provider_peer_id s \<noteq> job_consumer_peer_id j"
      using assms(1) by (simp add: ledger_ok_def no_self_jobs_def)
    then show ?thesis
      unfolding no_self_jobs_def joined_update_job [OF assms(4)]
      by (fastforce simp: keeps_keysD(4) [OF assms(4)] split: if_splits)
  qed
  ultimately show "ledger_ok me (update_job (job_rowid j) f db)"
    by (simp add: ledger_ok_def ball_update_where wf_update_job [OF wf assms(4)])
  have "row_facts j' \<subseteq> row_facts (if job_rowid j' = job_rowid j then f j' else j')"
    if "j' \<in> set (service_jobs db)" for j'
    using hit [OF that] row_step_facts [OF assms(3) ledger_ok_job [OF assms(1,2)]]
    by (cases "j' = j") simp_all
  then show "ledger_facts db \<subseteq> ledger_facts (update_job (job_rowid j) f db)"
    unfolding ledger_facts_def update_job_simps update_where_def by fastforce
qed

section \<open>Each operation refines the machine\<close>

text \<open>
  What one operation may do to the table: nothing, append a job that is Open, or take one
  row one \<open>row_step\<close> further.
\<close>

definition fresh_job :: "job_row \<Rightarrow> bool" where
  "fresh_job j \<longleftrightarrow> job_reason j = None \<and> job_completed_at_local j = None \<and>
     job_completed_at_sync j = None \<and> job_consumer_signature j = None \<and>
     job_signature_confirmed_at_local j = None \<and> job_confirmation_error j = None"

inductive ledger_step :: "peer_id \<Rightarrow> database \<Rightarrow> database \<Rightarrow> bool" for me where
  idle: "ledger_step me db db"
| append: "fresh_job j \<Longrightarrow> job_rowid j = next_rowid (map job_rowid (service_jobs db)) \<Longrightarrow>
    s \<in> set (offer_snapshots db) \<Longrightarrow> snap_rowid s = job_offer_snapshot_rowid j \<Longrightarrow>
    snap_provider_peer_id s \<noteq> job_consumer_peer_id j \<Longrightarrow>
    ledger_step me db (db\<lparr>service_jobs := service_jobs db @ [j]\<rparr>)"
| row: "j \<in> set (service_jobs db) \<Longrightarrow> row_step me j (f j) \<Longrightarrow> keeps_keys f \<Longrightarrow>
    ledger_step me db (update_job (job_rowid j) f db)"

inductive_cases ledger_stepE: "ledger_step me db db'"

lemma joined_append:
  "joined_jobs (db\<lparr>service_jobs := service_jobs db @ [j]\<rparr>) = joined_jobs db @
     map (\<lambda>s. (j, s)) (filter (\<lambda>s. snap_rowid s = job_offer_snapshot_rowid j) (offer_snapshots db))"
  by (simp add: joined_jobs_def)

lemma append_job_ok:
  assumes "ledger_ok me db" and "fresh_job j"
    and "job_rowid j = next_rowid (map job_rowid (service_jobs db))"
    and "s \<in> set (offer_snapshots db)" and "snap_rowid s = job_offer_snapshot_rowid j"
    and "snap_provider_peer_id s \<noteq> job_consumer_peer_id j"
  shows "ledger_ok me (db\<lparr>service_jobs := service_jobs db @ [j]\<rparr>)"
proof -
  note wf = ledger_ok_wf [OF assms(1)]
  have "job_rowid j \<notin> job_rowid ` set (service_jobs db)"
    using next_rowid_fresh [of "map job_rowid (service_jobs db)"] assms(3) by simp
  moreover have "job_offer_snapshot_rowid j \<in> snap_rowid ` set (offer_snapshots db)"
    using assms(4) by (simp add: assms(5) [symmetric])
  ultimately have "wf_database (db\<lparr>service_jobs := service_jobs db @ [j]\<rparr>)"
    using wf by (simp add: wf_database_def peer_ids_def)
  moreover have "snap_provider_peer_id s' \<noteq> job_consumer_peer_id j"
    if "s' \<in> set (offer_snapshots db)" "snap_rowid s' = job_offer_snapshot_rowid j" for s'
    using that assms(4-6) wf_rowid_eq [OF wf_databaseD [OF wf], of s' s] by metis
  then have "no_self_jobs (db\<lparr>service_jobs := service_jobs db @ [j]\<rparr>)"
    using assms(1) by (auto simp: no_self_jobs_def ledger_ok_def joined_append)
  ultimately show ?thesis
    using assms(1,2) by (auto simp: ledger_ok_def job_ok_def fresh_job_def)
qed

lemma ledger_step_ok: "ledger_step me db db' \<Longrightarrow> ledger_ok me db \<Longrightarrow> ledger_ok me db'"
  by (erule ledger_stepE) (auto intro: append_job_ok update_job_row_step(1))

lemma ledger_step_facts:
  "ledger_step me db db' \<Longrightarrow> ledger_ok me db \<Longrightarrow> ledger_facts db \<subseteq> ledger_facts db'"
proof (erule ledger_stepE)
  fix j s
  assume "db' = db\<lparr>service_jobs := service_jobs db @ [j]\<rparr>"
  then show "ledger_facts db \<subseteq> ledger_facts db'" by (auto simp: ledger_facts_def)
qed (auto dest: update_job_row_step(2))

lemma keeps_keysI:
  assumes "\<And>j. job_rowid (f j) = job_rowid j"
    and "\<And>j. job_offer_snapshot_rowid (f j) = job_offer_snapshot_rowid j"
    and "\<And>j. job_consumer_peer_id (f j) = job_consumer_peer_id j"
    and "\<And>j. job_currency (f j) = job_currency j" and "\<And>j. job_args (f j) = job_args j"
    and "\<And>j. job_provider_job_id (f j) = job_provider_job_id j"
    and "\<And>j. job_created_at_local (f j) = job_created_at_local j"
    and "\<And>j. job_created_at_sync (f j) = job_created_at_sync j"
  shows "keeps_keys f"
  using assms by (simp add: keeps_keys_def job_identity_def)

lemma find_by_job_idD:
  assumes "find_by_job_id db p jid = Some r"
  obtains j s where "find_job_row db p jid = Some (j, s)" "r = row_to_job_record j s"
    "j \<in> set (service_jobs db)" "s \<in> set (offer_snapshots db)"
    "snap_rowid s = job_offer_snapshot_rowid j" "snap_provider_peer_id s = p"
    "job_provider_job_id j = jid"
  using assms find_job_rowD unfolding find_by_job_id_def by fastforce

lemma job_record_simps [simp]:
  "jr_job_rowid (row_to_job_record j s) = job_rowid j"
  "jr_provider_job_id (row_to_job_record j s) = job_provider_job_id j"
  "jr_provider_peer_id (row_to_job_record j s) = snap_provider_peer_id s"
  "jr_consumer_peer_id (row_to_job_record j s) = job_consumer_peer_id j"
  "jr_offer_id (row_to_job_record j s) = snap_offer_id s"
  "jr_offer_snapshot_rowid (row_to_job_record j s) = snap_rowid s"
  "jr_offer_protocol_id (row_to_job_record j s) = snap_protocol_id s"
  "jr_offer_payload (row_to_job_record j s) = snap_protocol_payload s"
  "jr_currency (row_to_job_record j s) = job_currency j"
  "jr_balance_delta (row_to_job_record j s) = job_balance_delta j"
  "jr_public_payload (row_to_job_record j s) = job_public_payload j"
  "jr_private_payload (row_to_job_record j s) = job_private_payload j"
  "jr_reason (row_to_job_record j s) = job_reason j"
  "jr_reason_class (row_to_job_record j s) = job_reason_class j"
  "jr_created_at_sync (row_to_job_record j s) = job_created_at_sync j"
  "jr_completed_at_local (row_to_job_record j s) = job_completed_at_local j"
  "jr_completed_at_sync (row_to_job_record j s) = job_completed_at_sync j"
  "jr_signature_confirmed_at_local (row_to_job_record j s) = job_signature_confirmed_at_local j"
  "jr_confirmation_error (row_to_job_record j s) = job_confirmation_error j"
  by (simp_all add: row_to_job_record_def)

lemma create_job_step:
  assumes "create_job db sid consumer c args jid ts now = Return (db', rid)"
    and "\<And>s. s \<in> set (offer_snapshots db) \<Longrightarrow> snap_rowid s = sid \<Longrightarrow>
      snap_provider_peer_id s \<noteq> consumer"
  shows "ledger_step me db db'"
proof -
  from assms(1) obtain s where s: "s \<in> set (offer_snapshots db)" "snap_rowid s = sid"
    by (auto simp: create_job_def list_ex_iff split: if_splits)
  with assms(1) obtain j where "db' = db\<lparr>service_jobs := service_jobs db @ [j]\<rparr>"
    "fresh_job j" "job_rowid j = next_rowid (map job_rowid (service_jobs db))"
    "job_offer_snapshot_rowid j = sid" "job_consumer_peer_id j = consumer"
    by (auto simp: create_job_def Let_def fresh_job_def split: if_splits)
  with s assms(2) show ?thesis by (auto intro: ledger_step.append)
qed

lemma create_job_Return:
  "s \<in> set (offer_snapshots db) \<Longrightarrow> snap_rowid s = sid \<Longrightarrow>
     \<exists>db' rid. create_job db sid consumer c args jid ts now = Return (db', rid)"
  by (auto simp: create_job_def list_ex_iff Let_def)

lemma fail_job_step:
  assumes "fail_job db p jid r c pp now = Inr db'"
  shows "ledger_step me db db'"
  using assms unfolding fail_job_def
  by (auto split: option.splits if_splits prod.splits dest!: find_job_rowD
      intro!: ledger_step.row row_step.fail keeps_keysI)

lemma provider_complete_job_Return:
  assumes "wf_database db"
  shows "\<exists>res. provider_complete_job cr db p jid bd priv pub now = Return res"
proof (cases "find_job_row db p jid")
  case (Some js)
  obtain j s where js: "js = (j, s)" by (cases js)
  with Some have mem: "(j, s) \<in> set (joined_jobs db)"
    by (auto dest: find_job_rowD simp: in_joined_jobs)
  have "keeps_keys (\<lambda>j. j\<lparr>job_balance_delta := bd, job_public_payload := Some pub,
      job_private_payload := coalesce priv (job_private_payload j),
      job_completed_at_sync := Some (timestamp now)\<rparr>)"
    by (rule keeps_keysI) simp_all
  from find_by_rowid_update [OF assms this mem] Some js show ?thesis
    by (auto simp: provider_complete_job_def Let_def split: option.splits)
qed (simp add: provider_complete_job_def)

lemma provider_complete_job_step:
  assumes "provider_complete_job cr db p jid bd priv pub now = Return (Inr (db', rec))"
  shows "ledger_step me db db'"
  using assms unfolding provider_complete_job_def Let_def
  by (auto split: option.splits if_splits prod.splits dest!: find_job_rowD
      intro!: ledger_step.row row_step.provider_complete keeps_keysI)

lemma consumer_complete_job_step:
  assumes "consumer_complete_job cr db me p jid bd pub priv ts sign now = Inr (db', rec)"
  shows "ledger_step me db db'"
  using assms unfolding consumer_complete_job_def Let_def
  by (auto split: option.splits if_splits elim!: find_by_job_idD
      intro!: ledger_step.row row_step.consumer_complete keeps_keysI)

lemma consumer_confirm_job_Return:
  assumes "wf_database db"
  shows "\<exists>res. consumer_confirm_job db rid now = Return res"
proof (cases "find_job_by_rowid db rid")
  case (Some j)
  then have j: "j \<in> set (service_jobs db)" "job_rowid j = rid"
    by (auto dest: find_job_by_rowidD)
  with wf_snapshot_of [OF assms] obtain s where mem: "(j, s) \<in> set (joined_jobs db)"
    by (auto simp: in_joined_jobs)
  have "keeps_keys (\<lambda>j. j\<lparr>job_signature_confirmed_at_local := Some (trunc_seconds now),
      job_confirmation_error := None\<rparr>)"
    by (rule keeps_keysI) simp_all
  from find_by_rowid_update [OF assms this mem] Some j show ?thesis
    by (auto simp: consumer_confirm_job_def Let_def)
qed (simp add: consumer_confirm_job_def)

lemma consumer_confirm_job_step:
  assumes "consumer_confirm_job db rid now = Return (Inr (db', rec))"
  shows "ledger_step me db db'"
  using assms unfolding consumer_confirm_job_def Let_def
  by (auto split: option.splits if_splits dest!: find_job_by_rowidD
      intro!: ledger_step.row row_step.consumer_confirm keeps_keysI)

lemma set_job_confirmation_error_step:
  assumes "set_job_confirmation_error db rid e = SetErr_Ok db'"
  shows "ledger_step me db db'"
  using assms unfolding set_job_confirmation_error_def
  by (auto split: option.splits if_splits dest!: find_job_by_rowidD
      intro!: ledger_step.row row_step.confirmation_error keeps_keysI)

lemma provider_confirm_job_Return:
  assumes "ledger_ok me db"
  shows "\<exists>res. provider_confirm_job cr db c p jid h pk sig now = Return res"
proof (cases "find_by_job_id db p jid")
  case (Some r)
  then obtain j s where j: "r = row_to_job_record j s" "j \<in> set (service_jobs db)"
    by (auto elim: find_by_job_idD)
  with ledger_ok_job [OF assms] have "jr_completed_at_sync r \<noteq> None \<longrightarrow> jr_public_payload r \<noteq> None"
    by (simp add: job_ok_def)
  with Some show ?thesis
    by (auto simp: provider_confirm_job_def Let_def split: option.splits)
qed (simp add: provider_confirm_job_def)

lemma provider_confirm_job_step:
  assumes "ledger_ok me db"
    and "provider_confirm_job cr db c me jid h pk sig now = Return (Inr db')"
  shows "ledger_step me db db'"
proof -
  from assms(2) obtain r where "find_by_job_id db me jid = Some r"
    by (auto simp: provider_confirm_job_def split: option.splits)
  then obtain j s where js: "find_by_job_id db me jid = Some (row_to_job_record j s)"
    "(j, s) \<in> set (joined_jobs db)" "snap_provider_peer_id s = me"
    by (auto elim!: find_by_job_idD simp: in_joined_jobs)
  with assms(1) have "job_consumer_peer_id j \<noteq> me"
    by (auto simp: ledger_ok_def no_self_jobs_def)
  with js assms(2) show ?thesis
    by (auto simp: provider_confirm_job_def Let_def in_joined_jobs split: option.splits if_splits
        intro!: ledger_step.row row_step.provider_confirm keeps_keysI)
qed

end
