(* ===== verification/Job_System.thy ===== *)
theory Job_System
  imports Job_Ledger
begin

text \<open>
  Runs of job operations on one node. An operation is one call of a function of \<open>Jobs\<close> with
  its arguments and the clock reading; \<open>job_step\<close> runs it, an error leaving the database as
  it was.
\<close>

datatype job_op =
    Op_create int peer_id currency "string option" string int
  | Op_fail peer_id string string "int option" "string option"
  | Op_provider_complete peer_id string "string option" "string option" string
  | Op_consumer_complete peer_id string "string option" string "string option" int
  | Op_consumer_confirm int
  | Op_set_error int string
  | Op_provider_confirm peer_id string bytes bytes bytes

text \<open>
  Which calls a node makes: it sells to others and buys from others. The peer a job is failed
  or completed for comes from an RPC request and may be any; the Consumer that completes a
  job and the Provider that confirms one are always the node itself.
\<close>

fun op_allowed :: "job_op \<times> datetime \<Rightarrow> database \<Rightarrow> bool" where
  "op_allowed (Op_create sid consumer c args jid ts, now) db =
     (\<exists>s \<in> set (offer_snapshots db). snap_rowid s = sid \<and> snap_provider_peer_id s \<noteq> consumer)"
| "op_allowed _ db = True"

definition or_keep :: "database \<Rightarrow> ('e + 'a) \<Rightarrow> ('a \<Rightarrow> database) \<Rightarrow> database" where
  "or_keep db res f = (case res of Inl _ \<Rightarrow> db | Inr x \<Rightarrow> f x)"

fun job_step ::
  "'pk crypto \<Rightarrow> (bytes \<Rightarrow> bytes) \<Rightarrow> peer_id \<Rightarrow> job_op \<times> datetime \<Rightarrow> database \<Rightarrow> database outcome" where
  "job_step cr sign me (Op_create sid consumer c args jid ts, now) db =
     and_then (create_job db sid consumer c args jid ts now) (\<lambda>(db', rid). Return db')"
| "job_step cr sign me (Op_fail p jid reason reason_class private_payload, now) db =
     Return (or_keep db (fail_job db p jid reason reason_class private_payload now) id)"
| "job_step cr sign me (Op_provider_complete p jid bd priv pub, now) db =
     and_then (provider_complete_job cr db p jid bd priv pub now)
       (\<lambda>res. Return (or_keep db res fst))"
| "job_step cr sign me (Op_consumer_complete p jid bd pub priv ts, now) db =
     Return (or_keep db (consumer_complete_job cr db me p jid bd pub priv ts sign now) fst)"
| "job_step cr sign me (Op_consumer_confirm rid, now) db =
     and_then (consumer_confirm_job db rid now) (\<lambda>res. Return (or_keep db res fst))"
| "job_step cr sign me (Op_set_error rid e, now) db =
     Return (case set_job_confirmation_error db rid e of SetErr_Ok db' \<Rightarrow> db' | _ \<Rightarrow> db)"
| "job_step cr sign me (Op_provider_confirm consumer jid h pk sig, now) db =
     and_then (provider_confirm_job cr db consumer me jid h pk sig now)
       (\<lambda>res. Return (or_keep db res id))"

section \<open>Every operation is a step of the ledger\<close>

lemma job_step_refines:
  assumes "ledger_ok me db" and "op_allowed e db"
  shows "\<exists>db'. job_step cr sign me e db = Return db' \<and> ledger_step me db db'"
proof (cases "(cr, sign, me, e, db)" rule: job_step.cases)
  case (1 cr' sign' me' sid consumer c args jid ts now db')
  then obtain s where s: "s \<in> set (offer_snapshots db)" "snap_rowid s = sid"
      "snap_provider_peer_id s \<noteq> consumer"
    using assms(2) by auto
  have "s' = s" if "s' \<in> set (offer_snapshots db)" "snap_rowid s' = sid" for s'
    using that s wf_rowid_eq [OF wf_databaseD [OF ledger_ok_wf [OF assms(1)]]] by metis
  then have other: "snap_provider_peer_id s' \<noteq> consumer"
    if "s' \<in> set (offer_snapshots db)" "snap_rowid s' = sid" for s'
    using that s(3) by metis
  from create_job_Return [OF s(1,2)] obtain db1 rid where
    run: "create_job db sid consumer c args jid ts now = Return (db1, rid)" by blast
  with create_job_step [OF run other] 1 show ?thesis by simp
next
  case 2
  then show ?thesis
    by (auto simp: or_keep_def split: sum.splits intro: ledger_step.idle fail_job_step)
next
  case (3 cr' sign' me' p jid bd priv pub now db')
  with provider_complete_job_Return [OF ledger_ok_wf [OF assms(1)], of cr p jid bd priv pub now]
  obtain res where "provider_complete_job cr db p jid bd priv pub now = Return res" by blast
  with 3 show ?thesis
    by (cases res) (auto simp: or_keep_def intro: ledger_step.idle provider_complete_job_step)
next
  case 4
  then show ?thesis
    by (auto simp: or_keep_def split: sum.splits intro: ledger_step.idle consumer_complete_job_step)
next
  case (5 cr' sign' me' rid now db')
  with consumer_confirm_job_Return [OF ledger_ok_wf [OF assms(1)], of rid now]
  obtain res where "consumer_confirm_job db rid now = Return res" by blast
  with 5 show ?thesis
    by (cases res) (auto simp: or_keep_def intro: ledger_step.idle consumer_confirm_job_step)
next
  case 6
  then show ?thesis
    by (auto split: set_confirmation_error_result.splits
        intro: ledger_step.idle set_job_confirmation_error_step)
next
  case (7 cr' sign' me' consumer jid h pk sig now db')
  with provider_confirm_job_Return [OF assms(1), of cr consumer me jid h pk sig now]
  obtain res where "provider_confirm_job cr db consumer me jid h pk sig now = Return res" by blast
  with 7 assms(1) show ?thesis
    by (cases res) (auto simp: or_keep_def intro: ledger_step.idle provider_confirm_job_step)
qed

interpretation ledger: monotone_system "job_step cr sign me" "ledger_ok me" op_allowed ledger_facts
  for cr :: "'pk crypto" and sign me
proof unfold_locales
  show "\<exists>db'. job_step cr sign me e db = Return db' \<and> ledger_ok me db'"
    if "ledger_ok me db" "op_allowed e db" for db e
    using job_step_refines [OF that] ledger_step_ok that(1) by blast
  show "ledger_facts db \<subseteq> ledger_facts db'"
    if "ledger_ok me db" "op_allowed e db" "job_step cr sign me e db = Return db'" for db e db'
    using job_step_refines [OF that(1,2), of cr sign] that(3) ledger_step_facts that(1) by auto
qed

lemma ledger_run:
  assumes "ledger_ok me db" and "legal_run (job_step cr sign me) op_allowed es db"
  shows "\<exists>db'. fold_outcome (job_step cr sign me) es db = Return db' \<and> ledger_ok me db' \<and>
    ledger_facts db \<subseteq> ledger_facts db'"
  using ledger.run_safe [OF assms] ledger.run_mono [OF assms] by blast

text \<open>Reading the facts back: what is known of a row is still so in the row with its ID.\<close>

lemma row_fact_rowid:
  "Identity (job_identity j') \<in> row_facts j \<Longrightarrow> job_rowid j' = job_rowid j"
  by (auto simp: row_facts_def job_identity_def split: if_splits)

lemma facts_row:
  assumes "ledger_facts db \<subseteq> ledger_facts db'" and "wf_database db'" and "j \<in> set (service_jobs db)"
  shows "\<exists>j' \<in> set (service_jobs db'). job_identity j' = job_identity j \<and> row_facts j \<subseteq> row_facts j'"
proof -
  have sub: "row_facts j \<subseteq> ledger_facts db'" using assms(1,3) by (auto simp: ledger_facts_def)
  have "Identity (job_identity j) \<in> row_facts j" by (simp add: row_facts_def)
  with sub obtain j' where j': "j' \<in> set (service_jobs db')" "Identity (job_identity j) \<in> row_facts j'"
    by (auto simp: ledger_facts_def)
  then have id: "job_identity j' = job_identity j" by (auto simp: row_facts_def split: if_splits)
  have "f \<in> row_facts j'" if f: "f \<in> row_facts j" for f
  proof -
    obtain j'' where j'': "j'' \<in> set (service_jobs db')" "f \<in> row_facts j''"
      using sub f by (auto simp: ledger_facts_def)
    have "job_rowid j'' = job_rowid j"
      using f j''(2) by (auto simp: row_facts_def job_identity_def split: if_splits)
    moreover have "job_rowid j' = job_rowid j" using id by (simp add: job_identity_def)
    ultimately have "j'' = j'" using wf_job_rowid_eq [OF assms(2) j''(1) j'(1)] by simp
    with j''(2) show ?thesis by simp
  qed
  with j'(1) id show ?thesis by blast
qed

end
