(* ===== verification/Job_Properties.thy ===== *)
theory Job_Properties
  imports Job_System
begin

text \<open>
  What the job ledger guarantees over whole runs: no panic, the invariant, the order of the
  phases, and that failures and confirmations are final.
\<close>

section \<open>Reading final facts back\<close>

lemma facts_phase:
  assumes "row_facts j \<subseteq> row_facts j'"
  shows "job_phase_of j \<le> job_phase_of j'"
proof -
  have "Reached (job_rowid j) (job_phase_of j) \<in> row_facts j" by (simp add: row_facts_def)
  with assms have "Reached (job_rowid j) (job_phase_of j) \<in> row_facts j'" by blast
  then show ?thesis by (auto simp: row_facts_def split: if_splits)
qed

lemma facts_failed:
  assumes "row_facts j \<subseteq> row_facts j'" and "job_reason j = Some r"
  shows "job_reason j' = Some r \<and> job_reason_class j' = job_reason_class j \<and>
    job_phase_of j' = job_phase_of j"
proof -
  have "Failed_for_good (job_rowid j) r (job_reason_class j) (job_phase_of j) \<in> row_facts j"
    using assms(2) by (simp add: row_facts_def)
  with assms(1) have "Failed_for_good (job_rowid j) r (job_reason_class j) (job_phase_of j) \<in> row_facts j'"
    by blast
  then show ?thesis by (auto simp: row_facts_def split: if_splits)
qed

lemma facts_settled:
  assumes "row_facts j \<subseteq> row_facts j'" and "job_signature_confirmed_at_local j \<noteq> None"
  shows "job_signature_confirmed_at_local j' \<noteq> None \<and>
    job_consumer_signature j' = job_consumer_signature j \<and>
    job_balance_delta j' = job_balance_delta j \<and> job_public_payload j' = job_public_payload j \<and>
    job_completed_at_sync j' = job_completed_at_sync j \<and> job_hash j' = job_hash j"
proof -
  have "Settled (job_rowid j) (job_consumer_signature j) (job_balance_delta j)
      (job_public_payload j) (job_completed_at_sync j) (job_hash j) \<in> row_facts j"
    using assms(2) by (simp add: row_facts_def)
  with assms(1) have "Settled (job_rowid j) (job_consumer_signature j) (job_balance_delta j)
      (job_public_payload j) (job_completed_at_sync j) (job_hash j) \<in> row_facts j'" by blast
  then show ?thesis by (auto simp: row_facts_def split: if_splits)
qed

text \<open>Every row of the start is found again at the end of a run, with its identity.\<close>

lemma run_row:
  assumes "ledger_ok me db" and "legal_run (job_step cr sign me) op_allowed es db"
    and "fold_outcome (job_step cr sign me) es db = Return db'" and "j \<in> set (service_jobs db)"
  shows "\<exists>j' \<in> set (service_jobs db'). job_identity j' = job_identity j \<and> row_facts j \<subseteq> row_facts j'"
proof (rule facts_row [OF _ _ assms(4)])
  from ledger_run [OF assms(1,2)] assms(3) have "ledger_ok me db'" "ledger_facts db \<subseteq> ledger_facts db'"
    by auto
  then show "ledger_facts db \<subseteq> ledger_facts db'" "wf_database db'" by (simp_all add: ledger_ok_wf)
qed

section \<open>A concrete ledger\<close>

text \<open>A provider (peer 1) with one offer, which sells a job to a consumer (peer 2).\<close>

definition shop :: database where
  "shop = empty_database\<lparr>peers := [new_peer (PeerId [1]), new_peer (PeerId [2])],
     offer_snapshots := [\<lparr>snap_rowid = 1, snap_provider_peer_id = PeerId [1],
       snap_protocol_id = ''p'', snap_offer_id = ''o'', snap_protocol_payload = ''x'',
       snap_active = True\<rparr>]\<rparr>"

definition plain_crypto :: "bytes crypto" where
  "plain_crypto = \<lparr>sha256 = (\<lambda>b. b), hex_encode = map (\<lambda>w. char_of (unat w)),
     parse_u256_ok = (\<lambda>s. s \<noteq> []), try_decode_protobuf = Some,
     verify = (\<lambda>pk h sig. sig = pk @ h)\<rparr>"

definition shop_ops :: "(job_op \<times> datetime) list" where
  "shop_ops = [(Op_create 1 (PeerId [2]) Polygon None ''j'' 5, 5000000000),
     (Op_provider_complete (PeerId [1]) ''j'' (Some ''7'') None ''done'', 6000000000)]"

lemma ledger_ok_shop [simp]: "ledger_ok me shop"
  by (simp add: ledger_ok_def wf_database_def shop_def empty_database_def peer_ids_def new_peer_def
      wf_snapshots_def no_self_jobs_def joined_jobs_def)

definition shop_job :: job_row where
  "shop_job = \<lparr>job_rowid = 1, job_offer_snapshot_rowid = 1,
     job_consumer_peer_id = PeerId [2], job_currency = Polygon, job_args = None,
     job_provider_job_id = ''j'', job_private_payload = None, job_reason = None,
     job_reason_class = None, job_created_at_local = 5000000000, job_created_at_sync = 5,
     job_completed_at_local = None, job_completed_at_sync = None, job_public_payload = None,
     job_balance_delta = None, job_hash = None, job_consumer_signature = None,
     job_signature_confirmed_at_local = None, job_confirmation_error = None\<rparr>"

definition shop_with :: "job_row \<Rightarrow> database" where
  "shop_with j = shop\<lparr>service_jobs := [j]\<rparr>"

definition failed_job :: job_row where
  "failed_job = shop_job\<lparr>job_reason := Some ''no'', job_completed_at_local := Some 6\<rparr>"

definition confirmed_job :: job_row where
  "confirmed_job = shop_job\<lparr>job_completed_at_sync := Some 6, job_public_payload := Some ''done'',
     job_consumer_signature := Some [1], job_signature_confirmed_at_local := Some 7\<rparr>"

lemma create_shop_job:
  "create_job shop 1 (PeerId [2]) Polygon None ''j'' 5 5000000000 = Return (shop_with shop_job, 1)"
  by (simp add: create_job_def shop_def empty_database_def next_rowid_def trunc_seconds_def
      timestamp_def shop_with_def shop_job_def)

lemma legal_shop: "legal_run (job_step plain_crypto id (PeerId [1])) op_allowed shop_ops shop"
  by (simp add: shop_ops_def create_shop_job) (simp add: shop_def split: outcome.split)

lemma ledger_ok_shop_with [simp]:
  "ledger_ok (PeerId [1]) (shop_with shop_job)" "ledger_ok (PeerId [2]) (shop_with shop_job)"
  "ledger_ok (PeerId [1]) (shop_with failed_job)" "ledger_ok (PeerId [1]) (shop_with confirmed_job)"
  by (simp_all add: ledger_ok_def wf_database_def shop_with_def shop_def empty_database_def
      peer_ids_def new_peer_def wf_snapshots_def no_self_jobs_def joined_jobs_def shop_job_def
      failed_job_def confirmed_job_def job_ok_def)

lemma set_shop_with [simp]: "set (service_jobs (shop_with j)) = {j}"
  by (simp add: shop_with_def)

definition more_ops :: "(job_op \<times> datetime) list" where
  "more_ops = [(Op_provider_complete (PeerId [1]) ''j'' (Some ''7'') None ''done'', 6000000000),
     (Op_provider_confirm (PeerId [2]) ''j'' [] [] [], 7000000000),
     (Op_fail (PeerId [1]) ''j'' ''late'' None None, 8000000000)]"

lemma legal_more: "legal_run (job_step cr sign me) op_allowed more_ops db"
  by (simp add: more_ops_def split: outcome.split)

section \<open>Properties\<close>

text \<open>C6: whatever sequence of job operations a node runs, with whatever arguments peers and modules
  choose, none panics, and the job table keeps its constraints and the consistency of each
  row.\<close>

theorem job_runs_safe:
  assumes "ledger_ok me db" and "legal_run (job_step cr sign me) op_allowed es db"
  shows "\<exists>db'. fold_outcome (job_step cr sign me) es db = Return db' \<and> ledger_ok me db'"
  using ledger_run [OF assms] by blast

theorem job_runs_safe_witness:
  "\<exists>db'. fold_outcome (job_step plain_crypto id (PeerId [1])) shop_ops shop = Return db' \<and>
    ledger_ok (PeerId [1]) db'"
  by (rule job_runs_safe [OF ledger_ok_shop legal_shop])

text \<open>C11: a job only ever moves forward through Open, Completed, Signed and Confirmed, is never
  deleted, and keeps the terms it was created with.\<close>

theorem job_phase_forward:
  assumes "ledger_ok me db" and "legal_run (job_step cr sign me) op_allowed es db"
    and "fold_outcome (job_step cr sign me) es db = Return db'" and "j \<in> set (service_jobs db)"
  shows "\<exists>j' \<in> set (service_jobs db'). job_identity j' = job_identity j \<and>
    job_phase_of j \<le> job_phase_of j'"
  using run_row [OF assms] facts_phase by blast

theorem job_phase_forward_witness:
  "\<exists>db'. fold_outcome (job_step plain_crypto id (PeerId [1])) more_ops (shop_with shop_job) =
      Return db' \<and> (\<exists>j' \<in> set (service_jobs db'). job_identity j' = job_identity shop_job)"
proof -
  obtain db' where run:
    "fold_outcome (job_step plain_crypto id (PeerId [1])) more_ops (shop_with shop_job) = Return db'"
    using ledger_run [OF ledger_ok_shop_with(1) legal_more] by blast
  from job_phase_forward [OF ledger_ok_shop_with(1) legal_more run, of shop_job] run show ?thesis
    by (auto simp: shop_job_def)
qed

text \<open>C10: a failure is final: the reason and its class stay, and a failed job never reaches a later
  phase; in particular it is never signed or confirmed afterwards.\<close>

theorem failed_job_final:
  assumes "ledger_ok me db" and "legal_run (job_step cr sign me) op_allowed es db"
    and "fold_outcome (job_step cr sign me) es db = Return db'" and "j \<in> set (service_jobs db)"
    and "job_reason j = Some r"
  shows "\<exists>j' \<in> set (service_jobs db'). job_identity j' = job_identity j \<and>
    job_reason j' = Some r \<and> job_reason_class j' = job_reason_class j \<and>
    job_phase_of j' = job_phase_of j"
  using run_row [OF assms(1-4)] facts_failed [OF _ assms(5)] by blast

theorem failed_job_final_witness:
  "\<exists>db'. fold_outcome (job_step plain_crypto id (PeerId [1])) more_ops (shop_with failed_job) =
      Return db' \<and> (\<exists>j' \<in> set (service_jobs db'). job_reason j' = Some ''no'')"
proof -
  obtain db' where run:
    "fold_outcome (job_step plain_crypto id (PeerId [1])) more_ops (shop_with failed_job) = Return db'"
    using ledger_run [OF ledger_ok_shop_with(3) legal_more] by blast
  from failed_job_final [OF ledger_ok_shop_with(3) legal_more run, of failed_job] run show ?thesis
    by (auto simp: failed_job_def)
qed

text \<open>C7: a confirmed job is settled: the signature, the balance, the public payload, the completion
  time and the hash it was confirmed with never change again.\<close>

theorem confirmed_job_settled:
  assumes "ledger_ok me db" and "legal_run (job_step cr sign me) op_allowed es db"
    and "fold_outcome (job_step cr sign me) es db = Return db'" and "j \<in> set (service_jobs db)"
    and "job_signature_confirmed_at_local j \<noteq> None"
  shows "\<exists>j' \<in> set (service_jobs db'). job_identity j' = job_identity j \<and>
    job_signature_confirmed_at_local j' \<noteq> None \<and>
    job_consumer_signature j' = job_consumer_signature j \<and>
    job_balance_delta j' = job_balance_delta j \<and> job_public_payload j' = job_public_payload j \<and>
    job_completed_at_sync j' = job_completed_at_sync j \<and> job_hash j' = job_hash j"
  using run_row [OF assms(1-4)] facts_settled [OF _ assms(5)] by blast

theorem confirmed_job_settled_witness:
  "\<exists>db'. fold_outcome (job_step plain_crypto id (PeerId [1])) more_ops (shop_with confirmed_job) =
      Return db' \<and> (\<exists>j' \<in> set (service_jobs db'). job_consumer_signature j' = Some [1])"
proof -
  obtain db' where run:
    "fold_outcome (job_step plain_crypto id (PeerId [1])) more_ops (shop_with confirmed_job) = Return db'"
    using ledger_run [OF ledger_ok_shop_with(4) legal_more] by blast
  from confirmed_job_settled [OF ledger_ok_shop_with(4) legal_more run, of confirmed_job] run show ?thesis
    by (auto simp: confirmed_job_def)
qed

end
