(* ===== verification/Settlement.thy ===== *)
theory Settlement
  imports Job_Properties
begin

text \<open>
  The settlement of a job between two nodes: completion by the Provider, completion and
  signature by the Consumer, confirmation by the Provider, and what may go wrong on the way.
\<close>

section \<open>Row functions of the operations\<close>

definition completed_by_provider ::
  "string option \<Rightarrow> string option \<Rightarrow> string \<Rightarrow> datetime \<Rightarrow> job_row \<Rightarrow> job_row" where
  "completed_by_provider bd priv pub now j = j\<lparr>job_balance_delta := bd,
     job_public_payload := Some pub, job_private_payload := coalesce priv (job_private_payload j),
     job_completed_at_sync := Some (timestamp now)\<rparr>"

definition signed_by_consumer ::
  "string option \<Rightarrow> string \<Rightarrow> string option \<Rightarrow> datetime \<Rightarrow> int \<Rightarrow> bytes \<Rightarrow> bytes \<Rightarrow> job_row \<Rightarrow> job_row"
where
  "signed_by_consumer bd pub priv now ts h sig j = j\<lparr>job_balance_delta := bd,
     job_public_payload := Some pub, job_private_payload := coalesce priv (job_private_payload j),
     job_completed_at_local := Some now, job_completed_at_sync := Some ts,
     job_hash := Some h, job_consumer_signature := Some sig\<rparr>"

definition confirmed_by_provider :: "bytes \<Rightarrow> datetime \<Rightarrow> job_row \<Rightarrow> job_row" where
  "confirmed_by_provider sig now j = j\<lparr>job_consumer_signature := Some sig,
     job_signature_confirmed_at_local := Some now, job_confirmation_error := None\<rparr>"

definition confirmed_by_consumer :: "datetime \<Rightarrow> job_row \<Rightarrow> job_row" where
  "confirmed_by_consumer now j = j\<lparr>job_signature_confirmed_at_local := Some (trunc_seconds now),
     job_confirmation_error := None\<rparr>"

lemmas row_functions = completed_by_provider_def signed_by_consumer_def
  confirmed_by_provider_def confirmed_by_consumer_def

lemma row_functions_keep [simp]:
  "keeps_keys (completed_by_provider bd priv pub now)"
  "keeps_keys (signed_by_consumer bd pub priv now ts h sig)"
  "keeps_keys (confirmed_by_provider sig now)" "keeps_keys (confirmed_by_consumer now)"
  by (rule keeps_keysI; simp add: row_functions)+

text \<open>Looking a job up after one of these updates of its row.\<close>

lemma find_job_row_updated:
  assumes "find_job_row db p jid = Some (j, s)" and "keeps_keys f"
  shows "find_job_row (update_job (job_rowid j) f db) p jid = Some (f j, s)"
  using assms(1) by (simp add: find_job_row_update [OF assms(2)])

lemma find_by_job_id_row:
  "find_job_row db p jid = Some (j, s) \<Longrightarrow> find_by_job_id db p jid = Some (row_to_job_record j s)"
  by (simp add: find_by_job_id_def)

lemma provider_complete_open:
  assumes "wf_database db" and "find_job_row db p jid = Some (j, s)" and "job_reason j = None"
    and "job_completed_at_sync j = None" and "\<not> invalid_balance_delta cr bd (job_currency j)"
  shows "provider_complete_job cr db p jid bd priv pub now = Return (Inr
    (update_job (job_rowid j) (completed_by_provider bd priv pub now) db,
     row_to_job_record (completed_by_provider bd priv pub now j) s))"
proof -
  have "(j, s) \<in> set (joined_jobs db)"
    using find_job_rowD [OF assms(2)] by (simp add: in_joined_jobs)
  from find_by_rowid_update [OF assms(1) row_functions_keep(1) this] assms(2-5) show ?thesis
    by (simp add: provider_complete_job_def completed_by_provider_def [abs_def] Let_def)
qed

lemma consumer_complete_open:
  assumes "find_job_row db p jid = Some (j, s)" and "job_consumer_peer_id j = c"
    and "job_reason j = None" and "job_completed_at_local j = None"
    and "\<not> invalid_balance_delta cr bd (job_currency j)"
    and "h = hash_job cr (hashing_payload (row_to_job_record j s) jid pub ts (hex_balance cr bd))"
  shows "\<exists>rec. consumer_complete_job cr db c p jid bd pub priv ts sign now = Inr
    (update_job (job_rowid j)
      (signed_by_consumer (hex_balance cr bd) pub priv now ts h (sign h)) db, rec)"
proof -
  have "job_provider_job_id j = jid" using find_job_rowD [OF assms(1)] by simp
  then show ?thesis
    using find_by_job_id_row [OF assms(1)] assms(2-6)
    by (simp add: consumer_complete_job_def signed_by_consumer_def [abs_def] Let_def)
qed

lemma provider_confirm_completed:
  assumes "find_job_row db p jid = Some (j, s)" and "job_consumer_peer_id j = c"
    and "job_signature_confirmed_at_local j = None" and "job_completed_at_sync j = Some ts"
    and "job_reason j = None" and "job_public_payload j = Some pub"
    and "h = hash_job cr (hashing_payload (row_to_job_record j s) jid pub ts
      (hex_balance cr (job_balance_delta j)))"
    and "try_decode_protobuf cr pkb = Some pk" and "verify cr pk h sig"
  shows "provider_confirm_job cr db c p jid h pkb sig now = Return (Inr
    (update_job (job_rowid j) (confirmed_by_provider sig now) db))"
  using find_by_job_id_row [OF assms(1)] assms(2-9)
  by (simp add: provider_confirm_job_def confirmed_by_provider_def [abs_def] Let_def)

lemma consumer_confirm_signed:
  assumes "wf_database db" and "(j, s) \<in> set (joined_jobs db)"
    and "job_signature_confirmed_at_local j = None" and "job_consumer_signature j \<noteq> None"
  shows "consumer_confirm_job db (job_rowid j) now = Return (Inr
    (update_job (job_rowid j) (confirmed_by_consumer now) db,
     row_to_job_record (confirmed_by_consumer now j) s))"
proof -
  have "j \<in> set (service_jobs db)" using assms(2) by (simp add: in_joined_jobs)
  from find_job_by_rowid_wf [OF assms(1) this]
    find_by_rowid_update [OF assms(1) row_functions_keep(4) assms(2)] assms(3,4)
  show ?thesis
    by (simp add: consumer_confirm_job_def confirmed_by_consumer_def [abs_def] Let_def)
qed

section \<open>The jobs waiting for confirmation\<close>

lemma fold_collect:
  assumes "\<And>x. x \<in> set xs \<Longrightarrow> \<exists>y. f x = Return y"
  shows "\<exists>ys. fold_outcome (\<lambda>x acc. and_then (f x) (\<lambda>y. Return (acc @ [y]))) xs acc =
      Return (acc @ ys) \<and> map Return ys = map f xs"
  using assms
proof (induction xs arbitrary: acc)
  case (Cons x xs)
  obtain y where y: "f x = Return y" using Cons.prems by force
  obtain ys where "fold_outcome (\<lambda>x acc. and_then (f x) (\<lambda>y. Return (acc @ [y]))) xs (acc @ [y]) =
      Return ((acc @ [y]) @ ys)" "map Return ys = map f xs"
    using Cons.IH [of "acc @ [y]"] Cons.prems by fastforce
  with y show ?case by (intro exI [of _ "y # ys"]) simp
qed simp

lemma phase_Signed_iff:
  "job_phase_of j = Signed \<longleftrightarrow>
     job_consumer_signature j \<noteq> None \<and> job_signature_confirmed_at_local j = None"
  by (simp add: job_phase_of_def)

text \<open>One entry per job of the consumer that is Signed, with the hash it was signed over.\<close>

lemma query_unconfirmed_jobs_run:
  assumes "ledger_ok c db"
  shows "\<exists>us. query_unconfirmed_jobs db c = Return us \<and> (\<forall>u. u \<in> set us \<longleftrightarrow>
    (\<exists>j s. (j, s) \<in> set (joined_jobs db) \<and> job_consumer_peer_id j = c \<and>
      job_phase_of j = Signed \<and> row_to_unconfirmed j s = Return u))"
proof -
  let ?P = "\<lambda>(j, s :: snapshot_row). job_consumer_peer_id j = c \<and>
    job_consumer_signature j \<noteq> None \<and> job_signature_confirmed_at_local j = None"
  let ?xs = "filter ?P (joined_jobs db)"
  let ?f = "\<lambda>(j, s). row_to_unconfirmed j s"
  have "\<exists>u. ?f x = Return u" if "x \<in> set ?xs" for x
  proof -
    obtain j s where x: "x = (j, s)" by (cases x)
    with that have j: "j \<in> set (service_jobs db)" "job_consumer_peer_id j = c"
      "job_consumer_signature j \<noteq> None" by (auto simp: in_joined_jobs)
    with ledger_ok_job [OF assms j(1)] have "job_hash j \<noteq> None" by (simp add: job_ok_def)
    with j x show ?thesis by (auto simp: row_to_unconfirmed_def)
  qed
  from fold_collect [of ?xs ?f "[]", OF this] obtain us where
    us: "fold_outcome (\<lambda>x acc. and_then (?f x) (\<lambda>y. Return (acc @ [y]))) ?xs [] = Return us"
      "map Return us = map ?f ?xs" by auto
  have "(\<lambda>(j, s) acc. and_then (row_to_unconfirmed j s) (\<lambda>u. Return (acc @ [u]))) =
      (\<lambda>x acc. and_then (?f x) (\<lambda>y. Return (acc @ [y])))" by (simp add: fun_eq_iff split: prod.split)
  then have "query_unconfirmed_jobs db c = Return us"
    using us(1) by (simp add: query_unconfirmed_jobs_def)
  moreover have "u \<in> set us \<longleftrightarrow> (\<exists>x \<in> set ?xs. ?f x = Return u)" for u
  proof -
    have "u \<in> set us \<longleftrightarrow> Return u \<in> set (map Return us)" by auto
    also have "\<dots> \<longleftrightarrow> (\<exists>x \<in> set ?xs. Return u = ?f x)"
      unfolding us(2) set_map image_iff ..
    finally show ?thesis by (simp only: eq_commute [of "Return u"])
  qed
  moreover have "(\<exists>x \<in> set ?xs. ?f x = Return u) \<longleftrightarrow> (\<exists>j s. (j, s) \<in> set (joined_jobs db) \<and>
      job_consumer_peer_id j = c \<and> job_phase_of j = Signed \<and> row_to_unconfirmed j s = Return u)" for u
    by (auto simp: phase_Signed_iff Bex_def split_paired_Ex conj_assoc)
  ultimately show ?thesis by simp
qed

section \<open>The whole exchange\<close>

text \<open>The two nodes' rows describe the same deal: what both hash over, before completion.\<close>

definition same_terms :: "job_row \<times> snapshot_row \<Rightarrow> job_row \<times> snapshot_row \<Rightarrow> bool" where
  "same_terms a b \<longleftrightarrow>
     job_consumer_peer_id (fst a) = job_consumer_peer_id (fst b) \<and>
     job_currency (fst a) = job_currency (fst b) \<and>
     job_created_at_sync (fst a) = job_created_at_sync (fst b) \<and>
     snap_provider_peer_id (snd a) = snap_provider_peer_id (snd b) \<and>
     snap_protocol_id (snd a) = snap_protocol_id (snd b) \<and>
     snap_protocol_payload (snd a) = snap_protocol_payload (snd b)"

lemma same_terms_hash:
  assumes "same_terms (jP, sP) (jC, sC)"
  shows "hashing_payload (row_to_job_record (completed_by_provider bd priv pub t jP) sP) jid x ts y =
    hashing_payload (row_to_job_record jC sC) jid x ts y"
  using assms by (simp add: hashing_payload_def same_terms_def completed_by_provider_def)

text \<open>A row that no party has completed yet.\<close>

definition open_job :: "job_row \<Rightarrow> bool" where
  "open_job j \<longleftrightarrow> job_reason j = None \<and> job_completed_at_local j = None \<and>
     job_phase_of j = Open"

lemma open_jobD:
  assumes "open_job j"
  shows "job_reason j = None" "job_completed_at_local j = None" "job_completed_at_sync j = None"
    "job_signature_confirmed_at_local j = None" "job_consumer_signature j = None"
  using assms by (auto simp: open_job_def job_phase_of_def split: if_splits)

text \<open>The Consumer's half: after signing, the job is the one to be confirmed.\<close>

lemma consumer_half:
  assumes "ledger_ok c dbC" and "find_job_row dbC p jid = Some (jC, sC)" and "open_job jC"
    and "job_consumer_peer_id jC = c" and "\<not> invalid_balance_delta cr bd (job_currency jC)"
    and "h = hash_job cr (hashing_payload (row_to_job_record jC sC) jid pub ts (hex_balance cr bd))"
  shows "\<exists>dbC1 rc us u. consumer_complete_job cr dbC c p jid bd pub priv ts sign t2 = Inr (dbC1, rc) \<and>
    query_unconfirmed_jobs dbC1 c = Return us \<and> u \<in> set us \<and> uj_provider_peer_id u = p \<and>
    uj_provider_job_id u = jid \<and> uj_hash u = h \<and> uj_consumer_signature u = sign h \<and>
    (\<exists>dbC2 rc2 j s. consumer_confirm_job dbC1 (uj_rowid u) t4 = Return (Inr (dbC2, rc2)) \<and>
      find_job_row dbC2 p jid = Some (j, s) \<and> job_phase_of j = Confirmed \<and>
      job_consumer_signature j = Some (sign h))"
proof -
  note o = open_jobD [OF assms(3)]
  let ?f = "signed_by_consumer (hex_balance cr bd) pub priv t2 ts h (sign h)"
  let ?dbC1 = "update_job (job_rowid jC) ?f dbC"
  obtain rc where run: "consumer_complete_job cr dbC c p jid bd pub priv ts sign t2 = Inr (?dbC1, rc)"
    using consumer_complete_open [OF assms(2,4) o(1,2) assms(5,6), of priv sign t2] by blast
  have ok1: "ledger_ok c ?dbC1"
    by (rule ledger_step_ok [OF consumer_complete_job_step [OF run] assms(1)])
  note found = find_job_row_updated [OF assms(2) row_functions_keep(2), of "hex_balance cr bd" pub priv t2 ts h "sign h"]
  have row: "?f jC = jC\<lparr>job_balance_delta := hex_balance cr bd, job_public_payload := Some pub,
      job_private_payload := coalesce priv (job_private_payload jC), job_completed_at_local := Some t2,
      job_completed_at_sync := Some ts, job_hash := Some h, job_consumer_signature := Some (sign h)\<rparr>"
    by (simp add: signed_by_consumer_def)
  have mem: "(?f jC, sC) \<in> set (joined_jobs ?dbC1)"
    using find_job_rowD [OF found] by (simp add: in_joined_jobs)
  let ?u = "\<lparr>uj_rowid = job_rowid jC, uj_provider_peer_id = snap_provider_peer_id sC,
    uj_provider_job_id = job_provider_job_id jC, uj_hash = h, uj_consumer_signature = sign h\<rparr>"
  have u: "row_to_unconfirmed (?f jC) sC = Return ?u" "job_phase_of (?f jC) = Signed"
    "job_consumer_peer_id (?f jC) = c"
    using o assms(4) by (simp_all add: row row_to_unconfirmed_def job_phase_of_def)
  from query_unconfirmed_jobs_run [OF ok1] mem u obtain us where
    us: "query_unconfirmed_jobs ?dbC1 c = Return us" "?u \<in> set us" by blast
  let ?g = "confirmed_by_consumer t4"
  have conf: "consumer_confirm_job ?dbC1 (job_rowid jC) t4 = Return (Inr
      (update_job (job_rowid jC) ?g ?dbC1, row_to_job_record (?g (?f jC)) sC))"
    using consumer_confirm_signed [OF ledger_ok_wf [OF ok1] mem, of t4] o by (simp add: row)
  have "find_job_row (update_job (job_rowid jC) ?g ?dbC1) p jid = Some (?g (?f jC), sC)"
    using find_job_row_updated [OF found row_functions_keep(4), of t4] by (simp add: row)
  moreover have "job_phase_of (?g (?f jC)) = Confirmed" "job_consumer_signature (?g (?f jC)) = Some (sign h)"
    by (simp_all add: row confirmed_by_consumer_def job_phase_of_def)
  ultimately have "\<exists>dbC2 rc2 j s. consumer_confirm_job ?dbC1 (uj_rowid ?u) t4 = Return (Inr (dbC2, rc2)) \<and>
      find_job_row dbC2 p jid = Some (j, s) \<and> job_phase_of j = Confirmed \<and>
      job_consumer_signature j = Some (sign h)"
    using conf by (intro exI conjI) simp_all
  moreover have "uj_provider_peer_id ?u = p" "uj_provider_job_id ?u = jid"
    using find_job_rowD [OF assms(2)] by simp_all
  ultimately show ?thesis using run us by (intro exI [of _ ?dbC1] exI [of _ rc] exI [of _ us] exI [of _ ?u]) simp
qed

text \<open>The Provider's half: completed, its job accepts the signature over its own hash.\<close>

lemma provider_half:
  assumes "ledger_ok p dbP" and "find_job_row dbP p jid = Some (jP, sP)" and "open_job jP"
    and "job_consumer_peer_id jP = c" and "\<not> invalid_balance_delta cr bd (job_currency jP)"
    and "h = hash_job cr (hashing_payload (row_to_job_record (completed_by_provider bd priv pub t1 jP) sP)
      jid pub (timestamp t1) (hex_balance cr bd))"
    and "try_decode_protobuf cr pkb = Some pk" and "verify cr pk h sig"
  shows "\<exists>dbP1 r. provider_complete_job cr dbP p jid bd priv pub t1 = Return (Inr (dbP1, r)) \<and>
    jr_balance_delta r = bd \<and> jr_public_payload r = Some pub \<and>
    jr_completed_at_sync r = Some (timestamp t1) \<and>
    (\<exists>dbP2 j s. provider_confirm_job cr dbP1 c p jid h pkb sig t3 = Return (Inr dbP2) \<and>
      find_job_row dbP2 p jid = Some (j, s) \<and> job_phase_of j = Confirmed \<and>
      job_consumer_signature j = Some sig)"
proof -
  note o = open_jobD [OF assms(3)]
  let ?f = "completed_by_provider bd priv pub t1"
  let ?dbP1 = "update_job (job_rowid jP) ?f dbP"
  have run: "provider_complete_job cr dbP p jid bd priv pub t1 = Return (Inr
      (?dbP1, row_to_job_record (?f jP) sP))"
    by (rule provider_complete_open [OF ledger_ok_wf [OF assms(1)] assms(2) o(1,3) assms(5)])
  have found: "find_job_row ?dbP1 p jid = Some (?f jP, sP)"
    by (rule find_job_row_updated [OF assms(2)]) simp
  let ?g = "confirmed_by_provider sig t3"
  have "provider_confirm_job cr ?dbP1 c p jid h pkb sig t3 = Return (Inr
      (update_job (job_rowid (?f jP)) ?g ?dbP1))"
    by (rule provider_confirm_completed [OF found _ _ _ _ _ _ assms(7,8)])
      (use o assms(4,6) in \<open>simp_all add: completed_by_provider_def\<close>)
  moreover have "find_job_row (update_job (job_rowid (?f jP)) ?g ?dbP1) p jid = Some (?g (?f jP), sP)"
    by (rule find_job_row_updated [OF found]) simp
  moreover have "job_phase_of (?g (?f jP)) = Confirmed" "job_consumer_signature (?g (?f jP)) = Some sig"
    by (simp_all add: confirmed_by_provider_def job_phase_of_def)
  moreover have "jr_balance_delta (row_to_job_record (?f jP) sP) = bd"
    "jr_public_payload (row_to_job_record (?f jP) sP) = Some pub"
    "jr_completed_at_sync (row_to_job_record (?f jP) sP) = Some (timestamp t1)"
    by (simp_all add: completed_by_provider_def)
  ultimately show ?thesis using run by blast
qed

text \<open>Both halves of the settlement of one deal.\<close>

lemma settlement_run:
  assumes "ledger_ok p dbP" and "find_job_row dbP p jid = Some (jP, sP)" and "open_job jP"
    and "ledger_ok c dbC" and "find_job_row dbC p jid = Some (jC, sC)" and "open_job jC"
    and "same_terms (jP, sP) (jC, sC)" and "job_consumer_peer_id jC = c"
    and "\<not> invalid_balance_delta cr bd (job_currency jC)"
    and "try_decode_protobuf cr pkb = Some pk" and "\<And>h. verify cr pk h (sign h)"
  shows "\<exists>dbP1 r dbC1 rc us u dbP2 dbC2 rc2 j s j' s'.
    provider_complete_job cr dbP p jid bd priv pub t1 = Return (Inr (dbP1, r)) \<and>
    jr_balance_delta r = bd \<and> jr_public_payload r = Some pub \<and>
    jr_completed_at_sync r = Some (timestamp t1) \<and>
    consumer_complete_job cr dbC c p jid bd pub priv' (timestamp t1) sign t2 = Inr (dbC1, rc) \<and>
    query_unconfirmed_jobs dbC1 c = Return us \<and> u \<in> set us \<and> uj_provider_peer_id u = p \<and>
    uj_provider_job_id u = jid \<and>
    provider_confirm_job cr dbP1 c p jid (uj_hash u) pkb (uj_consumer_signature u) t3 =
      Return (Inr dbP2) \<and>
    consumer_confirm_job dbC1 (uj_rowid u) t4 = Return (Inr (dbC2, rc2)) \<and>
    find_job_row dbP2 p jid = Some (j, s) \<and> find_job_row dbC2 p jid = Some (j', s') \<and>
    job_phase_of j = Confirmed \<and> job_phase_of j' = Confirmed \<and>
    job_consumer_signature j = job_consumer_signature j' \<and> job_consumer_signature j \<noteq> None"
proof -
  let ?h = "hash_job cr (hashing_payload (row_to_job_record jC sC) jid pub (timestamp t1)
    (hex_balance cr bd))"
  have hash: "?h = hash_job cr (hashing_payload (row_to_job_record
      (completed_by_provider bd priv pub t1 jP) sP) jid pub (timestamp t1) (hex_balance cr bd))"
    by (simp add: same_terms_hash [OF assms(7)])
  have jP: "job_consumer_peer_id jP = c" "\<not> invalid_balance_delta cr bd (job_currency jP)"
    using assms(7-9) by (simp_all add: same_terms_def)
  from provider_half [OF assms(1-3) jP hash assms(10) assms(11), of t3] obtain dbP1 r dbP2 j s where
    P: "provider_complete_job cr dbP p jid bd priv pub t1 = Return (Inr (dbP1, r))"
      "jr_balance_delta r = bd" "jr_public_payload r = Some pub"
      "jr_completed_at_sync r = Some (timestamp t1)"
      "provider_confirm_job cr dbP1 c p jid ?h pkb (sign ?h) t3 = Return (Inr dbP2)"
      "find_job_row dbP2 p jid = Some (j, s)" "job_phase_of j = Confirmed"
      "job_consumer_signature j = Some (sign ?h)" by blast
  from consumer_half [OF assms(4-6,8,9) refl,
      where pub = pub and ts = "timestamp t1" and priv = priv' and sign = sign and ?t2.0 = t2 and ?t4.0 = t4]
  obtain dbC1 rc us u dbC2 rc2 j' s' where
    C: "consumer_complete_job cr dbC c p jid bd pub priv' (timestamp t1) sign t2 = Inr (dbC1, rc)"
      "query_unconfirmed_jobs dbC1 c = Return us" "u \<in> set us" "uj_provider_peer_id u = p"
      "uj_provider_job_id u = jid" "uj_hash u = ?h" "uj_consumer_signature u = sign ?h"
      "consumer_confirm_job dbC1 (uj_rowid u) t4 = Return (Inr (dbC2, rc2))"
      "find_job_row dbC2 p jid = Some (j', s')" "job_phase_of j' = Confirmed"
      "job_consumer_signature j' = Some (sign ?h)" by blast
  show ?thesis
    by (rule exI [of _ dbP1], rule exI [of _ r], rule exI [of _ dbC1], rule exI [of _ rc],
        rule exI [of _ us], rule exI [of _ u], rule exI [of _ dbP2], rule exI [of _ dbC2],
        rule exI [of _ rc2], rule exI [of _ j], rule exI [of _ s], rule exI [of _ j'],
        rule exI [of _ s']) (simp add: P C)
qed

section \<open>What an accepted confirmation means\<close>

lemma provider_confirm_acceptance:
  assumes "provider_confirm_job cr db c me jid h pkb sig now = Return (Inr db')"
  shows "\<exists>j s ts pub pk. find_job_row db me jid = Some (j, s) \<and> job_consumer_peer_id j = c \<and>
    job_signature_confirmed_at_local j = None \<and> job_reason j = None \<and>
    job_completed_at_sync j = Some ts \<and> job_public_payload j = Some pub \<and>
    h = hash_job cr (hashing_payload (row_to_job_record j s) jid pub ts
      (hex_balance cr (job_balance_delta j))) \<and>
    try_decode_protobuf cr pkb = Some pk \<and> verify cr pk h sig \<and>
    find_job_row db' me jid = Some (confirmed_by_provider sig now j, s)"
proof -
  from assms obtain r where r: "find_by_job_id db me jid = Some r"
    by (auto simp: provider_confirm_job_def split: option.splits)
  then obtain j s where row: "find_job_row db me jid = Some (j, s)" "r = row_to_job_record j s"
    by (rule find_by_job_idD)
  from assms r row(2) obtain ts pub pk where
    facts: "job_consumer_peer_id j = c" "job_signature_confirmed_at_local j = None"
      "job_completed_at_sync j = Some ts" "job_reason j = None" "job_public_payload j = Some pub"
      "h = hash_job cr (hashing_payload (row_to_job_record j s) jid pub ts
        (hex_balance cr (job_balance_delta j)))"
      "try_decode_protobuf cr pkb = Some pk" "verify cr pk h sig"
    by (auto simp: provider_confirm_job_def Let_def split: option.splits if_splits)
  have "db' = update_job (job_rowid j) (confirmed_by_provider sig now) db"
    using provider_confirm_completed [OF row(1) facts, of now] assms by simp
  with find_job_row_updated [OF row(1) row_functions_keep(3), of sig now] row(1) facts show ?thesis
    by metis
qed

lemma provider_confirm_accepted:
  assumes "provider_confirm_job cr db c me jid h pkb sig now = Return (Inr db')"
  shows "\<exists>j s. find_job_row db' me jid = Some (j, s) \<and> job_consumer_peer_id j = c \<and>
    job_signature_confirmed_at_local j \<noteq> None \<and> job_consumer_signature j = Some sig"
  using provider_confirm_acceptance [OF assms] by (auto simp: confirmed_by_provider_def)

end
