(* ===== verification/Db_Properties.thy ===== *)
theory Db_Properties
  imports Settlement
begin

text \<open>
  Properties of the stored data: what the job hash binds, what recording an offer does, and
  how jobs and providers are looked up.
\<close>

section \<open>The job hash\<close>

lemma of_char_inject_u8: "(of_char c :: u8) = of_char d \<longleftrightarrow> c = d"
proof -
  have "unat (of_char e :: u8) = of_char e" for e
    by (rule of_nat_inverse [OF of_nat_of_char]) (use nat_of_char_less_256 [of e] in simp)
  then show ?thesis by (metis of_char_eq_iff)
qed

lemma str_bytes_inject [simp]: "str_bytes s = str_bytes t \<longleftrightarrow> s = t"
proof -
  have "inj (of_char :: char \<Rightarrow> u8)" by (simp add: inj_def of_char_inject_u8)
  then show ?thesis unfolding str_bytes_def by (rule inj_map_eq_map)
qed

lemma str_bytes_append: "str_bytes s @ str_bytes t = str_bytes (s @ t)"
  by (simp add: str_bytes_def)

text \<open>The text of a balance in the hash: an absent balance is hashed like an empty one.\<close>

definition balance_text :: "string option \<Rightarrow> string" where
  "balance_text b = (case b of None \<Rightarrow> '''' | Some d \<Rightarrow> d)"

lemma hash_input_balance:
  "hash_input job = peer_bytes (hp_consumer_peer_id job) @ peer_bytes (hp_provider_peer_id job) @
     str_bytes (hp_protocol_id job @ hp_offer_payload job @ hp_currency job @
       hp_provider_job_id job @ i64_to_string (hp_job_created_at_sync job) @
       hp_job_public_payload job @ i64_to_string (hp_job_completed_at_sync job) @
       balance_text (hp_balance_delta job))"
  by (simp add: hash_input_def balance_text_def str_bytes_def split: option.split)

lemma peer_bytes_inject [simp]: "peer_bytes p = peer_bytes q \<longleftrightarrow> p = q"
  by (cases p; cases q) simp


text \<open>C39: the fields are hashed one after the other without separators, so different jobs can have the
  same hash whatever the hash function is: here two jobs that differ in protocol and offer
  payload, and two whose completion time and balance differ.\<close>

theorem hash_input_ambiguous:
  "(\<exists>a b. hp_protocol_id a \<noteq> hp_protocol_id b \<and> hp_offer_payload a \<noteq> hp_offer_payload b \<and>
     hash_job cr a = hash_job cr b) \<and>
   (\<exists>a b. hp_job_completed_at_sync a \<noteq> hp_job_completed_at_sync b \<and>
     balance_text (hp_balance_delta a) \<noteq> balance_text (hp_balance_delta b) \<and>
     hash_job cr a = hash_job cr b)"
proof
  let ?job = "\<lambda>proto pay t bal. \<lparr>hp_consumer_peer_id = PeerId [2], hp_provider_peer_id = PeerId [1],
    hp_protocol_id = proto, hp_offer_payload = pay, hp_currency = ''POL'', hp_provider_job_id = ''j'',
    hp_job_created_at_sync = 5, hp_job_public_payload = ''done'', hp_job_completed_at_sync = t,
    hp_balance_delta = bal\<rparr>"
  have "hash_job cr (?job ''ab'' ''c'' 6 None) = hash_job cr (?job ''a'' ''bc'' 6 None)"
    by (simp add: hash_job_def hash_input_balance)
  then show "\<exists>a b. hp_protocol_id a \<noteq> hp_protocol_id b \<and> hp_offer_payload a \<noteq> hp_offer_payload b \<and>
     hash_job cr a = hash_job cr b"
    by (intro exI [of _ "?job ''ab'' ''c'' 6 None"] exI [of _ "?job ''a'' ''bc'' 6 None"]) simp
  have "i64_to_string 63 = i64_to_string 6 @ ''3''"
    by code_simp
  then have "hash_job cr (?job ''a'' ''b'' 6 (Some ''37'')) = hash_job cr (?job ''a'' ''b'' 63 (Some ''7''))"
    by (simp add: hash_job_def hash_input_balance balance_text_def)
  then show "\<exists>a b. hp_job_completed_at_sync a \<noteq> hp_job_completed_at_sync b \<and>
     balance_text (hp_balance_delta a) \<noteq> balance_text (hp_balance_delta b) \<and>
     hash_job cr a = hash_job cr b"
    by (intro exI [of _ "?job ''a'' ''b'' 6 (Some ''37'')"] exI [of _ "?job ''a'' ''b'' 63 (Some ''7'')"])
      (simp add: balance_text_def)
qed

section \<open>Recording an offer\<close>



text \<open>C40: while a snapshot of the offer is active with another payload, recording the new payload
  never succeeds in making it active: the call panics, or it returns the ID of the old
  snapshot and the database still lists the old payload.\<close>

theorem upsert_keeps_stale_payload:
  assumes "wf_database db" and "\<And>rs. rs \<noteq> [] \<Longrightarrow> pick rs \<in> set rs"
    and "active_payload (offer_snapshots db) (me, p, o') = Some old" and "old \<noteq> payload"
  shows "upsert pick db me o' p payload = Panic \<or>
    (\<exists>db' rid snap. upsert pick db me o' p payload = Return (db', rid) \<and>
      active_payload (offer_snapshots db') = active_payload (offer_snapshots db) \<and>
      offers_find db' rid = Some snap \<and> os_protocol_payload snap = old)"
proof -
  let ?db1 = "ensure_peer me db"
  obtain r where r: "active_row (offer_snapshots db) (me, p, o') = Some r"
    "snap_protocol_payload r = old"
    using assms(3) by (auto simp: active_payload_def)
  have "snap_protocol_payload r \<noteq> payload" using r(2) assms(4) by simp
  from upsert_snapshot_other [OF wf_databaseD [OF assms(1)] r(1) this assms(2)]
  show ?thesis
  proof
    assume "upsert_snapshot pick (me, p, o') payload (offer_snapshots db) =
      Return (offer_snapshots db, snap_rowid r)"
    then have "upsert pick db me o' p payload = Return (?db1, snap_rowid r)"
      by (simp add: upsert_def Let_def)
    moreover have "offers_find ?db1 (snap_rowid r) = Some (row_to_snapshot r)"
      using offers_find_row [of ?db1 r] wf_databaseD [OF assms(1)] active_row_SomeD [OF r(1)] by simp
    ultimately show ?thesis using r(2) by (simp add: row_to_snapshot_def)
  next
    assume "upsert_snapshot pick (me, p, o') payload (offer_snapshots db) = Panic"
    then show ?thesis by (intro disjI1) (simp add: upsert_def Let_def)
  qed
qed

theorem upsert_keeps_stale_payload_witness:
  "upsert hd shop (PeerId [1]) ''o'' ''p'' ''new'' = Panic \<or>
    (\<exists>db' rid snap. upsert hd shop (PeerId [1]) ''o'' ''p'' ''new'' = Return (db', rid) \<and>
      offers_find db' rid = Some snap \<and> os_protocol_payload snap = ''x'')"
proof -
  have "active_payload (offer_snapshots shop) (PeerId [1], ''p'', ''o'') = Some ''x''"
    by (simp add: active_payload_def active_row_def shop_def snap_key_def)
  from upsert_keeps_stale_payload [OF ledger_ok_wf [OF ledger_ok_shop] _ this, of hd "''new''"]
  show ?thesis by auto
qed

end
