(* ===== verification/Frames.thy ===== *)
theory Frames
  imports Db_Schema
begin

text \<open>
  The messages between peers (\<open>src/src/p2p/proto\<close>) and between the node and its RPC clients
  (\<open>src/src/rpc/procedure.rs\<close> and the request and response types of the procedures).
\<close>

text \<open>What awaiting a \<open>tokio\<close> one-shot channel gives: the value, or an error if its sender is gone.\<close>

datatype 'a received = Received 'a | Sender_Dropped

section \<open>Peer to peer\<close>

record create_job_request =
  cj_protocol_id :: string
  cj_offer_id :: string
  cj_offer_payload :: string
  cj_currency :: currency
  cj_job_args :: "string option"

record get_job_request =
  gj_provider_job_id :: string

record confirm_job_request =
  cf_provider_job_id :: string
  cf_job_hash :: bytes
  cf_consumer_public_key :: bytes
  cf_consumer_signature :: bytes

datatype p2p_request =
    CreateJob create_job_request
  | GetJob get_job_request
  | ConfirmJob confirm_job_request

datatype create_job_response =
    CreateJob_Ok string int
  | CreateJob_OfferNotFound
  | CreateJob_OfferPayloadMismatch
  | CreateJob_InvalidJobArgs string
  | CreateJob_Busy

datatype get_job_response =
    GetJob_Ok (gr_public_payload: "string option") (gr_balance_delta: "string option")
      (gr_created_at_sync: int) (gr_completed_at_sync: "int option")
  | GetJob_JobNotFound

datatype confirm_job_response =
    ConfirmJob_Ok
  | ConfirmJob_JobNotFound
  | ConfirmJob_NotCompletedYet
  | ConfirmJob_AlreadyFailed
  | ConfirmJob_HashMismatch bytes
  | ConfirmJob_InvalidPublicKey
  | ConfirmJob_InvalidSignature
  | ConfirmJob_AlreadyConfirmed
  | ConfirmJob_UnexpectedResponse

datatype p2p_response =
    R_CreateJob create_job_response
  | R_GetJob get_job_response
  | R_ConfirmJob confirm_job_response

text \<open>
  \<open>InboundResponse\<close>: what an outbound request ends with, as libp2p reports it to the sender:
  the peer's response or an \<open>OutboundFailure\<close>.
\<close>

datatype outbound_failure = OutboundFailure

type_synonym inbound_response = "outbound_failure + p2p_response"

datatype head_request = HeadRequest_JobConnection (hr_provider_job_id: string)

datatype job_connection_head_response =
    Head_Ok
  | Head_JobNotFound
  | Head_JobExpired
  | Head_Busy
  | Head_AnotherError string

datatype head_response = HeadResponse_JobConnection job_connection_head_response

section \<open>RPC: requests of the client\<close>

record fail_job_request =
  fj_provider_peer_id :: peer_id
  fj_provider_job_id :: string
  fj_reason :: string
  fj_reason_class :: "int option"
  fj_private_payload :: "string option"

record consumer_complete_job_request =
  cc_provider_peer_id :: peer_id
  cc_provider_job_id :: string
  cc_public_payload :: string
  cc_private_payload :: "string option"
  cc_balance_delta :: "string option"
  cc_completed_at_sync :: int

record consumer_create_job_request =
  cr_offer_snapshot_id :: int
  cr_currency :: currency
  cr_job_args :: "string option"

record consumer_get_job_request =
  cg_provider_peer_id :: peer_id
  cg_provider_job_id :: string

record consumer_open_job_connection_request =
  co_provider_peer_id :: peer_id
  co_provider_job_id :: string

record provider_complete_job_request =
  pc_provider_peer_id :: peer_id
  pc_provider_job_id :: string
  pc_balance_delta :: "string option"
  pc_public_payload :: string
  pc_private_payload :: "string option"

record provider_provide_request =
  pp_protocol_id :: string
  pp_offer_id :: string
  pp_protocol_payload :: string

record jobs_query_request =
  jq_database_row_id_cursor :: "int option"
  jq_protocol_ids :: "string list option"
  jq_provider_peer_ids :: "peer_id list option"
  jq_consumer_peer_ids :: "peer_id list option"
  jq_limit :: int

record active_offers_query_request =
  aq_protocol_ids :: "string list option"
  aq_provider_peer_ids :: "peer_id list option"

record active_offers_subscription_request =
  as_protocol_ids :: "string list option"
  as_provider_peer_ids :: "string list option"

record jobs_subscription_request =
  js_protocol_ids :: "string list option"
  js_provider_peer_ids :: "string list option"
  js_consumer_peer_ids :: "string list option"

datatype inbound_request_data =
    FailJob fail_job_request
  | ConsumerCompleteJob consumer_complete_job_request
  | ConsumerCreateJob consumer_create_job_request
  | ConsumerGetJob consumer_get_job_request
  | ConsumerOpenJobConnection consumer_open_job_connection_request
  | ProviderCompleteJob provider_complete_job_request
  | ProviderProvide provider_provide_request
  | QueryJobs jobs_query_request
  | QueryOfferSnapshots "int list"
  | QueryActiveProviders
  | QueryActiveOffers active_offers_query_request
  | QueryProviders "peer_id list"
  | QuerySystem
  | CancelSubscription u32
  | SubscribeToJobs jobs_subscription_request
  | SubscribeToActiveOffers active_offers_subscription_request
  | SubscribeToActiveProviders

section \<open>RPC: responses of the client\<close>

datatype provider_create_job_response =
    PCreate_Ok
  | PCreate_InvalidJobArgs string
  | PCreate_Busy

datatype provider_prepare_job_connection_response =
    Prepare_Ok string
  | Prepare_JobNotFound
  | Prepare_Busy

datatype inbound_response_data =
    Ack
  | ProviderCreateJobResponse provider_create_job_response
  | ProviderPrepareJobConnectionResponse provider_prepare_job_connection_response

datatype inbound_frame =
    In_Request u32 inbound_request_data
  | In_Response u32 inbound_response_data

section \<open>RPC: requests of the node\<close>

datatype outbound_request_data =
    EventOfferRemoved u32 offer_removed
  | EventOfferUpdated u32 offer_snapshot
  | EventProviderHeartbeat u32 provider_heartbeat
  | EventProviderUpdated u32 provider_record
  | EventJobUpdated u32 job_record
  | ProviderCreateJob peer_id string string string int "string option"
  | ProviderPrepareJobConnection peer_id string
  | ProviderOpenJobConnection u64 string

section \<open>RPC: responses of the node\<close>

datatype fail_job_response =
    FailJob_Ok
  | FailJob_JobNotFound
  | FailJob_AlreadyCompleted
  | FailJob_AlreadyFailed string "int option"

datatype consumer_complete_job_response =
    CCompleteJob_Ok
  | CCompleteJob_InvalidJobId
  | CCompleteJob_InvalidConsumerPeerId
  | CCompleteJob_AlreadyFailed string "int option"
  | CCompleteJob_AlreadyCompleted
  | CCompleteJob_InvalidBalanceDelta

datatype consumer_create_job_response =
    CCreateJob_Ok peer_id string
  | CCreateJob_LocalOfferNotFound
  | CCreateJob_ProviderUnreacheable
  | CCreateJob_ProviderInvalidResponse
  | CCreateJob_ProviderOfferNotFound
  | CCreateJob_ProviderOfferPayloadMismatch
  | CCreateJob_InvalidJobArgs string
  | CCreateJob_ProviderBusy

datatype consumer_get_job_response =
    CGetJob_Ok "string option" "string option" int "int option"
  | CGetJob_ProviderUnreacheable
  | CGetJob_JobNotFound

datatype consumer_open_job_connection_response =
    COpen_Ok u64
  | COpen_LocalJobNotFound
  | COpen_ProviderUnreacheable
  | COpen_ProviderJobNotFound
  | COpen_ProviderJobExpired
  | COpen_ProviderBusy
  | COpen_OtherRemoteError string
  | COpen_OtherLocalError string

datatype provider_complete_job_response =
    PCompleteJob_Ok int
  | PCompleteJob_JobNotFound
  | PCompleteJob_AlreadyCompleted int
  | PCompleteJob_AlreadyFailed string "int option"
  | PCompleteJob_InvalidBalanceDelta

datatype provider_provide_response = Provide_Ok | Provide_DuplicateOffer string string

datatype jobs_query_response = JobsQuery_Ok "job_record list" | JobsQuery_InvalidLimit

datatype offer_snapshots_query_response = Snapshots_Ok "offer_snapshot list" | Snapshots_Length

datatype providers_query_response = Providers_Ok "provider_record list" | Providers_Length

datatype subscription_response = Subscribed u32 | InvalidPeerId string

datatype cancel_subscription_response = Cancel_Ok | Cancel_InvalidSubscriptionId

datatype outbound_response_data =
    R_FailJob fail_job_response
  | R_ConsumerCompleteJob consumer_complete_job_response
  | R_ConsumerCreateJob consumer_create_job_response
  | R_ConsumerGetJob consumer_get_job_response
  | R_ConsumerOpenJobConnection consumer_open_job_connection_response
  | R_ProviderCompleteJob provider_complete_job_response
  | R_ProviderProvide provider_provide_response
  | R_QueryJobs jobs_query_response
  | R_QueryOfferSnapshots offer_snapshots_query_response
  | R_QueryActiveProviders "peer_id list"
  | R_QueryActiveOffers "offer_snapshot list"
  | R_QueryProviders providers_query_response
  | R_QuerySystem peer_id
  | R_CancelSubscription cancel_subscription_response
  | R_SubscribeToJobs subscription_response
  | R_SubscribeToActiveOffers subscription_response
  | R_SubscribeToActiveProviders u32

datatype outbound_frame =
    Out_Request u32 outbound_request_data
  | Out_Response u32 outbound_response_data

end
