(* ===== verification/Provider_State.thy ===== *)
theory Provider_State
  imports Offers Frames
begin

text \<open>
  The offers this node provides: \<open>ProviderState\<close> and \<open>ProviderModuleState\<close> of
  \<open>src/src/state.rs\<close>, the \<open>ProviderProvide\<close> request of
  \<open>src/src/rpc/procedure/provider/provide.rs\<close> and the clean-up when the RPC connection of
  a provider module closes (end of \<open>handle_connection\<close>, \<open>src/src/rpc/connection.rs\<close>).
\<close>

section \<open>State\<close>

record provided_offer =
  po_snapshot_rowid :: int
  po_protocol_payload :: string

text \<open>
  A module shares the channel, the connection counter and the stream table of the RPC
  connection it was created on; \<open>pm_connection\<close> is the number of that connection.
\<close>

record provider_module =
  pm_connection :: nat
  pm_offers :: "(string, (string, provided_offer) hash_map) hash_map"

record provider_state =
  module_ids_counter :: u32
  modules :: "(u32, provider_module) hash_map"
  offers_module_map :: "(string, (string, u32) hash_map) hash_map"
  last_updated_at :: datetime

definition initial_provider_state :: "datetime \<Rightarrow> provider_state" where
  "initial_provider_state now =
     \<lparr>module_ids_counter = 0, modules = [], offers_module_map = [], last_updated_at = now\<rparr>"

section \<open>Operations\<close>

text \<open>
  \<open>find_offer\<close> looks the module up in one map and the offer in the module's own map; it
  panics if the two are out of step.
\<close>

definition find_offer ::
  "provider_state \<Rightarrow> string \<Rightarrow> string \<Rightarrow> (provider_module \<times> provided_offer) option outcome" where
  "find_offer st protocol_id offer_id =
     (case map_of (offers_module_map st) protocol_id of
        None \<Rightarrow> Return None
      | Some module_ids_by_offer \<Rightarrow>
          (case map_of module_ids_by_offer offer_id of
             None \<Rightarrow> Return None
           | Some module_id \<Rightarrow>
               (case map_of (modules st) module_id of
                  None \<Rightarrow> Panic
                | Some m \<Rightarrow>
                    (case nested_get (pm_offers m) protocol_id offer_id of
                       None \<Rightarrow> Panic
                     | Some provided \<Rightarrow> Return (Some (m, provided))))))"


text \<open>
  Find the connection's module, or create one under the next module ID. The counter is a
  \<open>u32\<close>; its increment wraps in a release build.
\<close>

definition new_module :: "nat \<Rightarrow> provider_state \<Rightarrow> provider_state" where
  "new_module conn st =
     (let module_id = module_ids_counter st
      in st\<lparr>module_ids_counter := module_id + 1, modules := AList.update module_id
           \<lparr>pm_connection = conn, pm_offers = []\<rparr> (modules st)\<rparr>)"

definition acquire_module ::
  "nat \<Rightarrow> u32 option \<Rightarrow> provider_state \<Rightarrow> (provider_state \<times> u32) outcome" where
  "acquire_module conn provider_module_id st =
     (case provider_module_id of
        Some module_id \<Rightarrow>
          (if map_of (modules st) module_id = None then Panic else Return (st, module_id))
      | None \<Rightarrow>
          (let module_id = module_ids_counter st
           in if map_of (modules st) module_id \<noteq> None then Panic
              else Return (new_module conn st, module_id)))"

definition handle_provider_provide ::
  "(snapshot_row list \<Rightarrow> snapshot_row) \<Rightarrow> peer_id \<Rightarrow> datetime \<Rightarrow> nat \<Rightarrow> string \<Rightarrow> string \<Rightarrow> string \<Rightarrow>
     provider_state \<Rightarrow> database \<Rightarrow> u32 option \<Rightarrow>
     (provider_state \<times> database \<times> u32 option \<times> provider_provide_response) outcome" where
  "handle_provider_provide pick me now conn protocol_id offer_id protocol_payload st db
       provider_module_id =
     (if nested_get (offers_module_map st) protocol_id offer_id \<noteq> None
      then Return (st, db, provider_module_id, Provide_DuplicateOffer protocol_id offer_id)
      else and_then (acquire_module conn provider_module_id st) (\<lambda>(st1, module_id).
        case map_of (modules st1) module_id of
          None \<Rightarrow> Panic
        | Some m \<Rightarrow>
            and_then (upsert pick db me offer_id protocol_id protocol_payload)
              (\<lambda>(db', snapshot_rowid).
                if nested_get (pm_offers m) protocol_id offer_id \<noteq> None then Panic
                else
                  (let offer = \<lparr>po_snapshot_rowid = snapshot_rowid,
                         po_protocol_payload = protocol_payload\<rparr>;
                       m' = m\<lparr>pm_offers := nested_insert protocol_id offer_id offer (pm_offers m)\<rparr>
                   in Return (st1\<lparr>modules := AList.update module_id m' (modules st1),
                        offers_module_map := nested_insert protocol_id offer_id module_id
                          (offers_module_map st1),
                        last_updated_at := now\<rparr>, db', Some module_id, Provide_Ok)))))"

text \<open>
  Closing a provider connection: every offer of its module leaves \<open>offers_module_map\<close>, and
  a protocol without offers is dropped. Each \<open>unwrap\<close> on the way may panic.
\<close>

definition remove_offer ::
  "string \<Rightarrow> (string, u32) hash_map \<Rightarrow> (string, u32) hash_map outcome" where
  "remove_offer offer_id provider_offers =
     (if map_of provider_offers offer_id = None then Panic
      else Return (AList.delete offer_id provider_offers))"

definition remove_protocol_offers ::
  "string \<times> (string, provided_offer) hash_map \<Rightarrow>
     (string, (string, u32) hash_map) hash_map \<Rightarrow> (string, (string, u32) hash_map) hash_map outcome"
where
  "remove_protocol_offers entry offers_map =
     (case entry of (protocol_id, module_offers) \<Rightarrow>
        (case map_of offers_map protocol_id of
           None \<Rightarrow> Panic
         | Some provider_offers \<Rightarrow>
             and_then (fold_outcome remove_offer (map fst module_offers) provider_offers)
               (\<lambda>remaining. Return
                  (if remaining = [] then AList.delete protocol_id offers_map
                   else AList.update protocol_id remaining offers_map))))"

definition close_provider_module :: "datetime \<Rightarrow> u32 \<Rightarrow> provider_state \<Rightarrow> provider_state outcome" where
  "close_provider_module now module_id st =
     (case map_of (modules st) module_id of
        None \<Rightarrow> Panic
      | Some m \<Rightarrow>
          and_then (fold_outcome remove_protocol_offers (pm_offers m) (offers_module_map st))
            (\<lambda>offers_map. Return (st\<lparr>modules := AList.delete module_id (modules st),
               offers_module_map := offers_map, last_updated_at := now\<rparr>)))"

section \<open>The two maps are in step\<close>

definition provider_ok :: "provider_state \<Rightarrow> bool" where
  "provider_ok st \<longleftrightarrow> hm_ok (modules st) \<and> nested_ok (offers_module_map st) \<and>
     (\<forall>(i, m) \<in> set (modules st). nested_ok (pm_offers m)) \<and>
     (\<forall>p o' i. nested_get (offers_module_map st) p o' = Some i \<longleftrightarrow>
        (\<exists>m. map_of (modules st) i = Some m \<and> nested_get (pm_offers m) p o' \<noteq> None))"

text \<open>The abstract contract: the offers on offer, as one map.\<close>

definition provided :: "provider_state \<Rightarrow> string \<times> string \<Rightarrow> provided_offer option" where
  "provided st k =
     (case nested_get (offers_module_map st) (fst k) (snd k) of
        None \<Rightarrow> None
      | Some i \<Rightarrow> (case map_of (modules st) i of
          None \<Rightarrow> None | Some m \<Rightarrow> nested_get (pm_offers m) (fst k) (snd k)))"

lemma provider_okD:
  assumes "provider_ok st"
  shows "hm_ok (modules st)" and "nested_ok (offers_module_map st)"
    and "map_of (modules st) i = Some m \<Longrightarrow> nested_ok (pm_offers m)"
    and "nested_get (offers_module_map st) p o' = Some i \<longleftrightarrow>
        (\<exists>m. map_of (modules st) i = Some m \<and> nested_get (pm_offers m) p o' \<noteq> None)"
  using assms unfolding provider_ok_def by (auto dest: map_of_SomeD)

lemma provider_ok_initial: "provider_ok (initial_provider_state now)"
  by (simp add: provider_ok_def initial_provider_state_def)

lemma find_offer_safe:
  assumes "provider_ok st"
  shows "\<exists>r. find_offer st p o' = Return r \<and> map_option snd r = provided st (p, o')"
proof (cases "nested_get (offers_module_map st) p o'")
  case None
  then show ?thesis
    by (auto simp: find_offer_def nested_get_def provided_def split: option.splits)
next
  case (Some i)
  with provider_okD(4) [OF assms, of p o' i] obtain m where m: "map_of (modules st) i = Some m"
    "nested_get (pm_offers m) p o' \<noteq> None" by blast
  with Some show ?thesis
    by (auto simp: find_offer_def nested_get_def [of "offers_module_map st"] provided_def
        split: option.splits)
qed

text \<open>In which module an offer lives is determined by the maps being in step.\<close>

lemma provided_iff:
  assumes "provider_ok st"
  shows "provided st (p, o') = Some x \<longleftrightarrow>
    (\<exists>i m. map_of (modules st) i = Some m \<and> nested_get (pm_offers m) p o' = Some x)"
  using provider_okD(4) [OF assms, of p o']
  by (auto simp: provided_def split: option.splits) (metis option.distinct(1) option.inject)+

section \<open>Providing an offer\<close>

lemma provider_okI:
  assumes "hm_ok (modules st)" and "nested_ok (offers_module_map st)"
    and "\<And>i m. map_of (modules st) i = Some m \<Longrightarrow> nested_ok (pm_offers m)"
    and "\<And>p o' i. nested_get (offers_module_map st) p o' = Some i \<longleftrightarrow>
        (\<exists>m. map_of (modules st) i = Some m \<and> nested_get (pm_offers m) p o' \<noteq> None)"
  shows "provider_ok st"
  using assms unfolding provider_ok_def by (auto simp: hm_ok_in_set)

text \<open>What a connection knows of its module: nothing yet, or the ID of a live module.\<close>

definition module_id_ok :: "provider_state \<Rightarrow> u32 option \<Rightarrow> bool" where
  "module_id_ok st mid \<longleftrightarrow>
     (case mid of None \<Rightarrow> map_of (modules st) (module_ids_counter st) = None
      | Some i \<Rightarrow> map_of (modules st) i \<noteq> None)"

lemma acquire_module_ok:
  assumes "provider_ok st" and "module_id_ok st mid"
  shows "\<exists>st1 i m. acquire_module conn mid st = Return (st1, i) \<and> provider_ok st1 \<and>
    map_of (modules st1) i = Some m \<and> (mid = None \<longrightarrow> pm_connection m = conn) \<and>
    offers_module_map st1 = offers_module_map st \<and> provided st1 = provided st \<and> (mid \<noteq> None \<longrightarrow> mid = Some i \<and> st1 = st)"
proof (cases mid)
  case None
  let ?i = "module_ids_counter st"
  let ?m = "\<lparr>pm_connection = conn, pm_offers = []\<rparr>"
  let ?st1 = "st\<lparr>module_ids_counter := ?i + 1, modules := AList.update ?i ?m (modules st)\<rparr>"
  have new: "map_of (modules st) ?i = None"
    using assms(2) None by (simp add: module_id_ok_def)
  have "provider_ok ?st1"
  proof (rule provider_okI)
    show "nested_get (offers_module_map ?st1) p o' = Some i \<longleftrightarrow>
        (\<exists>m. map_of (modules ?st1) i = Some m \<and> nested_get (pm_offers m) p o' \<noteq> None)"
      for p o' i
      using provider_okD(4) [OF assms(1), of p o' i] new by auto
  qed (use provider_okD(1-3) [OF assms(1)] in \<open>auto split: if_splits\<close>)
  moreover have "provided ?st1 k = provided st k" for k
  proof (cases "nested_get (offers_module_map st) (fst k) (snd k)")
    case (Some i)
    then have "i \<noteq> ?i"
      using provider_okD(4) [OF assms(1), of "fst k" "snd k" i] new by auto
    with Some show ?thesis by (simp add: provided_def)
  qed (simp add: provided_def)
  then have "provided ?st1 = provided st" by (rule ext)
  ultimately show ?thesis using None new by (simp add: acquire_module_def new_module_def Let_def)
next
  case (Some i)
  with assms show ?thesis by (auto simp: acquire_module_def module_id_ok_def)
qed

text \<open>Adding an offer to a live module and to the index keeps the maps in step.\<close>

lemma add_offer_ok:
  assumes "provider_ok st" and "map_of (modules st) i = Some m"
    and "nested_get (offers_module_map st) p o' = None"
  shows "provider_ok (st\<lparr>modules := AList.update i
      (m\<lparr>pm_offers := nested_insert p o' x (pm_offers m)\<rparr>) (modules st),
      offers_module_map := nested_insert p o' i (offers_module_map st), last_updated_at := now\<rparr>)"
    (is "provider_ok ?st'")
proof (rule provider_okI)
  show "hm_ok (modules ?st')" "nested_ok (offers_module_map ?st')"
    using provider_okD(1,2) [OF assms(1)] by (simp_all add: nested_ok_insert)
  show "nested_ok (pm_offers m')" if "map_of (modules ?st') j = Some m'" for j m'
    using that assms provider_okD(3) [OF assms(1)] by (auto simp: nested_ok_insert split: if_splits)
  show "nested_get (offers_module_map ?st') q o'' = Some j \<longleftrightarrow>
      (\<exists>m. map_of (modules ?st') j = Some m \<and> nested_get (pm_offers m) q o'' \<noteq> None)" for q o'' j
    using provider_okD(4) [OF assms(1), of q o'' j] assms(2,3)
    by (auto simp: nested_get_insert)
qed

lemma provided_add_offer:
  assumes "map_of (modules st) i = Some m"
  shows "provided (st\<lparr>modules := AList.update i
      (m\<lparr>pm_offers := nested_insert p o' x (pm_offers m)\<rparr>) (modules st),
      offers_module_map := nested_insert p o' i (offers_module_map st), last_updated_at := now\<rparr>) =
    (provided st)((p, o') \<mapsto> x)"
  using assms by (auto simp: provided_def nested_get_insert fun_eq_iff split: option.splits)

text \<open>
  A new offer: nothing panics, exactly this offer is added, the database records it, and
  the maps stay in step.
\<close>

lemma handle_provider_provide_new:
  assumes "provider_ok st" and "module_id_ok st mid"
    and "nested_get (offers_module_map st) p o' = None"
    and "upsert pick db me o' p payload = Return (db', rid)"
  shows "\<exists>st' i. handle_provider_provide pick me now conn p o' payload st db mid =
      Return (st', db', Some i, Provide_Ok) \<and> provider_ok st' \<and>
      (mid \<noteq> None \<longrightarrow> mid = Some i) \<and> map_of (modules st') i \<noteq> None \<and>
      provided st' = (provided st)((p, o') \<mapsto>
        \<lparr>po_snapshot_rowid = rid, po_protocol_payload = payload\<rparr>) \<and> last_updated_at st' = now"
proof -
  obtain st1 i m where st1: "acquire_module conn mid st = Return (st1, i)" "provider_ok st1"
    "map_of (modules st1) i = Some m" "offers_module_map st1 = offers_module_map st"
    "mid \<noteq> None \<longrightarrow> mid = Some i" "provided st1 = provided st"
    using acquire_module_ok [OF assms(1,2), of conn] by blast
  let ?x = "\<lparr>po_snapshot_rowid = rid, po_protocol_payload = payload\<rparr>"
  let ?st' = "st1\<lparr>modules := AList.update i
      (m\<lparr>pm_offers := nested_insert p o' ?x (pm_offers m)\<rparr>) (modules st1),
      offers_module_map := nested_insert p o' i (offers_module_map st1), last_updated_at := now\<rparr>"
  have free: "nested_get (offers_module_map st1) p o' = None"
    using assms(3) st1(4) by simp
  then have "nested_get (pm_offers m) p o' = None"
    using provider_okD(4) [OF st1(2), of p o' i] st1(3) by auto
  then have run: "handle_provider_provide pick me now conn p o' payload st db mid =
      Return (?st', db', Some i, Provide_Ok)"
    using assms(3,4) st1 by (simp add: handle_provider_provide_def Let_def)
  have "provider_ok ?st'" by (rule add_offer_ok [OF st1(2,3) free])
  moreover have "provided ?st' = (provided st)((p, o') \<mapsto> ?x)"
    using provided_add_offer [OF st1(3)] st1(6) by simp
  ultimately show ?thesis using run st1(5) by simp
qed

section \<open>Closing a provider connection\<close>

lemma remove_offers_run:
  assumes "distinct os" and "\<And>o'. o' \<in> set os \<Longrightarrow> map_of po o' \<noteq> None" and "hm_ok po"
  shows "\<exists>rest. fold_outcome remove_offer os po = Return rest \<and> hm_ok rest \<and>
    map_of rest = (\<lambda>o'. if o' \<in> set os then None else map_of po o')"
  using assms
proof (induction os arbitrary: po)
  case (Cons o1 os)
  let ?po = "AList.delete o1 po"
  have "\<exists>rest. fold_outcome remove_offer os ?po = Return rest \<and> hm_ok rest \<and>
      map_of rest = (\<lambda>o'. if o' \<in> set os then None else map_of ?po o')"
    by (rule Cons.IH) (use Cons.prems in \<open>auto simp: map_of_delete_eq\<close>)
  then obtain rest where rest: "fold_outcome remove_offer os ?po = Return rest" "hm_ok rest"
    "map_of rest = (\<lambda>o'. if o' \<in> set os then None else map_of ?po o')" by blast
  have "map_of rest = (\<lambda>o'. if o' \<in> set (o1 # os) then None else map_of po o')"
    unfolding rest(3) by (rule ext) (simp add: map_of_delete_eq)
  moreover have "remove_offer o1 po = Return ?po"
    using Cons.prems(2) [of o1] by (simp add: remove_offer_def)
  ultimately show ?case using rest(1,2) by simp
qed simp

text \<open>
  The loop over the protocols of a closing module, as a keyed loop whose cell at a protocol
  is the provider's inner map: it loses the module's offers, and goes if nothing is left.
\<close>

interpretation close_loop: keyed_loop remove_protocol_offers nested_ok fst
    "\<lambda>m p. map_of m p"
    "\<lambda>e c. \<exists>po. c = Some po \<and> hm_ok (snd e) \<and> (\<forall>o' \<in> fst ` set (snd e). map_of po o' \<noteq> None)"
    "\<lambda>e c c'. \<forall>o'. (case c' of None \<Rightarrow> None | Some rest \<Rightarrow> map_of rest o') =
       (if o' \<in> fst ` set (snd e) then None else case c of None \<Rightarrow> None | Some po \<Rightarrow> map_of po o')"
proof unfold_locales
  fix m :: "(string, (string, u32) hash_map) hash_map"
    and e :: "string \<times> (string, provided_offer) hash_map"
  assume ok: "nested_ok m" and "\<exists>po. map_of m (fst e) = Some po \<and> hm_ok (snd e) \<and>
      (\<forall>o' \<in> fst ` set (snd e). map_of po o' \<noteq> None)"
  then obtain po where po: "map_of m (fst e) = Some po" "distinct (map fst (snd e))"
      "\<And>o'. o' \<in> set (map fst (snd e)) \<Longrightarrow> map_of po o' \<noteq> None"
    by (auto simp: hm_ok_def)
  obtain rest where rest: "fold_outcome remove_offer (map fst (snd e)) po = Return rest"
      "hm_ok rest" "map_of rest = (\<lambda>o'. if o' \<in> set (map fst (snd e)) then None else map_of po o')"
    using remove_offers_run [OF po(2,3)] nested_ok_inner [OF ok po(1)] by blast
  let ?m = "if rest = [] then AList.delete (fst e) m else AList.update (fst e) rest m"
  have "remove_protocol_offers e m = Return ?m"
    using po(1) rest(1) by (cases e) (simp add: remove_protocol_offers_def)
  moreover have "nested_ok ?m"
    using ok rest(2) nested_ok_inner [OF ok]
    by (intro nested_okI) (auto simp: map_of_delete_eq split: if_splits)
  moreover have "(case map_of ?m (fst e) of None \<Rightarrow> None | Some rest \<Rightarrow> map_of rest o') =
      map_of rest o'" for o'
    by (simp add: map_of_delete_eq)
  then have cell: "(case map_of ?m (fst e) of None \<Rightarrow> None | Some rest \<Rightarrow> map_of rest o') =
      (if o' \<in> fst ` set (snd e) then None else map_of po o')" for o'
    by (simp add: rest(3))
  ultimately show "\<exists>m'. remove_protocol_offers e m = Return m' \<and> nested_ok m' \<and>
      (\<forall>o'. (case map_of m' (fst e) of None \<Rightarrow> None | Some rest \<Rightarrow> map_of rest o') =
        (if o' \<in> fst ` set (snd e) then None
         else case map_of m (fst e) of None \<Rightarrow> None | Some po \<Rightarrow> map_of po o')) \<and>
      (\<forall>k. k \<noteq> fst e \<longrightarrow> map_of m' k = map_of m k)"
    using po(1) cell by (intro exI [of _ ?m]) (auto simp: map_of_delete_eq)
qed

text \<open>Which offers a live module holds, and that every inner map it has is in the index.\<close>

lemma module_offers_iff:
  assumes "provider_ok st" and "map_of (modules st) i = Some m"
  shows "nested_get (offers_module_map st) p o' = Some i \<longleftrightarrow> nested_get (pm_offers m) p o' \<noteq> None"
  using provider_okD(4) [OF assms(1), of p o' i] assms(2) by simp

lemma module_offers_indexed:
  assumes "provider_ok st" and "map_of (modules st) i = Some m" and "e \<in> set (pm_offers m)"
  shows "\<exists>po. map_of (offers_module_map st) (fst e) = Some po \<and> hm_ok (snd e) \<and>
    (\<forall>o' \<in> fst ` set (snd e). map_of po o' \<noteq> None)"
proof -
  note mok = provider_okD(3) [OF assms(1,2)]
  have e: "map_of (pm_offers m) (fst e) = Some (snd e)"
    using assms(3) hm_ok_in_set [OF nested_ok_hm [OF mok], of "fst e" "snd e"] by simp
  have inner: "hm_ok (snd e)" "snd e \<noteq> []" using nested_ok_inner [OF mok e] by simp_all
  have live: "nested_get (offers_module_map st) (fst e) o' = Some i" if "o' \<in> fst ` set (snd e)" for o'
  proof -
    have "nested_get (pm_offers m) (fst e) o' \<noteq> None"
      using that by (simp add: nested_get_def e map_of_eq_None_iff del: not_None_eq)
    with module_offers_iff [OF assms(1,2)] show ?thesis by blast
  qed
  obtain o1 where "o1 \<in> fst ` set (snd e)" using inner(2) by (cases "snd e") auto
  with live obtain po where po: "map_of (offers_module_map st) (fst e) = Some po"
    by (cases "map_of (offers_module_map st) (fst e)") (auto simp: nested_get_def)
  with live have "\<forall>o' \<in> fst ` set (snd e). map_of po o' \<noteq> None"
    by (simp add: nested_get_def)
  with po inner(1) show ?thesis by blast
qed

lemma close_offers_run:
  assumes "provider_ok st" and "map_of (modules st) i = Some m"
  shows "\<exists>om. fold_outcome remove_protocol_offers (pm_offers m) (offers_module_map st) = Return om \<and>
    nested_ok om \<and> (\<forall>p o'. nested_get om p o' =
      (if nested_get (offers_module_map st) p o' = Some i then None
       else nested_get (offers_module_map st) p o'))"
proof -
  note mok = provider_okD(3) [OF assms]
  obtain om where
    om: "fold_outcome remove_protocol_offers (pm_offers m) (offers_module_map st) = Return om"
      "nested_ok om"
      "\<forall>e \<in> set (pm_offers m). \<forall>o'.
        (case map_of om (fst e) of None \<Rightarrow> None | Some rest \<Rightarrow> map_of rest o') =
        (if o' \<in> fst ` set (snd e) then None else
         case map_of (offers_module_map st) (fst e) of None \<Rightarrow> None | Some po \<Rightarrow> map_of po o')"
      "\<forall>k. k \<notin> fst ` set (pm_offers m) \<longrightarrow> map_of om k = map_of (offers_module_map st) k"
    using close_loop.loop_cells [OF provider_okD(2) [OF assms(1)], of "pm_offers m"]
      nested_ok_hm [OF mok] module_offers_indexed [OF assms] by (auto simp: hm_ok_def)
  have "nested_get om p o' = (if nested_get (offers_module_map st) p o' = Some i then None
      else nested_get (offers_module_map st) p o')" for p o'
  proof (cases "map_of (pm_offers m) p")
    case None
    then have "p \<notin> fst ` set (pm_offers m)" by (simp add: map_of_eq_None_iff)
    with om(4) None module_offers_iff [OF assms, of p o'] show ?thesis
      by (simp add: nested_get_def)
  next
    case (Some inner)
    then have "(p, inner) \<in> set (pm_offers m)" by (rule map_of_SomeD)
    with om(3) have "nested_get om p o' =
        (if o' \<in> fst ` set inner then None else nested_get (offers_module_map st) p o')"
      by (fastforce simp: nested_get_def)
    moreover have "o' \<in> fst ` set inner \<longleftrightarrow> nested_get (offers_module_map st) p o' = Some i"
      using module_offers_iff [OF assms, of p o'] Some
      by (simp add: nested_get_def map_of_eq_None_iff)
    ultimately show ?thesis by simp
  qed
  with om show ?thesis by blast
qed

lemma close_provider_module_ok:
  assumes "provider_ok st" and "map_of (modules st) i = Some m"
  shows "\<exists>st'. close_provider_module now i st = Return st' \<and> provider_ok st' \<and>
    modules st' = AList.delete i (modules st) \<and> last_updated_at st' = now \<and>
    module_ids_counter st' = module_ids_counter st \<and>
    provided st' = (\<lambda>k. if nested_get (offers_module_map st) (fst k) (snd k) = Some i
      then None else provided st k)"
proof -
  note ok = provider_okD [OF assms(1)]
  from close_offers_run [OF assms] obtain om where
    om: "fold_outcome remove_protocol_offers (pm_offers m) (offers_module_map st) = Return om"
      "nested_ok om"
    and get: "\<And>p o'. nested_get om p o' =
      (if nested_get (offers_module_map st) p o' = Some i then None
       else nested_get (offers_module_map st) p o')"
    by blast
  let ?st' = "st\<lparr>modules := AList.delete i (modules st), offers_module_map := om,
    last_updated_at := now\<rparr>"
  have "provider_ok ?st'"
  proof (rule provider_okI)
    show "nested_get (offers_module_map ?st') p o' = Some j \<longleftrightarrow>
        (\<exists>m. map_of (modules ?st') j = Some m \<and> nested_get (pm_offers m) p o' \<noteq> None)" for p o' j
      using get [of p o'] ok(4) [of p o' j] by (auto simp: map_of_delete_eq)
  qed (use ok(1,3) om(2) in \<open>auto simp: map_of_delete_eq split: if_splits\<close>)
  moreover have "provided ?st' k = (if nested_get (offers_module_map st) (fst k) (snd k) = Some i
      then None else provided st k)" for k
    using get [of "fst k" "snd k"]
    by (auto simp: provided_def map_of_delete_eq split: option.splits)
  ultimately show ?thesis
    using om(1) assms(2) by (auto simp: close_provider_module_def fun_eq_iff)
qed

section \<open>Offers and their snapshots\<close>

text \<open>What a provider state promises about the database: each offer's snapshot is the offer.\<close>

definition offers_recorded :: "peer_id \<Rightarrow> provider_state \<Rightarrow> database \<Rightarrow> bool" where
  "offers_recorded me st db \<longleftrightarrow>
     (\<forall>p o' x. provided st (p, o') = Some x \<longrightarrow>
        (po_snapshot_rowid x, (me, p, o'), po_protocol_payload x) \<in> snapshot_idents (offer_snapshots db))"

lemma snapshot_identsD:
  assumes "(i, (me, p, o'), payload) \<in> snapshot_idents t"
  shows "\<exists>s \<in> set t. snap_rowid s = i \<and> snap_provider_peer_id s = me \<and> snap_protocol_id s = p \<and>
    snap_offer_id s = o' \<and> snap_protocol_payload s = payload"
  using assms by (auto simp: snapshot_idents_def snap_ident_def snap_key_def)

end
