(* ===== verification/Heartbeat.thy ===== *)
theory Heartbeat
  imports Provider_State
begin

text \<open>
  Heartbeats (\<open>src/src/p2p/gossipsub/heartbeat\<close>): what a provider gossips about itself, and
  how a node reconciles its database with a received heartbeat.
\<close>

section \<open>Messages\<close>

record wire_offer =
  wo_protocol_payload :: string

type_synonym wire_offers = "(string, (string, wire_offer) hash_map) hash_map"

record provider_details =
  pd_name :: "string option"
  pd_teaser :: "string option"
  pd_description :: "string option"
  pd_offers :: wire_offers
  pd_updated_at :: datetime

record heartbeat =
  hb_provider :: "provider_details option"
  hb_timestamp :: datetime

text \<open>
  \<open>serde(with = "chrono::serde::ts_seconds")\<close> on both timestamps: what the receiver
  decodes has whole seconds.
\<close>

definition on_wire :: "heartbeat \<Rightarrow> heartbeat" where
  "on_wire hb = hb\<lparr>hb_provider := map_option
     (\<lambda>d. d\<lparr>pd_updated_at := trunc_seconds (pd_updated_at d)\<rparr>) (hb_provider hb),
     hb_timestamp := trunc_seconds (hb_timestamp hb)\<rparr>"

section \<open>Sending\<close>

record provider_config =
  pc_name :: "string option"
  pc_teaser :: "string option"
  pc_description :: "string option"

text \<open>libp2p's \<open>PublishError\<close>, by the variants the code tells apart.\<close>

datatype publish_error =
    SigningError | MessageTooLarge | TransformFailed | Duplicate | InsufficientPeers | AllQueuesFull

definition add_wire_offer ::
  "string \<times> provided_offer \<Rightarrow> (string, wire_offer) hash_map \<Rightarrow> (string, wire_offer) hash_map outcome"
where
  "add_wire_offer entry m =
     (case entry of (offer_id, offer) \<Rightarrow>
        if map_of m offer_id \<noteq> None then Panic
        else Return (AList.update offer_id \<lparr>wo_protocol_payload = po_protocol_payload offer\<rparr> m))"

definition add_wire_protocol ::
  "string \<times> (string, provided_offer) hash_map \<Rightarrow> wire_offers \<Rightarrow> wire_offers outcome" where
  "add_wire_protocol entry m =
     (case entry of (protocol_id, offers) \<Rightarrow>
        and_then (fold_outcome add_wire_offer offers
            (case map_of m protocol_id of Some inner \<Rightarrow> inner | None \<Rightarrow> []))
          (\<lambda>inner. Return (AList.update protocol_id inner m)))"

definition heartbeat_offers :: "provider_state \<Rightarrow> wire_offers outcome" where
  "heartbeat_offers st =
     fold_outcome (\<lambda>(i, m). fold_outcome add_wire_protocol (pm_offers m)) (modules st) []"

text \<open>
  \<open>maybe_send_heartbeat\<close>: the message given to gossipsub, if any, and the function's result
  (\<open>Some ()\<close> sent, \<open>None\<close> not sent, or an error that ends the event loop). \<open>publish\<close> is
  gossipsub's answer to the message.
\<close>

definition maybe_send_heartbeat ::
  "provider_config \<Rightarrow> datetime \<Rightarrow> (heartbeat \<Rightarrow> publish_error option) \<Rightarrow> provider_state \<Rightarrow>
     (heartbeat option \<times> (publish_error + unit option)) outcome" where
  "maybe_send_heartbeat cfg now publish st =
     (if \<not> list_ex (\<lambda>(i, m). pm_offers m \<noteq> []) (modules st) then Return (None, Inr None)
      else and_then (heartbeat_offers st) (\<lambda>offers.
        let message = \<lparr>hb_provider = Some \<lparr>pd_name = pc_name cfg, pd_teaser = pc_teaser cfg,
              pd_description = pc_description cfg, pd_offers = offers,
              pd_updated_at = last_updated_at st\<rparr>, hb_timestamp = now\<rparr>
        in Return (Some message,
          case publish message of
            None \<Rightarrow> Inr (Some ())
          | Some error \<Rightarrow> (case error of
              SigningError \<Rightarrow> Inl error
            | MessageTooLarge \<Rightarrow> Inl error
            | TransformFailed \<Rightarrow> Inl error
            | Duplicate \<Rightarrow> Inl error
            | InsufficientPeers \<Rightarrow> Inr None
            | AllQueuesFull \<Rightarrow> Inr None))))"

section \<open>Receiving\<close>

text \<open>
  The transaction's state while the offers are reconciled: the snapshot table and the
  events collected so far.
\<close>

record reconcile =
  rc_table :: "snapshot_row list"
  rc_removed :: "offer_removed list"
  rc_updated :: "offer_snapshot list"

definition updated_event :: "peer_id \<Rightarrow> string \<Rightarrow> string \<Rightarrow> string \<Rightarrow> int \<Rightarrow> offer_snapshot" where
  "updated_event source protocol_id offer_id payload rid =
     \<lparr>os_snapshot_id = rid, os_active = True, os_provider_peer_id = source,
      os_protocol_id = protocol_id, os_offer_id = offer_id, os_protocol_payload = payload\<rparr>"

text \<open>First loop: one snapshot of the source that is active in the database.\<close>

definition retire_step :: "peer_id \<Rightarrow> wire_offers \<Rightarrow> snapshot_row \<Rightarrow> reconcile \<Rightarrow> reconcile outcome" where
  "retire_step source offers row s =
     (case nested_get offers (snap_protocol_id row) (snap_offer_id row) of
        Some incoming \<Rightarrow>
          (if wo_protocol_payload incoming = snap_protocol_payload row then Return s
           else and_then
             (upsert_snapshot_target (source, snap_protocol_id row, snap_offer_id row)
               (wo_protocol_payload incoming) (deactivate (snap_rowid row) (rc_table s)))
             (\<lambda>(t', rid). Return (s\<lparr>rc_table := t',
               rc_updated := rc_updated s @ [updated_event source (snap_protocol_id row)
                 (snap_offer_id row) (wo_protocol_payload incoming) rid]\<rparr>)))
      | None \<Rightarrow> Return (s\<lparr>rc_table := deactivate (snap_rowid row) (rc_table s),
          rc_removed := rc_removed s @
            [\<lparr>or_snapshot_id = snap_rowid row, or_provider_peer_id = source,
              or_protocol_id = snap_protocol_id row, or_offer_id = snap_offer_id row\<rparr>]\<rparr>))"

text \<open>The entries two nested loops over the offers of a heartbeat visit.\<close>

definition offer_entries :: "wire_offers \<Rightarrow> (string \<times> string \<times> wire_offer) list" where
  "offer_entries offers =
     concat (map (\<lambda>(p, inner). map (\<lambda>(o', inc). (p, o', inc)) inner) offers)"

text \<open>Second loop: one incoming offer, of which a snapshot may be active by now.\<close>

definition publish_step ::
  "(snapshot_row list \<Rightarrow> snapshot_row) \<Rightarrow> peer_id \<Rightarrow> string \<times> string \<times> wire_offer \<Rightarrow>
     reconcile \<Rightarrow> reconcile outcome" where
  "publish_step pick source entry s =
     (case entry of (protocol_id, offer_id, incoming) \<Rightarrow>
        if active_row (rc_table s) (source, protocol_id, offer_id) \<noteq> None then Return s
        else and_then
          (upsert_snapshot pick (source, protocol_id, offer_id) (wo_protocol_payload incoming)
            (rc_table s))
          (\<lambda>(t', rid). Return (s\<lparr>rc_table := t',
            rc_updated := rc_updated s @ [updated_event source protocol_id offer_id
              (wo_protocol_payload incoming) rid]\<rparr>)))"

text \<open>The loop over the offers of a provider seen for the first time.\<close>

definition insert_step ::
  "peer_id \<Rightarrow> string \<times> string \<times> wire_offer \<Rightarrow> reconcile \<Rightarrow> reconcile outcome" where
  "insert_step source entry s =
     (case entry of (protocol_id, offer_id, incoming) \<Rightarrow>
        and_then
          (insert_snapshot (source, protocol_id, offer_id) (wo_protocol_payload incoming)
            (rc_table s))
          (\<lambda>(t', rid). Return (s\<lparr>rc_table := t',
            rc_updated := rc_updated s @ [updated_event source protocol_id offer_id
              (wo_protocol_payload incoming) rid]\<rparr>)))"

definition active_of_source :: "peer_id \<Rightarrow> snapshot_row list \<Rightarrow> snapshot_row list" where
  "active_of_source source t = filter (\<lambda>r. snap_provider_peer_id r = source \<and> snap_active r) t"

definition reconcile_offers ::
  "(snapshot_row list \<Rightarrow> snapshot_row) \<Rightarrow> peer_id \<Rightarrow> wire_offers \<Rightarrow> snapshot_row list \<Rightarrow>
     reconcile outcome" where
  "reconcile_offers pick source offers t =
     and_then
       (fold_outcome (retire_step source offers) (active_of_source source t)
         \<lparr>rc_table = t, rc_removed = [], rc_updated = []\<rparr>)
       (fold_outcome (publish_step pick source) (offer_entries offers))"

definition insert_offers ::
  "peer_id \<Rightarrow> wire_offers \<Rightarrow> snapshot_row list \<Rightarrow> reconcile outcome" where
  "insert_offers source offers t =
     fold_outcome (insert_step source) (offer_entries offers)
       \<lparr>rc_table = t, rc_removed = [], rc_updated = []\<rparr>"

datatype heartbeat_error =
    Outdated_Timestamp datetime datetime
  | Updated_At_Less datetime datetime

definition update_peer :: "peer_id \<Rightarrow> (peer_row \<Rightarrow> peer_row) \<Rightarrow> database \<Rightarrow> database" where
  "update_peer p f db = db\<lparr>peers := update_where (\<lambda>r. peer_peer_id r = p) f (peers db)\<rparr>"

definition find_peer :: "peer_id \<Rightarrow> database \<Rightarrow> peer_row option" where
  "find_peer p db = List.find (\<lambda>r. peer_peer_id r = p) (peers db)"

text \<open>\<open>Ordering::Greater\<close>: new details. \<open>now1\<close>, \<open>now2\<close> are the clock readings in the event.\<close>

definition heartbeat_changed ::
  "(snapshot_row list \<Rightarrow> snapshot_row) \<Rightarrow> peer_id \<Rightarrow> provider_details \<Rightarrow> datetime \<Rightarrow>
     datetime \<Rightarrow> datetime \<Rightarrow> datetime \<Rightarrow> database \<Rightarrow> (database \<times> rpc_event list) outcome" where
  "heartbeat_changed pick source details ts sql_now now1 now2 db =
     (let db1 = update_peer source (\<lambda>r. r\<lparr>peer_provider_name := pd_name details,
            peer_provider_teaser := pd_teaser details,
            peer_provider_description := pd_description details,
            peer_their_provider_updated_at := Some (pd_updated_at details),
            peer_our_provider_updated_at := Some (trunc_seconds sql_now),
            peer_their_latest_heartbeat_timestamp := Some ts,
            peer_our_latest_heartbeat_timestamp := Some (trunc_seconds sql_now)\<rparr>) db;
          record = \<lparr>pr_peer_id = source, pr_name = pd_name details, pr_teaser = pd_teaser details,
            pr_description = pd_description details, pr_updated_at = now1,
            pr_latest_heartbeat_at = now2\<rparr>
      in and_then (reconcile_offers pick source (pd_offers details) (offer_snapshots db1))
        (\<lambda>s. Return (db1\<lparr>offer_snapshots := rc_table s\<rparr>,
           ProviderUpdated record # map OfferRemoved (rc_removed s) @
             map OfferUpdated (rc_updated s))))"

text \<open>\<open>Ordering::Equal\<close>: only the heartbeat timestamps move.\<close>

definition heartbeat_unchanged ::
  "peer_id \<Rightarrow> datetime \<Rightarrow> datetime \<Rightarrow> datetime \<Rightarrow> database \<Rightarrow> database \<times> rpc_event list" where
  "heartbeat_unchanged source ts sql_now now1 db =
     (update_peer source (\<lambda>r. r\<lparr>peer_their_latest_heartbeat_timestamp := Some ts,
        peer_our_latest_heartbeat_timestamp := Some (trunc_seconds sql_now)\<rparr>) db,
      [ProviderHeartbeat \<lparr>ph_peer_id = source, ph_latest_heartbeat_at = now1\<rparr>])"

definition heartbeat_new_provider ::
  "peer_id \<Rightarrow> provider_details \<Rightarrow> datetime \<Rightarrow> datetime \<Rightarrow> database \<Rightarrow>
     (database \<times> rpc_event list) outcome" where
  "heartbeat_new_provider source details ts sql_now db =
     (let db1 = db\<lparr>peers := peers db @ [\<lparr>peer_peer_id = source,
            peer_provider_name = pd_name details, peer_provider_teaser = pd_teaser details,
            peer_provider_description = pd_description details,
            peer_their_provider_updated_at = Some (pd_updated_at details),
            peer_our_provider_updated_at = Some (trunc_seconds sql_now),
            peer_their_latest_heartbeat_timestamp = Some ts,
            peer_our_latest_heartbeat_timestamp = Some (trunc_seconds sql_now)\<rparr>]\<rparr>
      in and_then (insert_offers source (pd_offers details) (offer_snapshots db1))
        (\<lambda>s. Return (db1\<lparr>offer_snapshots := rc_table s\<rparr>, map OfferUpdated (rc_updated s))))"

text \<open>A heartbeat of a peer that is in the database, once its timestamp has been accepted.\<close>

definition handle_known ::
  "(snapshot_row list \<Rightarrow> snapshot_row) \<Rightarrow> peer_id \<Rightarrow> peer_row \<Rightarrow> heartbeat \<Rightarrow> datetime \<Rightarrow>
     datetime \<Rightarrow> datetime \<Rightarrow> database \<Rightarrow> (heartbeat_error + database \<times> rpc_event list) outcome" where
  "handle_known pick source peer hb sql_now now1 now2 db =
     (case hb_provider hb of
        None \<Rightarrow> Return (Inr (db, []))
      | Some details \<Rightarrow>
          (let local_updated_at =
             (case peer_their_provider_updated_at peer of Some t \<Rightarrow> t | None \<Rightarrow> 0)
           in if pd_updated_at details < local_updated_at
              then Return (Inl (Updated_At_Less (pd_updated_at details) local_updated_at))
              else if pd_updated_at details = local_updated_at
              then Return (Inr (heartbeat_unchanged source (hb_timestamp hb) sql_now now1 db))
              else and_then (heartbeat_changed pick source details (hb_timestamp hb)
                     sql_now now1 now2 db) (\<lambda>r. Return (Inr r))))"

text \<open>
  \<open>handle_heartbeat\<close>: an error rolls the transaction back and sends no event. The events
  are listed in the order they are sent.
\<close>

definition handle_heartbeat ::
  "(snapshot_row list \<Rightarrow> snapshot_row) \<Rightarrow> peer_id \<Rightarrow> heartbeat \<Rightarrow> datetime \<Rightarrow> datetime \<Rightarrow>
     datetime \<Rightarrow> database \<Rightarrow> (heartbeat_error + database \<times> rpc_event list) outcome" where
  "handle_heartbeat pick source hb sql_now now1 now2 db =
     (case find_peer source db of
        Some peer \<Rightarrow>
          (case peer_their_latest_heartbeat_timestamp peer of
             Some stored \<Rightarrow>
               if hb_timestamp hb \<le> stored
               then Return (Inl (Outdated_Timestamp stored (hb_timestamp hb)))
               else handle_known pick source peer hb sql_now now1 now2 db
           | None \<Rightarrow> handle_known pick source peer hb sql_now now1 now2 db)
      | None \<Rightarrow>
          (case hb_provider hb of
             None \<Rightarrow> Return (Inr (db, []))
           | Some details \<Rightarrow>
               and_then (heartbeat_new_provider source details (hb_timestamp hb) sql_now db)
                 (\<lambda>r. Return (Inr r))))"

text \<open>
  \<open>handle_gossipsub_event\<close>: a message on the heartbeat topic with a source is decoded
  (\<open>decode\<close> is \<open>serde_cbor::from_slice\<close>) and handled; errors are logged. The other events
  (subscriptions, slow peers) are only logged.
\<close>

datatype gossipsub_event =
    Gossip_Message (gm_topic: string) (gm_source: "peer_id option") (gm_data: bytes)
  | Gossip_Other

type_synonym clocks = "datetime \<times> datetime \<times> datetime"

definition handle_gossipsub_event ::
  "(bytes \<Rightarrow> heartbeat option) \<Rightarrow> (snapshot_row list \<Rightarrow> snapshot_row) \<Rightarrow> string \<Rightarrow>
     gossipsub_event \<Rightarrow> clocks \<Rightarrow> database \<Rightarrow> (database \<times> rpc_event list) outcome" where
  "handle_gossipsub_event decode pick heartbeat_topic event clocks db =
     (case event of
        Gossip_Message topic source data \<Rightarrow>
          if topic = heartbeat_topic then
            (case source of
               None \<Rightarrow> Return (db, [])
             | Some source \<Rightarrow>
                 (case decode data of
                    None \<Rightarrow> Return (db, [])
                  | Some heartbeat \<Rightarrow>
                      (case clocks of (sql_now, now1, now2) \<Rightarrow>
                        and_then (handle_heartbeat pick source heartbeat sql_now now1 now2 db)
                          (\<lambda>res. Return (case res of Inl _ \<Rightarrow> (db, []) | Inr r \<Rightarrow> r)))))
          else Return (db, [])
      | Gossip_Other \<Rightarrow> Return (db, []))"

end
