(* ===== verification/Reconcile.thy ===== *)
theory Reconcile
  imports Heartbeat
begin

text \<open>
  The loops of \<open>handle_heartbeat\<close> as keyed loops: each iteration settles one offer of the
  sending provider and leaves every other offer alone. From this follows what a whole
  heartbeat does to the snapshot table and which events it raises.
\<close>

section \<open>The cell of an offer\<close>

text \<open>The payload a heartbeat carries for an offer.\<close>

definition incoming :: "wire_offers \<Rightarrow> offer_key \<Rightarrow> string option" where
  "incoming offers k = map_option wo_protocol_payload (nested_get offers (fst (snd k)) (snd (snd k)))"

definition removed_key :: "offer_removed \<Rightarrow> offer_key" where
  "removed_key e = (or_provider_peer_id e, or_protocol_id e, or_offer_id e)"

definition updated_key :: "offer_snapshot \<Rightarrow> offer_key" where
  "updated_key e = (os_provider_peer_id e, os_protocol_id e, os_offer_id e)"

type_synonym cell = "snapshot_row option \<times> offer_removed list \<times> offer_snapshot list"

definition rc_cell :: "reconcile \<Rightarrow> offer_key \<Rightarrow> cell" where
  "rc_cell s k = (active_row (rc_table s) k, filter (\<lambda>e. removed_key e = k) (rc_removed s),
     filter (\<lambda>e. updated_key e = k) (rc_updated s))"

definition removed_event :: "snapshot_row \<Rightarrow> offer_removed" where
  "removed_event r = \<lparr>or_snapshot_id = snap_rowid r, or_provider_peer_id = snap_provider_peer_id r,
     or_protocol_id = snap_protocol_id r, or_offer_id = snap_offer_id r\<rparr>"

text \<open>
  The specification of reconciling one offer: from the active row \<open>old\<close> and the incoming
  payload to the new active row and the offer's events.
\<close>

definition published :: "offer_key \<Rightarrow> string \<Rightarrow> cell \<Rightarrow> bool" where
  "published k payload c \<longleftrightarrow> (\<exists>r. snap_ident r = (k, payload) \<and> snap_active r \<and>
     c = (Some r, [], [row_to_snapshot r]))"

definition reconciled :: "offer_key \<Rightarrow> snapshot_row option \<Rightarrow> string option \<Rightarrow> cell \<Rightarrow> bool" where
  "reconciled k old inc c \<longleftrightarrow>
     (case inc of
        None \<Rightarrow> c = (None, (case old of None \<Rightarrow> [] | Some r \<Rightarrow> [removed_event r]), [])
      | Some payload \<Rightarrow>
          (if map_option snap_protocol_payload old = Some payload then c = (old, [], [])
           else published k payload c))"

lemma reconciled_payload:
  "reconciled k old inc c \<Longrightarrow> map_option snap_protocol_payload (fst c) = inc"
  by (auto simp: reconciled_def published_def snap_ident_def split: option.splits if_splits)

text \<open>
  The specification of a whole heartbeat: every offer of the source is reconciled with the
  message, every other offer is left alone.
\<close>

definition settled ::
  "peer_id \<Rightarrow> wire_offers \<Rightarrow> snapshot_row list \<Rightarrow> reconcile \<Rightarrow> bool" where
  "settled source offers t0 s \<longleftrightarrow>
     (\<forall>k. if fst k = source
          then reconciled k (active_row t0 k) (incoming offers k) (rc_cell s k)
          else rc_cell s k = (active_row t0 k, [], []))"

lemma settled_payload:
  assumes "settled source offers t0 s"
  shows "active_payload (rc_table s) k =
    (if fst k = source then incoming offers k else active_payload t0 k)"
proof -
  have cell: "fst (rc_cell s k) = active_row (rc_table s) k" by (simp add: rc_cell_def)
  show ?thesis
  proof (cases "fst k = source")
    case True
    then have "reconciled k (active_row t0 k) (incoming offers k) (rc_cell s k)"
      using assms unfolding settled_def by metis
    from reconciled_payload [OF this] True cell show ?thesis by (simp add: active_payload_def)
  next
    case False
    then have "rc_cell s k = (active_row t0 k, [], [])" using assms unfolding settled_def by metis
    with False cell show ?thesis by (simp add: active_payload_def)
  qed
qed

text \<open>What every iteration preserves of the table.\<close>

definition rc_inv :: "peer_id \<Rightarrow> snapshot_row list \<Rightarrow> reconcile \<Rightarrow> bool" where
  "rc_inv source t0 s \<longleftrightarrow> wf_snapshots (rc_table s) \<and>
     snapshot_idents t0 \<subseteq> snapshot_idents (rc_table s) \<and>
     snap_provider_peer_id ` set (rc_table s) \<subseteq> insert source (snap_provider_peer_id ` set t0)"

lemma rc_inv_start:
  "wf_snapshots t0 \<Longrightarrow> rc_inv source t0 \<lparr>rc_table = t0, rc_removed = [], rc_updated = []\<rparr>"
  by (auto simp: rc_inv_def)

lemma rc_inv_deactivate:
  "rc_inv source t0 s \<Longrightarrow> rc_inv source t0 (s\<lparr>rc_table := deactivate rid (rc_table s)\<rparr>)"
  by (simp add: rc_inv_def wf_snapshots_deactivate) (simp add: deactivate_def)

lemma rc_inv_removed [simp]:
  "rc_inv source t0 (s\<lparr>rc_removed := es\<rparr>) = rc_inv source t0 s"
  "rc_inv source t0 (s\<lparr>rc_updated := us\<rparr>) = rc_inv source t0 s"
  by (simp_all add: rc_inv_def)

lemma rc_inv_upserted:
  assumes "rc_inv source t0 s" and "upserted (source, p, o') payload (rc_table s) t' rid"
  shows "rc_inv source t0 (s\<lparr>rc_table := t'\<rparr>)"
proof -
  have "snapshot_idents t0 \<subseteq> snapshot_idents t'"
    using assms unfolding rc_inv_def upserted_def by (meson subset_trans)
  moreover have "snap_provider_peer_id ` set t' \<subseteq>
      insert source (snap_provider_peer_id ` set (rc_table s))"
    using assms(2) by (simp add: upserted_def)
  then have "snap_provider_peer_id ` set t' \<subseteq> insert source (snap_provider_peer_id ` set t0)"
    using assms(1) unfolding rc_inv_def by blast
  ultimately show ?thesis using assms(2) by (simp add: rc_inv_def upserted_def)
qed

lemma updated_event_row:
  "snap_ident r = ((source, p, o'), payload) \<Longrightarrow> snap_active r \<Longrightarrow>
     updated_event source p o' payload (snap_rowid r) = row_to_snapshot r"
  by (simp add: updated_event_def row_to_snapshot_def snap_ident_def snap_key_def)

lemma updated_key_event [simp]: "updated_key (updated_event source p o' payload rid) = (source, p, o')"
  by (simp add: updated_key_def updated_event_def)

text \<open>An upsert followed by its event settles the offer.\<close>

lemma upserted_cell:
  assumes "rc_inv source t0 s" and "upserted (source, p, o') payload (rc_table s) t' rid"
    and "rc_cell s (source, p, o') = (None, [], [])"
  defines "s' \<equiv> s\<lparr>rc_table := t', rc_updated := rc_updated s @ [updated_event source p o' payload rid]\<rparr>"
  shows "rc_inv source t0 s'" and "published (source, p, o') payload (rc_cell s' (source, p, o'))"
    and "k \<noteq> (source, p, o') \<Longrightarrow> rc_cell s' k = rc_cell s k"
proof -
  have "s' = (s\<lparr>rc_table := t'\<rparr>)\<lparr>rc_updated := rc_updated s @ [updated_event source p o' payload rid]\<rparr>"
    by (simp add: s'_def)
  then show "rc_inv source t0 s'" using rc_inv_upserted [OF assms(1,2)] by simp
  from assms(2) obtain row where row: "wf_snapshots t'"
    "active_row t' = (active_row (rc_table s))((source, p, o') \<mapsto> row)" "snap_rowid row = rid"
    "snap_ident row = ((source, p, o'), payload)"
    unfolding upserted_def by blast
  then have "active_row t' (source, p, o') = Some row" by simp
  then have "snap_active row" by (auto dest: active_row_SomeD)
  with row assms(3) show "published (source, p, o') payload (rc_cell s' (source, p, o'))"
    by (auto simp: published_def rc_cell_def s'_def updated_event_row)
  show "rc_cell s' k = rc_cell s k" if "k \<noteq> (source, p, o')"
    using that row(2) by (simp add: rc_cell_def s'_def)
qed

section \<open>First loop: the offers on record\<close>

lemma retire_unchanged:
  assumes "incoming offers (snap_key row) = Some (snap_protocol_payload row)"
  shows "retire_step source offers row s = Return s"
  using assms by (auto simp: retire_step_def incoming_def snap_key_def)

lemma retire_removed:
  assumes "incoming offers (snap_key row) = None" and "snap_provider_peer_id row = source"
  shows "retire_step source offers row s = Return
    (s\<lparr>rc_table := deactivate (snap_rowid row) (rc_table s),
       rc_removed := rc_removed s @ [removed_event row]\<rparr>)"
  using assms by (simp add: retire_step_def incoming_def snap_key_def removed_event_def)

lemma deactivate_cell:
  assumes "wf_snapshots (rc_table s)" and "rc_cell s (snap_key row) = (Some row, rem, upd)"
  defines "s' \<equiv> s\<lparr>rc_table := deactivate (snap_rowid row) (rc_table s)\<rparr>"
  shows "rc_cell s' (snap_key row) = (None, rem, upd)"
    and "k \<noteq> snap_key row \<Longrightarrow> rc_cell s' k = rc_cell s k"
proof -
  from assms(2) have "active_row (rc_table s) (snap_key row) = Some row" by (simp add: rc_cell_def)
  then have "row \<in> set (rc_table s)" "snap_active row" by (auto dest: active_row_SomeD)
  note a = active_row_deactivate [OF assms(1) this]
  from a assms(2) show "rc_cell s' (snap_key row) = (None, rem, upd)"
    by (simp add: rc_cell_def s'_def)
  from a show "rc_cell s' k = rc_cell s k" if "k \<noteq> snap_key row"
    using that by (simp add: rc_cell_def s'_def)
qed

lemma removed_key_event [simp]: "removed_key (removed_event row) = snap_key row"
  by (simp add: removed_key_def removed_event_def snap_key_def)

lemma retire_replaced:
  assumes "rc_inv source t0 s" and "incoming offers (snap_key row) = Some payload"
    and "payload \<noteq> snap_protocol_payload row" and "snap_provider_peer_id row = source"
    and "rc_cell s (snap_key row) = (Some row, [], [])"
  shows "\<exists>s'. retire_step source offers row s = Return s' \<and> rc_inv source t0 s' \<and>
    published (snap_key row) payload (rc_cell s' (snap_key row)) \<and>
    (\<forall>k. k \<noteq> snap_key row \<longrightarrow> rc_cell s' k = rc_cell s k)"
proof -
  let ?s1 = "s\<lparr>rc_table := deactivate (snap_rowid row) (rc_table s)\<rparr>"
  let ?k = "(source, snap_protocol_id row, snap_offer_id row)"
  have k: "snap_key row = ?k" using assms(4) by (simp add: snap_key_def)
  have inv: "rc_inv source t0 ?s1" using assms(1) by (rule rc_inv_deactivate)
  have wf: "wf_snapshots (rc_table s)" using assms(1) by (simp add: rc_inv_def)
  note c1 = deactivate_cell [OF wf assms(5)]
  then have none: "active_row (rc_table ?s1) ?k = None" by (simp add: rc_cell_def k)
  obtain t' rid where up: "upsert_snapshot_target ?k payload (rc_table ?s1) = Return (t', rid)"
    "upserted ?k payload (rc_table ?s1) t' rid"
    using upsert_snapshot_target_upserted [OF _ none, of payload] inv unfolding rc_inv_def by blast
  let ?s' = "?s1\<lparr>rc_table := t', rc_updated := rc_updated ?s1 @
    [updated_event source (snap_protocol_id row) (snap_offer_id row) payload rid]\<rparr>"
  have "retire_step source offers row s = Return ?s'"
    using assms(2,3) up(1) by (auto simp: retire_step_def incoming_def snap_key_def)
  with upserted_cell [OF inv up(2) c1(1) [unfolded k]] c1(2) show ?thesis
    unfolding k by (intro exI [of _ ?s']) simp
qed

interpretation retire_loop: keyed_loop "retire_step source offers" "rc_inv source t0" snap_key rc_cell
    "\<lambda>row c. c = (Some row, [], []) \<and> snap_provider_peer_id row = source"
    "\<lambda>row c c'. reconciled (snap_key row) (Some row) (incoming offers (snap_key row)) c'"
  for source offers t0
proof unfold_locales
  fix s row
  assume inv: "rc_inv source t0 s"
    and pre: "rc_cell s (snap_key row) = (Some row, [], []) \<and> snap_provider_peer_id row = source"
  show "\<exists>s'. retire_step source offers row s = Return s' \<and> rc_inv source t0 s' \<and>
      reconciled (snap_key row) (Some row) (incoming offers (snap_key row)) (rc_cell s' (snap_key row)) \<and>
      (\<forall>k. k \<noteq> snap_key row \<longrightarrow> rc_cell s' k = rc_cell s k)"
  proof (cases "incoming offers (snap_key row)")
    case None
    let ?s1 = "s\<lparr>rc_table := deactivate (snap_rowid row) (rc_table s)\<rparr>"
    let ?s' = "?s1\<lparr>rc_removed := rc_removed ?s1 @ [removed_event row]\<rparr>"
    have wf: "wf_snapshots (rc_table s)" using inv by (simp add: rc_inv_def)
    have "rc_cell ?s' (snap_key row) = (None, [removed_event row], [])"
      "\<forall>k. k \<noteq> snap_key row \<longrightarrow> rc_cell ?s' k = rc_cell s k"
      using deactivate_cell [OF wf conjunct1 [OF pre]] by (auto simp: rc_cell_def)
    with None pre rc_inv_deactivate [OF inv] show ?thesis
      by (intro exI [of _ ?s']) (simp add: retire_removed reconciled_def)
  next
    case (Some payload)
    show ?thesis
    proof (cases "payload = snap_protocol_payload row")
      case True
      with Some inv pre show ?thesis by (simp add: retire_unchanged reconciled_def)
    next
      case False
      with retire_replaced [OF inv Some False] pre Some show ?thesis
        by (simp add: reconciled_def)
    qed
  qed
qed

section \<open>Second loop: the offers of the heartbeat\<close>

definition entry_key :: "peer_id \<Rightarrow> string \<times> string \<times> wire_offer \<Rightarrow> offer_key" where
  "entry_key source e = (source, fst e, fst (snd e))"

definition entry_payload :: "string \<times> string \<times> wire_offer \<Rightarrow> string" where
  "entry_payload e = wo_protocol_payload (snd (snd e))"

text \<open>The offers of a message are decoded into hash maps; an inner map may be empty.\<close>

definition wire_ok :: "wire_offers \<Rightarrow> bool" where
  "wire_ok offers \<longleftrightarrow> hm_ok offers \<and> (\<forall>(p, inner) \<in> set offers. hm_ok inner)"

lemma in_offer_entries:
  assumes "wire_ok offers"
  shows "(p, o', inc) \<in> set (offer_entries offers) \<longleftrightarrow> nested_get offers p o' = Some inc"
proof -
  have outer: "(p, inner) \<in> set offers \<longleftrightarrow> map_of offers p = Some inner" for inner
    using assms by (simp add: wire_ok_def hm_ok_in_set)
  have inner: "(o', inc) \<in> set inner \<longleftrightarrow> map_of inner o' = Some inc" if "(p, inner) \<in> set offers"
    for inner
  proof (rule hm_ok_in_set)
    show "hm_ok inner" using assms that by (auto simp: wire_ok_def)
  qed
  have "(p, o', inc) \<in> set (offer_entries offers) \<longleftrightarrow>
      (\<exists>inner. (p, inner) \<in> set offers \<and> (o', inc) \<in> set inner)"
    by (auto simp: offer_entries_def)
  also have "\<dots> \<longleftrightarrow> (\<exists>inner. (p, inner) \<in> set offers \<and> map_of inner o' = Some inc)"
    using inner by blast
  also have "\<dots> \<longleftrightarrow> (\<exists>inner. map_of offers p = Some inner \<and> map_of inner o' = Some inc)"
    using outer by simp
  also have "\<dots> \<longleftrightarrow> nested_get offers p o' = Some inc"
    by (auto simp: nested_get_def split: option.splits)
  finally show ?thesis .
qed

lemma distinct_offer_entries:
  "wire_ok offers \<Longrightarrow> distinct (map (entry_key source) (offer_entries offers))"
proof (induction offers)
  case (Cons a offers)
  obtain p inner where a: "a = (p, inner)" by (cases a)
  have "map (entry_key source) (offer_entries (a # offers)) =
      map (\<lambda>x. (source, p, fst x)) inner @ map (entry_key source) (offer_entries offers)"
    by (simp add: a offer_entries_def entry_key_def comp_def case_prod_beta)
  moreover have "distinct (map (\<lambda>x. (source, p, fst x)) inner)"
    using Cons.prems a by (auto simp: wire_ok_def hm_ok_def distinct_map inj_on_def)
  moreover have "distinct (map (entry_key source) (offer_entries offers))"
    by (rule Cons.IH) (use Cons.prems a in \<open>simp add: wire_ok_def hm_ok_def\<close>)
  moreover have "p \<notin> fst ` set offers"
    using Cons.prems a by (simp add: wire_ok_def hm_ok_def)
  then have "fst e \<noteq> p" if "e \<in> set (offer_entries offers)" for e
    using that by (auto simp: offer_entries_def image_iff)
  then have "set (map (\<lambda>x. (source, p, fst x)) inner) \<inter>
      set (map (entry_key source) (offer_entries offers)) = {}"
    by (auto simp: entry_key_def)
  ultimately show ?case by (simp only: distinct_append simp_thms)
qed (simp add: offer_entries_def)

interpretation publish_loop: keyed_loop "publish_step pick source" "rc_inv source t0"
    "entry_key source" rc_cell
    "\<lambda>e c. (\<forall>rs. rs \<noteq> [] \<longrightarrow> pick rs \<in> set rs) \<and> (fst c = None \<longrightarrow> c = (None, [], []))"
    "\<lambda>e c c'. if fst c = None then published (entry_key source e) (entry_payload e) c' else c' = c"
  for pick source t0
proof unfold_locales
  fix s and e :: "string \<times> string \<times> wire_offer"
  let ?k = "entry_key source e"
  assume inv: "rc_inv source t0 s"
    and pre: "(\<forall>rs. rs \<noteq> [] \<longrightarrow> pick rs \<in> set rs) \<and>
      (fst (rc_cell s ?k) = None \<longrightarrow> rc_cell s ?k = (None, [], []))"
  obtain p o' inc where e: "e = (p, o', inc)" by (cases e)
  show "\<exists>s'. publish_step pick source e s = Return s' \<and> rc_inv source t0 s' \<and>
      (if fst (rc_cell s ?k) = None
       then published ?k (entry_payload e) (rc_cell s' ?k) else rc_cell s' ?k = rc_cell s ?k) \<and>
      (\<forall>k. k \<noteq> ?k \<longrightarrow> rc_cell s' k = rc_cell s k)"
  proof (cases "active_row (rc_table s) ?k")
    case None
    then have cell: "rc_cell s ?k = (None, [], [])" using pre by (simp add: rc_cell_def)
    have wf: "wf_snapshots (rc_table s)" using inv by (simp add: rc_inv_def)
    obtain t' rid where up:
      "upsert_snapshot pick ?k (entry_payload e) (rc_table s) = Return (t', rid)"
      "upserted ?k (entry_payload e) (rc_table s) t' rid"
      using upsert_snapshot_upserted [OF wf None, of pick] pre by blast
    let ?s' = "s\<lparr>rc_table := t', rc_updated := rc_updated s @
      [updated_event source p o' (entry_payload e) rid]\<rparr>"
    have "publish_step pick source e s = Return ?s'"
      using None up(1) e by (simp add: publish_step_def entry_key_def entry_payload_def)
    moreover have "?k = (source, p, o')" by (simp add: entry_key_def e)
    ultimately show ?thesis
      using upserted_cell [OF inv up(2) [unfolded \<open>?k = _\<close>]] cell by (intro exI [of _ ?s']) simp
  next
    case (Some r)
    then have "publish_step pick source e s = Return s"
      by (simp add: publish_step_def entry_key_def e)
    with Some inv show ?thesis by (simp add: rc_cell_def)
  qed
qed

section \<open>The loop over the offers of a new provider\<close>

definition new_cell :: "reconcile \<Rightarrow> offer_key \<Rightarrow> cell \<times> snapshot_row list" where
  "new_cell s k = (rc_cell s k, filter (\<lambda>r. snap_key r = k) (rc_table s))"

interpretation insert_loop: keyed_loop "insert_step source" "rc_inv source t0"
    "entry_key source" new_cell "\<lambda>e c. c = ((None, [], []), [])"
    "\<lambda>e c c'. published (entry_key source e) (entry_payload e) (fst c')"
  for source t0
proof unfold_locales
  fix s and e :: "string \<times> string \<times> wire_offer"
  let ?k = "entry_key source e"
  assume inv: "rc_inv source t0 s" and pre: "new_cell s ?k = ((None, [], []), [])"
  obtain p o' inc where e: "e = (p, o', inc)" by (cases e)
  then have k: "?k = (source, p, o')" by (simp add: entry_key_def)
  from pre have cell: "rc_cell s ?k = (None, [], [])"
    and "\<forall>r \<in> set (rc_table s). snap_key r \<noteq> ?k"
    by (simp_all add: new_cell_def filter_empty_conv)
  then have "conflicts (rc_table s) ?k (entry_payload e) = []"
    by (auto simp: conflicts_Nil_iff rc_cell_def snap_ident_def)
  moreover have "wf_snapshots (rc_table s)" using inv by (simp add: rc_inv_def)
  ultimately obtain t' rid where
    up: "insert_snapshot ?k (entry_payload e) (rc_table s) = Return (t', rid)"
      "upserted ?k (entry_payload e) (rc_table s) t' rid"
    using upserted_insert by blast
  then have t': "t' = rc_table s @ [new_snapshot (rc_table s) ?k (entry_payload e)]"
    by (simp add: insert_snapshot_def split: if_splits)
  let ?s' = "s\<lparr>rc_table := t', rc_updated := rc_updated s @
    [updated_event source p o' (entry_payload e) rid]\<rparr>"
  have "insert_step source e s = Return ?s'"
    using up(1) e by (simp add: insert_step_def entry_key_def entry_payload_def)
  with upserted_cell [OF inv up(2) [unfolded k]] cell t'
  show "\<exists>s'. insert_step source e s = Return s' \<and> rc_inv source t0 s' \<and>
      published ?k (entry_payload e) (fst (new_cell s' ?k)) \<and>
      (\<forall>k. k \<noteq> ?k \<longrightarrow> new_cell s' k = new_cell s k)"
    by (intro exI [of _ ?s']) (simp add: new_cell_def k)
qed

section \<open>Whole heartbeats\<close>

lemma rc_cell_start [simp]:
  "rc_cell \<lparr>rc_table = t, rc_removed = [], rc_updated = []\<rparr> k = (active_row t k, [], [])"
  by (simp add: rc_cell_def)

lemma in_active_of_source:
  assumes "wf_snapshots t"
  shows "r \<in> set (active_of_source source t) \<longleftrightarrow>
    active_row t (snap_key r) = Some r \<and> snap_provider_peer_id r = source"
  using assms by (auto simp: active_of_source_def active_row_iff)

lemma distinct_active_of_source:
  assumes "wf_snapshots t"
  shows "distinct (map snap_key (active_of_source source t))"
proof -
  have "active_of_source source t =
      filter (\<lambda>r. snap_provider_peer_id r = source) (filter snap_active t)"
    unfolding active_of_source_def filter_filter by (rule filter_cong) auto
  moreover have "distinct (map snap_key (filter snap_active t))"
    using assms by (simp add: wf_snapshots_def)
  ultimately show ?thesis by (metis distinct_map_filter)
qed

lemma fst_snap_key [simp]: "fst (snap_key r) = snap_provider_peer_id r"
  by (simp add: snap_key_def)

text \<open>After the first loop: the offers that were on record are settled.\<close>

lemma retire_run:
  assumes "wf_snapshots t"
  shows "\<exists>s. fold_outcome (retire_step source offers) (active_of_source source t)
      \<lparr>rc_table = t, rc_removed = [], rc_updated = []\<rparr> = Return s \<and> rc_inv source t s \<and>
    (\<forall>k. if fst k = source \<and> active_row t k \<noteq> None
         then reconciled k (active_row t k) (incoming offers k) (rc_cell s k)
         else rc_cell s k = (active_row t k, [], []))"
proof -
  let ?es = "active_of_source source t"
  let ?s0 = "\<lparr>rc_table = t, rc_removed = [], rc_updated = []\<rparr>"
  obtain s where s: "fold_outcome (retire_step source offers) ?es ?s0 = Return s"
      "rc_inv source t s"
      "\<forall>r \<in> set ?es. reconciled (snap_key r) (Some r) (incoming offers (snap_key r)) (rc_cell s (snap_key r))"
      "\<forall>k. k \<notin> snap_key ` set ?es \<longrightarrow> rc_cell s k = rc_cell ?s0 k"
    using retire_loop.loop_cells [where source = source and offers = offers and ?t0.0 = t
        and s = ?s0 and es = ?es]
      rc_inv_start [OF assms] distinct_active_of_source [OF assms] in_active_of_source [OF assms]
    by auto
  have "if fst k = source \<and> active_row t k \<noteq> None
      then reconciled k (active_row t k) (incoming offers k) (rc_cell s k)
      else rc_cell s k = (active_row t k, [], [])" for k
  proof (cases "k \<in> snap_key ` set ?es")
    case True
    then obtain r where r: "r \<in> set ?es" "k = snap_key r" by blast
    with s(3) in_active_of_source [OF assms, of r source] show ?thesis by auto
  next
    case False
    then have "\<not> (fst k = source \<and> active_row t k \<noteq> None)"
      using in_active_of_source [OF assms] active_row_SomeD by fastforce
    with mp [OF spec [OF s(4)] False] show ?thesis by auto
  qed
  with s(1,2) show ?thesis by blast
qed

lemma entry_key_iff:
  assumes "wire_ok offers"
  shows "k \<in> entry_key source ` set (offer_entries offers) \<longleftrightarrow>
    fst k = source \<and> incoming offers k \<noteq> None"
proof -
  have "k \<in> entry_key source ` set (offer_entries offers) \<longleftrightarrow>
      (\<exists>inc. fst k = source \<and> (fst (snd k), snd (snd k), inc) \<in> set (offer_entries offers))"
    by (cases k) (force simp: entry_key_def image_iff)
  then show ?thesis
    unfolding in_offer_entries [OF assms] by (auto simp: incoming_def)
qed

lemma entry_incoming:
  "wire_ok offers \<Longrightarrow> e \<in> set (offer_entries offers) \<Longrightarrow>
     incoming offers (entry_key source e) = Some (entry_payload e)"
  using in_offer_entries [of offers "fst e" "fst (snd e)" "snd (snd e)"]
  by (simp add: incoming_def entry_key_def entry_payload_def)

lemma reconcile_offers_run:
  assumes "wf_snapshots t" and "wire_ok offers" and pick: "\<And>rs. rs \<noteq> [] \<Longrightarrow> pick rs \<in> set rs"
  shows "\<exists>s. reconcile_offers pick source offers t = Return s \<and> rc_inv source t s \<and>
    settled source offers t s"
proof -
  obtain s1 where s1: "fold_outcome (retire_step source offers) (active_of_source source t)
      \<lparr>rc_table = t, rc_removed = [], rc_updated = []\<rparr> = Return s1" "rc_inv source t s1"
      "\<forall>k. if fst k = source \<and> active_row t k \<noteq> None
         then reconciled k (active_row t k) (incoming offers k) (rc_cell s1 k)
         else rc_cell s1 k = (active_row t k, [], [])"
    using retire_run [OF assms(1)] by blast
  let ?es = "offer_entries offers" and ?k = "entry_key source"
  have k: "fst (?k e) = source" for e by (simp add: entry_key_def)
  have pre: "fst (rc_cell s1 (?k e)) = None \<longrightarrow> rc_cell s1 (?k e) = (None, [], [])"
    if "e \<in> set ?es" for e
    using spec [OF s1(3), of "?k e"] entry_incoming [OF assms(2) that, of source]
    by (auto simp: k reconciled_def published_def split: if_splits)
  obtain s where s: "fold_outcome (publish_step pick source) ?es s1 = Return s" "rc_inv source t s"
      "\<forall>e \<in> set ?es. if fst (rc_cell s1 (?k e)) = None
        then published (?k e) (entry_payload e) (rc_cell s (?k e))
        else rc_cell s (?k e) = rc_cell s1 (?k e)"
      "\<forall>k. k \<notin> ?k ` set ?es \<longrightarrow> rc_cell s k = rc_cell s1 k"
    using publish_loop.loop_cells [where source = source and pick = pick and ?t0.0 = t
        and s = s1 and es = ?es, OF s1(2) distinct_offer_entries [OF assms(2)]] pick pre by auto
  have "if fst k = source then reconciled k (active_row t k) (incoming offers k) (rc_cell s k)
      else rc_cell s k = (active_row t k, [], [])" for k
  proof (cases "k \<in> ?k ` set ?es")
    case True
    then obtain e where e: "e \<in> set ?es" "k = ?k e" by blast
    note inc = entry_incoming [OF assms(2) e(1), of source]
    show ?thesis
      using bspec [OF s(3) e(1)] spec [OF s1(3), of k] inc
      by (cases "active_row t k") (auto simp: e(2) k reconciled_def published_def split: if_splits)
  next
    case False
    then have "fst k = source \<Longrightarrow> incoming offers k = None"
      using entry_key_iff [OF assms(2), of k source] by blast
    with spec [OF s1(3), of k] mp [OF spec [OF s(4)] False] show ?thesis
      by (auto simp: reconciled_def split: if_splits)
  qed
  then have "settled source offers t s" unfolding settled_def by blast
  with s1(1) s(1,2) show ?thesis by (auto simp: reconcile_offers_def)
qed

lemma insert_loop_removed:
  "fold_outcome (insert_step source) es s = Return s' \<Longrightarrow> rc_removed s' = rc_removed s"
  by (induction es arbitrary: s) (fastforce simp: insert_step_def)+

lemma insert_offers_run:
  assumes "wf_snapshots t" and "wire_ok offers"
    and "\<forall>r \<in> set t. snap_provider_peer_id r \<noteq> source"
  shows "\<exists>s. insert_offers source offers t = Return s \<and> rc_inv source t s \<and>
    settled source offers t s \<and> rc_removed s = []"
proof -
  let ?es = "offer_entries offers" and ?k = "entry_key source"
  let ?s0 = "\<lparr>rc_table = t, rc_removed = [], rc_updated = []\<rparr>"
  have k: "fst (?k e) = source" for e by (simp add: entry_key_def)
  have none: "active_row t k = None" "filter (\<lambda>r. snap_key r = k) t = []" if "fst k = source" for k
    using that assms(3) by (auto simp: active_row_def find_None_iff filter_empty_conv)
  obtain s where s: "fold_outcome (insert_step source) ?es ?s0 = Return s" "rc_inv source t s"
      "\<forall>e \<in> set ?es. published (?k e) (entry_payload e) (fst (new_cell s (?k e)))"
      "\<forall>k. k \<notin> ?k ` set ?es \<longrightarrow> new_cell s k = new_cell ?s0 k"
    using insert_loop.loop_cells [where source = source and ?t0.0 = t and s = ?s0 and es = ?es,
        OF rc_inv_start [OF assms(1)] distinct_offer_entries [OF assms(2)]] none k
    by (auto simp: new_cell_def)
  have "if fst k = source then reconciled k None (incoming offers k) (rc_cell s k)
      else rc_cell s k = (active_row t k, [], [])" for k
  proof (cases "k \<in> ?k ` set ?es")
    case True
    then obtain e where e: "e \<in> set ?es" "k = ?k e" by blast
    with bspec [OF s(3) e(1)] entry_incoming [OF assms(2) e(1), of source] show ?thesis
      by (simp add: k reconciled_def new_cell_def)
  next
    case False
    with mp [OF spec [OF s(4)] False] entry_key_iff [OF assms(2), of k source] none [of k]
    show ?thesis by (auto simp: reconciled_def new_cell_def)
  qed
  then have "settled source offers t s" unfolding settled_def using none(1) by auto
  moreover have "rc_removed s = []"
    using insert_loop_removed [OF s(1)] by simp
  ultimately show ?thesis using s(1,2) by (auto simp: insert_offers_def)
qed

end
