(* ===== verification/Heartbeat_Send.thy ===== *)
theory Heartbeat_Send
  imports Reconcile
begin

text \<open>
  The sending side of heartbeats: as long as the two maps of the provider state are in step,
  collecting the offers does not panic and the message carries exactly the provided offers.
\<close>

definition to_wire :: "provided_offer \<Rightarrow> wire_offer" where
  "to_wire offer = \<lparr>wo_protocol_payload = po_protocol_payload offer\<rparr>"

interpretation wire_offer_loop: keyed_loop add_wire_offer hm_ok fst map_of
    "\<lambda>e c. c = None" "\<lambda>e c c'. c' = Some (to_wire (snd e))"
  by unfold_locales (auto simp: add_wire_offer_def to_wire_def)

lemma wire_okI:
  assumes "hm_ok m" and "\<And>p inner. map_of m p = Some inner \<Longrightarrow> hm_ok inner"
  shows "wire_ok m"
  using assms unfolding wire_ok_def by (auto simp: hm_ok_in_set simp del: not_None_eq)

lemma wire_okD: "wire_ok m \<Longrightarrow> map_of m p = Some inner \<Longrightarrow> hm_ok inner"
  unfolding wire_ok_def by (auto dest: map_of_SomeD)

lemma nested_ok_wire_ok: "nested_ok m \<Longrightarrow> hm_ok m \<and> (\<forall>e \<in> set m. hm_ok (snd e))"
  unfolding nested_ok_def by auto

lemma add_wire_offers_run:
  assumes "hm_ok es" and "hm_ok m" and "\<And>o'. map_of es o' \<noteq> None \<Longrightarrow> map_of m o' = None"
  shows "\<exists>m'. fold_outcome add_wire_offer es m = Return m' \<and> hm_ok m' \<and>
    (\<forall>o'. map_of m' o' = (case map_of es o' of Some x \<Rightarrow> Some (to_wire x) | None \<Rightarrow> map_of m o'))"
proof -
  have "map_of m (fst e) = None" if "e \<in> set es" for e
  proof -
    have "map_of es (fst e) \<noteq> None" using that by (simp add: map_of_eq_None_iff)
    with assms(3) show ?thesis by blast
  qed
  then obtain m' where m': "fold_outcome add_wire_offer es m = Return m'" "hm_ok m'"
      "\<forall>e \<in> set es. map_of m' (fst e) = Some (to_wire (snd e))"
      "\<forall>k. k \<notin> fst ` set es \<longrightarrow> map_of m' k = map_of m k"
    using wire_offer_loop.loop_cells [OF assms(2), of es] assms(1) unfolding hm_ok_def by auto
  have "map_of m' o' = (case map_of es o' of Some x \<Rightarrow> Some (to_wire x) | None \<Rightarrow> map_of m o')" for o'
  proof (cases "map_of es o'")
    case None
    then have "o' \<notin> fst ` set es" by (simp add: map_of_eq_None_iff)
    with m'(4) None show ?thesis by simp
  next
    case (Some x)
    with m'(3) map_of_SomeD [OF Some] show ?thesis by fastforce
  qed
  with m'(1,2) show ?thesis by blast
qed

interpretation wire_protocol_loop: keyed_loop add_wire_protocol wire_ok fst nested_get
    "\<lambda>e c. hm_ok (snd e) \<and> (\<forall>o'. map_of (snd e) o' \<noteq> None \<longrightarrow> c o' = None)"
    "\<lambda>e c c'. c' = (\<lambda>o'. case map_of (snd e) o' of Some x \<Rightarrow> Some (to_wire x) | None \<Rightarrow> c o')"
proof unfold_locales
  fix m :: wire_offers and e :: "string \<times> (string, provided_offer) hash_map"
  assume ok: "wire_ok m"
    and pre: "hm_ok (snd e) \<and> (\<forall>o'. map_of (snd e) o' \<noteq> None \<longrightarrow> nested_get m (fst e) o' = None)"
  obtain p es where e: "e = (p, es)" by (cases e)
  let ?inner = "case map_of m p of Some inner \<Rightarrow> inner | None \<Rightarrow> []"
  have get: "map_of ?inner o' = nested_get m p o'" for o'
    by (simp add: nested_get_def split: option.splits)
  have inner_ok: "hm_ok ?inner" using wire_okD [OF ok] by (simp split: option.splits)
  have free: "map_of ?inner o' = None" if "map_of es o' \<noteq> None" for o'
    unfolding get using pre that by (simp add: e)
  have "hm_ok es" using pre by (simp add: e)
  from add_wire_offers_run [OF this inner_ok free] obtain m' where
    m': "fold_outcome add_wire_offer es ?inner = Return m'" "hm_ok m'"
      "\<forall>o'. map_of m' o' = (case map_of es o' of Some x \<Rightarrow> Some (to_wire x) | None \<Rightarrow> map_of ?inner o')"
    by blast
  have step: "add_wire_protocol e m = Return (AList.update p m' m)"
    using m'(1) by (simp add: add_wire_protocol_def e)
  moreover have "hm_ok m" using ok by (simp add: wire_ok_def)
  then have "wire_ok (AList.update p m' m)"
    using m'(2) wire_okD [OF ok] by (intro wire_okI) (auto split: if_splits)
  moreover have "nested_get (AList.update p m' m) p =
      (\<lambda>o'. case map_of es o' of Some x \<Rightarrow> Some (to_wire x) | None \<Rightarrow> nested_get m p o')"
    using m'(3) unfolding get by (simp add: nested_get_def [of "AList.update p m' m"] fun_eq_iff)
  moreover have "\<forall>k. k \<noteq> p \<longrightarrow> nested_get (AList.update p m' m) k = nested_get m k"
    by (auto simp: nested_get_def fun_eq_iff)
  ultimately show "\<exists>m'. add_wire_protocol e m = Return m' \<and> wire_ok m' \<and>
      nested_get m' (fst e) =
        (\<lambda>o'. case map_of (snd e) o' of Some x \<Rightarrow> Some (to_wire x) | None \<Rightarrow> nested_get m (fst e) o') \<and>
      (\<forall>k. k \<noteq> fst e \<longrightarrow> nested_get m' k = nested_get m k)"
    unfolding e fst_conv snd_conv by (intro exI [of _ "AList.update p m' m"]) simp
qed

lemma add_module_run:
  assumes "nested_ok os" and "wire_ok m"
    and "\<And>p o'. nested_get os p o' \<noteq> None \<Longrightarrow> nested_get m p o' = None"
  shows "\<exists>m'. fold_outcome add_wire_protocol os m = Return m' \<and> wire_ok m' \<and>
    (\<forall>p o'. nested_get m' p o' =
      (case nested_get os p o' of Some x \<Rightarrow> Some (to_wire x) | None \<Rightarrow> nested_get m p o'))"
proof -
  have hm: "hm_ok os" using assms(1) by blast
  have at: "map_of os (fst e) = Some (snd e)" if "e \<in> set os" for e
    using hm that hm_ok_in_set [of os "fst e" "snd e"] by simp
  have pre: "hm_ok (snd e) \<and> (\<forall>o'. map_of (snd e) o' \<noteq> None \<longrightarrow> nested_get m (fst e) o' = None)"
    if "e \<in> set os" for e
    using at [OF that] nested_ok_inner [OF assms(1) at [OF that]] assms(3) [of "fst e"]
    by (auto simp: nested_get_def [of os])
  obtain m' where m': "fold_outcome add_wire_protocol os m = Return m'" "wire_ok m'"
      "\<forall>e \<in> set os. nested_get m' (fst e) =
        (\<lambda>o'. case map_of (snd e) o' of Some x \<Rightarrow> Some (to_wire x) | None \<Rightarrow> nested_get m (fst e) o')"
      "\<forall>k. k \<notin> fst ` set os \<longrightarrow> nested_get m' k = nested_get m k"
    using wire_protocol_loop.loop_cells [OF assms(2) _ pre, of os] hm unfolding hm_ok_def by blast
  have "nested_get m' p o' =
      (case nested_get os p o' of Some x \<Rightarrow> Some (to_wire x) | None \<Rightarrow> nested_get m p o')" for p o'
  proof (cases "map_of os p")
    case None
    then have "p \<notin> fst ` set os" by (simp add: map_of_eq_None_iff)
    with m'(4) None show ?thesis by (simp add: nested_get_def [of os])
  next
    case (Some inner)
    from bspec [OF m'(3) map_of_SomeD [OF Some]] Some show ?thesis
      unfolding fst_conv snd_conv by (simp add: nested_get_def [of os])
  qed
  with m'(1,2) show ?thesis by blast
qed

text \<open>The modules hold different offers: an offer determines the module it is in.\<close>

lemma add_modules_run:
  assumes "distinct (map fst ms)" and "\<And>i md. (i, md) \<in> set ms \<Longrightarrow> nested_ok (pm_offers md)"
    and "\<And>i md p o'. (i, md) \<in> set ms \<Longrightarrow> nested_get (pm_offers md) p o' \<noteq> None \<Longrightarrow>
      owner p o' = Some i \<and> nested_get m p o' = None"
    and "wire_ok m"
  shows "\<exists>m'. fold_outcome (\<lambda>(i, md). fold_outcome add_wire_protocol (pm_offers md)) ms m = Return m' \<and>
    wire_ok m' \<and> (\<forall>p o' x. nested_get m' p o' = Some x \<longleftrightarrow> nested_get m p o' = Some x \<or>
      (\<exists>i md y. (i, md) \<in> set ms \<and> nested_get (pm_offers md) p o' = Some y \<and> x = to_wire y))"
  using assms
proof (induction ms arbitrary: m)
  case (Cons a ms)
  obtain i md where a: "a = (i, md)" by (cases a)
  have free: "nested_get m p o' = None" if "nested_get (pm_offers md) p o' \<noteq> None" for p o'
    using Cons.prems(3) [of i md p o'] that a by simp
  have "nested_ok (pm_offers md)" using Cons.prems(2) [of i md] a by simp
  from add_module_run [OF this Cons.prems(4) free] obtain m1 where
    m1: "fold_outcome add_wire_protocol (pm_offers md) m = Return m1" "wire_ok m1"
      "\<And>p o'. nested_get m1 p o' = (case nested_get (pm_offers md) p o' of
        Some x \<Rightarrow> Some (to_wire x) | None \<Rightarrow> nested_get m p o')" by blast
  have rest: "owner p o' = Some j \<and> nested_get m1 p o' = None"
    if "(j, md') \<in> set ms" "nested_get (pm_offers md') p o' \<noteq> None" for j md' p o'
  proof -
    have j: "owner p o' = Some j" "nested_get m p o' = None"
      using Cons.prems(3) [of j md' p o'] that by simp_all
    moreover have "j \<noteq> i" using Cons.prems(1) that(1) a by force
    ultimately have "nested_get (pm_offers md) p o' = None"
      using Cons.prems(3) [of i md p o'] a by force
    with j show ?thesis by (simp add: m1(3))
  qed
  have "\<exists>m'. fold_outcome (\<lambda>(i, md). fold_outcome add_wire_protocol (pm_offers md)) ms m1 = Return m' \<and>
    wire_ok m' \<and> (\<forall>p o' x. nested_get m' p o' = Some x \<longleftrightarrow> nested_get m1 p o' = Some x \<or>
      (\<exists>i md y. (i, md) \<in> set ms \<and> nested_get (pm_offers md) p o' = Some y \<and> x = to_wire y))"
    by (rule Cons.IH) (use Cons.prems(1,2) m1(2) rest in auto)
  then obtain m' where m': "fold_outcome (\<lambda>(i, md). fold_outcome add_wire_protocol (pm_offers md)) ms m1 = Return m'"
    "wire_ok m'" "\<forall>p o' x. nested_get m' p o' = Some x \<longleftrightarrow> nested_get m1 p o' = Some x \<or>
      (\<exists>i md y. (i, md) \<in> set ms \<and> nested_get (pm_offers md) p o' = Some y \<and> x = to_wire y)"
    by blast
  have "nested_get m1 p o' = Some x \<longleftrightarrow> nested_get m p o' = Some x \<or>
      (\<exists>y. nested_get (pm_offers md) p o' = Some y \<and> x = to_wire y)" for p o' x
    using free [of p o'] by (auto simp: m1(3) split: option.splits)
  then have "nested_get m' p o' = Some x \<longleftrightarrow> nested_get m p o' = Some x \<or>
      (\<exists>j md' y. (j, md') \<in> set (a # ms) \<and> nested_get (pm_offers md') p o' = Some y \<and> x = to_wire y)"
    for p o' x
    using m'(3) unfolding a set_simps insert_iff prod.inject by metis
  moreover have "fold_outcome (\<lambda>(i, md). fold_outcome add_wire_protocol (pm_offers md)) (a # ms) m =
      Return m'"
    using m'(1) m1(1) by (simp add: a)
  ultimately show ?case using m'(2) by blast
qed simp

lemma heartbeat_offers_run:
  assumes "provider_ok st"
  shows "\<exists>offers. heartbeat_offers st = Return offers \<and> wire_ok offers \<and>
    (\<forall>p o'. nested_get offers p o' = map_option to_wire (provided st (p, o')))"
proof -
  let ?owner = "nested_get (offers_module_map st)"
  note ok = provider_okD [OF assms]
  have in_modules: "(i, md) \<in> set (modules st) \<longleftrightarrow> map_of (modules st) i = Some md" for i md
    using ok(1) by (rule hm_ok_in_set)
  have all: "\<exists>m'. fold_outcome (\<lambda>(i, md). fold_outcome add_wire_protocol (pm_offers md)) (modules st) [] =
      Return m' \<and> wire_ok m' \<and>
    (\<forall>p o' x. nested_get m' p o' = Some x \<longleftrightarrow> nested_get ([] :: wire_offers) p o' = Some x \<or>
      (\<exists>i md y. (i, md) \<in> set (modules st) \<and> nested_get (pm_offers md) p o' = Some y \<and> x = to_wire y))"
  proof (rule add_modules_run [where owner = ?owner])
    show "distinct (map fst (modules st))" using ok(1) by (simp add: hm_ok_def)
    show "nested_ok (pm_offers md)" if "(i, md) \<in> set (modules st)" for i md
      using that ok(3) by (simp add: in_modules)
    show "?owner p o' = Some i \<and> nested_get ([] :: wire_offers) p o' = None"
      if "(i, md) \<in> set (modules st)" "nested_get (pm_offers md) p o' \<noteq> None" for i md p o'
      using that ok(4) by (simp add: in_modules)
    show "wire_ok []" by (simp add: wire_ok_def)
  qed
  then obtain offers where offers: "heartbeat_offers st = Return offers" "wire_ok offers"
    "\<And>p o' x. nested_get offers p o' = Some x \<longleftrightarrow> (\<exists>i md y. map_of (modules st) i = Some md \<and>
      nested_get (pm_offers md) p o' = Some y \<and> x = to_wire y)"
    unfolding in_modules heartbeat_offers_def nested_get_Nil by blast
  have "nested_get offers p o' = Some x \<longleftrightarrow> map_option to_wire (provided st (p, o')) = Some x" for p o' x
    unfolding offers(3) map_option_eq_Some provided_iff [OF assms] by blast
  then have "nested_get offers p o' = map_option to_wire (provided st (p, o'))" for p o'
    by (metis option.exhaust)
  with offers(1,2) show ?thesis by blast
qed

end
