(* ===== verification/Gossip.thy ===== *)
theory Gossip
  imports Heartbeat_Send
begin

text \<open>
  Heartbeats end to end: what \<open>handle_heartbeat\<close> does to the database in each of its
  branches, that no heartbeat makes it panic or breaks a constraint, and that the offers a
  provider sends are the offers the receiver then has on record.
\<close>

section \<open>Peers\<close>

lemma find_peerD: "find_peer p db = Some r \<Longrightarrow> r \<in> set (peers db) \<and> peer_peer_id r = p"
  unfolding find_peer_def by (auto dest: find_SomeD)

lemma find_peer_None_iff: "find_peer p db = None \<longleftrightarrow> p \<notin> peer_ids db"
  by (auto simp: find_peer_def find_None_iff peer_ids_def)

lemma update_peer_simps [simp]:
  "offer_snapshots (update_peer p f db) = offer_snapshots db"
  "service_jobs (update_peer p f db) = service_jobs db"
  "peers (update_peer p f db) = update_where (\<lambda>r. peer_peer_id r = p) f (peers db)"
  by (simp_all add: update_peer_def)

lemma map_peer_ids_update:
  assumes "\<And>r. peer_peer_id (f r) = peer_peer_id r"
  shows "map peer_peer_id (peers (update_peer p f db)) = map peer_peer_id (peers db)"
  using assms by (simp add: map_update_where)

lemma peer_ids_update:
  assumes "\<And>r. peer_peer_id (f r) = peer_peer_id r"
  shows "peer_ids (update_peer p f db) = peer_ids db"
  using map_peer_ids_update [where p = p and f = f and db = db, OF assms]
  unfolding peer_ids_def by (metis set_map)

lemma wf_update_peer:
  assumes "wf_database db" and "\<And>r. peer_peer_id (f r) = peer_peer_id r"
  shows "wf_database (update_peer p f db)"
  using assms(1) peer_ids_update [where p = p and f = f and db = db, OF assms(2)]
    map_peer_ids_update [where p = p and f = f and db = db, OF assms(2)]
  unfolding wf_database_def by simp

lemma find_peer_update:
  assumes "\<And>r. peer_peer_id (f r) = peer_peer_id r"
  shows "find_peer q (update_peer p f db) =
    map_option (\<lambda>r. if peer_peer_id r = p then f r else r) (find_peer q db)"
  unfolding find_peer_def update_peer_simps by (rule find_update_where) (simp add: assms)

section \<open>The branches of the handler\<close>

text \<open>When a heartbeat of a known peer gets past the check of its timestamp.\<close>

definition newer_heartbeat :: "peer_row \<Rightarrow> heartbeat \<Rightarrow> bool" where
  "newer_heartbeat peer hb \<longleftrightarrow>
     (case peer_their_latest_heartbeat_timestamp peer of
        None \<Rightarrow> True | Some stored \<Rightarrow> stored < hb_timestamp hb)"

definition known_updated_at :: "peer_row \<Rightarrow> datetime" where
  "known_updated_at peer =
     (case peer_their_provider_updated_at peer of Some t \<Rightarrow> t | None \<Rightarrow> 0)"

lemma handle_heartbeat_known:
  assumes "find_peer source db = Some peer"
  shows "handle_heartbeat pick source hb sql_now now1 now2 db =
    (if newer_heartbeat peer hb then handle_known pick source peer hb sql_now now1 now2 db
     else Return (Inl (Outdated_Timestamp
       (the (peer_their_latest_heartbeat_timestamp peer)) (hb_timestamp hb))))"
  using assms by (auto simp: handle_heartbeat_def newer_heartbeat_def split: option.splits)

lemma handle_known_details:
  assumes "hb_provider hb = Some details"
  shows "handle_known pick source peer hb sql_now now1 now2 db =
    (if pd_updated_at details < known_updated_at peer
     then Return (Inl (Updated_At_Less (pd_updated_at details) (known_updated_at peer)))
     else if pd_updated_at details = known_updated_at peer
     then Return (Inr (heartbeat_unchanged source (hb_timestamp hb) sql_now now1 db))
     else and_then (heartbeat_changed pick source details (hb_timestamp hb) sql_now now1 now2 db)
       (\<lambda>r. Return (Inr r)))"
  using assms unfolding handle_known_def known_updated_at_def Let_def by simp

text \<open>
  What a heartbeat that brings offers does: the table of the result, the events raised for
  the offers, and that nothing but this peer's record and the snapshot table changes.
\<close>

definition offers_replaced ::
  "peer_id \<Rightarrow> provider_details \<Rightarrow> database \<Rightarrow> database \<Rightarrow> offer_removed list \<Rightarrow>
     offer_snapshot list \<Rightarrow> bool" where
  "offers_replaced source details db db' rem upd \<longleftrightarrow> wf_database db' \<and>
     service_jobs db' = service_jobs db \<and>
     snapshot_idents (offer_snapshots db) \<subseteq> snapshot_idents (offer_snapshots db') \<and>
     settled source (pd_offers details) (offer_snapshots db)
       \<lparr>rc_table = offer_snapshots db', rc_removed = rem, rc_updated = upd\<rparr>"

lemma rc_eta [simp]: "\<lparr>rc_table = rc_table s, rc_removed = rc_removed s, rc_updated = rc_updated s\<rparr> = s"
  by simp

lemma offers_replacedI:
  assumes "wf_database db" and "source \<in> peer_ids db"
    and "rc_inv source (offer_snapshots db) s"
    and "settled source (pd_offers details) (offer_snapshots db) s"
  shows "offers_replaced source details db (db\<lparr>offer_snapshots := rc_table s\<rparr>)
    (rc_removed s) (rc_updated s)"
proof -
  have "snap_provider_peer_id ` set (rc_table s) \<subseteq> peer_ids db"
    using assms(1-3) unfolding rc_inv_def wf_database_def by blast
  then have "wf_database (db\<lparr>offer_snapshots := rc_table s\<rparr>)"
    using assms(1,3) by (intro wf_set_snapshots) (simp_all add: rc_inv_def)
  with assms(3,4) show ?thesis
    by (simp add: offers_replaced_def rc_inv_def)
qed

lemma offers_replaced_payload:
  assumes "offers_replaced source details db db' rem upd"
  shows "active_payload (offer_snapshots db') k =
    (if fst k = source then incoming (pd_offers details) k
     else active_payload (offer_snapshots db) k)"
  using assms settled_payload [of source "pd_offers details" "offer_snapshots db" _ k]
  by (simp add: offers_replaced_def) (metis reconcile.select_convs(1))

lemma heartbeat_changed_run:
  assumes "wf_database db" and "source \<in> peer_ids db" and "wire_ok (pd_offers details)"
    and "\<And>rs. rs \<noteq> [] \<Longrightarrow> pick rs \<in> set rs"
  shows "\<exists>db' rem upd rec.
    heartbeat_changed pick source details ts sql_now now1 now2 db = Return
      (db', ProviderUpdated rec # map OfferRemoved rem @ map OfferUpdated upd) \<and>
    offers_replaced source details db db' rem upd \<and>
    (\<exists>f. (\<forall>r. peer_peer_id (f r) = peer_peer_id r \<and>
        peer_their_latest_heartbeat_timestamp (f r) = Some ts) \<and>
      peers db' = peers (update_peer source f db)) \<and>
    (\<exists>r. find_peer source db' = Some r \<and> peer_their_latest_heartbeat_timestamp r = Some ts \<and>
      peer_their_provider_updated_at r = Some (pd_updated_at details))"
proof -
  let ?f = "\<lambda>r :: peer_row. r\<lparr>peer_provider_name := pd_name details,
    peer_provider_teaser := pd_teaser details, peer_provider_description := pd_description details,
    peer_their_provider_updated_at := Some (pd_updated_at details),
    peer_our_provider_updated_at := Some (trunc_seconds sql_now),
    peer_their_latest_heartbeat_timestamp := Some ts,
    peer_our_latest_heartbeat_timestamp := Some (trunc_seconds sql_now)\<rparr>"
  let ?db1 = "update_peer source ?f db"
  have keep: "peer_peer_id (?f r) = peer_peer_id r" for r by simp
  have wf1: "wf_database ?db1" and in1: "source \<in> peer_ids ?db1"
    using wf_update_peer [OF assms(1), of ?f source] peer_ids_update [of ?f source db] assms(2)
    by simp_all
  obtain s where s: "reconcile_offers pick source (pd_offers details) (offer_snapshots ?db1) = Return s"
    "rc_inv source (offer_snapshots ?db1) s"
    "settled source (pd_offers details) (offer_snapshots ?db1) s"
    using reconcile_offers_run [OF wf_databaseD [OF wf1] assms(3,4), of source] by blast
  have "offers_replaced source details ?db1 (?db1\<lparr>offer_snapshots := rc_table s\<rparr>)
      (rc_removed s) (rc_updated s)"
    by (rule offers_replacedI [OF wf1 in1 s(2,3)])
  then have "offers_replaced source details db (?db1\<lparr>offer_snapshots := rc_table s\<rparr>)
      (rc_removed s) (rc_updated s)"
    by (simp add: offers_replaced_def)
  moreover obtain r where "find_peer source db = Some r" "peer_peer_id r = source"
    using assms(2) find_peer_None_iff find_peerD by fastforce
  then have "find_peer source (?db1\<lparr>offer_snapshots := rc_table s\<rparr>) = Some (?f r)"
    using find_peer_update [of ?f source source db] by (simp add: find_peer_def)
  then have "\<exists>r. find_peer source (?db1\<lparr>offer_snapshots := rc_table s\<rparr>) = Some r \<and>
      peer_their_latest_heartbeat_timestamp r = Some ts \<and>
      peer_their_provider_updated_at r = Some (pd_updated_at details)"
    by simp
  moreover have "\<exists>f. (\<forall>r. peer_peer_id (f r) = peer_peer_id r \<and>
        peer_their_latest_heartbeat_timestamp (f r) = Some ts) \<and>
      peers (?db1\<lparr>offer_snapshots := rc_table s\<rparr>) = peers (update_peer source f db)"
    by (rule exI [of _ ?f]) simp
  moreover have "heartbeat_changed pick source details ts sql_now now1 now2 db = Return
      (?db1\<lparr>offer_snapshots := rc_table s\<rparr>,
        ProviderUpdated \<lparr>pr_peer_id = source, pr_name = pd_name details,
          pr_teaser = pd_teaser details, pr_description = pd_description details,
          pr_updated_at = now1, pr_latest_heartbeat_at = now2\<rparr> #
        map OfferRemoved (rc_removed s) @ map OfferUpdated (rc_updated s))"
    using s(1) unfolding heartbeat_changed_def Let_def by simp
  ultimately show ?thesis by blast
qed

lemma heartbeat_new_provider_run:
  assumes "wf_database db" and "source \<notin> peer_ids db" and "wire_ok (pd_offers details)"
  shows "\<exists>db' upd.
    heartbeat_new_provider source details ts sql_now db = Return (db', map OfferUpdated upd) \<and>
    offers_replaced source details db db' [] upd \<and> set (peers db) \<subseteq> set (peers db') \<and>
    (\<exists>r. find_peer source db' = Some r \<and> peer_their_latest_heartbeat_timestamp r = Some ts \<and>
      peer_their_provider_updated_at r = Some (pd_updated_at details))"
proof -
  let ?r = "\<lparr>peer_peer_id = source, peer_provider_name = pd_name details,
    peer_provider_teaser = pd_teaser details, peer_provider_description = pd_description details,
    peer_their_provider_updated_at = Some (pd_updated_at details),
    peer_our_provider_updated_at = Some (trunc_seconds sql_now),
    peer_their_latest_heartbeat_timestamp = Some ts,
    peer_our_latest_heartbeat_timestamp = Some (trunc_seconds sql_now)\<rparr>"
  let ?db1 = "db\<lparr>peers := peers db @ [?r]\<rparr>"
  have ids: "peer_ids ?db1 = insert source (peer_ids db)" by (simp add: peer_ids_def)
  have wf1: "wf_database ?db1"
    using assms(1,2) unfolding wf_database_def ids by (auto simp: peer_ids_def)
  have new: "\<forall>r \<in> set (offer_snapshots ?db1). snap_provider_peer_id r \<noteq> source"
    using assms(1,2) by (auto simp: wf_database_def)
  obtain s where s: "insert_offers source (pd_offers details) (offer_snapshots ?db1) = Return s"
    "rc_inv source (offer_snapshots ?db1) s"
    "settled source (pd_offers details) (offer_snapshots ?db1) s"
    "rc_removed s = []"
    using insert_offers_run [OF wf_databaseD [OF wf1] assms(3) new] by blast
  have "offers_replaced source details ?db1 (?db1\<lparr>offer_snapshots := rc_table s\<rparr>)
      (rc_removed s) (rc_updated s)"
    by (rule offers_replacedI [OF wf1 _ s(2,3)]) (simp add: ids)
  then have "offers_replaced source details db (?db1\<lparr>offer_snapshots := rc_table s\<rparr>)
      [] (rc_updated s)"
    by (simp add: offers_replaced_def s(4))
  moreover have "find_peer source (?db1\<lparr>offer_snapshots := rc_table s\<rparr>) = Some ?r"
    using assms(2) find_peer_None_iff [of source db] by (simp add: find_peer_def find_append)
  moreover have "set (peers db) \<subseteq> set (peers (?db1\<lparr>offer_snapshots := rc_table s\<rparr>))"
    by auto
  moreover have "heartbeat_new_provider source details ts sql_now db =
      Return (?db1\<lparr>offer_snapshots := rc_table s\<rparr>, map OfferUpdated (rc_updated s))"
    using s(1) unfolding heartbeat_new_provider_def Let_def by simp
  ultimately show ?thesis by (intro exI conjI) auto
qed

section \<open>Any heartbeat\<close>

text \<open>What the code relies on: SQLite reports one of the conflicting rows, and a decoded
  heartbeat holds hash maps.\<close>

definition pick_ok :: "(snapshot_row list \<Rightarrow> snapshot_row) \<Rightarrow> bool" where
  "pick_ok pick \<longleftrightarrow> (\<forall>rs. rs \<noteq> [] \<longrightarrow> pick rs \<in> set rs)"

definition heartbeat_ok :: "heartbeat \<Rightarrow> bool" where
  "heartbeat_ok hb \<longleftrightarrow> (case hb_provider hb of None \<Rightarrow> True | Some d \<Rightarrow> wire_ok (pd_offers d))"

text \<open>What a node has learned for good: heartbeats seen, and what its row IDs stand for.\<close>

datatype gossip_fact = Seen peer_id datetime | Snapshot int offer_key string

definition gossip_facts :: "database \<Rightarrow> gossip_fact set" where
  "gossip_facts db =
     {Seen (peer_peer_id r) t | r t u. r \<in> set (peers db) \<and>
        peer_their_latest_heartbeat_timestamp r = Some u \<and> t \<le> u} \<union>
     {Snapshot i k p | i k p. (i, k, p) \<in> snapshot_idents (offer_snapshots db)}"

lemma Snapshot_fact:
  "Snapshot i k p \<in> gossip_facts db \<longleftrightarrow> (i, k, p) \<in> snapshot_idents (offer_snapshots db)"
  by (cases k rule: prod_cases3) (auto simp: gossip_facts_def)

lemma gossip_factsI:
  assumes "snapshot_idents (offer_snapshots db) \<subseteq> snapshot_idents (offer_snapshots db')"
    and "\<And>r u. r \<in> set (peers db) \<Longrightarrow> peer_their_latest_heartbeat_timestamp r = Some u \<Longrightarrow>
      \<exists>r' \<in> set (peers db'). \<exists>u'. peer_peer_id r' = peer_peer_id r \<and>
        peer_their_latest_heartbeat_timestamp r' = Some u' \<and> u \<le> u'"
  shows "gossip_facts db \<subseteq> gossip_facts db'"
proof -
  have "Seen (peer_peer_id r) t \<in> gossip_facts db'"
    if "r \<in> set (peers db)" "peer_their_latest_heartbeat_timestamp r = Some u" "t \<le> u" for r t u
  proof -
    note ex = assms(2) [OF that(1,2)]
    from ex obtain r' u' where "r' \<in> set (peers db')" "peer_peer_id r' = peer_peer_id r"
      "peer_their_latest_heartbeat_timestamp r' = Some u'" "u \<le> u'"
      by blast
    with that(3) show ?thesis unfolding gossip_facts_def by (fastforce intro: order_trans)
  qed
  with assms(1) show ?thesis unfolding gossip_facts_def by blast
qed

text \<open>An update of one peer's row that moves its heartbeat timestamp forward.\<close>

lemma gossip_facts_update_peer:
  assumes "wf_database db" and "find_peer source db = Some peer"
    and "\<And>r. peer_peer_id (f r) = peer_peer_id r"
    and "\<And>r. peer_their_latest_heartbeat_timestamp (f r) = Some ts"
    and "\<And>u. peer_their_latest_heartbeat_timestamp peer = Some u \<Longrightarrow> u \<le> ts"
    and "peers db' = peers (update_peer source f db)"
    and "snapshot_idents (offer_snapshots db) \<subseteq> snapshot_idents (offer_snapshots db')"
  shows "gossip_facts db \<subseteq> gossip_facts db'"
proof (rule gossip_factsI [OF assms(7)])
  fix r u
  assume r: "r \<in> set (peers db)" "peer_their_latest_heartbeat_timestamp r = Some u"
  let ?r' = "if peer_peer_id r = source then f r else r"
  have "?r' \<in> set (peers db')"
    using r(1) unfolding assms(6) update_peer_simps update_where_def by force
  moreover have "r = peer" if "peer_peer_id r = source"
  proof -
    have "distinct (map peer_peer_id (peers db))" using assms(1) by (simp add: wf_database_def)
    then show ?thesis using r(1) find_peerD [OF assms(2)] that by (metis distinct_key_eq)
  qed
  ultimately show "\<exists>r' \<in> set (peers db'). \<exists>u'. peer_peer_id r' = peer_peer_id r \<and>
      peer_their_latest_heartbeat_timestamp r' = Some u' \<and> u \<le> u'"
    using r(2) assms(3-5) by (intro bexI [of _ ?r']) auto
qed

text \<open>What every accepted heartbeat guarantees.\<close>

definition heartbeat_sound :: "database \<Rightarrow> database \<Rightarrow> bool" where
  "heartbeat_sound db db' \<longleftrightarrow> wf_database db' \<and> gossip_facts db \<subseteq> gossip_facts db' \<and>
     service_jobs db' = service_jobs db"

lemma heartbeat_sound_refl: "wf_database db \<Longrightarrow> heartbeat_sound db db"
  by (simp add: heartbeat_sound_def)

lemma heartbeat_unchanged_sound:
  assumes "wf_database db" and "find_peer source db = Some peer"
    and "\<And>u. peer_their_latest_heartbeat_timestamp peer = Some u \<Longrightarrow> u \<le> ts"
  shows "heartbeat_sound db (fst (heartbeat_unchanged source ts sql_now now1 db))"
proof -
  let ?f = "\<lambda>r :: peer_row. r\<lparr>peer_their_latest_heartbeat_timestamp := Some ts,
    peer_our_latest_heartbeat_timestamp := Some (trunc_seconds sql_now)\<rparr>"
  have eq: "fst (heartbeat_unchanged source ts sql_now now1 db) = update_peer source ?f db"
    by (simp add: heartbeat_unchanged_def)
  have "gossip_facts db \<subseteq> gossip_facts (update_peer source ?f db)"
    by (rule gossip_facts_update_peer [OF assms(1,2), where f = ?f and ts = ts])
      (use assms(3) in simp_all)
  moreover have "wf_database (update_peer source ?f db)"
    by (rule wf_update_peer [OF assms(1)]) simp
  ultimately show ?thesis by (simp add: heartbeat_sound_def eq)
qed

lemma offers_replaced_sound:
  assumes "offers_replaced source details db db' rem upd" and "gossip_facts db \<subseteq> gossip_facts db'"
  shows "heartbeat_sound db db'"
  using assms by (simp add: heartbeat_sound_def offers_replaced_def)

lemma heartbeat_changed_sound:
  assumes "wf_database db" and "find_peer source db = Some peer" and "wire_ok (pd_offers details)"
    and "pick_ok pick"
    and "\<And>u. peer_their_latest_heartbeat_timestamp peer = Some u \<Longrightarrow> u \<le> ts"
  shows "\<exists>db' evs. heartbeat_changed pick source details ts sql_now now1 now2 db = Return (db', evs) \<and>
    heartbeat_sound db db'"
proof -
  have "source \<in> peer_ids db" using assms(2) find_peer_None_iff [of source db] by auto
  moreover have "rs \<noteq> [] \<Longrightarrow> pick rs \<in> set rs" for rs using assms(4) by (simp add: pick_ok_def)
  ultimately obtain db' rem upd rec f where
    run: "heartbeat_changed pick source details ts sql_now now1 now2 db = Return
      (db', ProviderUpdated rec # map OfferRemoved rem @ map OfferUpdated upd)"
    and rep: "offers_replaced source details db db' rem upd"
    and f: "\<And>r. peer_peer_id (f r) = peer_peer_id r"
      "\<And>r. peer_their_latest_heartbeat_timestamp (f r) = Some ts"
      "peers db' = peers (update_peer source f db)"
    using heartbeat_changed_run [OF assms(1) _ assms(3)] by metis
  have "gossip_facts db \<subseteq> gossip_facts db'"
    by (rule gossip_facts_update_peer [OF assms(1,2) f(1,2) assms(5) f(3)])
      (use rep in \<open>simp_all add: offers_replaced_def\<close>)
  with rep run show ?thesis by (blast intro: offers_replaced_sound)
qed

lemma handle_heartbeat_run:
  assumes "wf_database db" and "heartbeat_ok hb" and "pick_ok pick"
  shows "\<exists>res. handle_heartbeat pick source hb sql_now now1 now2 db = Return res \<and>
    (\<forall>db' evs. res = Inr (db', evs) \<longrightarrow> heartbeat_sound db db')"
proof (cases "find_peer source db")
  case None
  show ?thesis
  proof (cases "hb_provider hb")
    case (Some details)
    then have "wire_ok (pd_offers details)" using assms(2) by (simp add: heartbeat_ok_def)
    moreover have "source \<notin> peer_ids db" using None by (simp add: find_peer_None_iff)
    ultimately obtain db' upd where
      run: "heartbeat_new_provider source details (hb_timestamp hb) sql_now db =
        Return (db', map OfferUpdated upd)"
      and rep: "offers_replaced source details db db' [] upd" "set (peers db) \<subseteq> set (peers db')"
      using heartbeat_new_provider_run [OF assms(1)] by metis
    have "gossip_facts db \<subseteq> gossip_facts db'"
      by (rule gossip_factsI) (use rep in \<open>auto simp: offers_replaced_def\<close>)
    with rep(1) run None Some show ?thesis
      by (simp add: handle_heartbeat_def) (blast intro: offers_replaced_sound)
  qed (use None heartbeat_sound_refl [OF assms(1)] in \<open>simp add: handle_heartbeat_def\<close>)
next
  case (Some peer)
  show ?thesis
  proof (cases "newer_heartbeat peer hb")
    case True
    then have later: "u \<le> hb_timestamp hb"
      if "peer_their_latest_heartbeat_timestamp peer = Some u" for u
      using that by (simp add: newer_heartbeat_def)
    show ?thesis
    proof (cases "hb_provider hb")
      case None
      with Some True heartbeat_sound_refl [OF assms(1)] show ?thesis
        by (simp add: handle_heartbeat_known handle_known_def)
    next
      case details: (Some details)
      then have wire: "wire_ok (pd_offers details)" using assms(2) by (simp add: heartbeat_ok_def)
      from heartbeat_changed_sound [OF assms(1) Some wire assms(3) later]
        heartbeat_unchanged_sound [OF assms(1) Some later, of sql_now now1]
      show ?thesis
        by (simp add: handle_heartbeat_known [OF Some] True handle_known_details [OF details])
          (fastforce simp: heartbeat_unchanged_def)
    qed
  qed (use Some in \<open>simp add: handle_heartbeat_known\<close>)
qed

section \<open>Runs of gossip\<close>

definition decode_ok :: "(bytes \<Rightarrow> heartbeat option) \<Rightarrow> bool" where
  "decode_ok decode \<longleftrightarrow> (\<forall>data hb. decode data = Some hb \<longrightarrow> heartbeat_ok hb)"

definition gossip_step ::
  "(bytes \<Rightarrow> heartbeat option) \<Rightarrow> (snapshot_row list \<Rightarrow> snapshot_row) \<Rightarrow> string \<Rightarrow>
     gossipsub_event \<times> clocks \<Rightarrow> database \<Rightarrow> database outcome" where
  "gossip_step decode pick topic e db =
     and_then (handle_gossipsub_event decode pick topic (fst e) (snd e) db) (\<lambda>(db', evs). Return db')"

lemma gossip_step_sound:
  assumes "wf_database db" and "pick_ok pick" and "decode_ok decode"
  shows "\<exists>db'. gossip_step decode pick topic e db = Return db' \<and> heartbeat_sound db db'"
proof (cases "\<exists>source data hb. fst e = Gossip_Message topic (Some source) data \<and> decode data = Some hb")
  case True
  then obtain source data hb where ev: "fst e = Gossip_Message topic (Some source) data"
    "decode data = Some hb" by blast
  obtain sql_now now1 now2 where c: "snd e = (sql_now, now1, now2)" by (cases "snd e") auto
  have "heartbeat_ok hb" using assms(3) ev(2) by (auto simp: decode_ok_def)
  from handle_heartbeat_run [OF assms(1) this assms(2)] obtain res where
    "handle_heartbeat pick source hb sql_now now1 now2 db = Return res"
    "\<forall>db' evs. res = Inr (db', evs) \<longrightarrow> heartbeat_sound db db'" by blast
  with ev c heartbeat_sound_refl [OF assms(1)] show ?thesis
    by (cases res) (auto simp: gossip_step_def handle_gossipsub_event_def)
next
  case False
  then have "handle_gossipsub_event decode pick topic (fst e) (snd e) db = Return (db, [])"
    by (auto simp: handle_gossipsub_event_def split: gossipsub_event.splits option.splits)
  with heartbeat_sound_refl [OF assms(1)] show ?thesis by (simp add: gossip_step_def)
qed

interpretation gossip: monotone_system "gossip_step decode pick topic" wf_database
    "\<lambda>e db. pick_ok pick \<and> decode_ok decode" gossip_facts
  for decode pick topic
proof unfold_locales
  fix db e
  assume "wf_database db" and "pick_ok pick \<and> decode_ok decode"
  then show "\<exists>db'. gossip_step decode pick topic e db = Return db' \<and> wf_database db'"
    using gossip_step_sound [of db pick decode topic e] by (auto simp: heartbeat_sound_def)
next
  fix db e db'
  assume "wf_database db" and "pick_ok pick \<and> decode_ok decode"
    and "gossip_step decode pick topic e db = Return db'"
  then show "gossip_facts db \<subseteq> gossip_facts db'"
    using gossip_step_sound [of db pick decode topic e] by (auto simp: heartbeat_sound_def)
qed

lemma gossip_legal:
  "pick_ok pick \<Longrightarrow> decode_ok decode \<Longrightarrow>
     legal_run (gossip_step decode pick topic) (\<lambda>e db. pick_ok pick \<and> decode_ok decode) es db"
  by (induction es arbitrary: db) (simp_all split: outcome.split)

section \<open>Accepted heartbeats\<close>

lemma pick_ok_hd [simp]: "pick_ok hd"
  by (simp add: pick_ok_def)

lemma handle_heartbeat_changed:
  assumes "wf_database db" and "pick_ok pick" and "hb_provider hb = Some details"
    and "wire_ok (pd_offers details)" and "find_peer source db = Some peer"
    and "newer_heartbeat peer hb" and "known_updated_at peer < pd_updated_at details"
  shows "\<exists>db' rec rem upd. handle_heartbeat pick source hb sql_now now1 now2 db =
      Return (Inr (db', ProviderUpdated rec # map OfferRemoved rem @ map OfferUpdated upd)) \<and>
    offers_replaced source details db db' rem upd"
proof -
  have "source \<in> peer_ids db" using assms(5) find_peer_None_iff [of source db] by auto
  moreover have "rs \<noteq> [] \<Longrightarrow> pick rs \<in> set rs" for rs using assms(2) by (simp add: pick_ok_def)
  ultimately obtain db' rem upd rec where
    "heartbeat_changed pick source details (hb_timestamp hb) sql_now now1 now2 db = Return
      (db', ProviderUpdated rec # map OfferRemoved rem @ map OfferUpdated upd)"
    "offers_replaced source details db db' rem upd"
    using heartbeat_changed_run [OF assms(1) _ assms(4)] by metis
  moreover have "handle_heartbeat pick source hb sql_now now1 now2 db =
      and_then (heartbeat_changed pick source details (hb_timestamp hb) sql_now now1 now2 db)
        (\<lambda>r. Return (Inr r))"
    using assms(6,7)
    by (simp add: handle_heartbeat_known [OF assms(5)] handle_known_details [OF assms(3)])
  ultimately show ?thesis
    by (intro exI [of _ db'] exI [of _ rec] exI [of _ rem] exI [of _ upd]) simp
qed

lemma handle_heartbeat_new:
  assumes "wf_database db" and "hb_provider hb = Some details"
    and "wire_ok (pd_offers details)" and "source \<notin> peer_ids db"
  shows "\<exists>db' upd. handle_heartbeat pick source hb sql_now now1 now2 db =
      Return (Inr (db', map OfferUpdated upd)) \<and> offers_replaced source details db db' [] upd"
proof -
  obtain db' upd where
    "heartbeat_new_provider source details (hb_timestamp hb) sql_now db = Return (db', map OfferUpdated upd)"
    "offers_replaced source details db db' [] upd"
    using heartbeat_new_provider_run [OF assms(1,4,3)] by metis
  moreover have "find_peer source db = None" using assms(4) by (simp add: find_peer_None_iff)
  then have "handle_heartbeat pick source hb sql_now now1 now2 db =
      and_then (heartbeat_new_provider source details (hb_timestamp hb) sql_now db)
        (\<lambda>r. Return (Inr r))"
    using assms(2) by (simp add: handle_heartbeat_def)
  ultimately show ?thesis by (intro exI [of _ db'] exI [of _ upd]) simp
qed

lemma heartbeat_with_newer_details:
  assumes "wf_database db" and "pick_ok pick" and "hb_provider hb = Some details"
    and "wire_ok (pd_offers details)"
    and "case find_peer source db of None \<Rightarrow> True | Some peer \<Rightarrow>
      newer_heartbeat peer hb \<and> known_updated_at peer < pd_updated_at details"
  shows "\<exists>db' evs rem upd. handle_heartbeat pick source hb sql_now now1 now2 db = Return (Inr (db', evs)) \<and>
    offers_replaced source details db db' rem upd"
proof (cases "find_peer source db")
  case None
  with handle_heartbeat_new [OF assms(1,3,4), of source pick sql_now now1 now2] show ?thesis
    by (auto simp: find_peer_None_iff)
next
  case (Some peer)
  with assms(5) handle_heartbeat_changed [OF assms(1-4) Some, of sql_now now1 now2] show ?thesis
    by auto
qed

lemma active_offers_of:
  assumes "wf_database db"
  shows "(\<exists>s \<in> set (query_active_offers db None (Some [me])). os_protocol_id s = p \<and>
      os_offer_id s = o' \<and> os_protocol_payload s = payload) \<longleftrightarrow>
    active_payload (offer_snapshots db) (me, p, o') = Some payload"
proof -
  have "(\<exists>s \<in> set (query_active_offers db None (Some [me])). os_protocol_id s = p \<and>
      os_offer_id s = o' \<and> os_protocol_payload s = payload) \<longleftrightarrow>
    (\<exists>r \<in> set (offer_snapshots db). snap_active r \<and> snap_key r = (me, p, o') \<and>
      snap_protocol_payload r = payload)"
    by (auto simp: query_active_offers_def in_filter_def row_to_snapshot_def snap_key_def)
  also have "\<dots> \<longleftrightarrow> active_payload (offer_snapshots db) (me, p, o') = Some payload"
    using active_row_iff [OF wf_databaseD [OF assms]] unfolding active_payload_def by auto
  finally show ?thesis .
qed

text \<open>An accepted heartbeat of a provider leaves its timestamp on record.\<close>

lemma accepted_timestamp:
  assumes "wf_database db" and "pick_ok pick" and "heartbeat_ok hb" and "hb_provider hb \<noteq> None"
    and "handle_heartbeat pick source hb sql_now now1 now2 db = Return (Inr (db', evs))"
  shows "\<exists>peer. find_peer source db' = Some peer \<and>
    peer_their_latest_heartbeat_timestamp peer = Some (hb_timestamp hb)"
proof -
  obtain details where d: "hb_provider hb = Some details" using assms(4) by blast
  then have wire: "wire_ok (pd_offers details)" using assms(3) by (simp add: heartbeat_ok_def)
  show ?thesis
  proof (cases "find_peer source db")
    case None
    then have "heartbeat_new_provider source details (hb_timestamp hb) sql_now db = Return (db', evs)"
      using assms(5) d by (simp add: handle_heartbeat_def)
    moreover have "source \<notin> peer_ids db" using None by (simp add: find_peer_None_iff)
    note heartbeat_new_provider_run [OF assms(1) this wire, of "hb_timestamp hb" sql_now]
    ultimately show ?thesis by auto
  next
    case (Some peer)
    then have "source \<in> peer_ids db" using find_peer_None_iff [of source db] by auto
    note changed = heartbeat_changed_run [OF assms(1) this wire, of pick "hb_timestamp hb" sql_now now1 now2]
    from assms(5) consider
      "heartbeat_unchanged source (hb_timestamp hb) sql_now now1 db = (db', evs)"
      | "heartbeat_changed pick source details (hb_timestamp hb) sql_now now1 now2 db = Return (db', evs)"
      by (auto simp: handle_heartbeat_known [OF Some] handle_known_details [OF d] split: if_splits)
    then show ?thesis
    proof cases
      case 1
      then have "find_peer source db' = map_option (\<lambda>r. if peer_peer_id r = source
          then r\<lparr>peer_their_latest_heartbeat_timestamp := Some (hb_timestamp hb),
            peer_our_latest_heartbeat_timestamp := Some (trunc_seconds sql_now)\<rparr> else r)
          (find_peer source db)"
        by (auto simp: heartbeat_unchanged_def find_peer_update)
      with Some find_peerD [OF Some] show ?thesis by simp
    next
      case 2
      with changed assms(2) show ?thesis by (auto simp: pick_ok_def)
    qed
  qed
qed

lemma nested_ok_has_entry:
  assumes "nested_ok m" and "m \<noteq> []"
  shows "\<exists>p o' x. nested_get m p o' = Some x"
proof -
  obtain p inner where "(p, inner) \<in> set m" using assms(2) by (cases m) auto
  then have p: "map_of m p = Some inner"
    using hm_ok_in_set [OF nested_ok_hm [OF assms(1)], of p inner] by simp
  then obtain o' x where "(o', x) \<in> set inner"
    using nested_ok_inner [OF assms(1)] by (cases inner) auto
  then have "map_of inner o' = Some x"
    using hm_ok_in_set [of inner o' x] nested_ok_inner [OF assms(1) p] by simp
  with p have "nested_get m p o' = Some x" by (simp add: nested_get_def)
  then show ?thesis by blast
qed

end
