(* ===== verification/Gossip_Properties.thy ===== *)
theory Gossip_Properties
  imports Gossip
begin

text \<open>
  What heartbeats guarantee: the properties of \<open>handle_heartbeat\<close>,
  \<open>handle_gossipsub_event\<close> and \<open>maybe_send_heartbeat\<close>, each with a concrete instance.
\<close>


text \<open>A provider seen once, with one offer on record, and its next heartbeat.\<close>

definition demo_peer :: peer_row where
  "demo_peer = (new_peer (PeerId [1]))\<lparr>peer_their_provider_updated_at := Some 5,
     peer_their_latest_heartbeat_timestamp := Some 5\<rparr>"

definition demo_database :: database where
  "demo_database = empty_database\<lparr>peers := [demo_peer], offer_snapshots :=
     [\<lparr>snap_rowid = 1, snap_provider_peer_id = PeerId [1], snap_protocol_id = ''p'',
       snap_offer_id = ''old'', snap_protocol_payload = ''x'', snap_active = True\<rparr>]\<rparr>"

definition demo_details :: provider_details where
  "demo_details = \<lparr>pd_name = None, pd_teaser = None, pd_description = None,
     pd_offers = [(''p'', [(''new'', \<lparr>wo_protocol_payload = ''y''\<rparr>)])], pd_updated_at = 7\<rparr>"

definition demo_heartbeat :: heartbeat where
  "demo_heartbeat = \<lparr>hb_provider = Some demo_details, hb_timestamp = 9\<rparr>"

lemma demo_simps [simp]:
  "wf_database demo_database" "wire_ok (pd_offers demo_details)"
  "hb_provider demo_heartbeat = Some demo_details" "pd_updated_at demo_details = 7"
  "find_peer (PeerId [1]) demo_database = Some demo_peer" "find_peer (PeerId [2]) demo_database = None"
  "newer_heartbeat demo_peer demo_heartbeat" "known_updated_at demo_peer = 5"
  "heartbeat_ok demo_heartbeat"
  by (simp_all add: wf_database_def demo_database_def empty_database_def wf_snapshots_def
      peer_ids_def demo_peer_def new_peer_def demo_details_def demo_heartbeat_def wire_ok_def
      hm_ok_def find_peer_def newer_heartbeat_def known_updated_at_def heartbeat_ok_def)


text \<open>C22: the first heartbeat of a provider puts exactly its offers on record, raises exactly one
  \<open>OfferUpdated\<close> event for each, and touches nothing of any other provider.\<close>

theorem first_heartbeat_publishes:
  assumes "wf_database db" and "hb_provider hb = Some details"
    and "wire_ok (pd_offers details)" and "source \<notin> peer_ids db"
  shows "\<exists>db' upd. handle_heartbeat pick source hb sql_now now1 now2 db =
      Return (Inr (db', map OfferUpdated upd)) \<and> offers_replaced source details db db' [] upd \<and>
    (\<forall>k. active_payload (offer_snapshots db') k =
      (if fst k = source then incoming (pd_offers details) k
       else active_payload (offer_snapshots db) k))"
  using handle_heartbeat_new [OF assms, of pick sql_now now1 now2]
  by (elim exE conjE, intro exI conjI allI offers_replaced_payload)

theorem first_heartbeat_publishes_witness:
  "\<exists>db' upd. handle_heartbeat hd (PeerId [2]) demo_heartbeat 10 10 10 demo_database =
      Return (Inr (db', map OfferUpdated upd)) \<and>
    active_payload (offer_snapshots db') (PeerId [2], ''p'', ''new'') = Some ''y''"
proof -
  have "PeerId [2] \<notin> peer_ids demo_database" by (simp add: find_peer_None_iff [symmetric])
  from first_heartbeat_publishes [OF _ _ _ this, of demo_heartbeat demo_details hd 10 10 10]
  obtain db' upd where
    run: "handle_heartbeat hd (PeerId [2]) demo_heartbeat 10 10 10 demo_database =
      Return (Inr (db', map OfferUpdated upd))"
    and pay: "\<And>k. active_payload (offer_snapshots db') k =
      (if fst k = PeerId [2] then incoming (pd_offers demo_details) k
       else active_payload (offer_snapshots demo_database) k)"
    by auto
  have "incoming (pd_offers demo_details) (PeerId [2], ''p'', ''new'') = Some ''y''"
    by (simp add: incoming_def demo_details_def nested_get_def)
  with run pay [of "(PeerId [2], ''p'', ''new'')"] show ?thesis by auto
qed

text \<open>C17: no sequence of gossip events, whatever peers send and in whatever order, makes the
  handler panic or violates a constraint of the database; heartbeat timestamps never go
  back and a snapshot row ID never changes its meaning.\<close>

theorem gossip_runs_safe:
  assumes "wf_database db" and "pick_ok pick" and "decode_ok decode"
  shows "\<exists>db'. fold_outcome (gossip_step decode pick topic) es db = Return db' \<and>
    wf_database db' \<and> gossip_facts db \<subseteq> gossip_facts db'"
  using gossip.run_safe [OF assms(1) gossip_legal [OF assms(2,3)], of topic es]
    gossip.run_mono [OF assms(1) gossip_legal [OF assms(2,3)], of topic es] by blast

theorem gossip_runs_safe_witness:
  "\<exists>db'. fold_outcome (gossip_step (\<lambda>_. Some demo_heartbeat) hd ''heartbeat'')
      [(Gossip_Message ''heartbeat'' (Some (PeerId [1])) [0], (10, 10, 10)),
       (Gossip_Message ''heartbeat'' (Some (PeerId [2])) [0], (11, 11, 11))] demo_database =
      Return db' \<and> wf_database db' \<and> gossip_facts demo_database \<subseteq> gossip_facts db'"
  by (rule gossip_runs_safe) (simp_all add: decode_ok_def)

text \<open>A heartbeat that was accepted is refused when it is delivered again, whatever the clock
  says: gossip that arrives twice is processed once.\<close>

theorem heartbeat_replay_refused:
  assumes "wf_database db" and "pick_ok pick" and "heartbeat_ok hb" and "hb_provider hb \<noteq> None"
    and "handle_heartbeat pick source hb sql_now now1 now2 db = Return (Inr (db', evs))"
  shows "handle_heartbeat pick' source hb sql_now' now1' now2' db' =
    Return (Inl (Outdated_Timestamp (hb_timestamp hb) (hb_timestamp hb)))"
proof -
  have "\<exists>peer. find_peer source db' = Some peer \<and>
      peer_their_latest_heartbeat_timestamp peer = Some (hb_timestamp hb)"
    using accepted_timestamp [OF assms] .
  then obtain peer where "find_peer source db' = Some peer"
    "peer_their_latest_heartbeat_timestamp peer = Some (hb_timestamp hb)" by blast
  then show ?thesis by (simp add: handle_heartbeat_known newer_heartbeat_def)
qed

theorem heartbeat_replay_refused_witness:
  "\<exists>db' evs. handle_heartbeat hd (PeerId [2]) demo_heartbeat 10 10 10 demo_database =
      Return (Inr (db', evs)) \<and>
    handle_heartbeat hd (PeerId [2]) demo_heartbeat 20 20 20 db' = Return (Inl (Outdated_Timestamp 9 9))"
proof -
  have "PeerId [2] \<notin> peer_ids demo_database" by (simp add: find_peer_None_iff [symmetric])
  from handle_heartbeat_new [OF _ _ _ this, of demo_heartbeat demo_details hd 10 10 10]
  obtain db' upd where run: "handle_heartbeat hd (PeerId [2]) demo_heartbeat 10 10 10 demo_database =
      Return (Inr (db', map OfferUpdated upd))" by auto
  from heartbeat_replay_refused [OF _ _ _ _ run, of hd 20 20 20] run show ?thesis
    by (auto simp: demo_heartbeat_def) (simp add: demo_heartbeat_def [symmetric])
qed


definition demo_provider :: provider_state where
  "demo_provider = \<lparr>module_ids_counter = 1,
     modules = [(0, \<lparr>pm_connection = 0,
       pm_offers = [(''p'', [(''o'', \<lparr>po_snapshot_rowid = 1, po_protocol_payload = ''x''\<rparr>)])]\<rparr>)],
     offers_module_map = [(''p'', [(''o'', 0)])], last_updated_at = 3000000000\<rparr>"

lemma provider_ok_demo [simp]: "provider_ok demo_provider"
  by (rule provider_okI)
    (auto simp: demo_provider_def nested_ok_def hm_ok_def nested_get_def split: if_splits)


text \<open>A node sends a heartbeat exactly while it provides at least one offer; in particular the
  withdrawal of its last offer is not announced, and receivers keep that offer active.\<close>

theorem heartbeat_sent_iff_offers:
  assumes "provider_ok st"
  shows "(\<exists>hb r. maybe_send_heartbeat cfg now publish st = Return (Some hb, r)) \<longleftrightarrow>
    (\<exists>k. provided st k \<noteq> None)"
proof -
  note ok = provider_okD [OF assms]
  have entry: "pm_offers m \<noteq> [] \<longleftrightarrow> (\<exists>p o' x. nested_get (pm_offers m) p o' = Some x)"
    if "map_of (modules st) i = Some m" for i m
    using nested_ok_has_entry [OF ok(3) [OF that]] by fastforce
  have "(\<exists>hb r. maybe_send_heartbeat cfg now publish st = Return (Some hb, r)) \<longleftrightarrow>
      list_ex (\<lambda>(i, m). pm_offers m \<noteq> []) (modules st)"
    using heartbeat_offers_run [OF assms] by (auto simp: maybe_send_heartbeat_def Let_def)
  also have "\<dots> \<longleftrightarrow> (\<exists>i m. map_of (modules st) i = Some m \<and> pm_offers m \<noteq> [])"
    using hm_ok_in_set [OF ok(1)] by (fastforce simp: list_ex_iff)
  also have "\<dots> \<longleftrightarrow> (\<exists>i m p o' x. map_of (modules st) i = Some m \<and>
      nested_get (pm_offers m) p o' = Some x)"
    using entry by blast
  also have "\<dots> \<longleftrightarrow> (\<exists>k. provided st k \<noteq> None)"
    using provided_iff [OF assms] by force
  finally show ?thesis .
qed

theorem heartbeat_sent_iff_offers_witness:
  "\<exists>hb r. maybe_send_heartbeat \<lparr>pc_name = None, pc_teaser = None, pc_description = None\<rparr>
    5 (\<lambda>_. None) demo_provider = Return (Some hb, r)"
  unfolding heartbeat_sent_iff_offers [OF provider_ok_demo]
  by (rule exI [of _ "(''p'', ''o'')"]) (simp add: provided_def demo_provider_def nested_get_def)

text \<open>Timestamps travel in whole seconds, so an update that falls into the same second as the
  last one a receiver has seen is taken for unchanged: the heartbeat is accepted, and the
  receiver's offers stay as they were, whatever the message says.\<close>

theorem same_second_update_lost:
  assumes "hb_provider hb = Some details" and "find_peer source db = Some peer"
    and "newer_heartbeat peer (on_wire hb)"
    and "known_updated_at peer = trunc_seconds (pd_updated_at details)"
  shows "\<exists>db' ev. handle_heartbeat pick source (on_wire hb) sql_now now1 now2 db =
      Return (Inr (db', [ProviderHeartbeat ev])) \<and> offer_snapshots db' = offer_snapshots db"
proof -
  let ?d = "details\<lparr>pd_updated_at := trunc_seconds (pd_updated_at details)\<rparr>"
  have "hb_provider (on_wire hb) = Some ?d" using assms(1) by (simp add: on_wire_def)
  from handle_known_details [OF this] assms(3,4) show ?thesis
    by (simp add: handle_heartbeat_known [OF assms(2)] heartbeat_unchanged_def)
qed

theorem same_second_update_lost_witness:
  "\<exists>db' ev. handle_heartbeat hd (PeerId [1]) (on_wire
      \<lparr>hb_provider = Some (demo_details\<lparr>pd_updated_at := 900000000\<rparr>), hb_timestamp = 8000000000\<rparr>)
      1 1 1 (demo_database\<lparr>peers := [demo_peer\<lparr>peer_their_provider_updated_at := Some 0\<rparr>]\<rparr>) =
      Return (Inr (db', [ProviderHeartbeat ev])) \<and>
    offer_snapshots db' = offer_snapshots demo_database"
  using same_second_update_lost [of
      "\<lparr>hb_provider = Some (demo_details\<lparr>pd_updated_at := 900000000\<rparr>), hb_timestamp = 8000000000\<rparr>"
      "demo_details\<lparr>pd_updated_at := 900000000\<rparr>" "PeerId [1]"
      "demo_database\<lparr>peers := [demo_peer\<lparr>peer_their_provider_updated_at := Some 0\<rparr>]\<rparr>"
      "demo_peer\<lparr>peer_their_provider_updated_at := Some 0\<rparr>" hd 1 1 1]
  by (simp add: find_peer_def newer_heartbeat_def known_updated_at_def demo_peer_def new_peer_def
      on_wire_def trunc_seconds_def timestamp_def)

end
