(* ===== verification/Framing.thy ===== *)
theory Framing
  imports Frames
begin

text \<open>
  Length-prefixed CBOR frames (\<open>src/src/util/cbor.rs\<close>), used on RPC streams and for the heads
  of P2P streams, and the head a P2P stream is opened with
  (\<open>open_outbound_stream\<close>, \<open>src/src/p2p/stream.rs\<close>). The CBOR codec itself
  (\<open>serde_cbor::to_vec\<close>, \<open>from_slice\<close>) and the sink of the bytes are parameters.
\<close>

section \<open>The length\<close>

text \<open>\<open>AsyncWriteExt::write_u32\<close>, \<open>to_be_bytes\<close>, \<open>from_be_bytes\<close>: most significant byte first.\<close>

definition u32_to_be_bytes :: "u32 \<Rightarrow> bytes" where
  "u32_to_be_bytes n = map (\<lambda>k. word_of_nat (unat n div 256 ^ k)) [3, 2, 1, 0]"

definition u32_from_be_bytes :: "bytes \<Rightarrow> u32" where
  "u32_from_be_bytes b = word_of_nat (fold (\<lambda>x n. 256 * n + unat x) b 0)"

lemma length_u32_to_be_bytes [simp]: "length (u32_to_be_bytes n) = 4"
  by (simp add: u32_to_be_bytes_def)

lemma unat_byte: "unat (word_of_nat k :: u8) = k mod 256"
  by (simp add: unat_of_nat)

lemma nat_bytes:
  assumes "m < (2 :: nat) ^ 32"
  shows "256 * (256 * (256 * (m div 256 ^ 3 mod 256) + m div 256 ^ 2 mod 256) +
    m div 256 mod 256) + m mod 256 = m"
proof -
  have "m div 256 ^ 3 < 256" using assms by (simp add: div_less_iff_less_mult)
  then have a: "m div 256 ^ 3 mod 256 = m div 256 ^ 2 div 256"
    by (simp add: div_mult2_eq [symmetric])
  have b: "m div 256 ^ 2 = m div 256 div 256" by (simp add: div_mult2_eq [symmetric])
  have s: "256 * (k div 256) + k mod 256 = k" for k :: nat by simp
  show ?thesis unfolding a b s ..
qed

lemma u32_be_roundtrip [simp]: "u32_from_be_bytes (u32_to_be_bytes n) = n"
proof -
  obtain m where m: "unat n = m" by blast
  have "unat n < 2 ^ 32" using unsigned_less [of n, where 'a = nat] by simp
  then have "m < 2 ^ 32" unfolding m .
  from nat_bytes [OF this] have "fold (\<lambda>x k. 256 * k + unat x) (u32_to_be_bytes n) 0 = unat n"
    unfolding u32_to_be_bytes_def fold_map comp_def unat_byte m fold_simps id_apply
    by (simp only: mult_0_right add_0 power_0 div_by_1 power_one_right)
  then show ?thesis by (simp add: u32_from_be_bytes_def)
qed

section \<open>Writing\<close>

text \<open>
  \<open>std::io::Error\<close> by the kinds the model tells apart, and \<open>serde_cbor::Error\<close>, into which
  the \<open>?\<close> operator converts an I/O error.
\<close>

datatype io_error = UnexpectedEof | InvalidData | Io_Other

datatype cbor_error = Cbor_Syntax | Cbor_Io io_error

text \<open>
  \<open>put\<close> is the sink: it takes the bytes or fails. The nested result is the Rust one; both
  writes use \<open>?\<close>, so an I/O error ends up in the outer error.
\<close>

definition write_cbor ::
  "('v \<Rightarrow> cbor_error + bytes) \<Rightarrow> (bytes \<Rightarrow> 's \<Rightarrow> io_error + 's) \<Rightarrow> 'v \<Rightarrow> 's \<Rightarrow>
     cbor_error + (io_error + 's)" where
  "write_cbor to_vec put value s =
     (case to_vec value of
        Inl e \<Rightarrow> Inl e
      | Inr buf \<Rightarrow>
          (case put (u32_to_be_bytes (word_of_nat (length buf))) s of
             Inl io \<Rightarrow> Inl (Cbor_Io io)
           | Inr s1 \<Rightarrow>
               (case put buf s1 of
                  Inl io \<Rightarrow> Inl (Cbor_Io io)
                | Inr s2 \<Rightarrow> Inr (Inr s2))))"

text \<open>
  The head written when a P2P stream is opened spells the same frame out by hand, with I/O
  errors as the \<open>Io\<close> variant of \<open>OpenStreamError\<close>; encoding errors are unwrapped.
\<close>

datatype open_stream_error = UnsupportedProtocol | OpenStream_Io io_error

definition open_outbound_stream ::
  "(head_request \<Rightarrow> cbor_error + bytes) \<Rightarrow> (bytes \<Rightarrow> 's \<Rightarrow> io_error + 's) \<Rightarrow>
     (peer_id \<Rightarrow> open_stream_error + 's) \<Rightarrow> peer_id \<Rightarrow> peer_id \<Rightarrow> head_request \<Rightarrow>
     (open_stream_error + peer_id \<times> 's) outcome" where
  "open_outbound_stream to_vec put open_stream our_peer_id target_peer_id request =
     (case open_stream target_peer_id of
        Inl e \<Rightarrow> Return (Inl e)
      | Inr s \<Rightarrow>
          (case to_vec request of
             Inl e \<Rightarrow> Panic
           | Inr header_buffer \<Rightarrow>
               (case put (u32_to_be_bytes (word_of_nat (length header_buffer))) s of
                  Inl io \<Rightarrow> Return (Inl (OpenStream_Io io))
                | Inr s1 \<Rightarrow>
                    (case put header_buffer s1 of
                       Inl io \<Rightarrow> Return (Inl (OpenStream_Io io))
                     | Inr s2 \<Rightarrow> Return (Inr (our_peer_id, s2))))))"

section \<open>Reading\<close>

text \<open>
  A stream is the list of the bytes that will still arrive before its end. \<open>read_exact\<close>
  fails at the end of the stream, having consumed what was left. A failure while the length
  is read counts as the end of the stream.
\<close>

definition read_exact :: "nat \<Rightarrow> bytes \<Rightarrow> (io_error + bytes) \<times> bytes" where
  "read_exact n s = (if length s < n then (Inl UnexpectedEof, []) else (Inr (take n s), drop n s))"

definition read_cbor ::
  "(bytes \<Rightarrow> 'v option) \<Rightarrow> bytes \<Rightarrow> (io_error + 'v option) \<times> bytes" where
  "read_cbor from_slice s =
     (case read_exact 4 s of
        (Inl _, s1) \<Rightarrow> (Inr None, s1)
      | (Inr len_buf, s1) \<Rightarrow>
          (case read_exact (unat (u32_from_be_bytes len_buf)) s1 of
             (Inl e, s2) \<Rightarrow> (Inl e, s2)
           | (Inr buffer, s2) \<Rightarrow>
               (case from_slice buffer of
                  Some data \<Rightarrow> (Inr (Some data), s2)
                | None \<Rightarrow> (Inl InvalidData, s2))))"

text \<open>
  The reader of an RPC connection: \<open>next_cbor\<close> in a loop that logs an error and goes on, and
  stops at the end of the stream. Every round consumes at least the length, or ends.
\<close>

lemma read_cbor_shorter:
  assumes "read_cbor from_slice s = (r, s')" and "r \<noteq> Inr None"
  shows "length s' < length s"
proof (cases "length s < 4")
  case False
  with assms show ?thesis
    by (auto simp: read_cbor_def read_exact_def split: if_splits option.splits)
qed (use assms in \<open>simp add: read_cbor_def read_exact_def\<close>)

function read_frames :: "(bytes \<Rightarrow> 'v option) \<Rightarrow> bytes \<Rightarrow> (io_error + 'v) list" where
  "read_frames from_slice s =
     (case read_cbor from_slice s of
        (Inr None, s') \<Rightarrow> []
      | (Inr (Some v), s') \<Rightarrow> Inr v # read_frames from_slice s'
      | (Inl e, s') \<Rightarrow> Inl e # read_frames from_slice s')"
  by pat_completeness auto
termination
  by (relation "measure (\<lambda>(f, s). length s)") (auto dest!: read_cbor_shorter [OF sym])

declare read_frames.simps [simp del]

section \<open>Prefix codecs\<close>

text \<open>
  The interface of a self-delimiting encoding: what is written can be read back from the
  front of any stream, which leaves the rest of the stream.
\<close>

locale prefix_codec =
  fixes enc :: "'v \<Rightarrow> bytes" and dec :: "bytes \<Rightarrow> (io_error + 'v option) \<times> bytes"
    and valid :: "'v \<Rightarrow> bool"
  assumes dec_enc: "valid v \<Longrightarrow> dec (enc v @ rest) = (Inr (Some v), rest)"
begin

lemma enc_inject:
  assumes "valid v" and "valid w" and "enc v @ r = enc w @ r'"
  shows "v = w \<and> r = r'"
proof -
  have "dec (enc v @ r) = dec (enc w @ r')" using assms(3) by simp
  then show ?thesis unfolding dec_enc [OF assms(1)] dec_enc [OF assms(2)] by simp
qed

lemma concat_inject:
  assumes "\<forall>v \<in> set vs. valid v" and "\<forall>v \<in> set ws. valid v" and "length vs = length ws"
    and "concat (map enc vs) = concat (map enc ws)"
  shows "vs = ws"
  using assms
proof (induction vs arbitrary: ws)
  case (Cons v vs)
  then obtain w ws' where ws: "ws = w # ws'" by (cases ws) auto
  have "v = w \<and> concat (map enc vs) = concat (map enc ws')"
    by (rule enc_inject) (use Cons.prems ws in simp_all)
  moreover from this have "vs = ws'" using Cons.IH [of ws'] Cons.prems ws by simp
  ultimately show ?case using ws by simp
qed simp

end

text \<open>The frame of an encoded value, and when a value can be framed.\<close>

definition frame :: "bytes \<Rightarrow> bytes" where
  "frame buf = u32_to_be_bytes (word_of_nat (length buf)) @ buf"

definition framable :: "('v \<Rightarrow> cbor_error + bytes) \<Rightarrow> (bytes \<Rightarrow> 'v option) \<Rightarrow> 'v \<Rightarrow> bool" where
  "framable to_vec from_slice v \<longleftrightarrow>
     (\<exists>buf. to_vec v = Inr buf \<and> from_slice buf = Some v \<and> length buf < 2 ^ 32)"

definition encode :: "('v \<Rightarrow> cbor_error + bytes) \<Rightarrow> 'v \<Rightarrow> bytes" where
  "encode to_vec v = (case to_vec v of Inl e \<Rightarrow> [] | Inr buf \<Rightarrow> frame buf)"

lemma read_cbor_frame:
  assumes "length buf < 2 ^ 32"
  shows "read_cbor from_slice (frame buf @ rest) =
    (case from_slice buf of Some v \<Rightarrow> (Inr (Some v), rest) | None \<Rightarrow> (Inl InvalidData, rest))"
proof -
  have "unat (word_of_nat (length buf) :: u32) = length buf"
    using assms by (simp add: unat_of_nat take_bit_nat_eq_self)
  then show ?thesis
    by (simp add: read_cbor_def read_exact_def frame_def split: option.split)
qed

interpretation cbor_frames: prefix_codec "encode to_vec" "read_cbor from_slice"
    "framable to_vec from_slice" for to_vec from_slice
  by unfold_locales (auto simp: framable_def encode_def read_cbor_frame)

lemma read_cbor_Nil [simp]: "read_cbor from_slice [] = (Inr None, [])"
  by (simp add: read_cbor_def read_exact_def)

lemma read_frames_Nil [simp]: "read_frames from_slice [] = []"
  by (subst read_frames.simps) simp

lemma read_frames_frame:
  assumes "length buf < 2 ^ 32"
  shows "read_frames from_slice (frame buf @ rest) =
    (case from_slice buf of Some v \<Rightarrow> Inr v | None \<Rightarrow> Inl InvalidData) # read_frames from_slice rest"
  by (subst read_frames.simps) (simp add: read_cbor_frame [OF assms] split: option.split)

lemma read_frames_concat:
  assumes "\<forall>buf \<in> set bufs. length buf < 2 ^ 32"
  shows "read_frames from_slice (concat (map frame bufs)) =
    map (\<lambda>buf. case from_slice buf of Some v \<Rightarrow> Inr v | None \<Rightarrow> Inl InvalidData) bufs"
  using assms by (induction bufs) (simp_all add: read_frames_frame)

end
