(* ===== verification/Framing_Properties.thy ===== *)
theory Framing_Properties
  imports Framing
begin

text \<open>
  What the framing of CBOR values guarantees between a writer and a reader, and how it
  behaves on broken input.
\<close>

text \<open>A sink that keeps the bytes, and a writer of several values.\<close>

definition mem_put :: "bytes \<Rightarrow> bytes \<Rightarrow> io_error + bytes" where
  "mem_put b s = Inr (s @ b)"

fun write_frames ::
  "('v \<Rightarrow> cbor_error + bytes) \<Rightarrow> 'v list \<Rightarrow> bytes \<Rightarrow> cbor_error + (io_error + bytes)" where
  "write_frames to_vec [] s = Inr (Inr s)"
| "write_frames to_vec (v # vs) s =
     (case write_cbor to_vec mem_put v s of
        Inr (Inr s') \<Rightarrow> write_frames to_vec vs s'
      | e \<Rightarrow> e)"

lemma write_frames_run:
  assumes "\<forall>v \<in> set vs. framable to_vec from_slice v"
  shows "\<exists>bufs. write_frames to_vec vs s = Inr (Inr (s @ concat (map frame bufs))) \<and>
    (\<forall>buf \<in> set bufs. length buf < 2 ^ 32) \<and> map from_slice bufs = map Some vs"
  using assms
proof (induction vs arbitrary: s)
  case (Cons v vs)
  then obtain buf where buf: "to_vec v = Inr buf" "from_slice buf = Some v" "length buf < 2 ^ 32"
    by (auto simp: framable_def)
  have "write_cbor to_vec mem_put v s = Inr (Inr (s @ frame buf))"
    by (simp add: write_cbor_def buf(1) mem_put_def frame_def)
  moreover obtain bufs where
    "write_frames to_vec vs (s @ frame buf) = Inr (Inr ((s @ frame buf) @ concat (map frame bufs)))"
    "\<forall>buf \<in> set bufs. length buf < 2 ^ 32" "map from_slice bufs = map Some vs"
    using Cons by fastforce
  ultimately show ?case using buf by (intro exI [of _ "buf # bufs"]) simp
qed simp

text \<open>A small codec for the instances: a byte is its own encoding; longer texts do not decode.\<close>

definition byte_enc :: "u8 \<Rightarrow> cbor_error + bytes" where
  "byte_enc b = Inr [b]"

definition byte_dec :: "bytes \<Rightarrow> u8 option" where
  "byte_dec bs = (case bs of [b] \<Rightarrow> Some b | _ \<Rightarrow> None)"

lemma byte_framable [simp]: "framable byte_enc byte_dec b"
  by (simp add: framable_def byte_enc_def byte_dec_def)



text \<open>A frame whose payload does not decode is reported and skipped: the frames after it are still
  read in step.\<close>

theorem undecodable_frame_skipped:
  assumes "\<forall>buf \<in> set (as @ bad # bs). length buf < 2 ^ 32" and "from_slice bad = None"
  shows "read_frames from_slice (concat (map frame (as @ bad # bs))) =
    read_frames from_slice (concat (map frame as)) @ Inl InvalidData #
    read_frames from_slice (concat (map frame bs))"
proof -
  have "\<forall>buf \<in> set as. length buf < 2 ^ 32" "\<forall>buf \<in> set bs. length buf < 2 ^ 32"
    using assms(1) by simp_all
  with read_frames_concat [OF assms(1), of from_slice] read_frames_concat [of as from_slice]
    read_frames_concat [of bs from_slice] assms(2)
  show ?thesis by simp
qed

theorem undecodable_frame_skipped_witness:
  "read_frames byte_dec (concat (map frame [[1], [7, 7], [2]])) = [Inr 1, Inl InvalidData, Inr 2]"
  using undecodable_frame_skipped [of "[[1]]" "[7, 7]" "[[2]]" byte_dec]
    read_frames_concat [of "[[1]]" byte_dec] read_frames_concat [of "[[2]]" byte_dec]
  by (simp add: byte_dec_def)



text \<open>The inner error \<open>write_cbor\<close>'s result type provides for I/O failures never occurs: every
  failure, also one of the sink, is reported as the outer encoding error, which the caller
  of \<open>handle_job_connection_stream\<close> unwraps.\<close>

theorem write_cbor_no_inner_error:
  "write_cbor to_vec put v s \<noteq> Inr (Inl e) \<and>
   (to_vec v = Inr buf \<longrightarrow> put (u32_to_be_bytes (word_of_nat (length buf))) s = Inl io \<longrightarrow>
     write_cbor to_vec put v s = Inl (Cbor_Io io))"
  by (simp add: write_cbor_def split: sum.splits)

theorem write_cbor_no_inner_error_witness:
  "write_cbor byte_enc (\<lambda>b s. Inl Io_Other) 1 () = Inl (Cbor_Io Io_Other)"
  using write_cbor_no_inner_error [of byte_enc "\<lambda>b s. Inl Io_Other" 1 "()" Io_Other "[1]" Io_Other]
  by (simp add: byte_enc_def)

text \<open>The head of a P2P stream, which is framed by hand, is byte for byte what \<open>write_cbor\<close>
  writes, so that the accepting node's \<open>read_cbor\<close> understands it.\<close>

theorem stream_head_is_frame:
  assumes "open_stream target = Inr s"
  shows "open_outbound_stream to_vec put open_stream me target request = Return (Inr (me, s')) \<longleftrightarrow>
    write_cbor to_vec put request s = Inr (Inr s')"
  using assms by (auto simp: open_outbound_stream_def write_cbor_def split: sum.splits)

theorem stream_head_is_frame_witness:
  "open_outbound_stream (\<lambda>r. Inr [1, 2]) mem_put (\<lambda>p. Inr []) (PeerId [1]) (PeerId [2])
      (HeadRequest_JobConnection ''j'') = Return (Inr (PeerId [1], [0, 0, 0, 2, 1, 2]))"
proof -
  have "write_cbor (\<lambda>r. Inr [1, 2]) mem_put (HeadRequest_JobConnection ''j'') [] =
      Inr (Inr [0, 0, 0, 2, 1, 2])"
    by (simp add: write_cbor_def mem_put_def u32_to_be_bytes_def)
  then show ?thesis
    using stream_head_is_frame [of "\<lambda>p. Inr []" "PeerId [2]" "[]" "\<lambda>r. Inr [1, 2]" mem_put "PeerId [1]"]
    by simp
qed

end
