(* ===== verification/Subscriptions.thy ===== *)
theory Subscriptions
  imports Gossip
begin

text \<open>
  Subscriptions of an RPC connection: the handlers that add and cancel them
  (\<open>src/src/rpc/procedure/subscription\<close>) and \<open>handle_event\<close>
  (\<open>src/src/rpc/connection.rs\<close>), which turns a broadcast event into a frame for each
  subscription it concerns.
\<close>

section \<open>State\<close>

datatype subscription =
    Sub_Jobs "string list option" "peer_id list option" "peer_id list option"
  | Sub_ActiveOffers "string list option" "peer_id list option"
  | Sub_ActiveProviders

record subscriptions =
  subscriptions_counter :: u32
  subscription_map :: "(u32, subscription) hash_map"

definition initial_subscriptions :: subscriptions where
  "initial_subscriptions = \<lparr>subscriptions_counter = 0, subscription_map = []\<rparr>"

section \<open>Subscribing\<close>

text \<open>\<open>subscriptions_counter\<close> is a \<open>u32\<close>; its increment wraps in a release build.\<close>

definition next_subscription :: "subscriptions \<Rightarrow> u32" where
  "next_subscription s = subscriptions_counter s"

definition add_subscription :: "subscription \<Rightarrow> subscriptions \<Rightarrow> subscriptions" where
  "add_subscription sub s =
     (let subscription_id = subscriptions_counter s
      in s\<lparr>subscriptions_counter := subscription_id + 1,
           subscription_map := AList.update subscription_id sub (subscription_map s)\<rparr>)"

text \<open>\<open>PeerId::from_str\<close> on every ID of a filter; the first that does not parse ends the loop.\<close>

fun parse_peer_ids :: "(string \<Rightarrow> peer_id option) \<Rightarrow> string list \<Rightarrow> string + peer_id list" where
  "parse_peer_ids from_str [] = Inr []"
| "parse_peer_ids from_str (raw # raws) =
     (case from_str raw of
        None \<Rightarrow> Inl raw
      | Some p \<Rightarrow> (case parse_peer_ids from_str raws of Inl e \<Rightarrow> Inl e | Inr ps \<Rightarrow> Inr (p # ps)))"

definition parse_filter ::
  "(string \<Rightarrow> peer_id option) \<Rightarrow> string list option \<Rightarrow> string + peer_id list option" where
  "parse_filter from_str f =
     (case f of
        None \<Rightarrow> Inr None
      | Some raws \<Rightarrow> (case parse_peer_ids from_str raws of Inl e \<Rightarrow> Inl e | Inr ps \<Rightarrow> Inr (Some ps)))"

definition handle_active_offers_subscription_request ::
  "(string \<Rightarrow> peer_id option) \<Rightarrow> active_offers_subscription_request \<Rightarrow> subscriptions \<Rightarrow>
     subscriptions \<times> subscription_response" where
  "handle_active_offers_subscription_request from_str request s =
     (case parse_filter from_str (as_provider_peer_ids request) of
        Inl raw \<Rightarrow> (s, InvalidPeerId raw)
      | Inr provider_peer_ids \<Rightarrow>
          (add_subscription (Sub_ActiveOffers (as_protocol_ids request) provider_peer_ids) s,
           Subscribed (next_subscription s)))"

definition handle_jobs_subscription_request ::
  "(string \<Rightarrow> peer_id option) \<Rightarrow> jobs_subscription_request \<Rightarrow> subscriptions \<Rightarrow>
     subscriptions \<times> subscription_response" where
  "handle_jobs_subscription_request from_str request s =
     (case parse_filter from_str (js_provider_peer_ids request) of
        Inl raw \<Rightarrow> (s, InvalidPeerId raw)
      | Inr provider_peer_ids \<Rightarrow>
          (case parse_filter from_str (js_consumer_peer_ids request) of
             Inl raw \<Rightarrow> (s, InvalidPeerId raw)
           | Inr consumer_peer_ids \<Rightarrow>
               (add_subscription
                  (Sub_Jobs (js_protocol_ids request) provider_peer_ids consumer_peer_ids) s,
                Subscribed (next_subscription s))))"

definition handle_active_providers_subscription_request ::
  "subscriptions \<Rightarrow> subscriptions \<times> u32" where
  "handle_active_providers_subscription_request s =
     (add_subscription Sub_ActiveProviders s, next_subscription s)"

definition handle_cancel_subscription_request ::
  "u32 \<Rightarrow> subscriptions \<Rightarrow> subscriptions \<times> cancel_subscription_response" where
  "handle_cancel_subscription_request subscription_id s =
     (s\<lparr>subscription_map := AList.delete subscription_id (subscription_map s)\<rparr>,
      (case map_of (subscription_map s) subscription_id of
         Some _ \<Rightarrow> Cancel_Ok
       | None \<Rightarrow> Cancel_InvalidSubscriptionId))"

section \<open>Events\<close>

definition check_against_offer_subscription ::
  "string list option \<Rightarrow> peer_id list option \<Rightarrow> string \<Rightarrow> peer_id \<Rightarrow> bool" where
  "check_against_offer_subscription protocol_ids provider_peer_ids offer_protocol_id
       offer_provider_peer_id =
     (case protocol_ids of
        Some protocols \<Rightarrow> offer_protocol_id \<in> set protocols
      | None \<Rightarrow>
          (case provider_peer_ids of
             Some providers \<Rightarrow> offer_provider_peer_id \<in> set providers
           | None \<Rightarrow> True))"

definition check_against_jobs_subscription ::
  "string list option \<Rightarrow> peer_id list option \<Rightarrow> peer_id list option \<Rightarrow> job_record \<Rightarrow> bool" where
  "check_against_jobs_subscription protocol_ids provider_peer_ids consumer_peer_ids data =
     (case protocol_ids of
        Some protocols \<Rightarrow> jr_offer_protocol_id data \<in> set protocols
      | None \<Rightarrow>
          (case provider_peer_ids of
             Some providers \<Rightarrow> jr_provider_peer_id data \<in> set providers
           | None \<Rightarrow>
               (case consumer_peer_ids of
                  Some consumers \<Rightarrow> jr_consumer_peer_id data \<in> set consumers
                | None \<Rightarrow> True)))"

text \<open>The frame one subscription gets for an event, if any.\<close>

definition subscription_frame ::
  "rpc_event \<Rightarrow> u32 \<times> subscription \<Rightarrow> outbound_request_data option" where
  "subscription_frame event entry =
     (case entry of (i, sub) \<Rightarrow>
       (case (event, sub) of
          (OfferRemoved data, Sub_ActiveOffers protocol_ids provider_peer_ids) \<Rightarrow>
            if check_against_offer_subscription protocol_ids provider_peer_ids
                 (or_protocol_id data) (or_provider_peer_id data)
            then Some (EventOfferRemoved i data) else None
        | (OfferUpdated data, Sub_ActiveOffers protocol_ids provider_peer_ids) \<Rightarrow>
            if check_against_offer_subscription protocol_ids provider_peer_ids
                 (os_protocol_id data) (os_provider_peer_id data)
            then Some (EventOfferUpdated i data) else None
        | (ProviderHeartbeat data, Sub_ActiveProviders) \<Rightarrow> Some (EventProviderHeartbeat i data)
        | (ProviderUpdated data, Sub_ActiveProviders) \<Rightarrow> Some (EventProviderUpdated i data)
        | (JobUpdated data, Sub_Jobs protocol_ids provider_peer_ids consumer_peer_ids) \<Rightarrow>
            if check_against_jobs_subscription protocol_ids provider_peer_ids consumer_peer_ids data
            then Some (EventJobUpdated i data) else None
        | _ \<Rightarrow> None))"

text \<open>The frames pushed for an event, in the iteration order of the map.\<close>

definition event_frames ::
  "(u32, subscription) hash_map \<Rightarrow> rpc_event \<Rightarrow> outbound_request_data list" where
  "event_frames subs event = List.map_filter (subscription_frame event) subs"

section \<open>What reaches one subscription\<close>

fun frame_subscription :: "outbound_request_data \<Rightarrow> u32 option" where
  "frame_subscription (EventOfferRemoved i _) = Some i"
| "frame_subscription (EventOfferUpdated i _) = Some i"
| "frame_subscription (EventProviderHeartbeat i _) = Some i"
| "frame_subscription (EventProviderUpdated i _) = Some i"
| "frame_subscription (EventJobUpdated i _) = Some i"
| "frame_subscription _ = None"

definition delivered :: "u32 \<Rightarrow> outbound_request_data list \<Rightarrow> outbound_request_data list" where
  "delivered i fs = filter (\<lambda>f. frame_subscription f = Some i) fs"

lemma delivered_append [simp]: "delivered i (fs @ gs) = delivered i fs @ delivered i gs"
  by (simp add: delivered_def)

lemma subscription_frame_id:
  "subscription_frame event (j, sub) = Some f \<Longrightarrow> frame_subscription f = Some j"
  by (auto simp: subscription_frame_def split: rpc_event.splits subscription.splits if_splits)

text \<open>Each event gives a subscription at most one frame, the one its filter decides on.\<close>

lemma delivered_event_frames:
  assumes "hm_ok subs"
  shows "delivered i (event_frames subs event) =
    (case map_of subs i of None \<Rightarrow> []
     | Some sub \<Rightarrow> (case subscription_frame event (i, sub) of None \<Rightarrow> [] | Some f \<Rightarrow> [f]))"
  using assms
proof (induction subs)
  case (Cons a subs)
  obtain j sub where a: "a = (j, sub)" by (cases a)
  with Cons.prems have "map_of subs j = None" "hm_ok subs" by (simp_all add: hm_ok_Cons)
  with Cons.IH a show ?case
    by (auto simp: event_frames_def delivered_def map_filter_simps
        dest: subscription_frame_id split: option.splits)
qed (simp add: event_frames_def delivered_def map_filter_simps)

text \<open>Subscribing gives out unused IDs as long as the counter has not wrapped round.\<close>

interpretation sub_ids: id_source subscriptions_counter "\<lambda>s. fst ` set (subscription_map s)"
    "add_subscription sub" next_subscription for sub
  by unfold_locales
    (simp_all add: add_subscription_def next_subscription_def Let_def dom_update image_comp
      flip: dom_map_of_conv_image_fst)

end
