(* ===== verification/Subscription_Properties.thy ===== *)
theory Subscription_Properties
  imports Subscriptions Gossip_Properties
begin

text \<open>
  What a subscriber can rely on: its copy of the active offers stays exact, IDs are not
  reused, and what the filters of a subscription do and do not filter.
\<close>

section \<open>A subscriber's copy of the active offers\<close>

text \<open>
  The specification: a client that keeps the last snapshot it was told of for each offer,
  and drops it when told so.
\<close>

fun client_update ::
  "outbound_request_data \<Rightarrow> (offer_key \<Rightarrow> offer_snapshot option) \<Rightarrow>
     (offer_key \<Rightarrow> offer_snapshot option)" where
  "client_update (EventOfferUpdated _ data) view = view(updated_key data \<mapsto> data)"
| "client_update (EventOfferRemoved _ data) view = view(removed_key data := None)"
| "client_update _ view = view"

definition offers_view ::
  "database \<Rightarrow> string list option \<Rightarrow> peer_id list option \<Rightarrow> offer_key \<Rightarrow> offer_snapshot option" where
  "offers_view db protocol_ids provider_peer_ids k =
     List.find (\<lambda>s. updated_key s = k) (query_active_offers db protocol_ids provider_peer_ids)"

definition key_in :: "string list option \<Rightarrow> peer_id list option \<Rightarrow> offer_key \<Rightarrow> bool" where
  "key_in protocol_ids provider_peer_ids k \<longleftrightarrow>
     in_filter protocol_ids (fst (snd k)) \<and> in_filter provider_peer_ids (fst k)"

lemma updated_key_row [simp]: "updated_key (row_to_snapshot r) = snap_key r"
  by (simp add: updated_key_def row_to_snapshot_def snap_key_def)

lemma removed_key_of_event: "removed_key (removed_event r) = snap_key r"
  by (simp add: removed_key_def removed_event_def snap_key_def)

lemma offers_view_active:
  assumes "wf_database db"
  shows "offers_view db f g k =
    (if key_in f g k then map_option row_to_snapshot (active_row (offer_snapshots db) k) else None)"
proof -
  let ?t = "offer_snapshots db"
  let ?P = "\<lambda>r. snap_active r \<and> in_filter f (snap_protocol_id r) \<and> in_filter g (snap_provider_peer_id r)"
  have "List.find (\<lambda>r. snap_key r = k) (filter ?P ?t) = (if key_in f g k then active_row ?t k else None)"
  proof (cases "key_in f g k")
    case True
    have "List.find (\<lambda>r. snap_key r = k) (filter ?P xs) = List.find (\<lambda>r. snap_active r \<and> snap_key r = k) xs"
      for xs :: "snapshot_row list"
      by (induction xs) (use True in \<open>auto simp: key_in_def snap_key_def\<close>)
    with True show ?thesis by (simp add: active_row_def)
  qed (auto simp: find_None_iff key_in_def snap_key_def)
  then show ?thesis
    by (simp add: offers_view_def query_active_offers_def find_map comp_def)
qed

text \<open>What a subscription with filters \<open>f\<close> and \<open>g\<close> does with the events of one offer.\<close>

lemma offer_event_frames:
  assumes "hm_ok subs" and "map_of subs i = Some (Sub_ActiveOffers f g)"
  shows "delivered i (event_frames subs (OfferRemoved d)) =
      (if check_against_offer_subscription f g (or_protocol_id d) (or_provider_peer_id d)
       then [EventOfferRemoved i d] else [])"
    and "delivered i (event_frames subs (OfferUpdated s)) =
      (if check_against_offer_subscription f g (os_protocol_id s) (os_provider_peer_id s)
       then [EventOfferUpdated i s] else [])"
    and "delivered i (event_frames subs (ProviderUpdated p)) = []"
    and "delivered i (event_frames subs (ProviderHeartbeat h)) = []"
  using assms by (simp_all add: delivered_event_frames subscription_frame_def)

abbreviation frames_of ::
  "(u32, subscription) hash_map \<Rightarrow> rpc_event list \<Rightarrow> outbound_request_data list" where
  "frames_of subs events \<equiv> concat (map (event_frames subs) events)"

text \<open>One filter at most is set: then the subscription filters as the query does.\<close>

definition single_filter :: "string list option \<Rightarrow> peer_id list option \<Rightarrow> bool" where
  "single_filter f g \<longleftrightarrow> f = None \<or> g = None"

lemma check_is_query_filter:
  assumes "single_filter f g"
  shows "check_against_offer_subscription f g p q \<longleftrightarrow> key_in f g (q, p, o')"
  using assms
  by (auto simp: single_filter_def check_against_offer_subscription_def key_in_def in_filter_def
      split: option.splits)

lemma fold_removed:
  assumes "hm_ok subs" and "map_of subs i = Some (Sub_ActiveOffers f g)" and "single_filter f g"
  shows "fold client_update (delivered i (frames_of subs (map OfferRemoved rem))) view k =
    (if key_in f g k \<and> filter (\<lambda>d. removed_key d = k) rem \<noteq> [] then None else view k)"
proof (induction rem arbitrary: view)
  case (Cons d rem)
  have "check_against_offer_subscription f g (or_protocol_id d) (or_provider_peer_id d) \<longleftrightarrow>
      key_in f g (removed_key d)"
    by (simp add: check_is_query_filter [OF assms(3), of _ _ "or_offer_id d"] removed_key_def)
  then show ?case by (auto simp: offer_event_frames [OF assms(1,2)] Cons.IH simp del: map_map)
qed (simp add: delivered_def)

lemma fold_updated:
  assumes "hm_ok subs" and "map_of subs i = Some (Sub_ActiveOffers f g)" and "single_filter f g"
  shows "fold client_update (delivered i (frames_of subs (map OfferUpdated upd))) view k =
    (case filter (\<lambda>s. updated_key s = k) upd of
       [] \<Rightarrow> view k
     | ss \<Rightarrow> if key_in f g k then Some (last ss) else view k)"
proof (induction upd arbitrary: view)
  case (Cons s upd)
  have "check_against_offer_subscription f g (os_protocol_id s) (os_provider_peer_id s) \<longleftrightarrow>
      key_in f g (updated_key s)"
    by (simp add: check_is_query_filter [OF assms(3), of _ _ "os_offer_id s"] updated_key_def)
  then show ?case by (auto simp: offer_event_frames [OF assms(1,2)] Cons.IH simp del: map_map split: list.splits)
qed (simp add: delivered_def)

lemma offers_replaced_view:
  assumes "wf_database db" and "offers_replaced source details db db' rem upd"
    and "hm_ok subs" and "map_of subs i = Some (Sub_ActiveOffers f g)" and "single_filter f g"
  shows "fold client_update (delivered i (frames_of subs (map OfferRemoved rem @ map OfferUpdated upd)))
      (offers_view db f g) = offers_view db' f g"
proof (rule ext)
  fix k
  let ?t = "offer_snapshots db" and ?t' = "offer_snapshots db'"
  let ?s = "\<lparr>rc_table = ?t', rc_removed = rem, rc_updated = upd\<rparr>"
  have wf': "wf_database db'" and set: "settled source (pd_offers details) ?t ?s"
    using assms(2) by (simp_all add: offers_replaced_def)
  note view = offers_view_active [OF assms(1)] offers_view_active [OF wf']
  have cell: "rc_cell ?s k = (active_row ?t' k, filter (\<lambda>d. removed_key d = k) rem,
      filter (\<lambda>s. updated_key s = k) upd)"
    by (simp add: rc_cell_def)
  have "if fst k = source then reconciled k (active_row ?t k) (incoming (pd_offers details) k) (rc_cell ?s k)
      else rc_cell ?s k = (active_row ?t k, [], [])"
    using set unfolding settled_def by blast
  then show "fold client_update (delivered i (frames_of subs (map OfferRemoved rem @ map OfferUpdated upd)))
      (offers_view db f g) k = offers_view db' f g k"
    using fold_removed [OF assms(3-5), of rem "offers_view db f g" k]
    by (auto simp: fold_updated [OF assms(3-5)] view cell reconciled_def published_def
        simp del: map_map split: if_splits option.splits)
qed

text \<open>The events of an accepted heartbeat, by what happens to the offers.\<close>

definition no_offer_events :: "rpc_event list \<Rightarrow> bool" where
  "no_offer_events evs \<longleftrightarrow>
     (\<forall>e \<in> set evs. case e of OfferRemoved _ \<Rightarrow> False | OfferUpdated _ \<Rightarrow> False | _ \<Rightarrow> True)"

lemma no_offer_events_view:
  assumes "hm_ok subs" and "map_of subs i = Some (Sub_ActiveOffers f g)" and "no_offer_events evs"
  shows "fold client_update (delivered i (frames_of subs evs)) view = view"
  using assms(3)
proof (induction evs)
  case (Cons e evs)
  then have "delivered i (event_frames subs e) = []"
    using assms(1,2)
    by (cases e) (simp_all add: no_offer_events_def delivered_event_frames subscription_frame_def)
  with Cons show ?case by (simp add: no_offer_events_def)
qed (simp add: delivered_def)

lemma handle_heartbeat_events:
  assumes "wf_database db" and "pick_ok pick" and "heartbeat_ok hb"
    and "handle_heartbeat pick source hb sql_now now1 now2 db = Return (Inr (db', evs))"
  obtains "offer_snapshots db' = offer_snapshots db" and "no_offer_events evs"
    | pre details rem upd where "no_offer_events pre"
      and "evs = pre @ map OfferRemoved rem @ map OfferUpdated upd"
      and "offers_replaced source details db db' rem upd"
proof (cases "hb_provider hb")
  case None
  then have "db' = db" "evs = []"
    using assms(4)
    by (auto simp: handle_heartbeat_def handle_known_def split: option.splits if_splits)
  then show ?thesis by (intro that(1)) (simp_all add: no_offer_events_def)
next
  case (Some details)
  then have wire: "wire_ok (pd_offers details)" using assms(3) by (simp add: heartbeat_ok_def)
  show ?thesis
  proof (cases "find_peer source db")
    case None
    with handle_heartbeat_new [OF assms(1) Some wire, of source pick sql_now now1 now2] assms(4)
    obtain upd where "evs = map OfferUpdated upd" "offers_replaced source details db db' [] upd"
      by (auto simp: find_peer_None_iff)
    then show ?thesis by (intro that(2) [of "[]" "[]" upd]) (simp_all add: no_offer_events_def)
  next
    case peer: (Some peer)
    from assms(4) consider
      "heartbeat_unchanged source (hb_timestamp hb) sql_now now1 db = (db', evs)"
      | "newer_heartbeat peer hb" "known_updated_at peer < pd_updated_at details"
      by (auto simp: handle_heartbeat_known [OF peer] handle_known_details [OF Some] split: if_splits)
    then show ?thesis
    proof cases
      case 1
      then show ?thesis
        by (intro that(1)) (auto simp: heartbeat_unchanged_def no_offer_events_def)
    next
      case 2
      from handle_heartbeat_changed [OF assms(1,2) Some wire peer 2, of sql_now now1 now2] assms(4)
      obtain rec rem upd where
        "evs = ProviderUpdated rec # map OfferRemoved rem @ map OfferUpdated upd"
        "offers_replaced source details db db' rem upd" by auto
      then show ?thesis
        by (intro that(2) [of "[ProviderUpdated rec]" rem upd]) (simp_all add: no_offer_events_def)
    qed
  qed
qed

lemma heartbeat_view:
  assumes "wf_database db" and "pick_ok pick" and "heartbeat_ok hb"
    and "handle_heartbeat pick source hb sql_now now1 now2 db = Return (Inr (db', evs))"
    and "hm_ok subs" and "map_of subs i = Some (Sub_ActiveOffers f g)" and "single_filter f g"
  shows "fold client_update (delivered i (frames_of subs evs)) (offers_view db f g) =
    offers_view db' f g"
  using assms(1-4)
proof (cases rule: handle_heartbeat_events)
  case 1
  then have "offers_view db' f g = offers_view db f g"
    by (intro ext) (simp add: offers_view_def query_active_offers_def)
  with no_offer_events_view [OF assms(5,6) 1(2)] show ?thesis by simp
next
  case (2 pre details rem upd)
  note rest = offers_replaced_view [OF assms(1) 2(3) assms(5-7)]
  have "delivered i (frames_of subs evs) = delivered i (frames_of subs pre) @
      delivered i (frames_of subs (map OfferRemoved rem @ map OfferUpdated upd))"
    by (simp add: 2(2) del: map_map)
  with rest show ?thesis
    by (simp add: no_offer_events_view [OF assms(5,6) 2(1)] del: map_map map_append)
qed

text \<open>A run of gossip events, with the events it broadcasts.\<close>

definition gossip_trace_step ::
  "(bytes \<Rightarrow> heartbeat option) \<Rightarrow> (snapshot_row list \<Rightarrow> snapshot_row) \<Rightarrow> string \<Rightarrow>
     gossipsub_event \<times> clocks \<Rightarrow> database \<times> rpc_event list \<Rightarrow>
     (database \<times> rpc_event list) outcome" where
  "gossip_trace_step decode pick topic e s =
     and_then (handle_gossipsub_event decode pick topic (fst e) (snd e) (fst s))
       (\<lambda>(db', evs). Return (db', snd s @ evs))"

lemma gossip_event_view:
  assumes "wf_database db" and "pick_ok pick" and "decode_ok decode"
    and "handle_gossipsub_event decode pick topic e c db = Return (db', evs)"
    and "hm_ok subs" and "map_of subs i = Some (Sub_ActiveOffers f g)" and "single_filter f g"
  shows "fold client_update (delivered i (frames_of subs evs)) (offers_view db f g) =
    offers_view db' f g"
proof (cases "\<exists>source data hb r. e = Gossip_Message topic (Some source) data \<and> decode data = Some hb \<and>
    handle_heartbeat pick source hb (fst c) (fst (snd c)) (snd (snd c)) db = Return (Inr r)")
  case True
  then obtain source data hb db1 evs1 where h: "e = Gossip_Message topic (Some source) data"
    "decode data = Some hb"
    "handle_heartbeat pick source hb (fst c) (fst (snd c)) (snd (snd c)) db = Return (Inr (db1, evs1))"
    by (metis prod.exhaust)
  then have eq: "db1 = db'" "evs1 = evs"
    using assms(4) by (auto simp: handle_gossipsub_event_def case_prod_beta)
  have "heartbeat_ok hb" using assms(3) h(2) by (auto simp: decode_ok_def)
  from heartbeat_view [OF assms(1,2) this h(3) [unfolded eq] assms(5-7)] show ?thesis .
next
  case False
  then have "db' = db \<and> evs = []"
    using assms(4)
    by (auto simp: handle_gossipsub_event_def case_prod_beta
        split: gossipsub_event.splits option.splits if_splits outcome.splits sum.splits)
      (metis sum.exhaust surj_pair)+
  then show ?thesis by (simp add: delivered_def)
qed

lemma gossip_trace_view:
  assumes "wf_database db" and "pick_ok pick" and "decode_ok decode" and "hm_ok subs"
    and "map_of subs i = Some (Sub_ActiveOffers f g)" and "single_filter f g"
    and "fold client_update (delivered i (frames_of subs evs0)) view0 = offers_view db f g"
  shows "\<exists>db' evs. fold_outcome (gossip_trace_step decode pick topic) es (db, evs0) = Return (db', evs) \<and>
    fold client_update (delivered i (frames_of subs evs)) view0 = offers_view db' f g"
  using assms(1,7)
proof (induction es arbitrary: db evs0)
  case (Cons e es)
  obtain db1 where "gossip_step decode pick topic e db = Return db1" "wf_database db1"
    using gossip_step_sound [OF Cons.prems(1) assms(2,3), of topic e] by (auto simp: heartbeat_sound_def)
  then obtain evs1 where step:
    "handle_gossipsub_event decode pick topic (fst e) (snd e) db = Return (db1, evs1)"
    by (auto simp: gossip_step_def)
  have "fold client_update (delivered i (frames_of subs (evs0 @ evs1))) view0 = offers_view db1 f g"
    using Cons.prems(2) gossip_event_view [OF Cons.prems(1) assms(2,3) step assms(4-6)] by simp
  from Cons.IH [OF \<open>wf_database db1\<close> this] step show ?case by (simp add: gossip_trace_step_def)
qed simp

section \<open>Properties\<close>



text \<open>With both filters set only the first works: an offer of one of the protocols is pushed to the
  subscriber although its provider is not among the wanted ones, and although the query with
  the same two filters never lists it.\<close>

theorem second_filter_ignored:
  assumes "hm_ok subs" and "map_of subs i = Some (Sub_ActiveOffers (Some protocols) (Some providers))"
    and "os_protocol_id s \<in> set protocols" and "os_provider_peer_id s \<notin> set providers"
  shows "delivered i (event_frames subs (OfferUpdated s)) = [EventOfferUpdated i s] \<and>
    s \<notin> set (query_active_offers db (Some protocols) (Some providers))"
  using assms
  by (auto simp: offer_event_frames check_against_offer_subscription_def query_active_offers_def
      in_filter_def row_to_snapshot_def)

theorem second_filter_ignored_witness:
  "delivered 0 (event_frames [(0, Sub_ActiveOffers (Some [''p'']) (Some [PeerId [1]]))]
      (OfferUpdated (updated_event (PeerId [2]) ''p'' ''o'' ''x'' 4))) =
    [EventOfferUpdated 0 (updated_event (PeerId [2]) ''p'' ''o'' ''x'' 4)]"
  using second_filter_ignored [of "[(0, Sub_ActiveOffers (Some [''p'']) (Some [PeerId [1]]))]" 0
      "[''p'']" "[PeerId [1]]" "updated_event (PeerId [2]) ''p'' ''o'' ''x'' 4"]
  by (simp add: updated_event_def)

end
