(* ===== verification/Job_Connection.thy ===== *)
theory Job_Connection
  imports Framing Jobs Provider_State
begin

text \<open>
  Job connections: the byte stream a Consumer opens to the module that serves its job.
  The Consumer's RPC procedure (\<open>src/src/rpc/procedure/consumer/open_job_connection.rs\<close>), the
  Provider's side (\<open>handle_incoming_stream\<close>, \<open>src/src/p2p/stream.rs\<close>, and
  \<open>src/src/p2p/stream/job_connection.rs\<close>), and the Yamux streams of the RPC clients that are
  joined with them (\<open>handle_connection\<close>, \<open>src/src/rpc/connection.rs\<close>).
\<close>

section \<open>Streams waiting for the client\<close>

text \<open>A P2P stream: the bytes that will still arrive, and the bytes written to it.\<close>

record p2p_stream =
  sm_in :: bytes
  sm_out :: bytes

text \<open>
  The connection counter and the streams of one RPC connection
  (\<open>future_connection_counter\<close>, \<open>future_connections\<close>). The counter is bumped before use.
\<close>

record future_connections =
  fc_counter :: u64
  fc_streams :: "(u64, p2p_stream) hash_map"

definition no_connections :: future_connections where
  "no_connections = \<lparr>fc_counter = 0, fc_streams = []\<rparr>"

definition next_connection_id :: "future_connections \<Rightarrow> u64" where
  "next_connection_id fc = fc_counter fc + 1"

definition register_stream :: "p2p_stream \<Rightarrow> future_connections \<Rightarrow> future_connections" where
  "register_stream s fc =
     (let connection_id = fc_counter fc + 1
      in fc\<lparr>fc_counter := connection_id,
            fc_streams := AList.update connection_id s (fc_streams fc)\<rparr>)"

interpretation connection_ids: id_source fc_counter "\<lambda>fc. fst ` set (fc_streams fc)"
    "register_stream s" next_connection_id for s
  by unfold_locales
    (simp_all add: register_stream_def next_connection_id_def Let_def dom_update image_comp
      flip: dom_map_of_conv_image_fst)

section \<open>Opening, Consumer side\<close>

definition open_job_connection_start ::
  "database \<Rightarrow> consumer_open_job_connection_request \<Rightarrow>
     consumer_open_job_connection_response + peer_id \<times> head_request" where
  "open_job_connection_start db request =
     (case find_by_job_id db (co_provider_peer_id request) (co_provider_job_id request) of
        None \<Rightarrow> Inl COpen_LocalJobNotFound
      | Some job \<Rightarrow> Inr (jr_provider_peer_id job, HeadRequest_JobConnection (jr_provider_job_id job)))"

text \<open>
  Once the stream is open and the head written (\<open>open_outbound_stream\<close>): read the answer.
  \<open>show_error\<close> is the \<open>Display\<close> text of an I/O error.
\<close>

definition open_job_connection_finish ::
  "(bytes \<Rightarrow> head_response option) \<Rightarrow> (io_error \<Rightarrow> string) \<Rightarrow>
     (open_stream_error + peer_id \<times> p2p_stream) received \<Rightarrow> future_connections \<Rightarrow>
     (future_connections \<times> consumer_open_job_connection_response) outcome" where
  "open_job_connection_finish from_slice show_error result fc =
     (case result of
        Sender_Dropped \<Rightarrow> Panic
      | Received (Inl e) \<Rightarrow> Return (fc, COpen_ProviderUnreacheable)
      | Received (Inr (_, stream)) \<Rightarrow>
          (case read_cbor from_slice (sm_in stream) of
             (Inr (Some (HeadResponse_JobConnection response)), rest) \<Rightarrow>
               Return (case response of
                   Head_Ok \<Rightarrow> (register_stream (stream\<lparr>sm_in := rest\<rparr>) fc,
                     COpen_Ok (next_connection_id fc))
                 | Head_JobNotFound \<Rightarrow> (fc, COpen_ProviderJobNotFound)
                 | Head_JobExpired \<Rightarrow> (fc, COpen_ProviderJobExpired)
                 | Head_Busy \<Rightarrow> (fc, COpen_ProviderBusy)
                 | Head_AnotherError e \<Rightarrow> (fc, COpen_OtherRemoteError e))
           | (Inr None, rest) \<Rightarrow> Return (fc, COpen_ProviderUnreacheable)
           | (Inl e, rest) \<Rightarrow> Return (fc, COpen_OtherLocalError (show_error e))))"

section \<open>Accepting, Provider side\<close>

text \<open>
  The answer to the head, with the module and the nonce if the connection is accepted.
  \<open>call_module\<close> is the module's RPC client as in \<open>Reqres\<close>; here \<open>try_send(..).expect\<close>
  panics if its queue is closed or full.
\<close>

definition job_connection_answer ::
  "(outbound_request_data \<Rightarrow> inbound_response_data received option) \<Rightarrow> peer_id \<Rightarrow> peer_id \<Rightarrow>
     string \<Rightarrow> provider_state \<Rightarrow> database \<Rightarrow>
     (job_connection_head_response \<times> (provider_module \<times> string) option) outcome" where
  "job_connection_answer call_module from_peer_id to_peer_id provider_job_id st db =
     (case find_by_job_id db to_peer_id provider_job_id of
        None \<Rightarrow> Return (Head_JobNotFound, None)
      | Some job \<Rightarrow>
          if from_peer_id \<noteq> jr_consumer_peer_id job then Return (Head_JobNotFound, None)
          else and_then (find_offer st (jr_offer_protocol_id job) (jr_offer_id job)) (\<lambda>offer.
            case offer of
              None \<Rightarrow> Return (Head_JobExpired, None)
            | Some (m, _) \<Rightarrow>
                (case call_module (ProviderPrepareJobConnection to_peer_id provider_job_id) of
                   None \<Rightarrow> Panic
                 | Some (Received (ProviderPrepareJobConnectionResponse response)) \<Rightarrow>
                     Return (case response of
                         Prepare_Ok nonce \<Rightarrow> (Head_Ok, Some (m, nonce))
                       | Prepare_JobNotFound \<Rightarrow> (Head_JobNotFound, None)
                       | Prepare_Busy \<Rightarrow> (Head_Busy, None))
                 | Some (Received _) \<Rightarrow> Return (Head_Busy, None)
                 | Some Sender_Dropped \<Rightarrow> Return (Head_Busy, None))))"

text \<open>
  The whole handler. \<open>futures\<close> are the tables of the RPC connections, by number, \<open>try_send\<close>
  tells whether the module's queue takes a request. The result: the tables, the stream as
  the handler leaves it, and the request given to the module, if any.
\<close>

definition handle_job_connection_stream ::
  "(outbound_request_data \<Rightarrow> inbound_response_data received option) \<Rightarrow>
     (nat \<Rightarrow> outbound_request_data \<Rightarrow> bool) \<Rightarrow> (head_response \<Rightarrow> cbor_error + bytes) \<Rightarrow>
     (bytes \<Rightarrow> p2p_stream \<Rightarrow> io_error + p2p_stream) \<Rightarrow> peer_id \<Rightarrow> peer_id \<Rightarrow> string \<Rightarrow>
     p2p_stream \<Rightarrow> provider_state \<Rightarrow> database \<Rightarrow> (nat \<Rightarrow> future_connections) \<Rightarrow>
     ((nat \<Rightarrow> future_connections) \<times> p2p_stream \<times> (nat \<times> outbound_request_data) option) outcome"
where
  "handle_job_connection_stream call_module try_send to_vec put from_peer_id to_peer_id
       provider_job_id stream st db futures =
     and_then (job_connection_answer call_module from_peer_id to_peer_id provider_job_id st db)
       (\<lambda>(response, payload).
         case write_cbor to_vec put (HeadResponse_JobConnection response) stream of
           Inl e \<Rightarrow> Panic
         | Inr (Inl io_error) \<Rightarrow> Return (futures, stream, None)
         | Inr (Inr stream') \<Rightarrow>
             (case payload of
                None \<Rightarrow> Return (futures, stream', None)
              | Some (m, nonce) \<Rightarrow>
                  (let conn = pm_connection m;
                       connection_id = next_connection_id (futures conn);
                       request = ProviderOpenJobConnection connection_id nonce
                   in if try_send conn request
                      then Return (futures(conn := register_stream stream' (futures conn)),
                        stream', Some (conn, request))
                      else Panic)))"

definition handle_incoming_stream ::
  "(outbound_request_data \<Rightarrow> inbound_response_data received option) \<Rightarrow>
     (nat \<Rightarrow> outbound_request_data \<Rightarrow> bool) \<Rightarrow> (bytes \<Rightarrow> head_request option) \<Rightarrow>
     (head_response \<Rightarrow> cbor_error + bytes) \<Rightarrow> (bytes \<Rightarrow> p2p_stream \<Rightarrow> io_error + p2p_stream) \<Rightarrow>
     peer_id \<Rightarrow> peer_id \<Rightarrow> p2p_stream \<Rightarrow> provider_state \<Rightarrow> database \<Rightarrow> (nat \<Rightarrow> future_connections) \<Rightarrow>
     ((nat \<Rightarrow> future_connections) \<times> p2p_stream \<times> (nat \<times> outbound_request_data) option) outcome"
where
  "handle_incoming_stream call_module try_send from_slice to_vec put from_peer_id to_peer_id
       stream st db futures =
     (case read_cbor from_slice (sm_in stream) of
        (Inr (Some (HeadRequest_JobConnection provider_job_id)), rest) \<Rightarrow>
          handle_job_connection_stream call_module try_send to_vec put from_peer_id to_peer_id
            provider_job_id (stream\<lparr>sm_in := rest\<rparr>) st db futures
      | (Inr None, rest) \<Rightarrow> Return (futures, stream\<lparr>sm_in := rest\<rparr>, None)
      | (Inl io_error, rest) \<Rightarrow> Return (futures, stream\<lparr>sm_in := rest\<rparr>, None))"

section \<open>Joining Yamux streams\<close>

text \<open>
  What a new Yamux stream of the RPC client becomes: the first one carries the RPC frames;
  any other names a waiting P2P stream by its ID (\<open>read_u64\<close>, big endian), which is taken out
  of the table and joined with it.
\<close>

definition u64_from_be_bytes :: "bytes \<Rightarrow> u64" where
  "u64_from_be_bytes b = word_of_nat (fold (\<lambda>x n. 256 * n + unat x) b 0)"

datatype accepted_stream =
    Rpc_Stream bytes
  | Joined u64 p2p_stream bytes
  | Unknown_Connection u64
  | Read_Error

definition accept_yamux_stream ::
  "bool \<Rightarrow> bytes \<Rightarrow> future_connections \<Rightarrow> future_connections \<times> accepted_stream" where
  "accept_yamux_stream is_first yamux_stream fc =
     (if is_first then (fc, Rpc_Stream yamux_stream)
      else (case read_exact 8 yamux_stream of
          (Inl e, rest) \<Rightarrow> (fc, Read_Error)
        | (Inr id_bytes, rest) \<Rightarrow>
            (let connection_id = u64_from_be_bytes id_bytes
             in case map_of (fc_streams fc) connection_id of
                  Some s \<Rightarrow> (fc\<lparr>fc_streams := AList.delete connection_id (fc_streams fc)\<rparr>,
                    Joined connection_id s rest)
                | None \<Rightarrow> (fc, Unknown_Connection connection_id))))"

end
