(* ===== verification/Reqres.thy ===== *)
theory Reqres
  imports Jobs Provider_State
begin

text \<open>
  The Request-Response protocol between peers (\<open>src/src/p2p/reqres\<close>): the Provider's handlers
  of the three requests, and the map from outbound requests to the tasks that wait for them.
  Sending a response over the swarm is the handlers' result.
\<close>

section \<open>Creating a job\<close>

text \<open>
  \<open>call_module\<close> stands for the RPC client that provides the offer: what comes back for an
  envelope put into the module's queue, \<open>None\<close> if the queue is closed. \<open>uuid\<close> is the new
  job ID (\<open>Uuid::new_v4\<close>), \<open>now1\<close> and \<open>now2\<close> the clock at the request and at the insert.
\<close>

definition handle_create_job_request ::
  "(outbound_request_data \<Rightarrow> inbound_response_data received option) \<Rightarrow> string \<Rightarrow> datetime \<Rightarrow>
     datetime \<Rightarrow> peer_id \<Rightarrow> peer_id \<Rightarrow> create_job_request \<Rightarrow> provider_state \<Rightarrow> database \<Rightarrow>
     (database \<times> p2p_response) outcome" where
  "handle_create_job_request call_module uuid now1 now2 me from_peer_id request st db =
     and_then (find_offer st (cj_protocol_id request) (cj_offer_id request)) (\<lambda>offer.
       case offer of
         None \<Rightarrow> Return (db, R_CreateJob CreateJob_OfferNotFound)
       | Some (m, offered) \<Rightarrow>
           if po_protocol_payload offered \<noteq> cj_offer_payload request
           then Return (db, R_CreateJob CreateJob_OfferPayloadMismatch)
           else
             (let created_at_sync = timestamp now1
              in case call_module (ProviderCreateJob me (cj_protocol_id request)
                     (cj_offer_id request) uuid created_at_sync (cj_job_args request)) of
                   None \<Rightarrow> Panic
                 | Some Sender_Dropped \<Rightarrow> Panic
                 | Some (Received (ProviderCreateJobResponse response)) \<Rightarrow>
                     (case response of
                        PCreate_Ok \<Rightarrow>
                          and_then (create_job db (po_snapshot_rowid offered) from_peer_id
                              (cj_currency request) (cj_job_args request) uuid created_at_sync now2)
                            (\<lambda>(db', rid). Return (db', R_CreateJob (CreateJob_Ok uuid created_at_sync)))
                      | PCreate_Busy \<Rightarrow> Return (db, R_CreateJob CreateJob_Busy)
                      | PCreate_InvalidJobArgs err \<Rightarrow>
                          Return (db, R_CreateJob (CreateJob_InvalidJobArgs err)))
                 | Some (Received _) \<Rightarrow> Return (db, R_CreateJob CreateJob_Busy)))"

section \<open>Querying a job\<close>

definition handle_get_job_request ::
  "peer_id \<Rightarrow> peer_id \<Rightarrow> get_job_request \<Rightarrow> database \<Rightarrow> p2p_response" where
  "handle_get_job_request me from_peer_id request db =
     R_GetJob
       (case find_by_job_id db me (gj_provider_job_id request) of
          None \<Rightarrow> GetJob_JobNotFound
        | Some job \<Rightarrow>
            if from_peer_id = jr_consumer_peer_id job
            then GetJob_Ok (jr_public_payload job) (jr_balance_delta job)
              (jr_created_at_sync job) (jr_completed_at_sync job)
            else GetJob_JobNotFound)"

section \<open>Confirming a job\<close>

definition set_error_or_warn :: "database \<Rightarrow> int \<Rightarrow> string \<Rightarrow> database outcome" where
  "set_error_or_warn db rid confirmation_error =
     (case set_job_confirmation_error db rid confirmation_error of
        SetErr_Ok db' \<Rightarrow> Return db'
      | SetErr_InvalidJobId \<Rightarrow> Panic
      | SetErr_AlreadyConfirmed \<Rightarrow> Return db)"

definition handle_confirm_job_request ::
  "'pk crypto \<Rightarrow> datetime \<Rightarrow> peer_id \<Rightarrow> peer_id \<Rightarrow> confirm_job_request \<Rightarrow> database \<Rightarrow>
     (database \<times> p2p_response) outcome" where
  "handle_confirm_job_request cr now me from_peer_id request db =
     and_then
       (provider_confirm_job cr db from_peer_id me (cf_provider_job_id request)
         (cf_job_hash request) (cf_consumer_public_key request) (cf_consumer_signature request) now)
       (\<lambda>result. case result of
          Inr db' \<Rightarrow> Return (db', R_ConfirmJob ConfirmJob_Ok)
        | Inl PConfirm_JobNotFound \<Rightarrow> Return (db, R_ConfirmJob ConfirmJob_JobNotFound)
        | Inl PConfirm_ConsumerPeerIdMismatch \<Rightarrow> Return (db, R_ConfirmJob ConfirmJob_JobNotFound)
        | Inl PConfirm_AlreadyConfirmed \<Rightarrow> Return (db, R_ConfirmJob ConfirmJob_AlreadyConfirmed)
        | Inl PConfirm_AlreadyFailed \<Rightarrow> Return (db, R_ConfirmJob ConfirmJob_AlreadyFailed)
        | Inl PConfirm_NotCompletedYet \<Rightarrow> Return (db, R_ConfirmJob ConfirmJob_NotCompletedYet)
        | Inl PConfirm_PublicKeyDecodingFailed \<Rightarrow> Return (db, R_ConfirmJob ConfirmJob_InvalidPublicKey)
        | Inl (PConfirm_HashMismatch rid expected_hash) \<Rightarrow>
            and_then (set_error_or_warn db rid
                (''Hash mismatch (got '' @ hex_encode cr (cf_job_hash request) @ '', expected '' @
                  hex_encode cr expected_hash @ '')''))
              (\<lambda>db'. Return (db', R_ConfirmJob (ConfirmJob_HashMismatch expected_hash)))
        | Inl (PConfirm_SignatureVerificationFailed rid) \<Rightarrow>
            and_then (set_error_or_warn db rid ''Signature verification failed'')
              (\<lambda>db'. Return (db', R_ConfirmJob ConfirmJob_InvalidSignature)))"

section \<open>Outbound requests\<close>

text \<open>
  \<open>handle_reqres_event\<close> for everything but requests: a response or a failure is handed to
  the task that waits for it. A response whose request is not in the map is a panic
  (\<open>expect\<close>). \<open>'t\<close> are the senders.
\<close>

datatype reqres_event =
    Event_Request peer_id p2p_request
  | Event_Response nat p2p_response
  | Event_OutboundFailure nat
  | Event_InboundFailure
  | Event_ResponseSent

definition deliver ::
  "nat \<Rightarrow> inbound_response \<Rightarrow> (nat, 't) hash_map \<Rightarrow>
     ((nat, 't) hash_map \<times> ('t \<times> inbound_response) option) outcome" where
  "deliver request_id res response_tx_map =
     (case map_of response_tx_map request_id of
        None \<Rightarrow> Panic
      | Some tx \<Rightarrow> Return (AList.delete request_id response_tx_map, Some (tx, res)))"

definition handle_reqres_result ::
  "reqres_event \<Rightarrow> (nat, 't) hash_map \<Rightarrow>
     ((nat, 't) hash_map \<times> ('t \<times> inbound_response) option) outcome" where
  "handle_reqres_result event response_tx_map =
     (case event of
        Event_Response request_id response \<Rightarrow> deliver request_id (Inr response) response_tx_map
      | Event_OutboundFailure request_id \<Rightarrow> deliver request_id (Inl OutboundFailure) response_tx_map
      | _ \<Rightarrow> Return (response_tx_map, None))"

text \<open>The branch of the event loop that takes an envelope: libp2p assigns the request ID.\<close>

definition send_envelope :: "nat \<Rightarrow> 't \<Rightarrow> (nat, 't) hash_map \<Rightarrow> (nat, 't) hash_map" where
  "send_envelope outbound_request_id tx response_tx_map =
     AList.update outbound_request_id tx response_tx_map"

text \<open>A request of a peer, dispatched by \<open>handle_reqres_event\<close> to its handler.\<close>

definition handle_request ::
  "'pk crypto \<Rightarrow> (outbound_request_data \<Rightarrow> inbound_response_data received option) \<Rightarrow> string \<Rightarrow>
     datetime \<Rightarrow> datetime \<Rightarrow> peer_id \<Rightarrow> peer_id \<Rightarrow> p2p_request \<Rightarrow> provider_state \<Rightarrow> database \<Rightarrow>
     (database \<times> p2p_response) outcome" where
  "handle_request cr call_module uuid now1 now2 me peer request st db =
     (case request of
        CreateJob r \<Rightarrow> handle_create_job_request call_module uuid now1 now2 me peer r st db
      | GetJob r \<Rightarrow> Return (db, handle_get_job_request me peer r db)
      | ConfirmJob r \<Rightarrow> handle_confirm_job_request cr now1 me peer r db)"

end
