(* ===== verification/Consumer.thy ===== *)
theory Consumer
  imports Reqres
begin

text \<open>
  The Consumer's side: the RPC procedures of \<open>src/src/rpc/procedure/consumer\<close> and the job
  confirmation loop (\<open>src/src/p2p/job_confirmation_scheduler.rs\<close>). A handler that awaits a
  response is split where it waits: what it sends, and what it does with what comes back.
\<close>

section \<open>Creating a job\<close>

definition consumer_create_job_start ::
  "database \<Rightarrow> consumer_create_job_request \<Rightarrow>
     consumer_create_job_response + (peer_id \<times> p2p_request \<times> offer_snapshot)" where
  "consumer_create_job_start db request =
     (case offers_find db (cr_offer_snapshot_id request) of
        None \<Rightarrow> Inl CCreateJob_LocalOfferNotFound
      | Some snapshot \<Rightarrow>
          if \<not> os_active snapshot then Inl CCreateJob_LocalOfferNotFound
          else Inr (os_provider_peer_id snapshot,
            CreateJob \<lparr>cj_protocol_id = os_protocol_id snapshot,
              cj_offer_id = os_offer_id snapshot, cj_offer_payload = os_protocol_payload snapshot,
              cj_currency = cr_currency request, cj_job_args = cr_job_args request\<rparr>,
            snapshot))"

definition consumer_create_job_finish ::
  "peer_id \<Rightarrow> consumer_create_job_request \<Rightarrow> offer_snapshot \<Rightarrow> datetime \<Rightarrow>
     inbound_response received \<Rightarrow> database \<Rightarrow> (database \<times> consumer_create_job_response) outcome" where
  "consumer_create_job_finish consumer_peer_id request snapshot now response db =
     (case response of
        Sender_Dropped \<Rightarrow> Panic
      | Received (Inl _) \<Rightarrow> Return (db, CCreateJob_ProviderUnreacheable)
      | Received (Inr (R_CreateJob r)) \<Rightarrow>
          (case r of
             CreateJob_Ok job_id created_at_sync \<Rightarrow>
               and_then (create_job db (cr_offer_snapshot_id request) consumer_peer_id
                   (cr_currency request) (cr_job_args request) job_id created_at_sync now)
                 (\<lambda>(db', rid). Return (db', CCreateJob_Ok (os_provider_peer_id snapshot) job_id))
           | CreateJob_OfferNotFound \<Rightarrow> Return (db, CCreateJob_ProviderOfferNotFound)
           | CreateJob_OfferPayloadMismatch \<Rightarrow> Return (db, CCreateJob_ProviderOfferPayloadMismatch)
           | CreateJob_InvalidJobArgs err \<Rightarrow> Return (db, CCreateJob_InvalidJobArgs err)
           | CreateJob_Busy \<Rightarrow> Return (db, CCreateJob_ProviderBusy))
      | Received (Inr _) \<Rightarrow> Return (db, CCreateJob_ProviderInvalidResponse))"

section \<open>Querying a job\<close>

definition consumer_get_job_start :: "consumer_get_job_request \<Rightarrow> peer_id \<times> p2p_request" where
  "consumer_get_job_start request =
     (cg_provider_peer_id request, GetJob \<lparr>gj_provider_job_id = cg_provider_job_id request\<rparr>)"

definition consumer_get_job_finish ::
  "inbound_response received \<Rightarrow> consumer_get_job_response outcome" where
  "consumer_get_job_finish response =
     (case response of
        Sender_Dropped \<Rightarrow> Panic
      | Received (Inl _) \<Rightarrow> Return CGetJob_ProviderUnreacheable
      | Received (Inr (R_GetJob r)) \<Rightarrow>
          (case r of
             GetJob_Ok public_payload balance_delta created_at_sync completed_at_sync \<Rightarrow>
               Return (CGetJob_Ok public_payload balance_delta created_at_sync completed_at_sync)
           | GetJob_JobNotFound \<Rightarrow> Return CGetJob_JobNotFound)
      | Received (Inr _) \<Rightarrow> Return CGetJob_ProviderUnreacheable)"

section \<open>Completing a job\<close>

text \<open>
  The result also says which event is broadcast; a success wakes the confirmation loop up
  (\<open>notify_waiters\<close>).
\<close>

definition handle_consumer_complete_job_request ::
  "'pk crypto \<Rightarrow> (bytes \<Rightarrow> bytes) \<Rightarrow> datetime \<Rightarrow> peer_id \<Rightarrow> consumer_complete_job_request \<Rightarrow>
     database \<Rightarrow> database \<times> consumer_complete_job_response \<times> rpc_event option" where
  "handle_consumer_complete_job_request cr sign now me request db =
     (case consumer_complete_job cr db me (cc_provider_peer_id request)
         (cc_provider_job_id request) (cc_balance_delta request) (cc_public_payload request)
         (cc_private_payload request) (cc_completed_at_sync request) sign now of
        Inr (db', job_record) \<Rightarrow> (db', CCompleteJob_Ok, Some (JobUpdated job_record))
      | Inl e \<Rightarrow> (db,
          (case e of
             CComplete_InvalidJobId \<Rightarrow> CCompleteJob_InvalidJobId
           | CComplete_ConsumerPeerIdMismatch \<Rightarrow> CCompleteJob_InvalidConsumerPeerId
           | CComplete_AlreadyFailed reason reason_class \<Rightarrow>
               CCompleteJob_AlreadyFailed reason reason_class
           | CComplete_AlreadyCompleted \<Rightarrow> CCompleteJob_AlreadyCompleted
           | CComplete_InvalidBalanceDelta \<Rightarrow> CCompleteJob_InvalidBalanceDelta), None))"

section \<open>The job confirmation loop\<close>

text \<open>One round of the loop: a request for each unconfirmed job whose Provider is connected.\<close>

definition confirmation_request ::
  "bytes \<Rightarrow> unconfirmed_job \<Rightarrow> peer_id \<times> p2p_request" where
  "confirmation_request public_key job =
     (uj_provider_peer_id job,
      ConfirmJob \<lparr>cf_provider_job_id = uj_provider_job_id job, cf_job_hash = uj_hash job,
        cf_consumer_public_key = public_key,
        cf_consumer_signature = uj_consumer_signature job\<rparr>)"

definition job_confirmation_round ::
  "peer_id \<Rightarrow> (peer_id, 'addr list) hash_map \<Rightarrow> database \<Rightarrow> unconfirmed_job list outcome" where
  "job_confirmation_round me discovered db =
     and_then (query_unconfirmed_jobs db me) (\<lambda>jobs.
       Return (filter (\<lambda>job. map_of discovered (uj_provider_peer_id job) \<noteq> None) jobs))"

text \<open>
  The answer to one request. \<open>debug_confirm\<close> is the \<open>Debug\<close> text of the response (derived
  by a macro), stored as the job's confirmation error.
\<close>

definition confirm_job_finish ::
  "(confirm_job_response \<Rightarrow> string) \<Rightarrow> datetime \<Rightarrow> int \<Rightarrow> inbound_response received \<Rightarrow>
     database \<Rightarrow> (database \<times> rpc_event option) outcome" where
  "confirm_job_finish debug_confirm now rid response db =
     (let failed = (\<lambda>e. and_then (set_error_or_warn db rid (debug_confirm e))
            (\<lambda>db'. Return (db', None)))
      in case response of
        Sender_Dropped \<Rightarrow> Panic
      | Received (Inl _) \<Rightarrow> Return (db, None)
      | Received (Inr (R_ConfirmJob ConfirmJob_Ok)) \<Rightarrow>
          and_then (consumer_confirm_job db rid now) (\<lambda>result. case result of
              Inr (db', job_record) \<Rightarrow> Return (db', Some (JobUpdated job_record))
            | Inl CConfirm_InvalidJobId \<Rightarrow> Panic
            | Inl CConfirm_NotSignedYet \<Rightarrow> Panic
            | Inl CConfirm_AlreadyConfirmed \<Rightarrow> Return (db, None))
      | Received (Inr (R_ConfirmJob ConfirmJob_AlreadyConfirmed)) \<Rightarrow> Return (db, None)
      | Received (Inr (R_ConfirmJob e)) \<Rightarrow> failed e
      | Received (Inr _) \<Rightarrow> failed ConfirmJob_UnexpectedResponse)"

end
