(* ===== verification/Exchange.thy ===== *)
theory Exchange
  imports Settlement Consumer
begin

text \<open>
  The exchange between a Consumer node and a Provider node: a job is created on both sides
  from the same terms, and is confirmed by requests that may be repeated, lost or answered
  late.
\<close>

section \<open>Creating a job on both sides\<close>

lemma create_job_find:
  assumes "wf_database db" and "s \<in> set (offer_snapshots db)" and "snap_rowid s = sid"
    and "find_job_row db (snap_provider_peer_id s) jid = None"
  shows "\<exists>db' rid j. create_job db sid c cur args jid ts now = Return (db', rid) \<and>
    find_job_row db' (snap_provider_peer_id s) jid = Some (j, s) \<and> open_job j \<and>
    job_consumer_peer_id j = c \<and> job_currency j = cur \<and> job_created_at_sync j = ts \<and>
    job_args j = args \<and> job_rowid j = rid"
proof -
  let ?rid = "next_rowid (map job_rowid (service_jobs db))"
  let ?j = "\<lparr>job_rowid = ?rid, job_offer_snapshot_rowid = sid,
    job_consumer_peer_id = c, job_currency = cur, job_args = args,
    job_provider_job_id = jid, job_private_payload = None,
    job_reason = None, job_reason_class = None,
    job_created_at_local = trunc_seconds now, job_created_at_sync = ts,
    job_completed_at_local = None, job_completed_at_sync = None,
    job_public_payload = None, job_balance_delta = None, job_hash = None,
    job_consumer_signature = None, job_signature_confirmed_at_local = None,
    job_confirmation_error = None\<rparr>"
  have run: "create_job db sid c cur args jid ts now =
      Return (db\<lparr>service_jobs := service_jobs db @ [?j]\<rparr>, ?rid)"
    using assms(2,3) by (auto simp: create_job_def list_ex_iff Let_def)
  let ?db' = "db\<lparr>service_jobs := service_jobs db @ [?j]\<rparr>"
  have "List.find (\<lambda>(j, s'). snap_provider_peer_id s' = snap_provider_peer_id s \<and>
      job_provider_job_id j = jid) (joined_jobs ?db') = Some (?j, s)"
  proof (rule find_unique)
    show "(?j, s) \<in> set (joined_jobs ?db')" using assms(2,3) by (simp add: joined_append)
    fix js
    assume js: "js \<in> set (joined_jobs ?db')" "case js of (j, s') \<Rightarrow>
      snap_provider_peer_id s' = snap_provider_peer_id s \<and> job_provider_job_id j = jid"
    have "js \<notin> set (joined_jobs db)"
      using js(2) assms(4) find_NoneD unfolding find_job_row_def by fast
    with js(1) obtain s' where "js = (?j, s')" "s' \<in> set (offer_snapshots db)" "snap_rowid s' = sid"
      by (auto simp: joined_append)
    with assms(2,3) wf_rowid_eq [OF wf_databaseD [OF assms(1)], of s' s] show "js = (?j, s)" by simp
  qed simp
  then have "find_job_row ?db' (snap_provider_peer_id s) jid = Some (?j, s)"
    by (simp add: find_job_row_def)
  then show ?thesis using run
    by (intro exI [of _ "db\<lparr>service_jobs := service_jobs db @ [?j]\<rparr>"] exI [of _ ?rid] exI [of _ ?j])
      (simp add: open_job_def job_phase_of_def)
qed

lemma find_offer_provided:
  assumes "provider_ok st" and "provided st (p, o') = Some x"
  shows "\<exists>m. find_offer st p o' = Return (Some (m, x))"
  using find_offer_safe [OF assms(1), of p o'] assms(2) by auto

text \<open>The Provider's half of a purchase.\<close>

lemma provider_creates_job:
  assumes "provider_ok st" and "provided st (cj_protocol_id r, cj_offer_id r) = Some x"
    and "po_protocol_payload x = cj_offer_payload r" and "offers_recorded me st db"
    and "ledger_ok me db" and "find_job_row db me uuid = None" and "c \<noteq> me"
    and "call_module (ProviderCreateJob me (cj_protocol_id r) (cj_offer_id r) uuid (timestamp now1)
      (cj_job_args r)) = Some (Received (ProviderCreateJobResponse PCreate_Ok))"
  shows "\<exists>db' j s. handle_create_job_request call_module uuid now1 now2 me c r st db =
      Return (db', R_CreateJob (CreateJob_Ok uuid (timestamp now1))) \<and> ledger_ok me db' \<and>
    find_job_row db' me uuid = Some (j, s) \<and> open_job j \<and> job_consumer_peer_id j = c \<and>
    job_currency j = cj_currency r \<and> job_created_at_sync j = timestamp now1 \<and>
    snap_provider_peer_id s = me \<and> snap_protocol_id s = cj_protocol_id r \<and>
    snap_protocol_payload s = cj_offer_payload r"
proof -
  obtain m where m: "find_offer st (cj_protocol_id r) (cj_offer_id r) = Return (Some (m, x))"
    using find_offer_provided [OF assms(1,2)] by blast
  have "(po_snapshot_rowid x, (me, cj_protocol_id r, cj_offer_id r), po_protocol_payload x)
      \<in> snapshot_idents (offer_snapshots db)"
    using assms(2,4) by (simp add: offers_recorded_def)
  from snapshot_identsD [OF this] obtain s where s: "s \<in> set (offer_snapshots db)"
    "snap_rowid s = po_snapshot_rowid x" "snap_provider_peer_id s = me"
    "snap_protocol_id s = cj_protocol_id r" "snap_protocol_payload s = cj_offer_payload r"
    using assms(3) by auto
  obtain db' rid j where job: "create_job db (po_snapshot_rowid x) c (cj_currency r) (cj_job_args r)
      uuid (timestamp now1) now2 = Return (db', rid)"
    "find_job_row db' me uuid = Some (j, s)" "open_job j" "job_consumer_peer_id j = c"
    "job_currency j = cj_currency r" "job_created_at_sync j = timestamp now1"
    using create_job_find [OF ledger_ok_wf [OF assms(5)] s(1,2), of uuid c "cj_currency r" "cj_job_args r"
        "timestamp now1" now2] assms(6) s(3) by auto
  have "snap_provider_peer_id s' \<noteq> c"
    if "s' \<in> set (offer_snapshots db)" "snap_rowid s' = po_snapshot_rowid x" for s'
    using that s(1-3) assms(7) wf_rowid_eq [OF wf_databaseD [OF ledger_ok_wf [OF assms(5)]], of s' s]
    by auto
  from ledger_step_ok [OF create_job_step [OF job(1) this] assms(5)] have "ledger_ok me db'" .
  moreover have "handle_create_job_request call_module uuid now1 now2 me c r st db =
      Return (db', R_CreateJob (CreateJob_Ok uuid (timestamp now1)))"
    by (simp add: handle_create_job_request_def m assms(3,8) job(1))
  ultimately show ?thesis using job s by blast
qed

text \<open>The Consumer's half.\<close>

lemma consumer_creates_job:
  assumes "ledger_ok c db" and "offers_find db (cr_offer_snapshot_id q) = Some snap"
    and "find_job_row db (os_provider_peer_id snap) jid = None" and "os_provider_peer_id snap \<noteq> c"
  shows "\<exists>db' j s. consumer_create_job_finish c q snap now
      (Received (Inr (R_CreateJob (CreateJob_Ok jid ts)))) db =
      Return (db', CCreateJob_Ok (os_provider_peer_id snap) jid) \<and> ledger_ok c db' \<and>
    find_job_row db' (os_provider_peer_id snap) jid = Some (j, s) \<and> open_job j \<and>
    job_consumer_peer_id j = c \<and> job_currency j = cr_currency q \<and> job_created_at_sync j = ts \<and>
    row_to_snapshot s = snap"
proof -
  from assms(2) obtain s where s: "s \<in> set (offer_snapshots db)"
    "snap_rowid s = cr_offer_snapshot_id q" "row_to_snapshot s = snap"
    by (auto simp: offers_find_def dest: find_SomeD)
  have p: "snap_provider_peer_id s = os_provider_peer_id snap"
    using s(3) by (auto simp: row_to_snapshot_def)
  obtain db' rid j where job: "create_job db (cr_offer_snapshot_id q) c (cr_currency q) (cr_job_args q)
      jid ts now = Return (db', rid)"
    "find_job_row db' (os_provider_peer_id snap) jid = Some (j, s)" "open_job j"
    "job_consumer_peer_id j = c" "job_currency j = cr_currency q" "job_created_at_sync j = ts"
    using create_job_find [OF ledger_ok_wf [OF assms(1)] s(1,2), of jid c "cr_currency q" "cr_job_args q"
        ts now] assms(3) p by auto
  have "snap_provider_peer_id s' \<noteq> c"
    if "s' \<in> set (offer_snapshots db)" "snap_rowid s' = cr_offer_snapshot_id q" for s'
    using that s(1,2) p assms(4) wf_rowid_eq [OF wf_databaseD [OF ledger_ok_wf [OF assms(1)]], of s' s]
    by auto
  from ledger_step_ok [OF create_job_step [OF job(1) this] assms(1)] have "ledger_ok c db'" .
  with job s(3) show ?thesis by (simp add: consumer_create_job_finish_def)
qed

text \<open>Both halves: one deal on two nodes.\<close>

lemma purchase_run:
  assumes "ledger_ok c dbC" and "consumer_create_job_start dbC q = Inr (p, CreateJob r, snap)"
    and "provider_ok st" and "offers_recorded p st dbP" and "ledger_ok p dbP"
    and "provided st (cj_protocol_id r, cj_offer_id r) = Some x"
    and "po_protocol_payload x = cj_offer_payload r" and "p \<noteq> c"
    and "find_job_row dbP p uuid = None" and "find_job_row dbC p uuid = None"
    and "call_module (ProviderCreateJob p (cj_protocol_id r) (cj_offer_id r) uuid (timestamp now1)
      (cj_job_args r)) = Some (Received (ProviderCreateJobResponse PCreate_Ok))"
  shows "\<exists>dbP' dbC' res jP sP jC sC.
    handle_create_job_request call_module uuid now1 now2 p c r st dbP = Return (dbP', res) \<and>
    consumer_create_job_finish c q snap now3 (Received (Inr res)) dbC =
      Return (dbC', CCreateJob_Ok p uuid) \<and>
    ledger_ok p dbP' \<and> ledger_ok c dbC' \<and> find_job_row dbP' p uuid = Some (jP, sP) \<and>
    find_job_row dbC' p uuid = Some (jC, sC) \<and> open_job jP \<and> open_job jC \<and>
    job_consumer_peer_id jC = c \<and> same_terms (jP, sP) (jC, sC) \<and> job_currency jC = cr_currency q"
proof -
  from assms(2) have snap: "offers_find dbC (cr_offer_snapshot_id q) = Some snap"
    "os_provider_peer_id snap = p" "cj_protocol_id r = os_protocol_id snap"
    "cj_offer_payload r = os_protocol_payload snap" "cj_currency r = cr_currency q"
    by (auto simp: consumer_create_job_start_def split: option.splits if_splits)
  obtain dbP' jP sP where P: "handle_create_job_request call_module uuid now1 now2 p c r st dbP =
      Return (dbP', R_CreateJob (CreateJob_Ok uuid (timestamp now1)))" "ledger_ok p dbP'"
    "find_job_row dbP' p uuid = Some (jP, sP)" "open_job jP" "job_consumer_peer_id jP = c"
    "job_currency jP = cj_currency r" "job_created_at_sync jP = timestamp now1"
    "snap_provider_peer_id sP = p" "snap_protocol_id sP = cj_protocol_id r"
    "snap_protocol_payload sP = cj_offer_payload r"
    using provider_creates_job [where call_module = call_module and uuid = uuid and ?now1.0 = now1,
        OF assms(3,6,7,4,5,9) assms(8) [symmetric] assms(11), of now2] by blast
  obtain dbC' jC sC where C: "consumer_create_job_finish c q snap now3
      (Received (Inr (R_CreateJob (CreateJob_Ok uuid (timestamp now1))))) dbC =
      Return (dbC', CCreateJob_Ok p uuid)" "ledger_ok c dbC'"
    "find_job_row dbC' p uuid = Some (jC, sC)" "open_job jC" "job_consumer_peer_id jC = c"
    "job_currency jC = cr_currency q" "job_created_at_sync jC = timestamp now1"
    "row_to_snapshot sC = snap"
    using consumer_creates_job [OF assms(1) snap(1), of uuid now3 "timestamp now1"] assms(8,10) snap(2)
    by auto
  have "same_terms (jP, sP) (jC, sC)"
    using P C snap by (auto simp: same_terms_def row_to_snapshot_def)
  with P C show ?thesis by blast
qed

text \<open>What the Consumer reads of a job its Provider has completed.\<close>

lemma get_job_run:
  assumes "wf_database db" and "find_job_row db me jid = Some (j, s)" and "open_job j"
    and "job_consumer_peer_id j = c" and "\<not> invalid_balance_delta cr bd (job_currency j)"
  shows "\<exists>db' rec. provider_complete_job cr db me jid bd priv pub now = Return (Inr (db', rec)) \<and>
    consumer_get_job_finish (Received (Inr (handle_get_job_request me c
      \<lparr>gj_provider_job_id = jid\<rparr> db'))) =
    Return (CGetJob_Ok (Some pub) bd (job_created_at_sync j) (Some (timestamp now)))"
proof -
  note o = open_jobD [OF assms(3)]
  let ?f = "completed_by_provider bd priv pub now"
  have "find_job_row (update_job (job_rowid j) ?f db) me jid = Some (?f j, s)"
    by (rule find_job_row_updated [OF assms(2)]) simp
  from find_by_job_id_row [OF this] assms(4)
  have "consumer_get_job_finish (Received (Inr (handle_get_job_request me c
      \<lparr>gj_provider_job_id = jid\<rparr> (update_job (job_rowid j) ?f db)))) =
    Return (CGetJob_Ok (Some pub) bd (job_created_at_sync j) (Some (timestamp now)))"
    by (simp add: handle_get_job_request_def consumer_get_job_finish_def)
      (simp add: completed_by_provider_def)
  with provider_complete_open [OF assms(1,2) o(1,3) assms(5), of priv pub now] show ?thesis by blast
qed

section \<open>Confirming a job: requests and answers\<close>

text \<open>
  What the Consumer's task relies on: the row it was started for still exists and is signed.
  Both are final facts of the ledger, so they hold whenever the answer arrives.
\<close>

definition signed_row :: "int \<Rightarrow> database \<Rightarrow> bool" where
  "signed_row rid db \<longleftrightarrow> (\<exists>j \<in> set (service_jobs db). job_rowid j = rid \<and> job_consumer_signature j \<noteq> None)"

lemma set_error_or_warn_run:
  assumes "ledger_ok me db" and "\<exists>j \<in> set (service_jobs db). job_rowid j = rid"
  shows "\<exists>db'. set_error_or_warn db rid e = Return db' \<and> ledger_step me db db'"
proof -
  obtain j where j: "j \<in> set (service_jobs db)" "job_rowid j = rid" using assms(2) by blast
  have "find_job_by_rowid db rid = Some j"
    using find_job_by_rowid_wf [OF ledger_ok_wf [OF assms(1)] j(1)] j(2) by simp
  then have "set_job_confirmation_error db rid e \<noteq> SetErr_InvalidJobId"
    by (simp add: set_job_confirmation_error_def)
  then show ?thesis
    by (auto simp: set_error_or_warn_def split: set_confirmation_error_result.splits
        intro: ledger_step.idle set_job_confirmation_error_step)
qed

lemma confirm_job_finish_run:
  assumes "ledger_ok me db" and "signed_row rid db" and "response \<noteq> Sender_Dropped"
  shows "\<exists>db' ev. confirm_job_finish dbg now rid response db = Return (db', ev) \<and> ledger_step me db db'"
proof -
  obtain j where j: "j \<in> set (service_jobs db)" "job_rowid j = rid" "job_consumer_signature j \<noteq> None"
    using assms(2) by (auto simp: signed_row_def)
  have found: "find_job_by_rowid db rid = Some j"
    using find_job_by_rowid_wf [OF ledger_ok_wf [OF assms(1)] j(1)] j(2) by simp
  obtain res where res: "consumer_confirm_job db rid now = Return res"
    using consumer_confirm_job_Return [OF ledger_ok_wf [OF assms(1)]] by blast
  then have ok: "res \<noteq> Inl CConfirm_InvalidJobId" "res \<noteq> Inl CConfirm_NotSignedYet"
    using j(3) by (auto simp: consumer_confirm_job_def found Let_def split: if_splits option.splits)
  have err: "\<exists>db' ev. and_then (set_error_or_warn db rid e) (\<lambda>db'. Return (db', None)) =
      Return (db', ev :: rpc_event option) \<and> ledger_step me db db'" for e
  proof -
    have "\<exists>j \<in> set (service_jobs db). job_rowid j = rid" using j by blast
    from set_error_or_warn_run [OF assms(1) this, of e] show ?thesis by auto
  qed
  have confirmed: "\<exists>db' ev. (case res of Inr (db', job_record) \<Rightarrow> Return (db', Some (JobUpdated job_record))
      | Inl CConfirm_InvalidJobId \<Rightarrow> Panic | Inl CConfirm_NotSignedYet \<Rightarrow> Panic
      | Inl CConfirm_AlreadyConfirmed \<Rightarrow> Return (db, None)) = Return (db', ev) \<and> ledger_step me db db'"
  proof (cases res)
    case (Inr r)
    obtain db1 rec where r: "r = (db1, rec)" by (cases r)
    with res Inr have "ledger_step me db db1" by (intro consumer_confirm_job_step) simp
    with Inr r show ?thesis by simp
  next
    case (Inl e)
    with ok show ?thesis by (cases e) (auto intro: ledger_step.idle)
  qed
  show ?thesis
    using assms(3) err confirmed
    by (auto simp: confirm_job_finish_def Let_def res intro: ledger_step.idle
        split: received.split sum.split p2p_response.split confirm_job_response.split)
qed

text \<open>The Provider's handler of a confirmation never panics either.\<close>

lemma handle_confirm_job_request_run:
  assumes "ledger_ok me db"
  shows "\<exists>db' res. handle_confirm_job_request cr now me from req db = Return (db', res) \<and>
    ledger_step me db db'"
proof -
  obtain res where res: "provider_confirm_job cr db from me (cf_provider_job_id req) (cf_job_hash req)
      (cf_consumer_public_key req) (cf_consumer_signature req) now = Return res"
    using provider_confirm_job_Return [OF assms] by blast
  have row: "\<exists>j \<in> set (service_jobs db). job_rowid j = rid"
    if "res = Inl (PConfirm_HashMismatch rid h) \<or> res = Inl (PConfirm_SignatureVerificationFailed rid)"
    for rid h
  proof -
    note err = that
    obtain r where r: "find_by_job_id db me (cf_provider_job_id req) = Some r" "rid = jr_job_rowid r"
      using res err by (auto simp: provider_confirm_job_def Let_def split: option.splits if_splits)
    from r(1) obtain j s where "r = row_to_job_record j s" "j \<in> set (service_jobs db)"
      by (rule find_by_job_idD)
    with r(2) show ?thesis by auto
  qed
  show ?thesis
  proof (cases res)
    case (Inr db1)
    with res provider_confirm_job_step [OF assms] show ?thesis
      by (simp add: handle_confirm_job_request_def)
  next
    case (Inl e)
    with row set_error_or_warn_run [OF assms] show ?thesis
      by (cases e) (fastforce simp: handle_confirm_job_request_def res intro: ledger_step.idle)+
  qed
qed

end
