(* ===== verification/Settlement_Properties.thy ===== *)
theory Settlement_Properties
  imports Settlement
begin

text \<open>
  The properties of the settlement of jobs between a Provider and a Consumer, with concrete
  instances on the ledger of \<open>Job_Properties\<close>.
\<close>

lemma shop_job_open [simp]: "open_job shop_job" "job_consumer_peer_id shop_job = PeerId [2]"
  "job_currency shop_job = Polygon" "job_reason shop_job = None"
  by (simp_all add: open_job_def shop_job_def job_phase_of_def)

definition shop_snapshot :: snapshot_row where
  "shop_snapshot = \<lparr>snap_rowid = 1, snap_provider_peer_id = PeerId [1], snap_protocol_id = ''p'',
     snap_offer_id = ''o'', snap_protocol_payload = ''x'', snap_active = True\<rparr>"

lemma find_shop_with:
  assumes "job_offer_snapshot_rowid j = 1" and "job_provider_job_id j = ''j''"
  shows "find_job_row (shop_with j) (PeerId [1]) ''j'' = Some (j, shop_snapshot)"
  using assms by (simp add: find_job_row_def joined_jobs_def shop_with_def shop_def shop_snapshot_def)

lemma find_shop_job [simp]:
  "find_job_row (shop_with shop_job) (PeerId [1]) ''j'' = Some (shop_job, shop_snapshot)"
  by (rule find_shop_with) (simp_all add: shop_job_def)

lemma valid_seven [simp]: "\<not> invalid_balance_delta plain_crypto (Some ''7'') Polygon"
  by (simp add: invalid_balance_delta_def validate_balance_delta_def plain_crypto_def)

text \<open>C13: the settlement of a job succeeds end to end. If both nodes hold the same open job, the
  Provider completes it, the Consumer completes it with what the Provider reported and
  signs; then the job is among the Consumer's unconfirmed jobs, the Provider accepts the
  hash and signature listed there, the Consumer can mark it confirmed, and both nodes end
  with the job Confirmed under the same signature.\<close>

theorem settlement_succeeds:
  assumes "ledger_ok p dbP" and "find_job_row dbP p jid = Some (jP, sP)" and "open_job jP"
    and "ledger_ok c dbC" and "find_job_row dbC p jid = Some (jC, sC)" and "open_job jC"
    and "same_terms (jP, sP) (jC, sC)" and "job_consumer_peer_id jC = c"
    and "\<not> invalid_balance_delta cr bd (job_currency jC)"
    and "try_decode_protobuf cr pkb = Some pk" and "\<And>h. verify cr pk h (sign h)"
  shows "\<exists>dbP1 r dbC1 rc us u dbP2 dbC2 rc2 j s j' s'.
    provider_complete_job cr dbP p jid bd priv pub t1 = Return (Inr (dbP1, r)) \<and>
    consumer_complete_job cr dbC c p jid (jr_balance_delta r) (the (jr_public_payload r)) priv'
      (the (jr_completed_at_sync r)) sign t2 = Inr (dbC1, rc) \<and>
    query_unconfirmed_jobs dbC1 c = Return us \<and> u \<in> set us \<and> uj_provider_peer_id u = p \<and>
    uj_provider_job_id u = jid \<and>
    provider_confirm_job cr dbP1 c p jid (uj_hash u) pkb (uj_consumer_signature u) t3 =
      Return (Inr dbP2) \<and>
    consumer_confirm_job dbC1 (uj_rowid u) t4 = Return (Inr (dbC2, rc2)) \<and>
    find_job_row dbP2 p jid = Some (j, s) \<and> find_job_row dbC2 p jid = Some (j', s') \<and>
    job_phase_of j = Confirmed \<and> job_phase_of j' = Confirmed \<and>
    job_consumer_signature j = job_consumer_signature j' \<and> job_consumer_signature j \<noteq> None"
  using settlement_run [OF assms(1-10), where sign = sign, OF assms(11), of priv pub t1 priv' t2 t3 t4]
  by (metis option.sel)

theorem settlement_succeeds_witness:
  "\<exists>dbP1 r dbC1 rc us u dbP2. provider_complete_job plain_crypto (shop_with shop_job) (PeerId [1]) ''j''
      (Some ''7'') None ''done'' 6000000000 = Return (Inr (dbP1, r)) \<and>
    consumer_complete_job plain_crypto (shop_with shop_job) (PeerId [2]) (PeerId [1]) ''j''
      (jr_balance_delta r) (the (jr_public_payload r)) None (the (jr_completed_at_sync r))
      (\<lambda>h. [9] @ h) 7000000000 = Inr (dbC1, rc) \<and>
    query_unconfirmed_jobs dbC1 (PeerId [2]) = Return us \<and> u \<in> set us \<and>
    provider_confirm_job plain_crypto dbP1 (PeerId [2]) (PeerId [1]) ''j'' (uj_hash u) [9]
      (uj_consumer_signature u) 8000000000 = Return (Inr dbP2)"
proof -
  have "try_decode_protobuf plain_crypto [9] = Some [9]"
    "\<And>h. verify plain_crypto [9] h ([9] @ h)" by (simp_all add: plain_crypto_def)
  from settlement_succeeds [OF ledger_ok_shop_with(1) find_shop_job shop_job_open(1)
      ledger_ok_shop_with(2) find_shop_job shop_job_open(1) _ shop_job_open(2) _ this,
      of "Some ''7''" None "''done''" 6000000000 None 7000000000 8000000000 9000000000]
  show ?thesis by (simp add: same_terms_def) blast
qed

text \<open>C3: the Provider confirms nothing it has not verified: an accepted confirmation is for a job of
  its own that it has completed and that has not failed, comes from the job's Consumer,
  names exactly the hash recomputed from the Provider's own record and carries a signature
  over it that verifies under the key sent along.\<close>

theorem provider_confirm_sound:
  assumes "provider_confirm_job cr db c me jid h pkb sig now = Return (Inr db')"
  shows "\<exists>j s ts pub pk. find_job_row db me jid = Some (j, s) \<and> job_consumer_peer_id j = c \<and>
    job_signature_confirmed_at_local j = None \<and> job_reason j = None \<and>
    job_completed_at_sync j = Some ts \<and> job_public_payload j = Some pub \<and>
    h = hash_job cr (hashing_payload (row_to_job_record j s) jid pub ts
      (hex_balance cr (job_balance_delta j))) \<and>
    try_decode_protobuf cr pkb = Some pk \<and> verify cr pk h sig \<and>
    find_job_row db' me jid = Some (confirmed_by_provider sig now j, s)"
  by (rule provider_confirm_acceptance [OF assms])

definition completed_shop_job :: job_row where
  "completed_shop_job = completed_by_provider (Some ''7'') None ''done'' 6000000000 shop_job"

definition shop_hash :: bytes where
  "shop_hash = hash_job plain_crypto (hashing_payload
     (row_to_job_record completed_shop_job shop_snapshot) ''j'' ''done'' 6
     (hex_balance plain_crypto (Some ''7'')))"

lemma find_completed_shop_job:
  "find_job_row (shop_with completed_shop_job) (PeerId [1]) ''j'' = Some (completed_shop_job, shop_snapshot)"
  by (rule find_shop_with) (simp_all add: completed_shop_job_def completed_by_provider_def shop_job_def)

lemma shop_confirmed:
  "provider_confirm_job plain_crypto (shop_with completed_shop_job) (PeerId [2]) (PeerId [1]) ''j''
     shop_hash [9] (9 # shop_hash) 8000000000 = Return (Inr (update_job (job_rowid completed_shop_job)
       (confirmed_by_provider (9 # shop_hash) 8000000000) (shop_with completed_shop_job)))"
  by (rule provider_confirm_completed [OF find_completed_shop_job, where pk = "[9]"])
    (simp_all add: completed_shop_job_def completed_by_provider_def shop_job_def shop_hash_def
      timestamp_def plain_crypto_def)

theorem provider_confirm_sound_witness:
  "\<exists>j s ts pub pk. find_job_row (shop_with completed_shop_job) (PeerId [1]) ''j'' = Some (j, s) \<and>
    job_completed_at_sync j = Some ts \<and> job_public_payload j = Some pub \<and>
    verify plain_crypto pk shop_hash (9 # shop_hash)"
  using provider_confirm_sound [OF shop_confirmed] by blast

text \<open>A confirmation over any other hash than the Provider's own is refused with the expected
  hash, and changes nothing.\<close>

theorem wrong_hash_refused:
  assumes "find_job_row db me jid = Some (j, s)" and "job_consumer_peer_id j = c"
    and "job_signature_confirmed_at_local j = None" and "job_completed_at_sync j = Some ts"
    and "job_reason j = None" and "job_public_payload j = Some pub"
    and "h \<noteq> hash_job cr (hashing_payload (row_to_job_record j s) jid pub ts
      (hex_balance cr (job_balance_delta j)))"
  shows "provider_confirm_job cr db c me jid h pkb sig now = Return (Inl (PConfirm_HashMismatch (job_rowid j)
    (hash_job cr (hashing_payload (row_to_job_record j s) jid pub ts
      (hex_balance cr (job_balance_delta j))))))"
  using find_by_job_id_row [OF assms(1)] assms(2-7) by (simp add: provider_confirm_job_def Let_def)

theorem wrong_hash_refused_witness:
  "\<exists>h. provider_confirm_job plain_crypto (shop_with completed_shop_job) (PeerId [2]) (PeerId [1]) ''j''
    (1 # shop_hash) [9] [] 8000000000 = Return (Inl (PConfirm_HashMismatch 1 h))"
  using wrong_hash_refused [OF find_completed_shop_job, of "PeerId [2]" 6 "''done''" "1 # shop_hash"
      plain_crypto "[9]" "[]" 8000000000]
  by (simp add: completed_shop_job_def completed_by_provider_def shop_job_def shop_hash_def timestamp_def)

text \<open>C29: the jobs waiting for confirmation are exactly the node's own jobs that are Signed; reading
  them never panics.\<close>

theorem unconfirmed_jobs_exact:
  assumes "ledger_ok c db"
  shows "\<exists>us. query_unconfirmed_jobs db c = Return us \<and> (\<forall>u. u \<in> set us \<longleftrightarrow>
    (\<exists>j s. (j, s) \<in> set (joined_jobs db) \<and> job_consumer_peer_id j = c \<and>
      job_phase_of j = Signed \<and> row_to_unconfirmed j s = Return u))"
  by (rule query_unconfirmed_jobs_run [OF assms])

theorem unconfirmed_jobs_exact_witness:
  "\<exists>us. query_unconfirmed_jobs (shop_with shop_job) (PeerId [2]) = Return us \<and> us = []"
proof -
  have "job_phase_of shop_job \<noteq> Signed" by (simp add: shop_job_def job_phase_of_def)
  then have "(j, s) \<in> set (joined_jobs (shop_with shop_job)) \<Longrightarrow> job_phase_of j \<noteq> Signed" for j s
    by (simp add: in_joined_jobs)
  with unconfirmed_jobs_exact [OF ledger_ok_shop_with(2)] show ?thesis
    by (metis last_in_set)
qed

text \<open>C38: a job the Provider has completed can still be failed, because completion sets only
  \<open>completed_at_sync\<close> while \<open>fail_job\<close> looks at \<open>completed_at_local\<close>; from then on the
  Consumer's confirmation is refused.\<close>

theorem completed_job_can_fail:
  assumes "wf_database db" and "find_job_row db me jid = Some (j, s)" and "open_job j"
    and "\<not> invalid_balance_delta cr bd (job_currency j)"
  shows "\<exists>db1 r db2. provider_complete_job cr db me jid bd priv pub t1 = Return (Inr (db1, r)) \<and>
    fail_job db1 me jid reason reason_class pp t2 = Inr db2 \<and>
    provider_confirm_job cr db2 (job_consumer_peer_id j) me jid h pkb sig t3 =
      Return (Inl PConfirm_AlreadyFailed)"
proof -
  note o = open_jobD [OF assms(3)]
  let ?j1 = "completed_by_provider bd priv pub t1 j"
  let ?db1 = "update_job (job_rowid j) (completed_by_provider bd priv pub t1) db"
  let ?f = "\<lambda>j :: job_row. j\<lparr>job_reason := Some reason, job_reason_class := reason_class,
    job_private_payload := pp, job_completed_at_local := Some (trunc_seconds t2)\<rparr>"
  have found: "find_job_row ?db1 me jid = Some (?j1, s)"
    by (rule find_job_row_updated [OF assms(2)]) simp
  have "keeps_keys ?f" by (rule keeps_keysI) simp_all
  note found2 = find_job_row_updated [OF found this]
  have "fail_job ?db1 me jid reason reason_class pp t2 = Inr (update_job (job_rowid ?j1) ?f ?db1)"
    using o by (simp add: fail_job_def found) (simp add: completed_by_provider_def)
  moreover have "provider_confirm_job cr (update_job (job_rowid ?j1) ?f ?db1) (job_consumer_peer_id j)
      me jid h pkb sig t3 = Return (Inl PConfirm_AlreadyFailed)"
    using o by (simp add: provider_confirm_job_def find_by_job_id_row [OF found2])
      (simp add: completed_by_provider_def)
  ultimately show ?thesis
    using provider_complete_open [OF assms(1,2) o(1,3) assms(4), of priv pub t1] by blast
qed

theorem completed_job_can_fail_witness:
  "\<exists>db1 r db2. provider_complete_job plain_crypto (shop_with shop_job) (PeerId [1]) ''j'' (Some ''7'')
      None ''done'' 6000000000 = Return (Inr (db1, r)) \<and>
    fail_job db1 (PeerId [1]) ''j'' ''no'' None None 7000000000 = Inr db2"
proof -
  have "\<not> invalid_balance_delta plain_crypto (Some ''7'') (job_currency shop_job)" by simp
  from completed_job_can_fail [OF ledger_ok_wf [OF ledger_ok_shop_with(1)] find_shop_job
      shop_job_open(1) this, of None "''done''" 6000000000 "''no''" None None 7000000000 "[]" "[]" "[]" 0]
  show ?thesis by (elim exE conjE) (intro exI conjI, assumption+)
qed

end
