(* ===== verification/Exchange_Properties.thy ===== *)
theory Exchange_Properties
  imports Exchange Settlement_Properties
begin

text \<open>
  Properties of the exchange between Consumer and Provider, with instances on the shop of
  \<open>Job_Properties\<close>.
\<close>

section \<open>Purchases\<close>

text \<open>C23: a purchase creates the same deal on both nodes. If the Provider offers what the Consumer's
  active snapshot says and its module accepts, the Provider's answer to the Consumer's
  request makes both nodes record an open job under the same ID with the same terms: the
  terms the job hash is later computed over.\<close>

theorem purchase_same_terms:
  assumes "ledger_ok c dbC" and "consumer_create_job_start dbC q = Inr (p, CreateJob r, snap)"
    and "provider_ok st" and "offers_recorded p st dbP" and "ledger_ok p dbP"
    and "provided st (cj_protocol_id r, cj_offer_id r) = Some x"
    and "po_protocol_payload x = cj_offer_payload r" and "p \<noteq> c"
    and "find_job_row dbP p uuid = None" and "find_job_row dbC p uuid = None"
    and "call_module (ProviderCreateJob p (cj_protocol_id r) (cj_offer_id r) uuid (timestamp now1)
      (cj_job_args r)) = Some (Received (ProviderCreateJobResponse PCreate_Ok))"
  shows "\<exists>dbP' dbC' res jP sP jC sC.
    handle_create_job_request call_module uuid now1 now2 p c r st dbP = Return (dbP', res) \<and>
    consumer_create_job_finish c q snap now3 (Received (Inr res)) dbC =
      Return (dbC', CCreateJob_Ok p uuid) \<and>
    ledger_ok p dbP' \<and> ledger_ok c dbC' \<and> find_job_row dbP' p uuid = Some (jP, sP) \<and>
    find_job_row dbC' p uuid = Some (jC, sC) \<and> open_job jP \<and> open_job jC \<and>
    job_consumer_peer_id jC = c \<and> same_terms (jP, sP) (jC, sC)"
  using purchase_run [where call_module = call_module and uuid = uuid and ?now1.0 = now1, OF assms]
  by blast

definition shop_provider :: provider_state where
  "shop_provider = \<lparr>module_ids_counter = 1,
     modules = [(0, \<lparr>pm_connection = 0,
       pm_offers = [(''p'', [(''o'', \<lparr>po_snapshot_rowid = 1, po_protocol_payload = ''x''\<rparr>)])]\<rparr>)],
     offers_module_map = [(''p'', [(''o'', 0)])], last_updated_at = 3000000000\<rparr>"

lemma shop_provider_ok: "provider_ok shop_provider"
  by (rule provider_okI)
    (auto simp: shop_provider_def nested_ok_def hm_ok_def nested_get_def split: if_splits)

lemma shop_provided:
  "provided shop_provider k = (if k = (''p'', ''o'')
     then Some \<lparr>po_snapshot_rowid = 1, po_protocol_payload = ''x''\<rparr> else None)"
  by (cases k) (auto simp: provided_def shop_provider_def nested_get_def)

lemma shop_recorded: "offers_recorded (PeerId [1]) shop_provider shop"
  by (simp add: offers_recorded_def shop_provided shop_def snapshot_idents_def snap_ident_def
      snap_key_def)

definition shop_request :: consumer_create_job_request where
  "shop_request = \<lparr>cr_offer_snapshot_id = 1, cr_currency = Polygon, cr_job_args = None\<rparr>"

definition shop_wire :: create_job_request where
  "shop_wire = \<lparr>cj_protocol_id = ''p'', cj_offer_id = ''o'', cj_offer_payload = ''x'',
     cj_currency = Polygon, cj_job_args = None\<rparr>"

lemma shop_start:
  "consumer_create_job_start shop shop_request =
     Inr (PeerId [1], CreateJob shop_wire, row_to_snapshot shop_snapshot)"
  by (simp add: consumer_create_job_start_def offers_find_def shop_def shop_request_def
      row_to_snapshot_def shop_wire_def shop_snapshot_def)

lemma no_shop_job: "find_job_row shop p jid = None"
  by (simp add: find_job_row_def joined_jobs_def shop_def empty_database_def)

theorem purchase_same_terms_witness:
  "\<exists>dbP' dbC' res. handle_create_job_request (\<lambda>_. Some (Received (ProviderCreateJobResponse PCreate_Ok)))
      ''j'' 5 6 (PeerId [1]) (PeerId [2]) shop_wire shop_provider shop = Return (dbP', res) \<and>
    consumer_create_job_finish (PeerId [2]) shop_request (row_to_snapshot shop_snapshot) 7
      (Received (Inr res)) shop = Return (dbC', CCreateJob_Ok (PeerId [1]) ''j'')"
proof -
  have "provided shop_provider (cj_protocol_id shop_wire, cj_offer_id shop_wire) =
      Some \<lparr>po_snapshot_rowid = 1, po_protocol_payload = ''x''\<rparr>"
    by (simp add: shop_provided shop_wire_def)
  moreover have "find_job_row shop (PeerId [1]) ''j'' = None" by (rule no_shop_job)
  ultimately show ?thesis
    using purchase_same_terms [OF ledger_ok_shop shop_start shop_provider_ok shop_recorded ledger_ok_shop,
        where c = "PeerId [2]" and uuid = "''j''" and ?now1.0 = 5 and ?now2.0 = 6 and ?now3.0 = 7
        and call_module = "\<lambda>_. Some (Received (ProviderCreateJobResponse PCreate_Ok))"]
    by (simp add: shop_wire_def) blast
qed

section \<open>Access\<close>

text \<open>C24: a peer that is not the Consumer of a job learns nothing about it and cannot touch it: its
  queries and confirmations are answered as if the job did not exist, and the database stays
  as it is.\<close>

theorem strangers_see_no_job:
  assumes "find_job_row db me jid = Some (j, s)" and "stranger \<noteq> job_consumer_peer_id j"
    and "gj_provider_job_id g = jid" and "cf_provider_job_id r = jid"
  shows "handle_get_job_request me stranger g db = R_GetJob GetJob_JobNotFound \<and>
    handle_confirm_job_request cr now me stranger r db = Return (db, R_ConfirmJob ConfirmJob_JobNotFound)"
  using find_by_job_id_row [OF assms(1)] assms(2-4)
  by (simp add: handle_get_job_request_def handle_confirm_job_request_def provider_confirm_job_def)

theorem strangers_see_no_job_witness:
  "handle_get_job_request (PeerId [1]) (PeerId [3]) \<lparr>gj_provider_job_id = ''j''\<rparr> (shop_with shop_job) =
    R_GetJob GetJob_JobNotFound"
  using strangers_see_no_job [OF find_shop_job, of "PeerId [3]" "\<lparr>gj_provider_job_id = ''j''\<rparr>"
      "\<lparr>cf_provider_job_id = ''j'', cf_job_hash = [], cf_consumer_public_key = [], cf_consumer_signature = []\<rparr>"
      plain_crypto 0]
  by simp

text \<open>C30: the Provider's answer about a job is enough to complete it: what the Consumer reads through
  \<open>GetJob\<close> after the Provider has completed a job is exactly what the Provider reported.\<close>

theorem get_job_reports_completion:
  assumes "wf_database db" and "find_job_row db me jid = Some (j, s)" and "open_job j"
    and "job_consumer_peer_id j = c" and "\<not> invalid_balance_delta cr bd (job_currency j)"
  shows "\<exists>db' rec. provider_complete_job cr db me jid bd priv pub now = Return (Inr (db', rec)) \<and>
    consumer_get_job_finish (Received (Inr (handle_get_job_request me c
      \<lparr>gj_provider_job_id = jid\<rparr> db'))) =
    Return (CGetJob_Ok (Some pub) bd (job_created_at_sync j) (Some (timestamp now)))"
  by (rule get_job_run [OF assms])

theorem get_job_reports_completion_witness:
  "\<exists>db' rec. provider_complete_job plain_crypto (shop_with shop_job) (PeerId [1]) ''j'' (Some ''7'') None
      ''done'' 6000000000 = Return (Inr (db', rec)) \<and>
    consumer_get_job_finish (Received (Inr (handle_get_job_request (PeerId [1]) (PeerId [2])
      \<lparr>gj_provider_job_id = ''j''\<rparr> db'))) = Return (CGetJob_Ok (Some ''done'') (Some ''7'') 5 (Some 6))"
proof -
  have "\<not> invalid_balance_delta plain_crypto (Some ''7'') (job_currency shop_job)" by simp
  from get_job_reports_completion [OF ledger_ok_wf [OF ledger_ok_shop_with(1)] find_shop_job
      shop_job_open(1) shop_job_open(2) this, of None "''done''" 6000000000]
  show ?thesis by (simp add: timestamp_def) (simp add: shop_job_def)
qed

section \<open>Late, repeated and lost answers\<close>

lemma signed_iff_phase:
  "job_ok me j \<Longrightarrow> Signed \<le> job_phase_of j \<longleftrightarrow> job_consumer_signature j \<noteq> None"
  by (auto simp: job_ok_def job_phase_of_def)

lemma signed_row_persists:
  assumes "ledger_ok me db" and "ledger_ok me db'" and "ledger_facts db \<subseteq> ledger_facts db'"
    and "signed_row rid db"
  shows "signed_row rid db'"
proof -
  obtain j where j: "j \<in> set (service_jobs db)" "job_rowid j = rid" "job_consumer_signature j \<noteq> None"
    using assms(4) by (auto simp: signed_row_def)
  obtain j' where j': "j' \<in> set (service_jobs db')" "job_identity j' = job_identity j"
    "row_facts j \<subseteq> row_facts j'"
    using facts_row [OF assms(3) ledger_ok_wf [OF assms(2)] j(1)] by blast
  have "Signed \<le> job_phase_of j"
    using j(3) signed_iff_phase [OF ledger_ok_job [OF assms(1) j(1)]] by simp
  then have "job_consumer_signature j' \<noteq> None"
    using facts_phase [OF j'(3)] signed_iff_phase [OF ledger_ok_job [OF assms(2) j'(1)]] by auto
  moreover have "job_rowid j' = rid" using j'(2) j(2) by (simp add: job_identity_def)
  ultimately show ?thesis using j'(1) by (auto simp: signed_row_def)
qed

lemma confirm_again:
  assumes "handle_confirm_job_request cr now me c r db = Return (db1, R_ConfirmJob ConfirmJob_Ok)"
  shows "handle_confirm_job_request cr now' me c r db1 =
    Return (db1, R_ConfirmJob ConfirmJob_AlreadyConfirmed)"
proof -
  let ?confirm = "provider_confirm_job cr db c me (cf_provider_job_id r) (cf_job_hash r)
    (cf_consumer_public_key r) (cf_consumer_signature r) now"
  obtain res where res: "?confirm = Return res"
    using assms by (cases ?confirm) (simp_all add: handle_confirm_job_request_def)
  have ok: "?confirm = Return (Inr db1)"
  proof (cases res)
    case (Inl e)
    with assms res show ?thesis by (cases e) (simp_all add: handle_confirm_job_request_def)
  qed (use assms res in \<open>simp add: handle_confirm_job_request_def\<close>)
  from provider_confirm_accepted [OF ok] obtain j s where
    row: "find_job_row db1 me (cf_provider_job_id r) = Some (j, s)" "job_consumer_peer_id j = c"
    "job_signature_confirmed_at_local j \<noteq> None" by blast
  from find_by_job_id_row [OF row(1)] row(2,3) show ?thesis
    by (simp add: handle_confirm_job_request_def provider_confirm_job_def)
qed

text \<open>C32: delivering a confirmation twice is harmless: the second time the Provider answers that the job
  is already confirmed and changes nothing.\<close>

theorem confirmation_idempotent:
  assumes "handle_confirm_job_request cr now me c r db = Return (db1, R_ConfirmJob ConfirmJob_Ok)"
  shows "handle_confirm_job_request cr now' me c r db1 =
    Return (db1, R_ConfirmJob ConfirmJob_AlreadyConfirmed)"
  by (rule confirm_again [OF assms])

theorem confirmation_idempotent_witness:
  "\<exists>db1. handle_confirm_job_request plain_crypto 9 (PeerId [1]) (PeerId [2])
      \<lparr>cf_provider_job_id = ''j'', cf_job_hash = shop_hash, cf_consumer_public_key = [9],
        cf_consumer_signature = 9 # shop_hash\<rparr> db1 = Return (db1, R_ConfirmJob ConfirmJob_AlreadyConfirmed)"
proof -
  obtain db1 where "handle_confirm_job_request plain_crypto 8000000000 (PeerId [1]) (PeerId [2])
      \<lparr>cf_provider_job_id = ''j'', cf_job_hash = shop_hash, cf_consumer_public_key = [9],
        cf_consumer_signature = 9 # shop_hash\<rparr> (shop_with completed_shop_job) =
      Return (db1, R_ConfirmJob ConfirmJob_Ok)"
    using shop_confirmed by (simp add: handle_confirm_job_request_def)
  from confirmation_idempotent [OF this] show ?thesis by blast
qed

text \<open>One try of the confirmation loop for the job \<open>u\<close>, answered.\<close>

definition retry_round ::
  "'pk crypto \<Rightarrow> (confirm_job_response \<Rightarrow> string) \<Rightarrow> peer_id \<Rightarrow> bytes \<Rightarrow> unconfirmed_job \<Rightarrow>
     datetime \<times> datetime \<Rightarrow> database \<times> database \<Rightarrow> (database \<times> database) outcome" where
  "retry_round cr dbg c pk u ts dbs =
     (case (confirmation_request pk u, ts, dbs) of ((p, request), (t1, t2), (dbP, dbC)) \<Rightarrow>
       (case request of
          ConfirmJob r \<Rightarrow>
            and_then (handle_confirm_job_request cr t1 p c r dbP) (\<lambda>(dbP', res).
              and_then (confirm_job_finish dbg t2 (uj_rowid u) (Received (Inr res)) dbC)
                (\<lambda>(dbC', ev). Return (dbP', dbC')))
        | _ \<Rightarrow> Return dbs))"

text \<open>C37: a confirmation whose answer is lost is never recovered: the Provider has confirmed the job and
  from then on answers \<open>AlreadyConfirmed\<close>, which the Consumer only logs; however often it
  tries again, its job stays unconfirmed and is sent again in the next round.\<close>

theorem lost_confirmation_never_recovers:
  assumes "confirmation_request pk u = (p, ConfirmJob r)"
    and "handle_confirm_job_request cr now p c r dbP = Return (dbP', R_ConfirmJob ConfirmJob_Ok)"
    and "query_unconfirmed_jobs dbC c = Return us" and "u \<in> set us"
  shows "\<exists>dbC'. fold_outcome (retry_round cr dbg c pk u) ts (dbP', dbC) = Return (dbP', dbC') \<and>
    query_unconfirmed_jobs dbC' c = Return us"
proof -
  have "handle_confirm_job_request cr t p c r dbP' = Return (dbP', R_ConfirmJob ConfirmJob_AlreadyConfirmed)"
    for t by (rule confirm_again [OF assms(2)])
  then have round: "retry_round cr dbg c pk u t (dbP', dbC) = Return (dbP', dbC)" for t
    using assms(1) by (simp add: retry_round_def confirm_job_finish_def Let_def split: prod.split)
  have "fold_outcome (retry_round cr dbg c pk u) ts (dbP', dbC) = Return (dbP', dbC)"
    by (induction ts) (simp_all add: round)
  with assms(3) show ?thesis by blast
qed

definition signed_shop_job :: job_row where
  "signed_shop_job = signed_by_consumer (hex_balance plain_crypto (Some ''7'')) ''done'' None 7000000000 6
     shop_hash (9 # shop_hash) shop_job"

theorem lost_confirmation_never_recovers_witness:
  "\<exists>u dbP' dbC'. handle_confirm_job_request plain_crypto 8 (PeerId [1]) (PeerId [2])
      \<lparr>cf_provider_job_id = ''j'', cf_job_hash = shop_hash, cf_consumer_public_key = [9],
        cf_consumer_signature = 9 # shop_hash\<rparr> (shop_with completed_shop_job) =
      Return (dbP', R_ConfirmJob ConfirmJob_Ok) \<and>
    fold_outcome (retry_round plain_crypto (\<lambda>_. '''') (PeerId [2]) [9] u) [(9, 9), (10, 10)]
      (dbP', shop_with signed_shop_job) = Return (dbP', dbC') \<and>
    query_unconfirmed_jobs dbC' (PeerId [2]) = Return [u]"
proof -
  let ?u = "\<lparr>uj_rowid = 1, uj_provider_peer_id = PeerId [1], uj_provider_job_id = ''j'',
    uj_hash = shop_hash, uj_consumer_signature = 9 # shop_hash\<rparr>"
  let ?r = "\<lparr>cf_provider_job_id = ''j'', cf_job_hash = shop_hash, cf_consumer_public_key = [9],
    cf_consumer_signature = 9 # shop_hash\<rparr>"
  have "provider_confirm_job plain_crypto (shop_with completed_shop_job) (PeerId [2]) (PeerId [1]) ''j''
     shop_hash [9] (9 # shop_hash) 8 = Return (Inr (update_job (job_rowid completed_shop_job)
       (confirmed_by_provider (9 # shop_hash) 8) (shop_with completed_shop_job)))"
    by (rule provider_confirm_completed [OF find_completed_shop_job, where pk = "[9]"])
      (simp_all add: completed_shop_job_def completed_by_provider_def shop_job_def shop_hash_def
        timestamp_def plain_crypto_def)
  then obtain dbP' where P: "handle_confirm_job_request plain_crypto 8 (PeerId [1]) (PeerId [2]) ?r
      (shop_with completed_shop_job) = Return (dbP', R_ConfirmJob ConfirmJob_Ok)"
    by (simp add: handle_confirm_job_request_def)
  have us: "query_unconfirmed_jobs (shop_with signed_shop_job) (PeerId [2]) = Return [?u]"
    by (simp add: query_unconfirmed_jobs_def joined_jobs_def shop_with_def shop_def signed_shop_job_def
        signed_by_consumer_def shop_job_def row_to_unconfirmed_def)
  have req: "confirmation_request [9] ?u = (PeerId [1], ConfirmJob ?r)"
    by (simp add: confirmation_request_def)
  from lost_confirmation_never_recovers [OF req P us, of "\<lambda>_. ''''" "[(9, 9), (10, 10)]"] P
  show ?thesis by auto
qed

end
