(* ===== verification/Job_Connection_Properties.thy ===== *)
theory Job_Connection_Properties
  imports Job_Connection Exchange_Properties Framing_Properties
begin

text \<open>
  Properties of job connections, with instances on the shop of \<open>Job_Properties\<close>.
\<close>

section \<open>A healthy stream\<close>

text \<open>A stream that takes every write, and the frame a value is written as.\<close>

definition stream_put :: "bytes \<Rightarrow> p2p_stream \<Rightarrow> io_error + p2p_stream" where
  "stream_put b s = Inr (s\<lparr>sm_out := sm_out s @ b\<rparr>)"

lemma write_cbor_stream:
  "to_vec v = Inr buf \<Longrightarrow>
     write_cbor to_vec stream_put v s = Inr (Inr (s\<lparr>sm_out := sm_out s @ frame buf\<rparr>))"
  by (simp add: write_cbor_def stream_put_def frame_def)

lemma open_outbound_stream_put:
  "to_vec head = Inr buf \<Longrightarrow> open_stream p = Inr s \<Longrightarrow>
     open_outbound_stream to_vec stream_put open_stream c p head =
       Return (Inr (c, s\<lparr>sm_out := sm_out s @ frame buf\<rparr>))"
  by (simp add: open_outbound_stream_def stream_put_def frame_def)

text \<open>The stream a peer sees: what was written to the other end, and what will still be.\<close>

definition other_end :: "bytes \<Rightarrow> p2p_stream" where
  "other_end b = \<lparr>sm_in = b, sm_out = []\<rparr>"

section \<open>Accepting a connection\<close>

lemma job_connection_answer_accepts:
  assumes "find_by_job_id db me jid = Some job" and "jr_consumer_peer_id job = c"
    and "provider_ok st" and "provided st (jr_offer_protocol_id job, jr_offer_id job) = Some x"
    and "call_module (ProviderPrepareJobConnection me jid) =
      Some (Received (ProviderPrepareJobConnectionResponse (Prepare_Ok nonce)))"
  shows "\<exists>m. job_connection_answer call_module c me jid st db = Return (Head_Ok, Some (m, nonce))"
  using find_offer_provided [OF assms(3,4)] assms(1,2,5)
  by (auto simp: job_connection_answer_def)

lemma job_connection_refused_answer:
  assumes "\<not> (\<exists>job. find_by_job_id db me jid = Some job \<and> jr_consumer_peer_id job = c)"
  shows "job_connection_answer call_module c me jid st db = Return (Head_JobNotFound, None)"
  using assms by (auto simp: job_connection_answer_def split: option.split)

lemma handle_incoming_head:
  assumes "to_vec (HeadRequest_JobConnection jid) = Inr buf"
    and "from_slice buf = Some (HeadRequest_JobConnection jid)" and "length buf < 2 ^ 32"
  shows "handle_incoming_stream call_module try_send from_slice rto_vec put c me
      (other_end (frame buf @ up)) st db futures =
    handle_job_connection_stream call_module try_send rto_vec put c me jid (other_end up) st db futures"
  using assms by (simp add: handle_incoming_stream_def other_end_def read_cbor_frame)

lemma accept_registered:
  assumes "read_exact 8 y = (Inr b, rest)" and "u64_from_be_bytes b = next_connection_id fc"
  shows "accept_yamux_stream False y (register_stream s fc) =
    ((register_stream s fc)\<lparr>fc_streams := AList.delete (next_connection_id fc)
        (fc_streams (register_stream s fc))\<rparr>, Joined (next_connection_id fc) s rest)"
  using assms by (simp add: accept_yamux_stream_def register_stream_def next_connection_id_def Let_def)

text \<open>The shop's job, and codecs that know one head and one answer.\<close>

definition shop_open :: consumer_open_job_connection_request where
  "shop_open = \<lparr>co_provider_peer_id = PeerId [1], co_provider_job_id = ''j''\<rparr>"

lemma shop_job_record:
  "find_by_job_id (shop_with shop_job) (PeerId [1]) ''j'' = Some (row_to_job_record shop_job shop_snapshot)"
  by (simp add: find_by_job_id_def find_job_row_def joined_jobs_def shop_with_def shop_def
      shop_job_def shop_snapshot_def)

lemma shop_record_simps:
  "snap_provider_peer_id shop_snapshot = PeerId [1]" "snap_protocol_id shop_snapshot = ''p''"
  "snap_offer_id shop_snapshot = ''o''" "job_consumer_peer_id shop_job = PeerId [2]"
  "job_provider_job_id shop_job = ''j''"
  by (simp_all add: shop_job_def shop_snapshot_def)

lemma shop_open_start:
  "open_job_connection_start (shop_with shop_job) shop_open =
     Inr (PeerId [1], HeadRequest_JobConnection ''j'')"
  by (simp add: open_job_connection_start_def shop_open_def shop_job_record shop_record_simps)

lemma shop_codecs:
  "framable (\<lambda>_. Inr [1]) (\<lambda>_. Some v) v"
  by (simp add: framable_def)

section \<open>Properties\<close>



text \<open>A peer cannot open a connection to a job that is not its own: whatever the module would say,
  the answer is that the job does not exist, the module is not asked, nothing is registered
  and no request goes to the module.\<close>

theorem job_connection_refused:
  assumes "\<not> (\<exists>job. find_by_job_id db me jid = Some job \<and> jr_consumer_peer_id job = c)"
    and "rto_vec (HeadResponse_JobConnection Head_JobNotFound) = Inr buf"
  shows "handle_job_connection_stream call_module try_send rto_vec stream_put c me jid s st db futures =
    Return (futures, s\<lparr>sm_out := sm_out s @ frame buf\<rparr>, None)"
  using job_connection_refused_answer [OF assms(1)] write_cbor_stream [where to_vec = rto_vec, OF assms(2)]
  by (simp add: handle_job_connection_stream_def)

theorem job_connection_refused_witness:
  "handle_job_connection_stream (\<lambda>_. None) (\<lambda>_ _. False) (\<lambda>_. Inr [1]) stream_put (PeerId [3])
      (PeerId [1]) ''j'' (other_end []) shop_provider (shop_with shop_job) (\<lambda>_. no_connections) =
    Return (\<lambda>_. no_connections, (other_end [])\<lparr>sm_out := frame [1]\<rparr>, None)"
  using job_connection_refused [of "shop_with shop_job" "PeerId [1]" "''j''" "PeerId [3]"
      "\<lambda>_. Inr [1]" "[1]" "\<lambda>_. None" "\<lambda>_ _. False" "other_end []" shop_provider]
  by (simp add: shop_job_record shop_record_simps other_end_def)

end
