(* ===== verification/Rpc_Handlers.thy ===== *)
theory Rpc_Handlers
  imports Consumer Subscriptions Job_Connection
begin

text \<open>
  The handlers of RPC requests (\<open>src/src/rpc/procedure\<close>) and their dispatch
  (\<open>handle_inbound_request\<close>, \<open>src/src/rpc/connection.rs\<close>). A handler changes the state it
  shares with the rest of the node and that of its connection, and answers, or sends a
  request to a peer whose answer is handled later.
\<close>

section \<open>State and effects\<close>

text \<open>
  The fields of \<open>Connection\<close> the handlers change; \<open>cn_id\<close> numbers the connections. What the
  handlers share with the rest of the node: \<open>SharedState\<close>.
\<close>

record connection =
  cn_id :: nat
  cn_subscriptions :: subscriptions
  cn_provider_module_id :: "u32 option"

record shared_state =
  sh_provider :: provider_state
  sh_db :: database

definition open_connection :: "nat \<Rightarrow> connection" where
  "open_connection c = \<lparr>cn_id = c, cn_subscriptions = initial_subscriptions,
     cn_provider_module_id = None\<rparr>"

text \<open>
  The parameters of a request: cryptography, the node's key, SQLite's choice among
  conflicts, \<open>PeerId::from_str\<close>, the node's peer ID and the clock.
\<close>

record 'pk rpc_env =
  env_crypto :: "'pk crypto"
  env_sign :: "bytes \<Rightarrow> bytes"
  env_pick :: "snapshot_row list \<Rightarrow> snapshot_row"
  env_from_str :: "string \<Rightarrow> peer_id option"
  env_me :: peer_id
  env_now :: datetime

text \<open>
  What a request leads to: the response, put into the connection's outbound queue; or a
  request to a peer, awaited by a task of its own (\<open>Spawn_Create\<close>, \<open>Spawn_Open\<close>) or by the
  connection's task itself (\<open>Await_Get\<close>).
\<close>

datatype inbound_effect =
    Respond outbound_response_data
  | Spawn_Create peer_id p2p_request offer_snapshot
  | Await_Get peer_id p2p_request
  | Spawn_Open peer_id head_request

section \<open>Handlers\<close>

definition handle_fail_job_request ::
  "datetime \<Rightarrow> fail_job_request \<Rightarrow> database \<Rightarrow> database \<times> fail_job_response" where
  "handle_fail_job_request now request db =
     (case fail_job db (fj_provider_peer_id request) (fj_provider_job_id request) (fj_reason request)
         (fj_reason_class request) (fj_private_payload request) now of
        Inr db' \<Rightarrow> (db', FailJob_Ok)
      | Inl Fail_InvalidJobId \<Rightarrow> (db, FailJob_JobNotFound)
      | Inl Fail_AlreadyCompleted \<Rightarrow> (db, FailJob_AlreadyCompleted)
      | Inl (Fail_AlreadyFailed reason reason_class) \<Rightarrow>
          (db, FailJob_AlreadyFailed reason reason_class))"

definition handle_provider_complete_job_request ::
  "'pk crypto \<Rightarrow> datetime \<Rightarrow> provider_complete_job_request \<Rightarrow> database \<Rightarrow>
     (database \<times> provider_complete_job_response) outcome" where
  "handle_provider_complete_job_request cr now request db =
     and_then (provider_complete_job cr db (pc_provider_peer_id request) (pc_provider_job_id request)
         (pc_balance_delta request) (pc_private_payload request) (pc_public_payload request) now)
       (\<lambda>result. case result of
          Inr (db', job_record) \<Rightarrow>
            (case jr_completed_at_sync job_record of
               None \<Rightarrow> Panic
             | Some completed_at_sync \<Rightarrow> Return (db', PCompleteJob_Ok completed_at_sync))
        | Inl PComplete_JobNotFound \<Rightarrow> Return (db, PCompleteJob_JobNotFound)
        | Inl PComplete_InvalidBalanceDelta \<Rightarrow> Return (db, PCompleteJob_InvalidBalanceDelta)
        | Inl (PComplete_AlreadyFailed reason reason_class) \<Rightarrow>
            Return (db, PCompleteJob_AlreadyFailed reason reason_class)
        | Inl (PComplete_AlreadyCompleted completed_at_sync) \<Rightarrow>
            Return (db, PCompleteJob_AlreadyCompleted completed_at_sync))"

definition handle_jobs_query_request ::
  "jobs_query_request \<Rightarrow> database \<Rightarrow> jobs_query_response outcome" where
  "handle_jobs_query_request request db =
     (if jq_limit request < 1 \<or> 100 < jq_limit request then Return JobsQuery_InvalidLimit
      else and_then (query_jobs db (jq_database_row_id_cursor request) (jq_protocol_ids request)
          (jq_provider_peer_ids request) (jq_consumer_peer_ids request) (jq_limit request))
        (\<lambda>jobs. Return (JobsQuery_Ok jobs)))"

definition handle_offer_snapshots_query_request ::
  "int list \<Rightarrow> database \<Rightarrow> offer_snapshots_query_response" where
  "handle_offer_snapshots_query_request snapshot_ids db =
     (if 100 < length snapshot_ids then Snapshots_Length
      else Snapshots_Ok (query_offer_snapshots_by_rowid db snapshot_ids))"

definition handle_providers_query_request ::
  "peer_id list \<Rightarrow> database \<Rightarrow> providers_query_response outcome" where
  "handle_providers_query_request provider_peer_ids db =
     (if 100 < length provider_peer_ids then Return Providers_Length
      else and_then (query_providers_by_peer_id db provider_peer_ids)
        (\<lambda>providers. Return (Providers_Ok providers)))"

definition handle_active_offers_query_request ::
  "active_offers_query_request \<Rightarrow> database \<Rightarrow> offer_snapshot list" where
  "handle_active_offers_query_request request db =
     query_active_offers db (aq_protocol_ids request) (aq_provider_peer_ids request)"

definition handle_active_providers_query_request :: "datetime \<Rightarrow> database \<Rightarrow> peer_id list" where
  "handle_active_providers_query_request now db = query_active_providers db 60 now"

definition handle_system_query_request :: "peer_id \<Rightarrow> outbound_response_data" where
  [simp]: "handle_system_query_request me = R_QuerySystem me"

section \<open>Dispatch\<close>

type_synonym handled = "connection \<times> shared_state \<times> inbound_effect \<times> rpc_event option"

definition respond ::
  "connection \<Rightarrow> shared_state \<Rightarrow> outbound_response_data \<Rightarrow> handled outcome" where
  "respond cn sh r = Return (cn, sh, Respond r, None)"

definition handle_inbound_request ::
  "'pk rpc_env \<Rightarrow> inbound_request_data \<Rightarrow> connection \<Rightarrow> shared_state \<Rightarrow> handled outcome" where
  "handle_inbound_request env request cn sh =
     (let db = sh_db sh; with_db = (\<lambda>db'. sh\<lparr>sh_db := db'\<rparr>);
          with_subs = (\<lambda>subs. cn\<lparr>cn_subscriptions := subs\<rparr>)
      in case request of
        FailJob r \<Rightarrow>
          (case handle_fail_job_request (env_now env) r db of (db', res) \<Rightarrow>
             respond cn (with_db db') (R_FailJob res))
      | ConsumerCompleteJob r \<Rightarrow>
          (case handle_consumer_complete_job_request (env_crypto env) (env_sign env) (env_now env)
              (env_me env) r db of (db', res, event) \<Rightarrow>
             Return (cn, with_db db', Respond (R_ConsumerCompleteJob res), event))
      | ConsumerCreateJob r \<Rightarrow>
          (case consumer_create_job_start db r of
             Inl res \<Rightarrow> respond cn sh (R_ConsumerCreateJob res)
           | Inr (peer, p2p, snapshot) \<Rightarrow> Return (cn, sh, Spawn_Create peer p2p snapshot, None))
      | ConsumerGetJob r \<Rightarrow>
          (case consumer_get_job_start r of (peer, p2p) \<Rightarrow> Return (cn, sh, Await_Get peer p2p, None))
      | ConsumerOpenJobConnection r \<Rightarrow>
          (case open_job_connection_start db r of
             Inl res \<Rightarrow> respond cn sh (R_ConsumerOpenJobConnection res)
           | Inr (peer, head) \<Rightarrow> Return (cn, sh, Spawn_Open peer head, None))
      | ProviderCompleteJob r \<Rightarrow>
          and_then (handle_provider_complete_job_request (env_crypto env) (env_now env) r db)
            (\<lambda>(db', res). respond cn (with_db db') (R_ProviderCompleteJob res))
      | ProviderProvide r \<Rightarrow>
          and_then (handle_provider_provide (env_pick env) (env_me env) (env_now env) (cn_id cn)
              (pp_protocol_id r) (pp_offer_id r) (pp_protocol_payload r) (sh_provider sh) db
              (cn_provider_module_id cn))
            (\<lambda>(st', db', mid', res). respond (cn\<lparr>cn_provider_module_id := mid'\<rparr>)
               \<lparr>sh_provider = st', sh_db = db'\<rparr> (R_ProviderProvide res))
      | QueryJobs r \<Rightarrow>
          and_then (handle_jobs_query_request r db) (\<lambda>res. respond cn sh (R_QueryJobs res))
      | QueryOfferSnapshots ids \<Rightarrow>
          respond cn sh (R_QueryOfferSnapshots (handle_offer_snapshots_query_request ids db))
      | QueryActiveProviders \<Rightarrow>
          respond cn sh (R_QueryActiveProviders
            (handle_active_providers_query_request (env_now env) db))
      | QueryActiveOffers r \<Rightarrow>
          respond cn sh (R_QueryActiveOffers (handle_active_offers_query_request r db))
      | QueryProviders ids \<Rightarrow>
          and_then (handle_providers_query_request ids db)
            (\<lambda>res. respond cn sh (R_QueryProviders res))
      | QuerySystem \<Rightarrow> respond cn sh (handle_system_query_request (env_me env))
      | CancelSubscription i \<Rightarrow>
          (case handle_cancel_subscription_request i (cn_subscriptions cn) of (subs, res) \<Rightarrow>
             respond (with_subs subs) sh (R_CancelSubscription res))
      | SubscribeToActiveOffers r \<Rightarrow>
          (case handle_active_offers_subscription_request (env_from_str env) r (cn_subscriptions cn)
           of (subs, res) \<Rightarrow> respond (with_subs subs) sh (R_SubscribeToActiveOffers res))
      | SubscribeToActiveProviders \<Rightarrow>
          (case handle_active_providers_subscription_request (cn_subscriptions cn) of (subs, i) \<Rightarrow>
             respond (with_subs subs) sh (R_SubscribeToActiveProviders i))
      | SubscribeToJobs r \<Rightarrow>
          (case handle_jobs_subscription_request (env_from_str env) r (cn_subscriptions cn)
           of (subs, res) \<Rightarrow> respond (with_subs subs) sh (R_SubscribeToJobs res)))"

end
