(* ===== verification/Rpc_Connection.thy ===== *)
theory Rpc_Connection
  imports Rpc_Handlers
begin

text \<open>
  The task of an RPC connection: the \<open>biased\<close> \<open>select!\<close> loop of \<open>handle_connection\<close>
  (\<open>src/src/rpc/connection.rs\<close>) with its two bounded channels, both of which only this task
  drains, the numbering of the node's own requests and the senders that wait for responses.
\<close>

section \<open>State\<close>

text \<open>
  \<open>Blocked\<close>: the task waits for room in a full channel. \<open>Awaiting i\<close>: it waits for a peer's
  answer in the handler of the client's request \<open>i\<close>.
\<close>

datatype loop_status = Running | Blocked | Awaiting u32 | Closed

text \<open>What \<open>next_cbor\<close> delivers; a frame counts once it has arrived completely.\<close>

datatype socket_item = Socket_Frame inbound_frame | Socket_Error io_error | Socket_Eof

text \<open>
  The sender of a one-shot channel is created with the envelope of its request
  (\<open>OutboundRequestEnvelope::new\<close>, \<open>src/src/rpc.rs\<close>): it is identified by this request and
  a tag of type \<open>'t\<close>.
\<close>

type_synonym 't waiter = "outbound_request_data \<times> 't"

definition new_envelope :: "outbound_request_data \<Rightarrow> 't \<Rightarrow> outbound_request_data \<times> 't waiter option" where
  "new_envelope data t = (data, Some (data, t))"

text \<open>
  \<open>lp_shutdown\<close> is the node's \<open>shutdown_token\<close>. The queues hold a sender with each request;
  \<open>None\<close> is one whose receiver is gone. The last
  fields record what the task did: the frames written to the client, the responses handed
  to their waiters, the requests to peers it left to other tasks.
\<close>

record 't rpc_loop =
  lp_status :: loop_status
  lp_shutdown :: bool
  lp_connection :: connection
  lp_shared :: shared_state
  lp_input :: "socket_item list"
  lp_outbound :: "outbound_frame list"
  lp_requests :: "(outbound_request_data \<times> 't waiter option) list"
  lp_events :: "rpc_event list"
  lp_requests_counter :: u32
  lp_response_txs :: "(u32, 't waiter option) hash_map"
  lp_written :: "outbound_frame list"
  lp_delivered :: "('t waiter \<times> inbound_response_data) list"
  lp_tasks :: "(u32 \<times> inbound_effect) list"

definition channel_size :: nat where "channel_size = 16"

definition event_channel_size :: nat where "event_channel_size = 32"

definition initial_loop :: "nat \<Rightarrow> shared_state \<Rightarrow> 't rpc_loop" where
  "initial_loop c sh = \<lparr>lp_status = Running, lp_shutdown = False, lp_connection = open_connection c,
     lp_shared = sh, lp_input = [], lp_outbound = [], lp_requests = [], lp_events = [], lp_requests_counter = 0,
     lp_response_txs = [], lp_written = [], lp_delivered = [], lp_tasks = []\<rparr>"

section \<open>Branches\<close>

text \<open>\<open>outbound_tx.send(..).await\<close> in the task itself: nobody makes room while it waits.\<close>

definition send_outbound :: "outbound_frame \<Rightarrow> 't rpc_loop \<Rightarrow> 't rpc_loop" where
  "send_outbound f s =
     (if length (lp_outbound s) < channel_size then s\<lparr>lp_outbound := lp_outbound s @ [f]\<rparr>
      else s\<lparr>lp_status := Blocked\<rparr>)"

text \<open>A lagging receiver of the broadcast channel loses the oldest event.\<close>

definition broadcast :: "rpc_event \<Rightarrow> rpc_event list \<Rightarrow> rpc_event list" where
  "broadcast e events =
     (if length events < event_channel_size then events @ [e] else tl events @ [e])"

definition request_branch ::
  "'pk rpc_env \<Rightarrow> u32 \<Rightarrow> inbound_request_data \<Rightarrow> 't rpc_loop \<Rightarrow> 't rpc_loop outcome" where
  "request_branch env request_id data s =
     and_then (handle_inbound_request env data (lp_connection s) (lp_shared s))
       (\<lambda>(cn, sh, effect, event).
         let s1 = s\<lparr>lp_connection := cn, lp_shared := sh,
               lp_events := (case event of None \<Rightarrow> lp_events s | Some e \<Rightarrow> broadcast e (lp_events s))\<rparr>
         in Return (case effect of
             Respond r \<Rightarrow> send_outbound (Out_Response request_id r) s1
           | Await_Get peer request \<Rightarrow>
               s1\<lparr>lp_status := Awaiting request_id, lp_tasks := lp_tasks s @ [(request_id, effect)]\<rparr>
           | _ \<Rightarrow> s1\<lparr>lp_tasks := lp_tasks s @ [(request_id, effect)]\<rparr>))"

definition response_branch :: "u32 \<Rightarrow> inbound_response_data \<Rightarrow> 't rpc_loop \<Rightarrow> 't rpc_loop" where
  "response_branch response_id data s =
     (case map_of (lp_response_txs s) response_id of
        None \<Rightarrow> s
      | Some tx \<Rightarrow> s\<lparr>lp_response_txs := AList.delete response_id (lp_response_txs s),
          lp_delivered := (case tx of None \<Rightarrow> lp_delivered s
             | Some t \<Rightarrow> lp_delivered s @ [(t, data)])\<rparr>)"

text \<open>
  The node's own request gets the next number. The increment wraps in a release build.
\<close>

definition outbound_request_branch ::
  "outbound_request_data \<Rightarrow> 't waiter option \<Rightarrow> 't rpc_loop \<Rightarrow> 't rpc_loop" where
  "outbound_request_branch data tx s =
     (let s1 = send_outbound (Out_Request (lp_requests_counter s) data)
            (s\<lparr>lp_response_txs := AList.update (lp_requests_counter s) tx (lp_response_txs s)\<rparr>)
      in if lp_status s1 = Blocked then s1
         else s1\<lparr>lp_requests_counter := lp_requests_counter s + 1\<rparr>)"

text \<open>\<open>handle_event\<close>: each frame is sent to the channel of requests, which may fill up.\<close>

definition event_branch :: "rpc_event \<Rightarrow> 't rpc_loop \<Rightarrow> 't rpc_loop" where
  "event_branch event s =
     (let queue = lp_requests s @ map (\<lambda>f. (f, None))
            (event_frames (subscription_map (cn_subscriptions (lp_connection s))) event)
      in if length queue \<le> channel_size then s\<lparr>lp_requests := queue\<rparr>
         else s\<lparr>lp_requests := take channel_size queue, lp_status := Blocked\<rparr>)"

text \<open>
  One iteration: the first branch that is ready. With nothing ready the task sleeps, which
  is the state itself.
\<close>

definition loop_iteration :: "'pk rpc_env \<Rightarrow> 't rpc_loop \<Rightarrow> 't rpc_loop outcome" where
  "loop_iteration env s =
     (if lp_shutdown s then Return (s\<lparr>lp_status := Closed\<rparr>)
      else case lp_input s of
        item # input \<Rightarrow>
          (let s1 = s\<lparr>lp_input := input\<rparr>
           in case item of
                Socket_Frame (In_Request i data) \<Rightarrow> request_branch env i data s1
              | Socket_Frame (In_Response i data) \<Rightarrow> Return (response_branch i data s1)
              | Socket_Error e \<Rightarrow> Return s1
              | Socket_Eof \<Rightarrow> Return (s1\<lparr>lp_status := Closed\<rparr>))
      | [] \<Rightarrow>
          (case lp_outbound s of
             f # outbound \<Rightarrow>
               Return (s\<lparr>lp_outbound := outbound, lp_written := lp_written s @ [f]\<rparr>)
           | [] \<Rightarrow>
               (case lp_requests s of
                  (data, tx) # requests \<Rightarrow>
                    Return (outbound_request_branch data tx (s\<lparr>lp_requests := requests\<rparr>))
                | [] \<Rightarrow>
                    (case lp_events s of
                       event # events \<Rightarrow> Return (event_branch event (s\<lparr>lp_events := events\<rparr>))
                     | [] \<Rightarrow> Return s))))"

text \<open>The peer's answer to a request the task waits for in \<open>handle_consumer_get_job_request\<close>.\<close>

definition peer_answer :: "inbound_response received \<Rightarrow> 't rpc_loop \<Rightarrow> 't rpc_loop outcome" where
  "peer_answer response s =
     (case lp_status s of
        Awaiting i \<Rightarrow>
          and_then (consumer_get_job_finish response) (\<lambda>r. Return
            (send_outbound (Out_Response i (R_ConsumerGetJob r)) (s\<lparr>lp_status := Running\<rparr>)))
      | _ \<Rightarrow> Return s)"

section \<open>The task and its environment\<close>

text \<open>
  \<open>own\<close>: an iteration; the clock may have moved. The others are the environment: bytes of
  the client, other tasks that respond to a request or send one (they wait while a channel
  is full), broadcast events, changes of the state the task shares, and the shutdown of the node.
\<close>

inductive loop_step :: "'pk rpc_env \<Rightarrow> 't rpc_loop \<Rightarrow> 't rpc_loop \<Rightarrow> bool" for env where
  own: "lp_status s = Running \<Longrightarrow> loop_iteration (env\<lparr>env_now := now\<rparr>) s = Return s' \<Longrightarrow>
    loop_step env s s'"
| answer: "lp_status s = Awaiting i \<Longrightarrow> peer_answer response s = Return s' \<Longrightarrow> loop_step env s s'"
| arrive: "loop_step env s (s\<lparr>lp_input := lp_input s @ [item]\<rparr>)"
| task_response: "length (lp_outbound s) < channel_size \<Longrightarrow>
    loop_step env s (s\<lparr>lp_outbound := lp_outbound s @ [Out_Response i r]\<rparr>)"
| task_request: "length (lp_requests s) < channel_size \<Longrightarrow>
    loop_step env s (s\<lparr>lp_requests := lp_requests s @ [new_envelope data t]\<rparr>)"
| event: "loop_step env s (s\<lparr>lp_events := broadcast e (lp_events s)\<rparr>)"
| others: "loop_step env s (s\<lparr>lp_shared := sh\<rparr>)"
| shutdown: "loop_step env s (s\<lparr>lp_shutdown := True\<rparr>)"

inductive_cases loop_stepE: "loop_step env s s'"

text \<open>Runs, and the iterations of the task alone.\<close>

inductive loop_run :: "'pk rpc_env \<Rightarrow> 't rpc_loop \<Rightarrow> 't rpc_loop \<Rightarrow> bool" for env where
  start: "loop_run env s s"
| step: "loop_run env s s1 \<Longrightarrow> loop_step env s1 s2 \<Longrightarrow> loop_run env s s2"

fun iterate :: "'pk rpc_env \<Rightarrow> nat \<Rightarrow> 't rpc_loop \<Rightarrow> 't rpc_loop outcome" where
  "iterate env 0 s = Return s"
| "iterate env (Suc n) s =
     (if lp_status s = Running then and_then (loop_iteration env s) (iterate env n) else Return s)"

end
