(* ===== verification/Rpc_Connection_Properties.thy ===== *)
theory Rpc_Connection_Properties
  imports Rpc_Connection Job_Properties
begin

text \<open>
  Properties of the task of an RPC connection: how requests and responses are matched, and
  when the bounded channels, which the task itself fills and drains, block it for good.
\<close>

section \<open>The invariant of a connection\<close>

text \<open>The node's own requests, in the order they were numbered.\<close>

definition sent :: "outbound_frame list \<Rightarrow> (u32 \<times> outbound_request_data) list" where
  "sent fs = List.map_filter (\<lambda>f. case f of Out_Request i d \<Rightarrow> Some (i, d) | Out_Response i r \<Rightarrow> None) fs"

lemma sent_simps [simp]:
  "sent [] = []" "sent (Out_Request i d # fs) = (i, d) # sent fs"
  "sent (Out_Response i r # fs) = sent fs" "sent (fs @ gs) = sent fs @ sent gs"
  by (simp_all add: sent_def map_filter_def)

definition requests_sent :: "'t rpc_loop \<Rightarrow> (u32 \<times> outbound_request_data) list" where
  "requests_sent s = sent (lp_written s @ lp_outbound s)"

definition own_request :: "outbound_request_data \<times> 't waiter option \<Rightarrow> bool" where
  "own_request e \<longleftrightarrow> (\<forall>w. snd e = Some w \<longrightarrow> fst w = fst e)"

lemma own_request_simps [simp]:
  "own_request (new_envelope d t)" "own_request (d, None)"
  "own_request (d, Some w) \<longleftrightarrow> fst w = d"
  by (auto simp: own_request_def new_envelope_def)

definition loop_inv :: "'t rpc_loop \<Rightarrow> bool" where
  "loop_inv s \<longleftrightarrow>
     map fst (requests_sent s) = map of_nat [0..<length (requests_sent s)] \<and>
     lp_requests_counter s = of_nat (length (requests_sent s)) \<and>
     (\<forall>e \<in> set (lp_requests s). own_request e) \<and>
     (\<forall>i w. map_of (lp_response_txs s) i = Some (Some w) \<longrightarrow> (i, fst w) \<in> set (requests_sent s)) \<and>
     (\<forall>(w, r) \<in> set (lp_delivered s). \<exists>i. (i, fst w) \<in> set (requests_sent s)) \<and>
     length (lp_delivered s) + length (lp_response_txs s) \<le> length (requests_sent s) \<and>
     length (lp_outbound s) \<le> channel_size \<and> length (lp_requests s) \<le> channel_size \<and>
     length (lp_events s) \<le> event_channel_size"

lemma loop_inv_initial: "loop_inv (initial_loop c sh)"
  by (simp add: loop_inv_def initial_loop_def requests_sent_def)

text \<open>Changes of fields the invariant does not mention.\<close>

lemma loop_inv_other [simp]:
  "loop_inv (s\<lparr>lp_status := x\<rparr>) = loop_inv s" "loop_inv (s\<lparr>lp_connection := cn\<rparr>) = loop_inv s"
  "loop_inv (s\<lparr>lp_shared := sh\<rparr>) = loop_inv s" "loop_inv (s\<lparr>lp_input := inp\<rparr>) = loop_inv s"
  "loop_inv (s\<lparr>lp_tasks := ts\<rparr>) = loop_inv s" "loop_inv (s\<lparr>lp_shutdown := d\<rparr>) = loop_inv s"
  by (simp_all add: loop_inv_def requests_sent_def)

lemma broadcast_length: "length es \<le> event_channel_size \<Longrightarrow> length (broadcast e es) \<le> event_channel_size"
  by (auto simp: broadcast_def event_channel_size_def)

lemma loop_inv_events:
  "loop_inv s \<Longrightarrow> length es \<le> event_channel_size \<Longrightarrow> loop_inv (s\<lparr>lp_events := es\<rparr>)"
  by (simp add: loop_inv_def requests_sent_def)

lemma loop_inv_requests:
  "loop_inv s \<Longrightarrow> \<forall>e \<in> set q. own_request e \<Longrightarrow> length q \<le> channel_size \<Longrightarrow>
     loop_inv (s\<lparr>lp_requests := q\<rparr>)"
  by (simp add: loop_inv_def requests_sent_def)

lemma loop_inv_response_out:
  "loop_inv s \<Longrightarrow> length (lp_outbound s) < channel_size \<Longrightarrow>
     loop_inv (s\<lparr>lp_outbound := lp_outbound s @ [Out_Response i r]\<rparr>)"
  by (simp add: loop_inv_def requests_sent_def)

lemma loop_inv_written:
  "loop_inv s \<Longrightarrow> lp_outbound s = f # fs \<Longrightarrow>
     loop_inv (s\<lparr>lp_outbound := fs, lp_written := lp_written s @ [f]\<rparr>)"
  by (simp add: loop_inv_def requests_sent_def)

lemma loop_inv_send_response:
  "loop_inv s \<Longrightarrow> loop_inv (send_outbound (Out_Response i r) s)"
  by (simp add: send_outbound_def loop_inv_response_out)

lemma length_delete_less: "map_of m i \<noteq> None \<Longrightarrow> length (AList.delete i m) < length m"
  by (induction m) (auto simp: AList.delete_eq less_Suc_eq_le)

lemma loop_inv_response:
  assumes "loop_inv s"
  shows "loop_inv (response_branch i data s)"
proof (cases "map_of (lp_response_txs s) i")
  case (Some tx)
  then have "length (AList.delete i (lp_response_txs s)) < length (lp_response_txs s)"
    by (intro length_delete_less) simp
  with assms Some show ?thesis
    by (auto simp: response_branch_def loop_inv_def requests_sent_def map_of_delete_eq
        split: option.split if_splits) blast
qed (use assms in \<open>simp add: response_branch_def\<close>)

lemma length_update_le: "length (AList.update i v m) \<le> Suc (length m)"
  by (induction m) auto

text \<open>Where the queue of frames is empty, a request is numbered and queued.\<close>

lemma outbound_request_branch_room:
  "lp_outbound s = [] \<Longrightarrow> lp_status s = Running \<Longrightarrow> outbound_request_branch d tx s =
     s\<lparr>lp_response_txs := AList.update (lp_requests_counter s) tx (lp_response_txs s),
       lp_outbound := [Out_Request (lp_requests_counter s) d],
       lp_requests_counter := lp_requests_counter s + 1\<rparr>"
  by (simp add: outbound_request_branch_def send_outbound_def channel_size_def Let_def)

lemma loop_inv_outbound_request:
  assumes "loop_inv s" and "lp_outbound s = []" and "lp_status s = Running" and "own_request (d, tx)"
  shows "loop_inv (outbound_request_branch d tx s)"
proof -
  have "length (AList.update (lp_requests_counter s) tx (lp_response_txs s)) \<le>
      Suc (length (lp_response_txs s))"
    by (rule length_update_le)
  then show ?thesis
    unfolding outbound_request_branch_room [OF assms(2,3)]
    using assms by (auto simp: loop_inv_def requests_sent_def channel_size_def)
qed

lemma loop_inv_event:
  assumes "loop_inv s"
  shows "loop_inv (event_branch e s)"
proof -
  let ?q = "lp_requests s @ map (\<lambda>f. (f, None))
    (event_frames (subscription_map (cn_subscriptions (lp_connection s))) e)"
  have own: "\<forall>x \<in> set ?q. own_request x" using assms by (auto simp: loop_inv_def)
  then have "\<forall>x \<in> set (take channel_size ?q). own_request x" by (auto dest: in_set_takeD)
  then show ?thesis
    using own assms unfolding event_branch_def Let_def by (auto intro!: loop_inv_requests)
qed

lemma loop_inv_request:
  assumes "loop_inv s" and "request_branch env i data s = Return s'"
  shows "loop_inv s'"
proof -
  obtain cn sh effect event where h:
    "handle_inbound_request env data (lp_connection s) (lp_shared s) = Return (cn, sh, effect, event)"
    using assms(2) by (auto simp: request_branch_def)
  let ?es = "case event of None \<Rightarrow> lp_events s | Some e \<Rightarrow> broadcast e (lp_events s)"
  let ?s1 = "s\<lparr>lp_connection := cn, lp_shared := sh, lp_events := ?es\<rparr>"
  have "length ?es \<le> event_channel_size"
    using assms(1) by (auto simp: loop_inv_def broadcast_length split: option.split)
  moreover have "loop_inv (s\<lparr>lp_connection := cn, lp_shared := sh\<rparr>)" using assms(1) by simp
  ultimately have "loop_inv ?s1" using loop_inv_events by fastforce
  with h assms(2) show ?thesis
    by (cases effect) (auto simp: request_branch_def Let_def intro: loop_inv_send_response)
qed

lemma loop_inv_iteration:
  assumes "loop_inv s" and "lp_status s = Running" and "loop_iteration env s = Return s'"
  shows "loop_inv s'"
proof (cases "lp_shutdown s")
  case True
  with assms show ?thesis by (auto simp: loop_iteration_def)
next
  case alive: False
  show ?thesis
  proof (cases "lp_input s")
    case (Cons item input)
    with assms alive show ?thesis
      by (cases item)
        (auto simp: loop_iteration_def Let_def loop_inv_response split: inbound_frame.splits
          elim: loop_inv_request [rotated])
  next
    case Nil
    show ?thesis
    proof (cases "lp_outbound s")
      case (Cons f fs)
      with Nil assms alive show ?thesis by (auto simp: loop_iteration_def loop_inv_written)
    next
      case out: Nil
      show ?thesis
      proof (cases "lp_requests s")
        case (Cons r rs)
        obtain d tx where r: "r = (d, tx)" by (cases r)
        have own: "own_request (d, tx)" "\<forall>e \<in> set rs. own_request e" "length rs \<le> channel_size"
          using assms(1) Cons r by (auto simp: loop_inv_def)
        then have "loop_inv (s\<lparr>lp_requests := rs\<rparr>)" using assms(1) by (intro loop_inv_requests)
        then have "loop_inv (outbound_request_branch d tx (s\<lparr>lp_requests := rs\<rparr>))"
          using out assms(2) own(1) by (intro loop_inv_outbound_request) simp_all
        with Nil out Cons r assms(3) alive show ?thesis by (simp add: loop_iteration_def)
      next
        case reqs: Nil
        show ?thesis
        proof (cases "lp_events s")
          case (Cons e es)
          have "loop_inv (s\<lparr>lp_events := es\<rparr>)"
            using assms(1) Cons by (intro loop_inv_events) (auto simp: loop_inv_def)
          with Nil out reqs Cons assms(3) alive show ?thesis
            by (auto simp: loop_iteration_def loop_inv_event)
        qed (use assms Nil out reqs alive in \<open>simp add: loop_iteration_def\<close>)
      qed
    qed
  qed
qed

lemma loop_step_inv: "loop_step env s s' \<Longrightarrow> loop_inv s \<Longrightarrow> loop_inv s'"
proof (induction rule: loop_step.induct)
  case (own s now s')
  then show ?case by (blast intro: loop_inv_iteration)
next
  case (answer s i response s')
  then show ?case by (auto simp: peer_answer_def loop_inv_send_response)
next
  case (task_request s data t)
  then show ?case by (intro loop_inv_requests) (auto simp: loop_inv_def)
next
  case (event s e)
  then show ?case by (intro loop_inv_events) (auto simp: loop_inv_def broadcast_length)
qed (simp_all add: loop_inv_response_out)

lemma loop_run_inv: "loop_run env s s' \<Longrightarrow> loop_inv s \<Longrightarrow> loop_inv s'"
  by (induction rule: loop_run.induct) (blast intro: loop_step_inv)+

text \<open>A blocked task stays blocked: all it waits for would have to be done by itself.\<close>

lemma blocked_forever:
  "loop_run env s s' \<Longrightarrow> lp_status s = Blocked \<Longrightarrow>
     lp_status s' = Blocked \<and> lp_written s' = lp_written s \<and> lp_delivered s' = lp_delivered s"
proof (induction rule: loop_run.induct)
  case (step s s1 s2)
  from step.hyps(2) step.IH [OF step.prems] show ?case by (auto elim!: loop_stepE)
qed simp

section \<open>Iterations of a task that is left alone\<close>

lemma iterate_add: "iterate env (m + n) s = and_then (iterate env m s) (iterate env n)"
proof (induction m arbitrary: s)
  case (Suc m)
  show ?case
  proof (cases "lp_status s = Running")
    case True
    then show ?thesis by (cases "loop_iteration env s") (simp_all add: Suc.IH)
  next
    case False
    then show ?thesis by (cases n) simp_all
  qed
qed simp

definition ask :: "u32 \<Rightarrow> socket_item" where
  "ask i = Socket_Frame (In_Request i QuerySystem)"

definition told :: "'pk rpc_env \<Rightarrow> u32 \<Rightarrow> outbound_frame" where
  "told env i = Out_Response i (R_QuerySystem (env_me env))"

lemma ask_iteration:
  "\<not> lp_shutdown s \<Longrightarrow> lp_input s = ask i # input \<Longrightarrow>
     loop_iteration env s = Return (send_outbound (told env i) (s\<lparr>lp_input := input\<rparr>))"
  by (cases s) (simp add: loop_iteration_def ask_def told_def request_branch_def
      handle_inbound_request_def respond_def send_outbound_def Let_def)

text \<open>Updates of different fields, in the order the lemmas below expect.\<close>

lemma loop_updates:
  "s\<lparr>lp_outbound := out, lp_written := w\<rparr> = s\<lparr>lp_written := w, lp_outbound := out\<rparr>"
  "s\<lparr>lp_input := inp, lp_outbound := out\<rparr> = s\<lparr>lp_outbound := out, lp_input := inp\<rparr>"
  "s\<lparr>lp_input := inp, lp_status := st\<rparr> = s\<lparr>lp_status := st, lp_input := inp\<rparr>"
  by (cases s, simp)+

lemma iterate_ask:
  assumes "lp_status s = Running" and "\<not> lp_shutdown s" and "length (lp_outbound s) + length ids \<le> channel_size"
  shows "iterate env (length ids) (s\<lparr>lp_input := map ask ids @ input\<rparr>) =
    Return (s\<lparr>lp_input := input, lp_outbound := lp_outbound s @ map (told env) ids\<rparr>)"
  using assms
proof (induction ids arbitrary: s)
  case (Cons i ids)
  let ?s = "s\<lparr>lp_outbound := lp_outbound s @ [told env i]\<rparr>"
  have "iterate env (length ids) (?s\<lparr>lp_input := map ask ids @ input\<rparr>) =
      Return (?s\<lparr>lp_input := input, lp_outbound := lp_outbound ?s @ map (told env) ids\<rparr>)"
    by (rule Cons.IH) (use Cons.prems in simp_all)
  with Cons.prems show ?case by (simp add: ask_iteration send_outbound_def loop_updates)
qed simp

lemma iterate_write:
  assumes "lp_status s = Running" and "\<not> lp_shutdown s" and "lp_input s = []"
  shows "iterate env (length fs) (s\<lparr>lp_outbound := fs\<rparr>) =
    Return (s\<lparr>lp_outbound := [], lp_written := lp_written s @ fs\<rparr>)"
  using assms
proof (induction fs arbitrary: s)
  case (Cons f fs)
  have "iterate env (length fs) ((s\<lparr>lp_written := lp_written s @ [f]\<rparr>)\<lparr>lp_outbound := fs\<rparr>) =
      Return (s\<lparr>lp_outbound := [], lp_written := lp_written s @ f # fs\<rparr>)"
    using Cons.IH [of "s\<lparr>lp_written := lp_written s @ [f]\<rparr>"] Cons.prems by simp
  with Cons.prems show ?case by (simp add: loop_iteration_def loop_updates)
qed simp

lemma pipelined_answered:
  assumes "length ids \<le> channel_size"
  shows "\<exists>s'. iterate env (2 * length ids) ((initial_loop c sh)\<lparr>lp_input := map ask ids\<rparr>) = Return s' \<and>
    lp_status s' = Running \<and> lp_written s' = map (told env) ids"
proof -
  let ?s = "initial_loop c sh :: 'a rpc_loop"
  have "iterate env (length ids) (?s\<lparr>lp_input := map ask ids\<rparr>) =
      Return (?s\<lparr>lp_input := [], lp_outbound := map (told env) ids\<rparr>)"
    using iterate_ask [of ?s ids env "[]"] assms by (simp add: initial_loop_def)
  moreover have "iterate env (length ids) (?s\<lparr>lp_input := [], lp_outbound := map (told env) ids\<rparr>) =
      Return (?s\<lparr>lp_input := [], lp_outbound := [], lp_written := map (told env) ids\<rparr>)"
    using iterate_write [of "?s\<lparr>lp_input := []\<rparr>" env "map (told env) ids"]
    by (simp add: initial_loop_def)
  ultimately show ?thesis by (simp add: mult_2 iterate_add) (simp add: initial_loop_def)
qed

lemma pipelined_blocked:
  assumes "channel_size < length ids"
  shows "\<exists>s'. iterate env (Suc channel_size) ((initial_loop c sh)\<lparr>lp_input := map ask ids\<rparr>) = Return s' \<and>
    lp_status s' = Blocked \<and> lp_written s' = []"
proof -
  let ?s = "initial_loop c sh :: 'a rpc_loop"
  obtain i where ids: "ids = take channel_size ids @ i # drop (Suc channel_size) ids"
    using id_take_nth_drop [OF assms] by blast
  let ?ids = "take channel_size ids" and ?rest = "ask i # map ask (drop (Suc channel_size) ids)"
  have len: "length ?ids = channel_size" using assms by simp
  have input: "map ask ids = map ask ?ids @ ?rest" by (subst ids) simp
  have "iterate env channel_size (?s\<lparr>lp_input := map ask ids\<rparr>) =
      Return (?s\<lparr>lp_input := ?rest, lp_outbound := map (told env) ?ids\<rparr>)"
    using iterate_ask [of ?s ?ids env ?rest] len unfolding input by (simp add: initial_loop_def)
  moreover have "iterate env 1 (?s\<lparr>lp_input := ?rest, lp_outbound := map (told env) ?ids\<rparr>) =
      Return (?s\<lparr>lp_input := map ask (drop (Suc channel_size) ids),
        lp_outbound := map (told env) ?ids, lp_status := Blocked\<rparr>)"
    using len by (simp add: ask_iteration send_outbound_def initial_loop_def)
  ultimately have "iterate env (channel_size + 1) (?s\<lparr>lp_input := map ask ids\<rparr>) =
      Return (?s\<lparr>lp_input := map ask (drop (Suc channel_size) ids),
        lp_outbound := map (told env) ?ids, lp_status := Blocked\<rparr>)"
    by (simp only: iterate_add and_then.simps)
  then show ?thesis
    unfolding Suc_eq_plus1 by (intro exI conjI, assumption) (simp_all add: initial_loop_def)
qed

text \<open>The node's own requests as they are numbered and written.\<close>

fun numbered :: "u32 \<Rightarrow> outbound_request_data list \<Rightarrow> outbound_frame list" where
  "numbered n [] = []"
| "numbered n (d # ds) = Out_Request n d # numbered (n + 1) ds"

lemma iterate_requests:
  assumes "lp_status s = Running" and "\<not> lp_shutdown s" and "lp_input s = []" and "lp_outbound s = []"
  shows "\<exists>s'. iterate env (2 * length q) (s\<lparr>lp_requests := q\<rparr>) = Return s' \<and> lp_status s' = Running \<and>
    lp_requests s' = [] \<and> lp_written s' = lp_written s @ numbered (lp_requests_counter s) (map fst q)"
  using assms
proof (induction q arbitrary: s)
  case (Cons r q)
  obtain d tx where r: "r = (d, tx)" by (cases r)
  let ?n = "lp_requests_counter s"
  let ?s = "s\<lparr>lp_response_txs := AList.update ?n tx (lp_response_txs s), lp_outbound := [],
    lp_written := lp_written s @ [Out_Request ?n d], lp_requests_counter := ?n + 1\<rparr>"
  obtain s' where "iterate env (2 * length q) (?s\<lparr>lp_requests := q\<rparr>) = Return s'"
    "lp_status s' = Running" "lp_requests s' = []"
    "lp_written s' = lp_written ?s @ numbered (?n + 1) (map fst q)"
    using Cons.IH [of ?s] Cons.prems by auto
  moreover have "iterate env 2 (s\<lparr>lp_requests := (d, tx) # q\<rparr>) = Return (?s\<lparr>lp_requests := q\<rparr>)"
    using Cons.prems
    by (simp add: numeral_2_eq_2 loop_iteration_def outbound_request_branch_room)
  moreover have "2 * length (r # q) = 2 + 2 * length q" by simp
  ultimately show ?case unfolding r by (simp only: iterate_add and_then.simps) simp
qed simp

section \<open>Properties\<close>


definition demo_shared :: shared_state where
  "demo_shared = \<lparr>sh_provider = initial_provider_state 0, sh_db = empty_database\<rparr>"

definition demo_env :: "bytes rpc_env" where
  "demo_env = \<lparr>env_crypto = plain_crypto, env_sign = id, env_pick = hd, env_from_str = (\<lambda>_. None),
     env_me = PeerId [1], env_now = 0\<rparr>"

text \<open>A run in which another task's request is sent, answered and the answer delivered.\<close>

definition demo_request :: outbound_request_data where
  "demo_request = ProviderOpenJobConnection 1 ''n''"

lemma demo_run:
  "\<exists>s. loop_run demo_env (initial_loop 0 demo_shared) s \<and>
     lp_delivered s = [((demo_request, 5 :: nat), Ack)]"
proof -
  let ?s0 = "initial_loop 0 demo_shared :: nat rpc_loop"
  let ?s1 = "?s0\<lparr>lp_requests := lp_requests ?s0 @ [new_envelope demo_request 5]\<rparr>"
  let ?s2 = "?s0\<lparr>lp_requests := [], lp_response_txs := [(0, Some (demo_request, 5))],
    lp_outbound := [Out_Request 0 demo_request], lp_requests_counter := 1\<rparr>"
  let ?s3 = "?s2\<lparr>lp_input := lp_input ?s2 @ [Socket_Frame (In_Response 0 Ack)]\<rparr>"
  let ?s4 = "?s3\<lparr>lp_input := [], lp_response_txs := [], lp_delivered := [((demo_request, 5), Ack)]\<rparr>"
  have "loop_step demo_env ?s0 ?s1"
    by (rule loop_step.task_request) (simp add: initial_loop_def channel_size_def)
  moreover have "loop_iteration (demo_env\<lparr>env_now := 0\<rparr>) ?s1 = Return ?s2"
    by (simp add: initial_loop_def loop_iteration_def new_envelope_def outbound_request_branch_room)
  then have "loop_step demo_env ?s1 ?s2" by (rule loop_step.own [rotated]) (simp add: initial_loop_def)
  moreover have "loop_step demo_env ?s2 ?s3" by (rule loop_step.arrive)
  moreover have "loop_iteration (demo_env\<lparr>env_now := 0\<rparr>) ?s3 = Return ?s4"
    by (simp add: initial_loop_def loop_iteration_def response_branch_def)
  then have "loop_step demo_env ?s3 ?s4" by (rule loop_step.own [rotated]) (simp add: initial_loop_def)
  ultimately have "loop_run demo_env ?s0 ?s4" by (meson loop_run.intros)
  then show ?thesis by (intro exI [of _ ?s4]) simp
qed




text \<open>C36: an idle connection passes an event on to up to 16 subscriptions, as requests with consecutive
  numbers. If more than 16 subscriptions match, the task blocks for good and none of them
  hears of the event.\<close>

theorem fan_out_limit:
  assumes "lp_status s = Running" and "\<not> lp_shutdown s" and "lp_input s = []"
    and "lp_outbound s = []" and "lp_requests s = []" and "lp_events s = [e]"
    and "fs = event_frames (subscription_map (cn_subscriptions (lp_connection s))) e"
  shows "(length fs \<le> channel_size \<longrightarrow>
      (\<exists>s'. iterate env (1 + 2 * length fs) s = Return s' \<and> lp_status s' = Running \<and>
        lp_written s' = lp_written s @ numbered (lp_requests_counter s) fs)) \<and>
    (channel_size < length fs \<longrightarrow>
      (\<exists>s'. iterate env 1 s = Return s' \<and>
        (\<forall>s''. loop_run env s' s'' \<longrightarrow> lp_status s'' = Blocked \<and> lp_written s'' = lp_written s)))"
proof -
  let ?q = "map (\<lambda>f. (f, None)) fs"
  let ?s = "s\<lparr>lp_events := []\<rparr>"
  have one: "iterate env 1 s = Return (event_branch e ?s)"
    using assms(1-6) by (simp add: loop_iteration_def)
  have "\<exists>s'. iterate env (1 + 2 * length fs) s = Return s' \<and> lp_status s' = Running \<and>
      lp_written s' = lp_written s @ numbered (lp_requests_counter s) fs" if "length fs \<le> channel_size"
  proof -
    have "event_branch e ?s = ?s\<lparr>lp_requests := ?q\<rparr>"
      using that assms(5,7) by (simp add: event_branch_def)
    moreover obtain s' where "iterate env (2 * length ?q) (?s\<lparr>lp_requests := ?q\<rparr>) = Return s'"
      "lp_status s' = Running"
      "lp_written s' = lp_written ?s @ numbered (lp_requests_counter ?s) fs"
      using iterate_requests [of ?s env ?q] assms(1-4) by (auto simp: comp_def)
    ultimately show ?thesis
      using one by (simp only: iterate_add and_then.simps length_map) (auto simp: comp_def)
  qed
  moreover have "lp_status (event_branch e ?s) = Blocked \<and> lp_written (event_branch e ?s) = lp_written s"
    if "channel_size < length fs"
    using that assms(5,7) by (simp add: event_branch_def)
  ultimately show ?thesis using one blocked_forever by metis
qed

definition crowded :: "nat rpc_loop" where
  "crowded = (initial_loop 0 demo_shared)
     \<lparr>lp_events := [ProviderHeartbeat \<lparr>ph_peer_id = PeerId [2], ph_latest_heartbeat_at = 5\<rparr>],
      lp_connection := (open_connection 0)\<lparr>cn_subscriptions := \<lparr>subscriptions_counter = 17,
        subscription_map = map (\<lambda>i. (of_nat i, Sub_ActiveProviders)) [0..<17]\<rparr>\<rparr>\<rparr>"

theorem fan_out_limit_witness:
  "\<exists>s'. iterate demo_env 1 crowded = Return s' \<and>
     (\<forall>s''. loop_run demo_env s' s'' \<longrightarrow> lp_status s'' = Blocked \<and> lp_written s'' = [])"
proof -
  let ?e = "ProviderHeartbeat \<lparr>ph_peer_id = PeerId [2], ph_latest_heartbeat_at = 5\<rparr>"
  have frames: "length (event_frames (map (\<lambda>i. (of_nat i, Sub_ActiveProviders)) is) ?e) = length is"
    for "is" :: "nat list"
    by (induction "is") (simp_all add: event_frames_def map_filter_simps subscription_frame_def)
  show ?thesis
    using fan_out_limit [of crowded ?e _ demo_env] frames [of "[0..<17]"]
    by (simp add: crowded_def initial_loop_def channel_size_def del: upt_rec_numeral iterate.simps)
qed

end
