(* ===== verification/Rpc_Progress.thy ===== *)
theory Rpc_Progress
  imports Rpc_Connection_Properties
begin

text \<open>
  Progress of the task of an RPC connection: left alone it comes to rest after a number of
  iterations linear in what is waiting for it, and a request is answered by a response of
  its own kind.
\<close>

section \<open>The work that is waiting\<close>

text \<open>
  A request to the client costs two iterations (it is numbered, then written); an event may
  turn into 16 of them; a frame of the client may leave one response and one event.
\<close>

definition loop_cost :: "'t rpc_loop \<Rightarrow> nat" where
  "loop_cost s = (if lp_shutdown s then 1 else 0) + 35 * length (lp_input s) +
     33 * length (lp_events s) + 2 * length (lp_requests s) + length (lp_outbound s)"

text \<open>At rest: not running any more, or nothing is waiting.\<close>

definition loop_settled :: "'t rpc_loop \<Rightarrow> bool" where
  "loop_settled s \<longleftrightarrow> lp_status s \<noteq> Running \<or>
     \<not> lp_shutdown s \<and> lp_input s = [] \<and> lp_outbound s = [] \<and> lp_requests s = [] \<and> lp_events s = []"

lemma loop_settled_iteration: "loop_settled s \<Longrightarrow> iterate env n s = Return s"
proof (induction n)
  case (Suc n)
  then show ?case by (auto simp: loop_settled_def loop_iteration_def)
qed simp

lemma broadcast_length_le: "length (broadcast e es) \<le> Suc (length es)"
  by (simp add: broadcast_def)

lemma request_branchE:
  assumes "request_branch env i data s = Return s'"
  obtains cn sh effect event where
    "handle_inbound_request env data (lp_connection s) (lp_shared s) = Return (cn, sh, effect, event)"
    "request_branch env i data s = Return s'"
  using assms by (auto simp: request_branch_def)

lemma send_outbound_cost:
  "lp_shutdown (send_outbound f s) = lp_shutdown s" "lp_input (send_outbound f s) = lp_input s"
  "lp_requests (send_outbound f s) = lp_requests s" "lp_events (send_outbound f s) = lp_events s"
  "length (lp_outbound (send_outbound f s)) \<le> Suc (length (lp_outbound s))"
  by (simp_all add: send_outbound_def)

lemma request_branch_cost:
  assumes "request_branch env i data s = Return s'"
  shows "lp_shutdown s' = lp_shutdown s" and "lp_input s' = lp_input s"
    and "lp_requests s' = lp_requests s" and "length (lp_events s') \<le> Suc (length (lp_events s))"
    and "length (lp_outbound s') \<le> Suc (length (lp_outbound s))"
proof -
  obtain cn sh effect event where h:
    "handle_inbound_request env data (lp_connection s) (lp_shared s) = Return (cn, sh, effect, event)"
    using assms by (rule request_branchE)
  define es where "es = (case event of None \<Rightarrow> lp_events s | Some e \<Rightarrow> broadcast e (lp_events s))"
  have es: "length es \<le> Suc (length (lp_events s))"
    using broadcast_length_le by (cases event) (simp_all add: es_def)
  have "lp_shutdown s' = lp_shutdown s \<and> lp_input s' = lp_input s \<and> lp_requests s' = lp_requests s \<and>
      lp_events s' = es \<and> length (lp_outbound s') \<le> Suc (length (lp_outbound s))"
    using assms unfolding request_branch_def h and_then.simps es_def [symmetric] prod.case Let_def
    by (cases effect) (auto simp: send_outbound_def split: if_splits)
  with es show "lp_shutdown s' = lp_shutdown s" and "lp_input s' = lp_input s"
    and "lp_requests s' = lp_requests s" and "length (lp_events s') \<le> Suc (length (lp_events s))"
    and "length (lp_outbound s') \<le> Suc (length (lp_outbound s))" by simp_all
qed

lemma response_branch_cost:
  "lp_shutdown (response_branch i data s) = lp_shutdown s"
  "lp_input (response_branch i data s) = lp_input s"
  "lp_requests (response_branch i data s) = lp_requests s"
  "lp_events (response_branch i data s) = lp_events s"
  "lp_outbound (response_branch i data s) = lp_outbound s"
  by (simp_all add: response_branch_def split: option.split)

text \<open>Every iteration of a task with work left does some of it, or the task stops.\<close>

lemma iteration_cost:
  assumes "lp_status s = Running" and "\<not> loop_settled s" and "loop_iteration env s = Return s'"
  shows "lp_status s' \<noteq> Running \<or> loop_cost s' < loop_cost s"
proof (cases "lp_shutdown s")
  case True
  with assms(3) show ?thesis by (auto simp: loop_iteration_def)
next
  case alive: False
  show ?thesis
  proof (cases "lp_input s")
    case (Cons item input)
    show ?thesis
    proof (cases item)
      case (Socket_Frame f)
      show ?thesis
      proof (cases f)
        case (In_Request i data)
        with assms(3) alive Cons Socket_Frame
        have "request_branch env i data (s\<lparr>lp_input := input\<rparr>) = Return s'"
          by (simp add: loop_iteration_def)
        from request_branch_cost [OF this] alive Cons show ?thesis by (simp add: loop_cost_def)
      next
        case (In_Response i data)
        with assms(3) alive Cons Socket_Frame
        have "s' = response_branch i data (s\<lparr>lp_input := input\<rparr>)" by (simp add: loop_iteration_def)
        with alive Cons show ?thesis by (simp add: loop_cost_def response_branch_cost)
      qed
    qed (use assms(3) alive Cons in \<open>auto simp: loop_iteration_def loop_cost_def\<close>)
  next
    case input: Nil
    show ?thesis
    proof (cases "lp_outbound s")
      case (Cons f fs)
      with assms(3) alive input show ?thesis by (auto simp: loop_iteration_def loop_cost_def)
    next
      case out: Nil
      show ?thesis
      proof (cases "lp_requests s")
        case (Cons r rs)
        obtain d tx where r: "r = (d, tx)" by (cases r)
        with assms(1,3) alive input out Cons show ?thesis
          by (auto simp: loop_iteration_def outbound_request_branch_room loop_cost_def)
      next
        case reqs: Nil
        obtain e es where e: "lp_events s = e # es"
          using assms(1,2) alive input out reqs by (cases "lp_events s") (auto simp: loop_settled_def)
        let ?s = "s\<lparr>lp_events := es\<rparr>"
        have s': "s' = event_branch e ?s"
          using assms(3) alive input out reqs e by (simp add: loop_iteration_def)
        show ?thesis
        proof (cases "lp_status s' = Running")
          case True
          then have "length (lp_requests s') \<le> 16" "lp_outbound s' = []" "lp_input s' = []"
            "lp_events s' = es" "\<not> lp_shutdown s'"
            using assms(1) alive input out
            by (auto simp: s' event_branch_def Let_def channel_size_def split: if_splits)
          then show ?thesis using alive input out reqs e by (simp add: loop_cost_def)
        qed simp
      qed
    qed
  qed
qed

lemma iterate_settles:
  "loop_cost s \<le> n \<Longrightarrow> iterate env n s = Panic \<or> (\<exists>s'. iterate env n s = Return s' \<and> loop_settled s')"
proof (induction n arbitrary: s)
  case 0
  then have "loop_settled s" by (auto simp: loop_cost_def loop_settled_def split: if_splits)
  then show ?case by simp
next
  case (Suc n)
  show ?case
  proof (cases "loop_settled s")
    case True
    then show ?thesis using loop_settled_iteration [OF True] by blast
  next
    case False
    then have run: "lp_status s = Running" by (auto simp: loop_settled_def)
    show ?thesis
    proof (cases "loop_iteration env s")
      case (Return s1)
      from iteration_cost [OF run False Return] show ?thesis
      proof
        assume "lp_status s1 \<noteq> Running"
        then have "loop_settled s1" by (simp add: loop_settled_def)
        with Return run loop_settled_iteration show ?thesis by auto
      next
        assume "loop_cost s1 < loop_cost s"
        with Suc Return run show ?thesis by auto
      qed
    qed (use run in simp)
  qed
qed

section \<open>Kinds of answers\<close>

text \<open>The response, or the request to a peer, that belongs to a request of the client.\<close>

definition answers :: "inbound_request_data \<Rightarrow> outbound_response_data \<Rightarrow> bool" where
  "answers data r =
     (case data of
        FailJob _ \<Rightarrow> (case r of R_FailJob _ \<Rightarrow> True | _ \<Rightarrow> False)
      | ConsumerCompleteJob _ \<Rightarrow> (case r of R_ConsumerCompleteJob _ \<Rightarrow> True | _ \<Rightarrow> False)
      | ConsumerCreateJob _ \<Rightarrow> (case r of R_ConsumerCreateJob _ \<Rightarrow> True | _ \<Rightarrow> False)
      | ConsumerGetJob _ \<Rightarrow> (case r of R_ConsumerGetJob _ \<Rightarrow> True | _ \<Rightarrow> False)
      | ConsumerOpenJobConnection _ \<Rightarrow> (case r of R_ConsumerOpenJobConnection _ \<Rightarrow> True | _ \<Rightarrow> False)
      | ProviderCompleteJob _ \<Rightarrow> (case r of R_ProviderCompleteJob _ \<Rightarrow> True | _ \<Rightarrow> False)
      | ProviderProvide _ \<Rightarrow> (case r of R_ProviderProvide _ \<Rightarrow> True | _ \<Rightarrow> False)
      | QueryJobs _ \<Rightarrow> (case r of R_QueryJobs _ \<Rightarrow> True | _ \<Rightarrow> False)
      | QueryOfferSnapshots _ \<Rightarrow> (case r of R_QueryOfferSnapshots _ \<Rightarrow> True | _ \<Rightarrow> False)
      | QueryActiveProviders \<Rightarrow> (case r of R_QueryActiveProviders _ \<Rightarrow> True | _ \<Rightarrow> False)
      | QueryActiveOffers _ \<Rightarrow> (case r of R_QueryActiveOffers _ \<Rightarrow> True | _ \<Rightarrow> False)
      | QueryProviders _ \<Rightarrow> (case r of R_QueryProviders _ \<Rightarrow> True | _ \<Rightarrow> False)
      | QuerySystem \<Rightarrow> (case r of R_QuerySystem _ \<Rightarrow> True | _ \<Rightarrow> False)
      | CancelSubscription _ \<Rightarrow> (case r of R_CancelSubscription _ \<Rightarrow> True | _ \<Rightarrow> False)
      | SubscribeToActiveOffers _ \<Rightarrow> (case r of R_SubscribeToActiveOffers _ \<Rightarrow> True | _ \<Rightarrow> False)
      | SubscribeToActiveProviders \<Rightarrow> (case r of R_SubscribeToActiveProviders _ \<Rightarrow> True | _ \<Rightarrow> False)
      | SubscribeToJobs _ \<Rightarrow> (case r of R_SubscribeToJobs _ \<Rightarrow> True | _ \<Rightarrow> False))"

definition forwards :: "inbound_request_data \<Rightarrow> inbound_effect \<Rightarrow> bool" where
  "forwards data effect =
     (case (data, effect) of
        (ConsumerCreateJob _, Spawn_Create _ (CreateJob _) _) \<Rightarrow> True
      | (ConsumerGetJob _, Await_Get _ (GetJob _)) \<Rightarrow> True
      | (ConsumerOpenJobConnection _, Spawn_Open _ _) \<Rightarrow> True
      | _ \<Rightarrow> False)"

lemma effect_kind:
  assumes "handle_inbound_request env data cn sh = Return (cn', sh', effect, event)"
  shows "case effect of Respond r \<Rightarrow> answers data r | _ \<Rightarrow> forwards data effect"
  using assms
  by (cases data) (auto simp: handle_inbound_request_def respond_def Let_def
      answers_def forwards_def
      consumer_create_job_start_def consumer_get_job_start_def
      split: prod.splits sum.splits option.splits if_splits)

section \<open>Properties\<close>

text \<open>C16: the task of a connection that gets nothing new comes to rest: after at most \<open>loop_cost\<close>
  iterations, a number linear in the frames, requests and events that were waiting, it has
  panicked, or it sleeps with nothing left to do, has closed, or waits in one of the
  handlers; and there it stays.\<close>

theorem connection_task_settles:
  "iterate env (loop_cost s) s = Panic \<or>
   (\<exists>s'. loop_settled s' \<and> (\<forall>n. iterate env (loop_cost s + n) s = Return s'))"
proof (cases "iterate env (loop_cost s) s = Panic")
  case False
  then obtain s' where s': "iterate env (loop_cost s) s = Return s'" "loop_settled s'"
    using iterate_settles [OF order_refl, of env s] by blast
  then have "iterate env (loop_cost s + n) s = Return s'" for n
    by (simp add: iterate_add loop_settled_iteration)
  with s'(2) show ?thesis by blast
qed simp



end
