(* ===== verification/Peers.thy ===== *)
theory Peers
  imports Consumer
begin

text \<open>
  The peers known from mDNS (\<open>P2pState::peers\<close>, \<open>src/src/state.rs\<close>), kept by the event
  handler of \<open>src/src/p2p.rs\<close> and read by the job confirmation loop. The specification is
  the set of the addresses that are known and not expired.
\<close>

section \<open>Operations\<close>

text \<open>A \<open>HashSet\<close> of addresses is a list without duplicates; \<open>'a\<close> are the addresses.\<close>

type_synonym 'a discovered = "(peer_id, 'a list) hash_map"

datatype 'a mdns_event =
    Discovered "(peer_id \<times> 'a) list"
  | Expired "(peer_id \<times> 'a) list"

definition discover_address :: "peer_id \<times> 'a \<Rightarrow> 'a discovered \<Rightarrow> 'a discovered" where
  "discover_address item m =
     (case item of (peer_id, address) \<Rightarrow>
        AList.update peer_id
          (List.insert address (case map_of m peer_id of Some x \<Rightarrow> x | None \<Rightarrow> [])) m)"

text \<open>An expired address of a peer that is not in the map is a panic (\<open>get_mut(..).unwrap()\<close>).\<close>

definition expire_address :: "peer_id \<times> 'a \<Rightarrow> 'a discovered \<Rightarrow> 'a discovered outcome" where
  "expire_address item m =
     (case item of (peer_id, address) \<Rightarrow>
        (case map_of m peer_id of
           None \<Rightarrow> Panic
         | Some addresses \<Rightarrow>
             (let rest = removeAll address addresses
              in Return (if rest = [] then AList.delete peer_id m else AList.update peer_id rest m))))"

fun handle_mdns_event :: "'a mdns_event \<Rightarrow> 'a discovered \<Rightarrow> 'a discovered outcome" where
  "handle_mdns_event (Discovered items) m = Return (fold discover_address items m)"
| "handle_mdns_event (Expired items) m = fold_outcome expire_address items m"

section \<open>Specification\<close>

definition known :: "'a discovered \<Rightarrow> (peer_id \<times> 'a) set" where
  "known m = {(p, a). \<exists>as. map_of m p = Some as \<and> a \<in> set as}"

definition peers_ok :: "'a discovered \<Rightarrow> bool" where
  "peers_ok m \<longleftrightarrow> (\<forall>p as. map_of m p = Some as \<longrightarrow> as \<noteq> [])"

fun known_step :: "'a mdns_event \<Rightarrow> (peer_id \<times> 'a) set \<Rightarrow> (peer_id \<times> 'a) set" where
  "known_step (Discovered items) k = k \<union> set items"
| "known_step (Expired items) k = k - set items"

text \<open>What libp2p guarantees: an address expires once, and only after it was discovered.\<close>

fun mdns_allowed :: "'a mdns_event \<Rightarrow> 'a discovered \<Rightarrow> bool" where
  "mdns_allowed (Discovered items) m \<longleftrightarrow> True"
| "mdns_allowed (Expired items) m \<longleftrightarrow> distinct items \<and> set items \<subseteq> known m"

lemma known_peer: "peers_ok m \<Longrightarrow> map_of m p \<noteq> None \<longleftrightarrow> (\<exists>a. (p, a) \<in> known m)"
  unfolding peers_ok_def known_def by (auto simp: ex_in_conv)

lemma discover_known:
  "peers_ok m \<Longrightarrow> peers_ok (discover_address e m) \<and> known (discover_address e m) = insert e (known m)"
  by (cases e) (auto simp: discover_address_def peers_ok_def known_def List.insert_def
      split: option.splits if_splits)

lemma discover_all:
  "peers_ok m \<Longrightarrow> peers_ok (fold discover_address es m) \<and>
     known (fold discover_address es m) = known m \<union> set es"
  by (induction es arbitrary: m) (simp_all add: discover_known)

lemma known_expired:
  fixes m :: "'a discovered"
  assumes "map_of m p = Some as"
  shows "known (if removeAll a as = [] then AList.delete p m else AList.update p (removeAll a as) m) =
    known m - {(p, a)}"
proof (rule set_eqI)
  fix e :: "peer_id \<times> 'a"
  obtain q b where e: "e = (q, b)" by (cases e)
  have rest: "b \<in> set (removeAll a as) \<longleftrightarrow> b \<in> set as \<and> b \<noteq> a" by auto
  show "e \<in> known (if removeAll a as = [] then AList.delete p m else AList.update p (removeAll a as) m) \<longleftrightarrow>
    e \<in> known m - {(p, a)}"
  proof (cases "q = p")
    case True
    show ?thesis
    proof (cases "removeAll a as = []")
      case empty: True
      with rest have "b \<in> set as \<longrightarrow> b = a" by simp
      with True empty assms show ?thesis by (simp add: known_def e map_of_delete_eq)
    next
      case False
      with True assms rest show ?thesis by (simp add: known_def e)
    qed
  next
    case False
    then show ?thesis by (simp add: known_def e map_of_delete_eq)
  qed
qed

text \<open>Expiry as a keyed loop: each item takes exactly its own address away.\<close>

interpretation expire_loop: keyed_loop expire_address peers_ok "\<lambda>e. e" "\<lambda>m e. e \<in> known m"
    "\<lambda>e c. c" "\<lambda>e c c'. \<not> c'"
proof unfold_locales
  fix m :: "'a discovered" and e :: "peer_id \<times> 'a"
  assume ok: "peers_ok m" and "e \<in> known m"
  then obtain p a as where e: "e = (p, a)" "map_of m p = Some as" "a \<in> set as"
    by (auto simp: known_def)
  let ?rest = "removeAll a as"
  let ?m = "if ?rest = [] then AList.delete p m else AList.update p ?rest m"
  have "expire_address e m = Return ?m" using e by (simp add: expire_address_def Let_def)
  moreover have "peers_ok ?m" using ok by (auto simp: peers_ok_def map_of_delete_eq split: if_splits)
  moreover have "known ?m = known m - {e}" by (rule known_expired [OF e(2), of a, folded e(1)])
  ultimately show "\<exists>m'. expire_address e m = Return m' \<and> peers_ok m' \<and> e \<notin> known m' \<and>
      (\<forall>k. k \<noteq> e \<longrightarrow> (k \<in> known m') = (k \<in> known m))"
    by (intro exI [of _ ?m]) auto
qed

lemma expire_all:
  assumes "peers_ok m" and "distinct es" and "set es \<subseteq> known m"
  shows "\<exists>m'. fold_outcome expire_address es m = Return m' \<and> peers_ok m' \<and> known m' = known m - set es"
proof -
  obtain m' where "fold_outcome expire_address es m = Return m'" "peers_ok m'"
    "\<forall>e \<in> set es. e \<notin> known m'" "\<forall>k. k \<notin> set es \<longrightarrow> (k \<in> known m') = (k \<in> known m)"
    using expire_loop.loop_cells [of m es] assms by auto
  moreover from this(3,4) have "known m' = known m - set es" by auto
  ultimately show ?thesis by blast
qed

interpretation mdns: refined_system handle_mdns_event peers_ok mdns_allowed known known_step
proof unfold_locales
  fix m :: "'a discovered" and e s'
  assume m: "peers_ok m" "mdns_allowed e m"
  then have run: "\<exists>m'. handle_mdns_event e m = Return m' \<and> peers_ok m' \<and> known m' = known_step e (known m)"
    using discover_all [OF m(1)] expire_all [OF m(1)] by (cases e) simp_all
  then show "\<exists>m'. handle_mdns_event e m = Return m' \<and> peers_ok m'" by blast
  assume "handle_mdns_event e m = Return s'"
  with run show "known s' = known_step e (known m)" by simp
qed

section \<open>Properties\<close>

text \<open>C33: the peer map holds exactly the addresses that were discovered and have not expired, as long as
  addresses only expire after they were discovered: no event panics, and the job confirmation
  loop sends a confirmation to exactly the Providers with a known address.\<close>

theorem peers_track_addresses:
  assumes "legal_run handle_mdns_event mdns_allowed es []"
  shows "\<exists>m. fold_outcome handle_mdns_event es [] = Return m \<and> known m = fold known_step es {} \<and>
    (\<forall>me db jobs. query_unconfirmed_jobs db me = Return jobs \<longrightarrow>
      job_confirmation_round me m db =
        Return (filter (\<lambda>u. \<exists>a. (uj_provider_peer_id u, a) \<in> fold known_step es {}) jobs))"
proof -
  have start: "peers_ok []" "known ([] :: 'a discovered) = {}"
    by (simp_all add: peers_ok_def known_def)
  obtain m where m: "fold_outcome handle_mdns_event es [] = Return m" "peers_ok m"
    "known m = fold known_step es {}"
    using mdns.run_abstract [OF start(1) assms] start(2) by auto
  then have "job_confirmation_round me m db =
      Return (filter (\<lambda>u. \<exists>a. (uj_provider_peer_id u, a) \<in> fold known_step es {}) jobs)"
    if "query_unconfirmed_jobs db me = Return jobs" for me db jobs
    using that known_peer [OF m(2)]
    by (simp add: job_confirmation_round_def m(3) [symmetric] del: not_None_eq)
  with m show ?thesis by blast
qed

theorem peers_track_addresses_witness:
  "\<exists>m. fold_outcome handle_mdns_event [Discovered [(PeerId [1], 7), (PeerId [1], 8)],
      Expired [(PeerId [1], 7)], Discovered [(PeerId [2], 9 :: nat)]] [] = Return m \<and>
    known m = {(PeerId [1], 8), (PeerId [2], 9)}"
proof -
  let ?es = "[Discovered [(PeerId [1], 7), (PeerId [1], 8)], Expired [(PeerId [1], 7)],
      Discovered [(PeerId [2], 9 :: nat)]]"
  have "legal_run handle_mdns_event mdns_allowed ?es []"
    by (simp add: known_def discover_address_def expire_address_def)
  from peers_track_addresses [OF this] obtain m where
    "fold_outcome handle_mdns_event ?es [] = Return m" "known m = fold known_step ?es {}" by blast
  moreover have "fold known_step ?es {} = {(PeerId [1], 8), (PeerId [2], 9)}" by auto
  ultimately show ?thesis by metis
qed

end
