(* ===== verification/Provider_System.thy ===== *)
theory Provider_System
  imports Provider_State
begin

text \<open>
  The offers of a node over the life of its RPC connections: any number of connections that
  open, provide offers and close. The specification is a notice board: which connection
  offers what.
\<close>

section \<open>Connections\<close>

text \<open>
  \<open>ps_connections\<close> holds the \<open>provider_module_id\<close> of every open connection
  (\<open>Connection\<close>, \<open>src/src/rpc/connection.rs\<close>).
\<close>

record provider_system =
  ps_provider :: provider_state
  ps_db :: database
  ps_connections :: "(nat, u32 option) hash_map"

datatype provider_op =
    Open_Connection nat
  | Provide_Offer nat provider_provide_request
  | Close_Connection nat

text \<open>Each operation comes with the reading of the clock.\<close>

fun provider_step ::
  "(snapshot_row list \<Rightarrow> snapshot_row) \<Rightarrow> peer_id \<Rightarrow> provider_op \<times> datetime \<Rightarrow> provider_system \<Rightarrow>
     provider_system outcome" where
  "provider_step pick me (Open_Connection c, now) s =
     Return (s\<lparr>ps_connections := AList.update c None (ps_connections s)\<rparr>)"
| "provider_step pick me (Provide_Offer c r, now) s =
     (case map_of (ps_connections s) c of
        None \<Rightarrow> Return s
      | Some mid \<Rightarrow>
          and_then (handle_provider_provide pick me now c (pp_protocol_id r) (pp_offer_id r)
              (pp_protocol_payload r) (ps_provider s) (ps_db s) mid)
            (\<lambda>(st', db', mid', response). Return (s\<lparr>ps_provider := st', ps_db := db',
               ps_connections := AList.update c mid' (ps_connections s)\<rparr>)))"
| "provider_step pick me (Close_Connection c, now) s =
     (case map_of (ps_connections s) c of
        None \<Rightarrow> Return s
      | Some None \<Rightarrow> Return (s\<lparr>ps_connections := AList.delete c (ps_connections s)\<rparr>)
      | Some (Some i) \<Rightarrow>
          and_then (close_provider_module now i (ps_provider s))
            (\<lambda>st'. Return (s\<lparr>ps_provider := st',
               ps_connections := AList.delete c (ps_connections s)\<rparr>)))"

section \<open>Module IDs\<close>

interpretation module_ids: id_source module_ids_counter "\<lambda>st. fst ` set (modules st)"
    "new_module conn" module_ids_counter for conn
  by unfold_locales
    (simp_all add: new_module_def Let_def dom_update image_comp flip: dom_map_of_conv_image_fst)

lemma module_ids_below:
  "module_ids.below st \<longleftrightarrow> (\<forall>i. map_of (modules st) i \<noteq> None \<longrightarrow> i < module_ids_counter st)"
  by (auto simp: module_ids.below_def map_of_eq_None_iff)

section \<open>The invariant\<close>

text \<open>
  The maps are in step, what is offered is on record, and the modules are those of the open
  connections that have provided something.
\<close>

definition system_ok :: "peer_id \<Rightarrow> provider_system \<Rightarrow> bool" where
  "system_ok me s \<longleftrightarrow> provider_ok (ps_provider s) \<and> wf_database (ps_db s) \<and>
     offers_recorded me (ps_provider s) (ps_db s) \<and> module_ids.below (ps_provider s) \<and>
     (\<forall>c i. map_of (ps_connections s) c = Some (Some i) \<longleftrightarrow>
        (\<exists>m. map_of (modules (ps_provider s)) i = Some m \<and> pm_connection m = c))"

text \<open>
  What the environment guarantees: connection numbers are new, requests come on open
  connections, the module counter has not reached its maximum, SQLite reports one of the
  conflicting rows, and a node does not replace a payload that is still on offer.
\<close>

fun provider_op_allowed ::
  "(snapshot_row list \<Rightarrow> snapshot_row) \<Rightarrow> peer_id \<Rightarrow> provider_op \<times> datetime \<Rightarrow> provider_system \<Rightarrow> bool"
where
  "provider_op_allowed pick me (Open_Connection c, now) s \<longleftrightarrow>
     c \<notin> fst ` set (ps_connections s)"
| "provider_op_allowed pick me (Provide_Offer c r, now) s \<longleftrightarrow>
     c \<in> fst ` set (ps_connections s) \<and> module_ids.not_full (ps_provider s) \<and>
     (\<forall>rs. rs \<noteq> [] \<longrightarrow> pick rs \<in> set rs) \<and>
     active_payload (offer_snapshots (ps_db s)) (me, pp_protocol_id r, pp_offer_id r)
       \<in> {None, Some (pp_protocol_payload r)}"
| "provider_op_allowed pick me (Close_Connection c, now) s \<longleftrightarrow> True"

section \<open>The board\<close>

type_synonym board = "string \<times> string \<Rightarrow> (nat \<times> string) option"

text \<open>What a table of modules offers under a key in one module.\<close>

definition offered ::
  "(u32 \<Rightarrow> provider_module option) \<Rightarrow> u32 \<Rightarrow> string \<times> string \<Rightarrow> (nat \<times> string) option" where
  "offered ms i k =
     (case ms i of
        None \<Rightarrow> None
      | Some m \<Rightarrow> map_option (\<lambda>x. (pm_connection m, po_protocol_payload x))
          (nested_get (pm_offers m) (fst k) (snd k)))"

definition board :: "provider_system \<Rightarrow> board" where
  "board s k =
     (case nested_get (offers_module_map (ps_provider s)) (fst k) (snd k) of
        None \<Rightarrow> None
      | Some i \<Rightarrow> offered (map_of (modules (ps_provider s))) i k)"

fun board_step :: "provider_op \<times> datetime \<Rightarrow> board \<Rightarrow> board" where
  "board_step (Open_Connection c, now) b = b"
| "board_step (Provide_Offer c r, now) b =
     (let k = (pp_protocol_id r, pp_offer_id r)
      in if b k = None then b(k \<mapsto> (c, pp_protocol_payload r)) else b)"
| "board_step (Close_Connection c, now) b =
     (\<lambda>k. case b k of None \<Rightarrow> None | Some (c', x) \<Rightarrow> if c' = c then None else Some (c', x))"

lemma board_provided:
  "map_option snd (board s k) = map_option po_protocol_payload (provided (ps_provider s) k)"
  by (simp add: board_def offered_def provided_def option.map_comp comp_def split: option.split)

lemma board_None_iff:
  assumes "provider_ok (ps_provider s)"
  shows "board s (p, o') = None \<longleftrightarrow> nested_get (offers_module_map (ps_provider s)) p o' = None"
  using provider_okD(4) [OF assms, of p o'] by (auto simp: board_def offered_def split: option.splits)

text \<open>\<open>find_offer\<close> answers with the board's entry.\<close>

lemma find_offer_board:
  assumes "provider_ok (ps_provider s)"
  shows "\<exists>r. find_offer (ps_provider s) p o' = Return r \<and>
    map_option (\<lambda>(m, x). (pm_connection m, po_protocol_payload x)) r = board s (p, o')"
proof -
  obtain r where r: "find_offer (ps_provider s) p o' = Return r"
    using find_offer_safe [OF assms, of p o'] by blast
  then have "map_option (\<lambda>(m, x). (pm_connection m, po_protocol_payload x)) r = board s (p, o')"
    by (auto simp: find_offer_def board_def offered_def nested_get_def [of "offers_module_map _"]
        split: option.splits)
  with r show ?thesis by blast
qed

section \<open>Every operation keeps the invariant and acts on the board\<close>

lemma offers_recorded_mono:
  assumes "offers_recorded me st db" and "provided st' = provided st"
    and "snapshot_idents (offer_snapshots db) \<subseteq> snapshot_idents (offer_snapshots db')"
  shows "offers_recorded me st' db'"
  using assms unfolding offers_recorded_def by auto

text \<open>The module a connection provides through, created if this is its first offer.\<close>

definition acquired :: "nat \<Rightarrow> u32 option \<Rightarrow> provider_state \<Rightarrow> provider_state" where
  "acquired conn mid st = (case mid of None \<Rightarrow> new_module conn st | Some _ \<Rightarrow> st)"

definition acquired_id :: "u32 option \<Rightarrow> provider_state \<Rightarrow> u32" where
  "acquired_id mid st = (case mid of None \<Rightarrow> module_ids_counter st | Some i \<Rightarrow> i)"

lemma acquire_moduleD:
  "acquire_module conn mid st = Return (st1, i) \<Longrightarrow>
     st1 = acquired conn mid st \<and> i = acquired_id mid st"
  by (auto simp: acquire_module_def acquired_def acquired_id_def Let_def
      split: option.splits if_splits)

lemma provide_Ok_shape:
  assumes "handle_provider_provide pick me now conn p o' payload st db mid =
    Return (st', db', mid', Provide_Ok)"
  shows "\<exists>m x. map_of (modules (acquired conn mid st)) (acquired_id mid st) = Some m \<and>
    mid' = Some (acquired_id mid st) \<and>
    map_of (modules st') = (map_of (modules (acquired conn mid st)))(acquired_id mid st \<mapsto>
      m\<lparr>pm_offers := nested_insert p o' x (pm_offers m)\<rparr>) \<and>
    offers_module_map st' = nested_insert p o' (acquired_id mid st) (offers_module_map st) \<and>
    module_ids_counter st' = module_ids_counter (acquired conn mid st) \<and>
    po_protocol_payload x = payload"
proof -
  have "offers_module_map (acquired conn mid st) = offers_module_map st"
    by (simp add: acquired_def new_module_def Let_def split: option.split)
  with assms show ?thesis
    by (auto simp: handle_provider_provide_def Let_def dest!: acquire_moduleD
        split: if_splits option.splits)
      (metis provided_offer.select_convs(2))
qed

lemma module_of_connection:
  assumes "system_ok me s" and "map_of (ps_connections s) c = Some mid"
    and "module_ids.not_full (ps_provider s)"
  shows "module_id_ok (ps_provider s) mid"
proof (cases mid)
  case None
  have "module_ids_counter (ps_provider s) \<notin> fst ` set (modules (ps_provider s))"
    using assms(1,3) by (intro module_ids.given_fresh) (simp_all add: system_ok_def)
  with None show ?thesis by (simp add: module_id_ok_def map_of_eq_None_iff)
next
  case (Some i)
  with assms(1,2) have "map_of (modules (ps_provider s)) i \<noteq> None"
    unfolding system_ok_def by auto
  with Some show ?thesis by (simp add: module_id_ok_def)
qed

lemma acquired_connection:
  assumes "system_ok me s" and "map_of (ps_connections s) c = Some mid"
    and "module_ids.not_full (ps_provider s)"
    and "map_of (modules (acquired c mid (ps_provider s))) (acquired_id mid (ps_provider s)) = Some m"
  shows "pm_connection m = c"
    and "map_of (AList.update c (Some (acquired_id mid (ps_provider s))) (ps_connections s)) c' =
        Some (Some i) \<longleftrightarrow>
      (\<exists>m'. map_of (modules (acquired c mid (ps_provider s))) i = Some m' \<and> pm_connection m' = c')"
proof -
  have conns: "map_of (ps_connections s) c' = Some (Some i) \<longleftrightarrow>
      (\<exists>m. map_of (modules (ps_provider s)) i = Some m \<and> pm_connection m = c')" for c' i
    using assms(1) unfolding system_ok_def by blast
  have "pm_connection m = c \<and>
    (map_of (AList.update c (Some (acquired_id mid (ps_provider s))) (ps_connections s)) c' =
        Some (Some i) \<longleftrightarrow>
      (\<exists>m'. map_of (modules (acquired c mid (ps_provider s))) i = Some m' \<and> pm_connection m' = c'))"
  proof (cases mid)
    case None
    let ?i = "module_ids_counter (ps_provider s)"
    have new: "map_of (modules (ps_provider s)) ?i = None"
      using module_of_connection [OF assms(1-3)] None by (simp add: module_id_ok_def)
    have none: "map_of (ps_connections s) c \<noteq> Some (Some i)" for i
      using assms(2) None by simp
    have "pm_connection m = c"
      using assms(4) None by (auto simp: acquired_def acquired_id_def new_module_def Let_def)
    moreover have "(map_of (AList.update c (Some ?i) (ps_connections s)) c' = Some (Some i)) \<longleftrightarrow>
        (\<exists>m'. map_of (modules (new_module c (ps_provider s))) i = Some m' \<and> pm_connection m' = c')"
      using conns [of c' i] new none [of i] by (auto simp: new_module_def Let_def)
    ultimately show ?thesis using None by (simp add: acquired_def acquired_id_def)
  next
    case (Some j)
    then have "map_of (modules (ps_provider s)) j = Some m" "map_of (ps_connections s) c = Some (Some j)"
      using assms(2,4) by (simp_all add: acquired_def acquired_id_def)
    moreover from this have "pm_connection m = c" using conns [of c j] by simp
    ultimately show ?thesis
      using Some conns [of c' i] by (auto simp: acquired_def acquired_id_def)
  qed
  then show "pm_connection m = c"
    and "map_of (AList.update c (Some (acquired_id mid (ps_provider s))) (ps_connections s)) c' =
        Some (Some i) \<longleftrightarrow>
      (\<exists>m'. map_of (modules (acquired c mid (ps_provider s))) i = Some m' \<and> pm_connection m' = c')"
    by blast+
qed

lemma acquired_below:
  assumes "module_ids.below st" and "mid = None \<longrightarrow> module_ids.not_full st"
  shows "module_ids.below (acquired conn mid st)"
  using assms module_ids.alloc_below [of st conn] by (cases mid) (simp_all add: acquired_def)

lemma board_iff:
  assumes "provider_ok (ps_provider s)"
  shows "board s k = Some e \<longleftrightarrow> (\<exists>i. offered (map_of (modules (ps_provider s))) i k = Some e)"
    (is "?L \<longleftrightarrow> ?R")
proof
  show "?L \<Longrightarrow> ?R" by (auto simp: board_def split: option.splits)
next
  assume ?R
  then obtain i where i: "offered (map_of (modules (ps_provider s))) i k = Some e" by blast
  with provider_okD(4) [OF assms, of "fst k" "snd k" i]
  have "nested_get (offers_module_map (ps_provider s)) (fst k) (snd k) = Some i"
    by (auto simp: offered_def split: option.splits)
  with i show ?L by (simp add: board_def)
qed

lemma board_eqI:
  assumes "provider_ok (ps_provider s')"
    and "\<And>k e. (\<exists>i. offered (map_of (modules (ps_provider s'))) i k = Some e) \<longleftrightarrow> b k = Some e"
  shows "board s' = b"
proof (rule ext)
  fix k
  show "board s' k = b k"
    using board_iff [OF assms(1), of k] assms(2) [of k] by (metis option.exhaust)
qed

lemma board_cong: "ps_provider s' = ps_provider s \<Longrightarrow> board s' = board s"
  by (rule ext) (simp only: board_def)

text \<open>Adding an offer to a module adds it to the board.\<close>

lemma offered_added:
  assumes "ms i = Some m"
  shows "offered (ms(i \<mapsto> m\<lparr>pm_offers := nested_insert p o' x (pm_offers m)\<rparr>)) j k =
    (if j = i \<and> k = (p, o') then Some (pm_connection m, po_protocol_payload x) else offered ms j k)"
  using assms by (cases k) (auto simp: offered_def nested_get_insert)

lemma board_added:
  assumes "provider_ok (ps_provider s')" and "ms i = Some m"
    and old: "\<And>k e. (\<exists>j. offered ms j k = Some e) \<longleftrightarrow> b k = Some e"
    and "map_of (modules (ps_provider s')) =
      ms(i \<mapsto> m\<lparr>pm_offers := nested_insert p o' x (pm_offers m)\<rparr>)"
    and "b (p, o') = None"
  shows "board s' = b((p, o') \<mapsto> (pm_connection m, po_protocol_payload x))"
proof (rule board_eqI [OF assms(1)])
  fix k e
  have none: "offered ms j (p, o') = None" for j
    using old [of "(p, o')"] assms(5) by (metis option.exhaust)
  show "(\<exists>j. offered (map_of (modules (ps_provider s'))) j k = Some e) \<longleftrightarrow>
      (b((p, o') \<mapsto> (pm_connection m, po_protocol_payload x))) k = Some e"
    unfolding assms(4) offered_added [where ms = ms and i = i, OF assms(2)] using old [of k e] none by auto
qed

lemma provide_taken:
  assumes "system_ok me s" and "map_of (ps_connections s) c = Some mid"
    and "board s (pp_protocol_id r, pp_offer_id r) \<noteq> None"
  shows "\<exists>s'. provider_step pick me (Provide_Offer c r, now) s = Return s' \<and> system_ok me s' \<and>
    board s' = board s"
proof -
  let ?s' = "s\<lparr>ps_connections := AList.update c mid (ps_connections s)\<rparr>"
  have pok: "provider_ok (ps_provider s)" using assms(1) by (simp add: system_ok_def)
  have "nested_get (offers_module_map (ps_provider s)) (pp_protocol_id r) (pp_offer_id r) \<noteq> None"
    using assms(3) by (simp add: board_None_iff [OF pok])
  then have "provider_step pick me (Provide_Offer c r, now) s = Return ?s'"
    using assms(2) by (simp add: handle_provider_provide_def)
  moreover have "map_of (AList.update c mid (ps_connections s)) = map_of (ps_connections s)"
    using assms(2) by (auto simp: fun_eq_iff)
  with assms(1) have "system_ok me ?s'" by (simp add: system_ok_def)
  moreover have "board ?s' = board s" by (rule board_cong) simp
  ultimately show ?thesis by blast
qed

lemma provide_free:
  assumes ok: "system_ok me s" and mid: "map_of (ps_connections s) c = Some mid"
    and allowed: "provider_op_allowed pick me (Provide_Offer c r, now) s"
    and free: "board s (pp_protocol_id r, pp_offer_id r) = None"
  shows "\<exists>s'. provider_step pick me (Provide_Offer c r, now) s = Return s' \<and> system_ok me s' \<and>
    board s' = (board s)((pp_protocol_id r, pp_offer_id r) \<mapsto> (c, pp_protocol_payload r))"
proof -
  let ?p = "pp_protocol_id r" and ?o = "pp_offer_id r" and ?x = "pp_protocol_payload r"
  let ?st = "ps_provider s"
  have pok: "provider_ok ?st" and wf: "wf_database (ps_db s)"
    and rec: "offers_recorded me ?st (ps_db s)" and below: "module_ids.below ?st"
    using ok by (simp_all add: system_ok_def)
  have nf: "module_ids.not_full ?st" using allowed by simp
  note idok = module_of_connection [OF ok mid nf]
  have None: "nested_get (offers_module_map ?st) ?p ?o = None"
    using free by (simp add: board_None_iff [OF pok])
  obtain db' rid where up: "upsert pick (ps_db s) me ?o ?p ?x = Return (db', rid)" "wf_database db'"
    "snapshot_idents (offer_snapshots (ps_db s)) \<subseteq> snapshot_idents (offer_snapshots db')"
    "(rid, (me, ?p, ?o), ?x) \<in> snapshot_idents (offer_snapshots db')"
    using upsert_run [OF wf, of pick me ?p ?o ?x] allowed by auto
  obtain st' i where st': "handle_provider_provide pick me now c ?p ?o ?x ?st (ps_db s) mid =
      Return (st', db', Some i, Provide_Ok)" "provider_ok st'"
    "provided st' = (provided ?st)((?p, ?o) \<mapsto> \<lparr>po_snapshot_rowid = rid, po_protocol_payload = ?x\<rparr>)"
    using handle_provider_provide_new [OF pok idok None up(1)] by blast
  let ?a = "acquired c mid ?st" and ?i = "acquired_id mid ?st"
  obtain m x where m: "map_of (modules ?a) ?i = Some m" "i = ?i"
    "map_of (modules st') = (map_of (modules ?a))(?i \<mapsto>
      m\<lparr>pm_offers := nested_insert ?p ?o x (pm_offers m)\<rparr>)"
    "module_ids_counter st' = module_ids_counter ?a" "po_protocol_payload x = ?x"
    using provide_Ok_shape [OF st'(1)] by auto
  note acq = acquired_connection [OF ok mid nf m(1)]
  let ?s' = "s\<lparr>ps_provider := st', ps_db := db',
    ps_connections := AList.update c (Some i) (ps_connections s)\<rparr>"
  have "module_ids.below st'"
    using acquired_below [OF below, of mid c] nf m(1,3,4) unfolding module_ids_below by auto
  moreover have "offers_recorded me st' db'"
    using rec up(3,4) unfolding offers_recorded_def st'(3) by auto
  moreover have "map_of (ps_connections ?s') c' = Some (Some j) \<longleftrightarrow>
      (\<exists>m. map_of (modules st') j = Some m \<and> pm_connection m = c')" for c' j
    using acq(2) [of c' j] m(1) by (auto simp: m(2,3))
  ultimately have "system_ok me ?s'" using st'(2) up(2) by (simp add: system_ok_def)
  moreover have "board ?s' = (board s)((?p, ?o) \<mapsto> (pm_connection m, po_protocol_payload x))"
  proof (rule board_added [where ms = "map_of (modules ?a)"])
    have "offered (map_of (modules ?a)) j k = offered (map_of (modules ?st)) j k" for j k
      using idok by (auto simp: acquired_def offered_def new_module_def Let_def module_id_ok_def
          split: option.splits)
    then show "(\<exists>j. offered (map_of (modules ?a)) j k = Some e) \<longleftrightarrow> board s k = Some e" for k e
      by (simp add: board_iff [OF pok])
  qed (use st'(2) m(1,3) free in simp_all)
  ultimately show ?thesis using st'(1) mid m(5) acq(1) by auto
qed

lemma close_step_ok:
  assumes "system_ok me s"
  shows "\<exists>s'. provider_step pick me (Close_Connection c, now) s = Return s' \<and> system_ok me s' \<and>
    board s' = board_step (Close_Connection c, now) (board s)"
proof -
  let ?st = "ps_provider s"
  have pok: "provider_ok ?st" using assms by (simp add: system_ok_def)
  have conns: "map_of (ps_connections s) c' = Some (Some i) \<longleftrightarrow>
      (\<exists>m. map_of (modules ?st) i = Some m \<and> pm_connection m = c')" for c' i
    using assms unfolding system_ok_def by blast
  show ?thesis
  proof (cases "\<exists>i. map_of (ps_connections s) c = Some (Some i)")
    case True
    then obtain i m where i: "map_of (ps_connections s) c = Some (Some i)"
      "map_of (modules ?st) i = Some m" using conns by blast
    obtain st' where st': "close_provider_module now i ?st = Return st'" "provider_ok st'"
      "modules st' = AList.delete i (modules ?st)" "module_ids_counter st' = module_ids_counter ?st"
      "provided st' = (\<lambda>k. if nested_get (offers_module_map ?st) (fst k) (snd k) = Some i
        then None else provided ?st k)"
      using close_provider_module_ok [OF pok i(2)] by blast
    let ?s' = "s\<lparr>ps_provider := st', ps_connections := AList.delete c (ps_connections s)\<rparr>"
    have only: "pm_connection m' = c \<longleftrightarrow> j = i" if "map_of (modules ?st) j = Some m'" for j m'
      using conns [of c j] conns [of c i] i that by auto
    have "system_ok me ?s'"
      using assms conns only st'(2,4) unfolding system_ok_def module_ids_below offers_recorded_def
      by (auto simp: st'(3,5) map_of_delete_eq split: if_splits)
    moreover have "board ?s' = board_step (Close_Connection c, now) (board s)"
    proof (rule board_eqI)
      fix k e
      have del: "offered (map_of (modules st')) j k =
          (if j = i then None else offered (map_of (modules ?st)) j k)" for j
        by (simp add: offered_def st'(3) map_of_delete_eq)
      have own: "fst e = c \<longleftrightarrow> j = i" if "offered (map_of (modules ?st)) j k = Some e" for j
        using that only [of j] by (auto simp: offered_def split: option.splits)
      have "(\<exists>j. offered (map_of (modules st')) j k = Some e) \<longleftrightarrow> board s k = Some e \<and> fst e \<noteq> c"
        unfolding board_iff [OF pok] del using own by auto
      then show "(\<exists>j. offered (map_of (modules (ps_provider ?s'))) j k = Some e) \<longleftrightarrow>
          board_step (Close_Connection c, now) (board s) k = Some e"
        by (auto split: option.splits)
    qed (use st'(2) in simp)
    ultimately show ?thesis using i(1) st'(1) by auto
  next
    case False
    let ?s' = "if map_of (ps_connections s) c = None then s
      else s\<lparr>ps_connections := AList.delete c (ps_connections s)\<rparr>"
    have run: "provider_step pick me (Close_Connection c, now) s = Return ?s'"
      using False by (auto split: option.split)
    have prov: "ps_provider ?s' = ?st" "ps_db ?s' = ps_db s" by simp_all
    have "map_of (ps_connections ?s') c' = Some (Some i) \<longleftrightarrow>
        map_of (ps_connections s) c' = Some (Some i)" for c' i
      using False by (auto simp: map_of_delete_eq)
    then have "system_ok me ?s'" using assms by (simp add: system_ok_def)
    moreover have "pm_connection m \<noteq> c" if "map_of (modules ?st) i = Some m" for i m
      using False conns [of c i] that by blast
    then have "fst e \<noteq> c" if "board s k = Some e" for k e
      using that unfolding board_iff [OF pok] by (fastforce simp: offered_def split: option.splits)
    then have "board_step (Close_Connection c, now) (board s) = board s"
      by (intro ext) (fastforce split: option.split)
    with board_cong [OF prov(1)] have "board ?s' = board_step (Close_Connection c, now) (board s)"
      by simp
    ultimately show ?thesis using run by blast
  qed
qed

interpretation provider_runs: refined_system "provider_step pick me" "system_ok me"
    "provider_op_allowed pick me" board board_step
  for pick me
proof unfold_locales
  fix s e s1
  assume ok: "system_ok me s" and allowed: "provider_op_allowed pick me e s"
  obtain op now where e: "e = (op, now)" by (cases e)
  have run: "\<exists>s'. provider_step pick me e s = Return s' \<and> system_ok me s' \<and>
      board s' = board_step e (board s)"
  proof (cases op)
    case (Open_Connection c)
    let ?s' = "s\<lparr>ps_connections := AList.update c None (ps_connections s)\<rparr>"
    have "c \<notin> fst ` set (ps_connections s)"
      using allowed unfolding e Open_Connection by simp
    then have none: "map_of (ps_connections s) c = None" by (simp add: map_of_eq_None_iff)
    with ok have "pm_connection m \<noteq> c" if "map_of (modules (ps_provider s)) i = Some m" for i m
      using that unfolding system_ok_def by (metis option.distinct(1))
    with ok have "system_ok me ?s'" unfolding system_ok_def by auto
    moreover have "board ?s' = board s" by (rule board_cong) simp
    ultimately show ?thesis unfolding e Open_Connection by simp
  next
    case (Provide_Offer c r)
    then have "c \<in> fst ` set (ps_connections s)" using allowed unfolding e by simp
    then obtain mid where mid: "map_of (ps_connections s) c = Some mid"
      using map_of_eq_None_iff [of "ps_connections s" c] by auto
    show ?thesis
    proof (cases "board s (pp_protocol_id r, pp_offer_id r)")
      case None
      with provide_free [OF ok mid allowed [unfolded e Provide_Offer]] show ?thesis
        unfolding e Provide_Offer by (simp add: Let_def del: provider_step.simps)
    next
      case (Some x)
      with provide_taken [OF ok mid, of r pick now] show ?thesis
        unfolding e Provide_Offer by (simp add: Let_def del: provider_step.simps)
    qed
  next
    case (Close_Connection c)
    with close_step_ok [OF ok, of pick c now] show ?thesis unfolding e by blast
  qed
  then show "\<exists>s'. provider_step pick me e s = Return s' \<and> system_ok me s'" by blast
  assume "provider_step pick me e s = Return s1"
  with run show "board s1 = board_step e (board s)" by simp
qed

section \<open>Properties\<close>



end
