(* ===== verification/Node.thy ===== *)
theory Node
  imports Rpc_Handlers Exchange Gossip Heartbeat_Send Peers Provider_System
begin

text \<open>
  A whole node: the state its tasks share, and the events that change it, each handled to its
  end under the locks the code takes: RPC connections that open, send requests and close,
  requests of peers, gossip, answers of peers to the node's own requests, mDNS events and
  the heartbeat timer (\<open>src/src/p2p.rs\<close>, \<open>src/src/rpc/server.rs\<close>).
\<close>

named_theorems p2p_simps

section \<open>State and events\<close>

record 'a node =
  nd_provider :: provider_state
  nd_db :: database
  nd_connections :: "(nat, connection) hash_map"
  nd_peers :: "'a discovered"
  nd_response_txs :: "(nat, nat) hash_map"
  nd_p2p_running :: bool

definition start_node :: "datetime \<Rightarrow> database \<Rightarrow> 'a node" where
  "start_node now db = \<lparr>nd_provider = initial_provider_state now, nd_db = db, nd_connections = [],
     nd_peers = [], nd_response_txs = [], nd_p2p_running = True\<rparr>"

lemma start_node_db [simp]: "nd_db (start_node now db) = db"
  by (simp add: start_node_def)

text \<open>
  What the swarm reports, by the behaviours the event loop tells apart, and everything that
  makes the node act. \<open>nd_response_txs\<close> is \<open>Node::response_tx_map\<close>, with numbers for the
  senders.
\<close>

datatype 'a swarm_event =
    Mdns "'a mdns_event"
  | Ping
  | Request_Response reqres_event
  | Stream_Event
  | Gossipsub gossipsub_event
  | Identify
  | Relay_Client
  | Dcutr
  | New_External_Addr_Of_Peer peer_id
  | Connection_Event

datatype 'a node_event =
    Rpc_Opened nat
  | Rpc_Request nat inbound_request_data
  | Rpc_Closed nat
  | Swarm_Event "'a swarm_event"
  | Request_Envelope nat nat
  | Create_Answer consumer_create_job_request offer_snapshot "inbound_response received"
  | Confirm_Answer int "inbound_response received"
  | Outbound_Stream_Request
  | Incoming_Stream peer_id
  | Heartbeat_Tick
  | Source_Closed
  | Shutdown

text \<open>The code the node calls but does not contain, and its configuration.\<close>

record 'pk node_env =
  ne_rpc :: "'pk rpc_env"
  ne_call_module :: "outbound_request_data \<Rightarrow> inbound_response_data received option"
  ne_decode :: "bytes \<Rightarrow> heartbeat option"
  ne_topic :: string
  ne_debug :: "confirm_job_response \<Rightarrow> string"
  ne_config :: provider_config
  ne_publish :: "heartbeat \<Rightarrow> publish_error option"

text \<open>With each event come the readings of the clock in its handler and a new UUID.\<close>

type_synonym 'a occurrence = "'a node_event \<times> clocks \<times> string"

definition close_connection ::
  "datetime \<Rightarrow> nat \<Rightarrow> connection \<Rightarrow> 'a node \<Rightarrow> 'a node outcome" where
  "close_connection now c cn n =
     (case cn_provider_module_id cn of
        None \<Rightarrow> Return (n\<lparr>nd_connections := AList.delete c (nd_connections n)\<rparr>)
      | Some i \<Rightarrow>
          and_then (close_provider_module now i (nd_provider n))
            (\<lambda>st. Return (n\<lparr>nd_provider := st,
               nd_connections := AList.delete c (nd_connections n)\<rparr>)))"

text \<open>
  \<open>Node::handle_event\<close>. The events that are only logged, and \<open>add_explicit_peer\<close>, which
  concerns libp2p's own state, leave the node as it is; an event of the stream behaviour hits
  a \<open>todo!()\<close>.
\<close>

definition handle_event ::
  "'pk node_env \<Rightarrow> clocks \<Rightarrow> string \<Rightarrow> 'a swarm_event \<Rightarrow> 'a node \<Rightarrow> 'a node outcome" where
  "handle_event ne t uuid event n =
     (case event of
        Mdns e \<Rightarrow> and_then (handle_mdns_event e (nd_peers n)) (\<lambda>m. Return (n\<lparr>nd_peers := m\<rparr>))
      | Ping \<Rightarrow> Return n
      | Request_Response (Event_Request p r) \<Rightarrow>
          and_then (handle_request (env_crypto (ne_rpc ne)) (ne_call_module ne) uuid (fst t)
              (fst (snd t)) (env_me (ne_rpc ne)) p r (nd_provider n) (nd_db n))
            (\<lambda>(db, res). Return (n\<lparr>nd_db := db\<rparr>))
      | Request_Response e \<Rightarrow>
          and_then (handle_reqres_result e (nd_response_txs n))
            (\<lambda>(txs, delivered). Return (n\<lparr>nd_response_txs := txs\<rparr>))
      | Stream_Event \<Rightarrow> Panic
      | Gossipsub g \<Rightarrow>
          and_then (handle_gossipsub_event (ne_decode ne) (env_pick (ne_rpc ne)) (ne_topic ne) g t
              (nd_db n))
            (\<lambda>(db, events). Return (n\<lparr>nd_db := db\<rparr>))
      | Identify \<Rightarrow> Return n
      | Relay_Client \<Rightarrow> Return n
      | Dcutr \<Rightarrow> Return n
      | New_External_Addr_Of_Peer p \<Rightarrow> Return n
      | Connection_Event \<Rightarrow> Return n)"

text \<open>
  A branch of the event loop of \<open>run\<close> (\<open>src/src/p2p.rs\<close>): swarm events, requests of other
  tasks, the heartbeat timer, whose error ends the loop, and the end of the loop when one of
  its sources is closed or the node shuts down. A stream, requested or incoming, is left to a
  task of its own (\<open>Job_Connection\<close>).
\<close>

definition p2p_branch ::
  "'pk node_env \<Rightarrow> clocks \<Rightarrow> string \<Rightarrow> 'a node_event \<Rightarrow> 'a node \<Rightarrow> 'a node outcome" where
  "p2p_branch ne t uuid e n =
     (if \<not> nd_p2p_running n then Return n
      else case e of
        Swarm_Event event \<Rightarrow> handle_event ne t uuid event n
      | Request_Envelope outbound_request_id tx \<Rightarrow>
          Return (n\<lparr>nd_response_txs := send_envelope outbound_request_id tx (nd_response_txs n)\<rparr>)
      | Heartbeat_Tick \<Rightarrow>
          and_then (maybe_send_heartbeat (ne_config ne) (fst t) (ne_publish ne) (nd_provider n))
            (\<lambda>(message, res). Return (case res of Inl error \<Rightarrow> n\<lparr>nd_p2p_running := False\<rparr> | Inr _ \<Rightarrow> n))
      | Outbound_Stream_Request \<Rightarrow> Return n
      | Incoming_Stream p \<Rightarrow> Return n
      | Source_Closed \<Rightarrow> Return (n\<lparr>nd_p2p_running := False\<rparr>)
      | Shutdown \<Rightarrow> Return (n\<lparr>nd_p2p_running := False\<rparr>)
      | _ \<Rightarrow> Return n)"

fun node_step :: "'pk node_env \<Rightarrow> 'a occurrence \<Rightarrow> 'a node \<Rightarrow> 'a node outcome" where
  "node_step ne (Rpc_Opened c, t, uuid) n =
     Return (n\<lparr>nd_connections := AList.update c (open_connection c) (nd_connections n)\<rparr>)"
| "node_step ne (Rpc_Request c r, t, uuid) n =
     (case map_of (nd_connections n) c of
        None \<Rightarrow> Return n
      | Some cn \<Rightarrow>
          and_then (handle_inbound_request ((ne_rpc ne)\<lparr>env_now := fst t\<rparr>) r cn
              \<lparr>sh_provider = nd_provider n, sh_db = nd_db n\<rparr>)
            (\<lambda>(cn', sh, effect, event). Return (n\<lparr>nd_provider := sh_provider sh,
               nd_db := sh_db sh, nd_connections := AList.update c cn' (nd_connections n)\<rparr>)))"
| "node_step ne (Rpc_Closed c, t, uuid) n =
     (case map_of (nd_connections n) c of
        None \<Rightarrow> Return n
      | Some cn \<Rightarrow> close_connection (fst t) c cn n)"
| "node_step ne (Create_Answer q snap response, t, uuid) n =
     and_then (consumer_create_job_finish (env_me (ne_rpc ne)) q snap (fst t) response (nd_db n))
       (\<lambda>(db, res). Return (n\<lparr>nd_db := db\<rparr>))"
| "node_step ne (Confirm_Answer rid response, t, uuid) n =
     and_then (confirm_job_finish (ne_debug ne) (fst t) rid response (nd_db n))
       (\<lambda>(db, event). Return (n\<lparr>nd_db := db\<rparr>))"
| "node_step ne (e, t, uuid) n = p2p_branch ne t uuid e n"

section \<open>The invariant of a node\<close>

definition node_system :: "'a node \<Rightarrow> provider_system" where
  "node_system n = \<lparr>ps_provider = nd_provider n, ps_db = nd_db n,
     ps_connections = map (\<lambda>(c, cn). (c, cn_provider_module_id cn)) (nd_connections n)\<rparr>"

definition node_ok :: "peer_id \<Rightarrow> 'a node \<Rightarrow> bool" where
  "node_ok me n \<longleftrightarrow> system_ok me (node_system n) \<and> ledger_ok me (nd_db n) \<and> peers_ok (nd_peers n) \<and>
     (\<forall>c cn. map_of (nd_connections n) c = Some cn \<longrightarrow> cn_id cn = c)"

text \<open>What is final: the facts of the ledger and those learned from gossip.\<close>

declare handle_event_def [p2p_simps] p2p_branch_def [p2p_simps] handle_reqres_result_def [p2p_simps]

datatype node_fact = Ledger job_fact | Learned gossip_fact

definition node_facts :: "'a node \<Rightarrow> node_fact set" where
  "node_facts n = Ledger ` ledger_facts (nd_db n) \<union> Learned ` gossip_facts (nd_db n)"

lemma node_system_simps [simp]:
  "ps_provider (node_system n) = nd_provider n" "ps_db (node_system n) = nd_db n"
  "map_of (ps_connections (node_system n)) c =
     map_option cn_provider_module_id (map_of (nd_connections n) c)"
  "fst ` set (ps_connections (node_system n)) = fst ` set (nd_connections n)"
proof -
  show "map_of (ps_connections (node_system n)) c =
      map_option cn_provider_module_id (map_of (nd_connections n) c)"
    by (simp add: node_system_def map_of_map)
qed (force simp: node_system_def)+

text \<open>
  A database that keeps its jobs and the meaning of its snapshots keeps the ledger; one that
  keeps its snapshots and peers keeps what was learned.
\<close>

lemma ledger_ok_grown:
  assumes "ledger_ok me db" and "wf_database db'" and "service_jobs db' = service_jobs db"
    and "snapshot_idents (offer_snapshots db) \<subseteq> snapshot_idents (offer_snapshots db')"
  shows "ledger_ok me db'"
proof -
  have "snap_provider_peer_id s' \<noteq> job_consumer_peer_id j"
    if "(j, s') \<in> set (joined_jobs db')" for j s'
  proof -
    have j: "j \<in> set (service_jobs db)" and s': "s' \<in> set (offer_snapshots db')"
      "snap_rowid s' = job_offer_snapshot_rowid j"
      using that assms(3) by (auto simp: in_joined_jobs)
    obtain s where s: "s \<in> set (offer_snapshots db)" "snap_rowid s = job_offer_snapshot_rowid j"
      using wf_snapshot_of [OF ledger_ok_wf [OF assms(1)] j] by blast
    have "(snap_rowid s, snap_ident s) \<in> snapshot_idents (offer_snapshots db')"
      using s(1) assms(4) by (auto simp: snapshot_idents_def)
    then obtain s2 where s2: "s2 \<in> set (offer_snapshots db')" "snap_rowid s2 = snap_rowid s"
      "snap_ident s2 = snap_ident s" by (auto simp: snapshot_idents_def)
    then have "s2 = s'"
      using wf_rowid_eq [OF wf_databaseD [OF assms(2)] s2(1) s'(1)] s(2) s'(2) by simp
    moreover have "snap_provider_peer_id s \<noteq> job_consumer_peer_id j"
      using assms(1) j s by (auto simp: ledger_ok_def no_self_jobs_def in_joined_jobs)
    ultimately show ?thesis using s2(3) by (simp add: snap_ident_def snap_key_def)
  qed
  then show ?thesis using assms by (auto simp: ledger_ok_def no_self_jobs_def)
qed

lemma ledger_step_keeps:
  "ledger_step me db db' \<Longrightarrow> offer_snapshots db' = offer_snapshots db \<and> peers db' = peers db"
  by (erule ledger_stepE) simp_all

lemma ledger_step_learned: "ledger_step me db db' \<Longrightarrow> gossip_facts db' = gossip_facts db"
  using ledger_step_keeps [of me db db'] by (simp add: gossip_facts_def)

lemma node_ok_db:
  assumes "node_ok me n" and "ledger_ok me db"
    and "snapshot_idents (offer_snapshots (nd_db n)) \<subseteq> snapshot_idents (offer_snapshots db)"
  shows "node_ok me (n\<lparr>nd_db := db\<rparr>)"
  using assms ledger_ok_wf [OF assms(2)] unfolding node_ok_def system_ok_def
  by (auto simp: node_system_def intro: offers_recorded_mono)

text \<open>Every change of the database alone is a step of the ledger or an accepted heartbeat.\<close>

lemma node_ledger_step:
  assumes "node_ok me n" and "ledger_step me (nd_db n) db"
  shows "node_ok me (n\<lparr>nd_db := db\<rparr>)" and "node_facts n \<subseteq> node_facts (n\<lparr>nd_db := db\<rparr>)"
proof -
  have ok: "ledger_ok me (nd_db n)" using assms(1) by (simp add: node_ok_def)
  show "node_ok me (n\<lparr>nd_db := db\<rparr>)"
    using node_ok_db [OF assms(1) ledger_step_ok [OF assms(2) ok]] ledger_step_keeps [OF assms(2)]
    by simp
  show "node_facts n \<subseteq> node_facts (n\<lparr>nd_db := db\<rparr>)"
    using ledger_step_facts [OF assms(2) ok] ledger_step_learned [OF assms(2)]
    by (auto simp: node_facts_def)
qed

lemma node_heartbeat:
  assumes "node_ok me n" and "heartbeat_sound (nd_db n) db"
  shows "node_ok me (n\<lparr>nd_db := db\<rparr>)" and "node_facts n \<subseteq> node_facts (n\<lparr>nd_db := db\<rparr>)"
proof -
  have "(i, k, p) \<in> snapshot_idents (offer_snapshots db)"
    if "(i, k, p) \<in> snapshot_idents (offer_snapshots (nd_db n))" for i k p
    using assms(2) that by (auto simp: heartbeat_sound_def simp flip: Snapshot_fact)
  then have sub: "snapshot_idents (offer_snapshots (nd_db n)) \<subseteq> snapshot_idents (offer_snapshots db)"
    by auto
  have "ledger_ok me (nd_db n)" using assms(1) by (simp add: node_ok_def)
  moreover have "wf_database db" "service_jobs db = service_jobs (nd_db n)"
    using assms(2) by (simp_all add: heartbeat_sound_def)
  ultimately have "ledger_ok me db" using sub by (rule ledger_ok_grown)
  from node_ok_db [OF assms(1) this sub] show "node_ok me (n\<lparr>nd_db := db\<rparr>)" .
  show "node_facts n \<subseteq> node_facts (n\<lparr>nd_db := db\<rparr>)"
    using assms(2) by (auto simp: node_facts_def heartbeat_sound_def ledger_facts_def)
qed

section \<open>Requests of RPC clients\<close>

text \<open>
  The requests a node survives: a job query needs a filter, and every provider a client asks
  for by ID and the node knows must have been heard of; providing an offer is subject to the
  conditions of \<open>Provider_System\<close>.
\<close>

definition heard :: "peer_row \<Rightarrow> bool" where
  "heard r \<longleftrightarrow> peer_our_provider_updated_at r \<noteq> None \<and> peer_our_latest_heartbeat_timestamp r \<noteq> None"

definition request_allowed :: "'pk node_env \<Rightarrow> inbound_request_data \<Rightarrow> 'a node \<Rightarrow> bool" where
  "request_allowed ne r n \<longleftrightarrow>
     (case r of
        QueryJobs q \<Rightarrow> jq_database_row_id_cursor q \<noteq> None \<or> jq_protocol_ids q \<noteq> None \<or>
          jq_provider_peer_ids q \<noteq> None \<or> jq_consumer_peer_ids q \<noteq> None
      | QueryProviders ids \<Rightarrow> \<forall>row \<in> set (peers (nd_db n)). peer_peer_id row \<in> set ids \<longrightarrow> heard row
      | ProviderProvide q \<Rightarrow> module_ids.not_full (nd_provider n) \<and>
          active_payload (offer_snapshots (nd_db n))
            (env_me (ne_rpc ne), pp_protocol_id q, pp_offer_id q) \<in> {None, Some (pp_protocol_payload q)}
      | _ \<Rightarrow> True)"

lemma provider_complete_record:
  assumes "wf_database db" and "provider_complete_job cr db p jid bd priv pub now = Return (Inr (db', rec))"
  shows "jr_completed_at_sync rec = Some (timestamp now)"
proof -
  let ?f = "completed_by_provider bd priv pub now"
  obtain j s where j: "find_job_row db p jid = Some (j, s)"
    "find_by_rowid (update_job (job_rowid j) ?f db) (job_rowid j) = Some rec"
    using assms(2) unfolding provider_complete_job_def completed_by_provider_def [abs_def] Let_def
    by (auto split: option.splits if_splits)
  have "(j, s) \<in> set (joined_jobs db)" using find_job_rowD [OF j(1)] by (simp add: in_joined_jobs)
  from find_by_rowid_update [OF assms(1) row_functions_keep(1) this, of bd priv pub now] j(2)
  have "rec = row_to_job_record (?f j) s" by simp
  then show ?thesis by (simp add: completed_by_provider_def)
qed

lemma provider_complete_request_run:
  assumes "wf_database db"
  shows "\<exists>db' res. handle_provider_complete_job_request cr now r db = Return (db', res) \<and>
    ledger_step me db db'"
proof -
  obtain res where res: "provider_complete_job cr db (pc_provider_peer_id r) (pc_provider_job_id r)
      (pc_balance_delta r) (pc_private_payload r) (pc_public_payload r) now = Return res"
    using provider_complete_job_Return [OF assms] by blast
  show ?thesis
  proof (cases res)
    case (Inl e)
    with res show ?thesis
      by (cases e) (auto simp: handle_provider_complete_job_request_def intro: ledger_step.idle)
  next
    case (Inr x)
    obtain db' rec where x: "x = (db', rec)" by (cases x)
    from res Inr x provider_complete_record [OF assms] have "jr_completed_at_sync rec = Some (timestamp now)"
      by blast
    moreover from res Inr x have "ledger_step me db db'" by (auto intro: provider_complete_job_step)
    ultimately show ?thesis using res Inr x by (simp add: handle_provider_complete_job_request_def)
  qed
qed

lemma fail_request_step: "ledger_step me db (fst (handle_fail_job_request now r db))"
  by (auto simp: handle_fail_job_request_def split: sum.split fail_job_error.split
      intro: ledger_step.idle fail_job_step)

lemma consumer_complete_request_step:
  "ledger_step me db (fst (handle_consumer_complete_job_request cr sign now me r db))"
  by (auto simp: handle_consumer_complete_job_request_def split: sum.split
      intro: ledger_step.idle consumer_complete_job_step)

lemma query_providers_run:
  assumes "\<forall>row \<in> set (peers db). peer_peer_id row \<in> set ids \<longrightarrow> heard row"
  shows "\<exists>ps. query_providers_by_peer_id db ids = Return ps"
proof -
  let ?xs = "filter (\<lambda>r. peer_peer_id r \<in> set ids) (peers db)"
  have "\<exists>y. row_to_provider r = Return y" if "r \<in> set ?xs" for r
    using that assms by (auto simp: row_to_provider_def heard_def split: option.split)
  from fold_collect [of ?xs row_to_provider "[]", OF this] show ?thesis
    unfolding query_providers_by_peer_id_def by auto
qed

lemma query_jobs_run:
  assumes "jq_database_row_id_cursor q \<noteq> None \<or> jq_protocol_ids q \<noteq> None \<or>
    jq_provider_peer_ids q \<noteq> None \<or> jq_consumer_peer_ids q \<noteq> None"
  shows "\<exists>res. handle_jobs_query_request q db = Return res"
  using assms by (auto simp: handle_jobs_query_request_def query_jobs_def Let_def)

text \<open>Every request but \<open>ProviderProvide\<close> changes the database only, and by a step of the ledger.\<close>

lemma inbound_request_run:
  assumes "wf_database (sh_db sh)" and "\<And>q. r \<noteq> ProviderProvide q"
    and "request_allowed ne r n" and "nd_db n = sh_db sh" and "env_me env = me"
  shows "\<exists>cn' sh' effect event. handle_inbound_request env r cn sh = Return (cn', sh', effect, event) \<and>
    sh_provider sh' = sh_provider sh \<and> ledger_step me (sh_db sh) (sh_db sh') \<and> cn_id cn' = cn_id cn \<and>
    cn_provider_module_id cn' = cn_provider_module_id cn"
proof (cases r)
  case (FailJob q)
  then show ?thesis
    using fail_request_step [of me "sh_db sh" "env_now env" q]
    by (auto simp: handle_inbound_request_def respond_def split: prod.split)
next
  case (ConsumerCompleteJob q)
  then show ?thesis
    using consumer_complete_request_step [of me "sh_db sh" "env_crypto env" "env_sign env" "env_now env" q]
      assms(5)
    by (auto simp: handle_inbound_request_def Let_def split: prod.split)
next
  case (ProviderCompleteJob q)
  then show ?thesis
    using provider_complete_request_run [OF assms(1), of "env_crypto env" "env_now env" q me]
    by (auto simp: handle_inbound_request_def respond_def Let_def)
next
  case (QueryJobs q)
  have "\<exists>res. handle_jobs_query_request q (sh_db sh) = Return res"
    using assms(3) QueryJobs by (intro query_jobs_run) (simp add: request_allowed_def)
  then show ?thesis
    by (auto simp: QueryJobs handle_inbound_request_def respond_def Let_def intro: ledger_step.idle)
next
  case (QueryProviders ids)
  have "\<exists>ps. query_providers_by_peer_id (sh_db sh) ids = Return ps"
    using assms(3,4) QueryProviders by (intro query_providers_run) (simp add: request_allowed_def)
  then show ?thesis
    by (auto simp: QueryProviders handle_inbound_request_def handle_providers_query_request_def
        respond_def Let_def intro: ledger_step.idle)
next
  case (ProviderProvide q)
  with assms(2) show ?thesis by blast
qed (auto simp: handle_inbound_request_def respond_def Let_def consumer_create_job_start_def
    open_job_connection_start_def split: sum.split prod.split intro: ledger_step.idle)

end
