(* ===== verification/Lifecycle.thy ===== *)
theory Lifecycle
  imports Exchange_Properties Rpc_Connection_Properties
begin

text \<open>
  A whole sale between two nodes, through the interfaces the code uses: the RPC requests of the
  Consumer's client and of the Provider's module, the requests between the peers, and the
  confirmation loop.
\<close>

section \<open>The RPC side of each step\<close>

lemma rpc_create_job:
  "consumer_create_job_start (sh_db sh) q = Inr (p, CreateJob r, snap) \<Longrightarrow>
     handle_inbound_request env (ConsumerCreateJob q) cn sh =
       Return (cn, sh, Spawn_Create p (CreateJob r) snap, None)"
  by (simp add: handle_inbound_request_def)

lemma rpc_provider_complete:
  assumes "provider_complete_job (env_crypto env) (sh_db sh) p jid bd priv pub (env_now env) =
      Return (Inr (db', rec))" and "jr_completed_at_sync rec = Some ts"
  shows "handle_inbound_request env (ProviderCompleteJob \<lparr>pc_provider_peer_id = p,
      pc_provider_job_id = jid, pc_balance_delta = bd, pc_public_payload = pub,
      pc_private_payload = priv\<rparr>) cn sh =
    Return (cn, sh\<lparr>sh_db := db'\<rparr>, Respond (R_ProviderCompleteJob (PCompleteJob_Ok ts)), None)"
  using assms by (simp add: handle_inbound_request_def handle_provider_complete_job_request_def respond_def)

lemma rpc_consumer_complete:
  assumes "consumer_complete_job (env_crypto env) (sh_db sh) (env_me env) p jid bd pub priv ts
      (env_sign env) (env_now env) = Inr (db', rec)"
  shows "handle_inbound_request env (ConsumerCompleteJob \<lparr>cc_provider_peer_id = p,
      cc_provider_job_id = jid, cc_public_payload = pub, cc_private_payload = priv,
      cc_balance_delta = bd, cc_completed_at_sync = ts\<rparr>) cn sh =
    Return (cn, sh\<lparr>sh_db := db'\<rparr>, Respond (R_ConsumerCompleteJob CCompleteJob_Ok),
      Some (JobUpdated rec))"
  using assms by (simp add: handle_inbound_request_def handle_consumer_complete_job_request_def)

lemma confirmation_round_trip:
  assumes "query_unconfirmed_jobs dbC c = Return us" and "u \<in> set us"
    and "uj_provider_peer_id u = p" and "uj_provider_job_id u = jid" and "map_of discovered p \<noteq> None"
    and "provider_confirm_job cr dbP c p jid (uj_hash u) pkb (uj_consumer_signature u) t3 =
      Return (Inr dbP')"
    and "consumer_confirm_job dbC (uj_rowid u) t4 = Return (Inr (dbC', rec))"
  shows "\<exists>round req. job_confirmation_round c discovered dbC = Return round \<and> u \<in> set round \<and>
    confirmation_request pkb u = (p, req) \<and>
    handle_request cr call_module uuid t3 t3' p c req st dbP =
      Return (dbP', R_ConfirmJob ConfirmJob_Ok) \<and>
    confirm_job_finish dbg t4 (uj_rowid u) (Received (Inr (R_ConfirmJob ConfirmJob_Ok))) dbC =
      Return (dbC', Some (JobUpdated rec))"
  using assms
  by (auto simp: job_confirmation_round_def confirmation_request_def handle_request_def
      handle_confirm_job_request_def confirm_job_finish_def)

text \<open>From two open jobs with the same terms to two confirmed ones.\<close>

lemma delivery_run:
  fixes eP eC :: "'pk rpc_env"
  assumes env: "env_crypto eP = cr" "env_crypto eC = cr" "env_me eC = c"
    and P: "ledger_ok p dbP" "find_job_row dbP p jid = Some (jP, sP)" "open_job jP"
    and C: "ledger_ok c dbC" "find_job_row dbC p jid = Some (jC, sC)" "open_job jC"
    and terms: "same_terms (jP, sP) (jC, sC)" "job_consumer_peer_id jC = c"
      "\<not> invalid_balance_delta cr bd (job_currency jC)"
    and crypto: "try_decode_protobuf cr pkb = Some pk" "\<And>h. verify cr pk h (env_sign eC h)"
    and discovered: "map_of discovered p \<noteq> None"
  shows "\<exists>created dbP2 dbC2 rec round u req dbP3 dbC3 rec' j s j' s'.
    handle_inbound_request (eP\<lparr>env_now := t1\<rparr>) (ProviderCompleteJob \<lparr>pc_provider_peer_id = p,
        pc_provider_job_id = jid, pc_balance_delta = bd, pc_public_payload = pub,
        pc_private_payload = priv\<rparr>) cnP (shP\<lparr>sh_db := dbP\<rparr>) =
      Return (cnP, shP\<lparr>sh_db := dbP2\<rparr>,
        Respond (R_ProviderCompleteJob (PCompleteJob_Ok (timestamp t1))), None) \<and>
    consumer_get_job_finish (Received (Inr (handle_get_job_request p c
        \<lparr>gj_provider_job_id = jid\<rparr> dbP2))) =
      Return (CGetJob_Ok (Some pub) bd created (Some (timestamp t1))) \<and>
    handle_inbound_request (eC\<lparr>env_now := t2\<rparr>) (ConsumerCompleteJob \<lparr>cc_provider_peer_id = p,
        cc_provider_job_id = jid, cc_public_payload = pub, cc_private_payload = priv',
        cc_balance_delta = bd, cc_completed_at_sync = timestamp t1\<rparr>) cnC (shC\<lparr>sh_db := dbC\<rparr>) =
      Return (cnC, shC\<lparr>sh_db := dbC2\<rparr>, Respond (R_ConsumerCompleteJob CCompleteJob_Ok),
        Some (JobUpdated rec)) \<and>
    job_confirmation_round c discovered dbC2 = Return round \<and> u \<in> set round \<and>
    confirmation_request pkb u = (p, req) \<and>
    handle_request cr call_module uuid t3 t3' p c req (sh_provider shP) dbP2 =
      Return (dbP3, R_ConfirmJob ConfirmJob_Ok) \<and>
    confirm_job_finish dbg t4 (uj_rowid u) (Received (Inr (R_ConfirmJob ConfirmJob_Ok))) dbC2 =
      Return (dbC3, Some (JobUpdated rec')) \<and>
    find_job_row dbP3 p jid = Some (j, s) \<and> find_job_row dbC3 p jid = Some (j', s') \<and>
    job_phase_of j = Confirmed \<and> job_phase_of j' = Confirmed \<and>
    job_consumer_signature j = job_consumer_signature j' \<and> job_consumer_signature j \<noteq> None"
proof -
  obtain dbP2 r2 dbC2 rec us u dbP3 dbC3 rec' j s j' s' where deed:
    "provider_complete_job cr dbP p jid bd priv pub t1 = Return (Inr (dbP2, r2))"
    "jr_completed_at_sync r2 = Some (timestamp t1)"
    "consumer_complete_job cr dbC c p jid bd pub priv' (timestamp t1) (env_sign eC) t2 =
      Inr (dbC2, rec)"
    "query_unconfirmed_jobs dbC2 c = Return us" "u \<in> set us" "uj_provider_peer_id u = p"
    "uj_provider_job_id u = jid"
    "provider_confirm_job cr dbP2 c p jid (uj_hash u) pkb (uj_consumer_signature u) t3 =
      Return (Inr dbP3)"
    "consumer_confirm_job dbC2 (uj_rowid u) t4 = Return (Inr (dbC3, rec'))"
    "find_job_row dbP3 p jid = Some (j, s)" "find_job_row dbC3 p jid = Some (j', s')"
    "job_phase_of j = Confirmed" "job_phase_of j' = Confirmed"
    "job_consumer_signature j = job_consumer_signature j'" "job_consumer_signature j \<noteq> None"
    using settlement_run [where sign = "env_sign eC", OF P C terms crypto,
        of priv pub t1 priv' t2 t3 t4] by blast
  have "job_consumer_peer_id jP = c" "\<not> invalid_balance_delta cr bd (job_currency jP)"
    using terms by (simp_all add: same_terms_def)
  with get_job_run [OF ledger_ok_wf [OF P(1)] P(2,3), of c cr bd priv pub t1] deed(1)
  have "consumer_get_job_finish (Received (Inr (handle_get_job_request p c
      \<lparr>gj_provider_job_id = jid\<rparr> dbP2))) =
    Return (CGetJob_Ok (Some pub) bd (job_created_at_sync jP) (Some (timestamp t1)))" by auto
  moreover note confirmation_round_trip [OF deed(4-7) discovered deed(8,9), of call_module uuid t3'
      "sh_provider shP" dbg]
  moreover have "handle_inbound_request (eP\<lparr>env_now := t1\<rparr>) (ProviderCompleteJob
      \<lparr>pc_provider_peer_id = p, pc_provider_job_id = jid, pc_balance_delta = bd,
       pc_public_payload = pub, pc_private_payload = priv\<rparr>) cnP (shP\<lparr>sh_db := dbP\<rparr>) =
    Return (cnP, shP\<lparr>sh_db := dbP2\<rparr>,
      Respond (R_ProviderCompleteJob (PCompleteJob_Ok (timestamp t1))), None)"
    using rpc_provider_complete [of "eP\<lparr>env_now := t1\<rparr>" "shP\<lparr>sh_db := dbP\<rparr>"] deed(1,2) env by simp
  moreover have "handle_inbound_request (eC\<lparr>env_now := t2\<rparr>) (ConsumerCompleteJob
      \<lparr>cc_provider_peer_id = p, cc_provider_job_id = jid, cc_public_payload = pub,
       cc_private_payload = priv', cc_balance_delta = bd, cc_completed_at_sync = timestamp t1\<rparr>)
      cnC (shC\<lparr>sh_db := dbC\<rparr>) =
    Return (cnC, shC\<lparr>sh_db := dbC2\<rparr>, Respond (R_ConsumerCompleteJob CCompleteJob_Ok),
      Some (JobUpdated rec))"
    using rpc_consumer_complete [of "eC\<lparr>env_now := t2\<rparr>" "shC\<lparr>sh_db := dbC\<rparr>"] deed(3) env by simp
  ultimately show ?thesis using deed(10-15) by blast
qed

section \<open>The sale\<close>

text \<open>C1: a sale runs through. A Consumer's client orders from an active snapshot that the Provider still
  offers with this payload, and the Provider's module accepts; both nodes then hold an open
  job under the same ID with the same terms. Once the module reports its result, the client
  reads exactly this result through \<open>ConsumerGetJob\<close> and completes the job with it; the next
  round of the confirmation loop, as long as the Provider is discovered, sends a request the
  Provider accepts, and its answer settles the job: on both nodes it ends Confirmed, under
  the same signature. No step panics or is refused.\<close>

theorem sale_settles:
  fixes eP eC :: "'pk rpc_env"
  defines "cr \<equiv> env_crypto eP" and "p \<equiv> env_me eP" and "c \<equiv> env_me eC"
  assumes nodes: "ledger_ok p (sh_db shP)" "provider_ok (sh_provider shP)"
      "offers_recorded p (sh_provider shP) (sh_db shP)" "ledger_ok c (sh_db shC)" "p \<noteq> c"
    and order: "consumer_create_job_start (sh_db shC) q = Inr (p, CreateJob r, snap)"
      "provided (sh_provider shP) (cj_protocol_id r, cj_offer_id r) = Some x"
      "po_protocol_payload x = cj_offer_payload r"
      "call_module (ProviderCreateJob p (cj_protocol_id r) (cj_offer_id r) uuid (timestamp now1)
         (cj_job_args r)) = Some (Received (ProviderCreateJobResponse PCreate_Ok))"
    and uuid: "find_job_row (sh_db shP) p uuid = None" "find_job_row (sh_db shC) p uuid = None"
    and crypto: "env_crypto eC = cr" "try_decode_protobuf cr pkb = Some pk"
      "\<And>h. verify cr pk h (env_sign eC h)"
    and balance: "\<not> invalid_balance_delta cr bd (cr_currency q)"
    and discovered: "map_of discovered p \<noteq> None"
  shows "\<exists>dbP1 res dbC1 created dbP2 dbC2 rec round u req dbP3 dbC3 rec' j s j' s'.
    handle_inbound_request eC (ConsumerCreateJob q) cnC shC =
      Return (cnC, shC, Spawn_Create p (CreateJob r) snap, None) \<and>
    handle_request cr call_module uuid now1 now2 p c (CreateJob r) (sh_provider shP) (sh_db shP) =
      Return (dbP1, res) \<and>
    consumer_create_job_finish c q snap now3 (Received (Inr res)) (sh_db shC) =
      Return (dbC1, CCreateJob_Ok p uuid) \<and>
    handle_inbound_request (eP\<lparr>env_now := t1\<rparr>) (ProviderCompleteJob \<lparr>pc_provider_peer_id = p,
        pc_provider_job_id = uuid, pc_balance_delta = bd, pc_public_payload = pub,
        pc_private_payload = priv\<rparr>) cnP (shP\<lparr>sh_db := dbP1\<rparr>) =
      Return (cnP, shP\<lparr>sh_db := dbP2\<rparr>,
        Respond (R_ProviderCompleteJob (PCompleteJob_Ok (timestamp t1))), None) \<and>
    consumer_get_job_finish (Received (Inr (handle_get_job_request p c
        \<lparr>gj_provider_job_id = uuid\<rparr> dbP2))) =
      Return (CGetJob_Ok (Some pub) bd created (Some (timestamp t1))) \<and>
    handle_inbound_request (eC\<lparr>env_now := t2\<rparr>) (ConsumerCompleteJob \<lparr>cc_provider_peer_id = p,
        cc_provider_job_id = uuid, cc_public_payload = pub, cc_private_payload = priv',
        cc_balance_delta = bd, cc_completed_at_sync = timestamp t1\<rparr>) cnC (shC\<lparr>sh_db := dbC1\<rparr>) =
      Return (cnC, shC\<lparr>sh_db := dbC2\<rparr>, Respond (R_ConsumerCompleteJob CCompleteJob_Ok),
        Some (JobUpdated rec)) \<and>
    job_confirmation_round c discovered dbC2 = Return round \<and> u \<in> set round \<and>
    confirmation_request pkb u = (p, req) \<and>
    handle_request cr call_module uuid t3 t3' p c req (sh_provider shP) dbP2 =
      Return (dbP3, R_ConfirmJob ConfirmJob_Ok) \<and>
    confirm_job_finish dbg t4 (uj_rowid u) (Received (Inr (R_ConfirmJob ConfirmJob_Ok))) dbC2 =
      Return (dbC3, Some (JobUpdated rec')) \<and>
    find_job_row dbP3 p uuid = Some (j, s) \<and> find_job_row dbC3 p uuid = Some (j', s') \<and>
    job_phase_of j = Confirmed \<and> job_phase_of j' = Confirmed \<and>
    job_consumer_signature j = job_consumer_signature j' \<and> job_consumer_signature j \<noteq> None"
proof -
  obtain dbP1 dbC1 res jP sP jC sC where deal:
    "handle_create_job_request call_module uuid now1 now2 p c r (sh_provider shP) (sh_db shP) =
      Return (dbP1, res)"
    "consumer_create_job_finish c q snap now3 (Received (Inr res)) (sh_db shC) =
      Return (dbC1, CCreateJob_Ok p uuid)"
    "ledger_ok p dbP1" "ledger_ok c dbC1" "find_job_row dbP1 p uuid = Some (jP, sP)"
    "find_job_row dbC1 p uuid = Some (jC, sC)" "open_job jP" "open_job jC"
    "job_consumer_peer_id jC = c" "same_terms (jP, sP) (jC, sC)" "job_currency jC = cr_currency q"
    using purchase_run [where call_module = call_module and uuid = uuid and ?now1.0 = now1,
        OF nodes(4) order(1) nodes(2,3,1) order(2,3) nodes(5) uuid order(4), of now2 now3] by blast
  have bd: "\<not> invalid_balance_delta cr bd (job_currency jC)" using balance deal(11) by simp
  have env: "env_crypto eP = cr" "env_me eC = c" by (simp_all add: cr_def c_def)
  have "handle_request cr call_module uuid now1 now2 p c (CreateJob r) (sh_provider shP) (sh_db shP) =
      Return (dbP1, res)" using deal(1) by (simp add: handle_request_def)
  moreover note rpc_create_job [OF order(1), of eC cnC] deal(2)
    delivery_run [OF env(1) crypto(1) env(2) deal(3,5,7,4,6,8,10,9) bd crypto(2,3) discovered, of t1 pub priv cnP shP
      t2 priv' cnC shC call_module uuid t3 t3' dbg t4]
  ultimately show ?thesis by blast
qed

definition sale_env :: "peer_id \<Rightarrow> bytes rpc_env" where
  "sale_env me = demo_env\<lparr>env_me := me, env_sign := (\<lambda>h. [9] @ h)\<rparr>"

definition shop_node :: shared_state where
  "shop_node = \<lparr>sh_provider = shop_provider, sh_db = shop\<rparr>"

theorem sale_settles_witness:
  "\<exists>dbP dbC j s j' s'. find_job_row dbP (PeerId [1]) ''j'' = Some (j, s) \<and>
    find_job_row dbC (PeerId [1]) ''j'' = Some (j', s') \<and>
    job_phase_of j = Confirmed \<and> job_phase_of j' = Confirmed \<and>
    job_consumer_signature j = job_consumer_signature j'"
proof -
  let ?eP = "sale_env (PeerId [1])" and ?eC = "sale_env (PeerId [2])"
  let ?call = "\<lambda>_ :: outbound_request_data. Some (Received (ProviderCreateJobResponse PCreate_Ok))"
  have env: "env_me ?eP = PeerId [1]" "env_me ?eC = PeerId [2]" "env_crypto ?eP = plain_crypto"
    "env_crypto ?eC = plain_crypto" "env_sign ?eC = (\<lambda>h. [9] @ h)"
    by (simp_all add: sale_env_def demo_env_def)
  have node: "sh_provider shop_node = shop_provider" "sh_db shop_node = shop"
    by (simp_all add: shop_node_def)
  have crypto: "try_decode_protobuf plain_crypto [9] = Some [9]"
    "\<And>h. verify plain_crypto [9] h ([9] @ h)" by (simp_all add: plain_crypto_def)
  have offer: "provided shop_provider (cj_protocol_id shop_wire, cj_offer_id shop_wire) =
      Some \<lparr>po_snapshot_rowid = 1, po_protocol_payload = ''x''\<rparr>" "cj_offer_payload shop_wire = ''x''"
    by (simp_all add: shop_provided shop_wire_def)
  have balance: "\<not> invalid_balance_delta plain_crypto (Some ''7'') (cr_currency shop_request)"
    by (simp add: shop_request_def)
  have rest: "PeerId [1] \<noteq> PeerId [2]" "po_protocol_payload
      \<lparr>po_snapshot_rowid = 1, po_protocol_payload = ''x''\<rparr> = cj_offer_payload shop_wire"
    "map_of [(PeerId [1], [()])] (PeerId [1]) \<noteq> None"
    using offer(2) by simp_all
  from sale_settles [where eP = ?eP and eC = ?eC and shP = shop_node and shC = shop_node and
        q = shop_request and r = shop_wire and snap = "row_to_snapshot shop_snapshot" and
        x = "\<lparr>po_snapshot_rowid = 1, po_protocol_payload = ''x''\<rparr>" and call_module = ?call and
        uuid = "''j''" and ?now1.0 = 5 and pkb = "[9]" and pk = "[9]" and bd = "Some ''7''" and
        discovered = "[(PeerId [1], [()])]" and ?now2.0 = 6 and ?now3.0 = 7 and ?t1.0 = 8 and
        ?t2.0 = 9 and ?t3.0 = 10 and t3' = 10 and ?t4.0 = 11 and priv = None and priv' = None and
        pub = "''done''" and dbg = "\<lambda>_. ''e''" and cnC = "open_connection 0" and
        cnP = "open_connection 0", unfolded env node,
        OF ledger_ok_shop shop_provider_ok shop_recorded ledger_ok_shop rest(1) shop_start offer(1)
          rest(2) refl no_shop_job no_shop_job refl crypto balance rest(3)]
  show ?thesis by (elim exE conjE, intro exI conjI) assumption+
qed

end
