(* ===== verification/Node_Properties.thy ===== *)
theory Node_Properties
  imports Node Lifecycle
begin

text \<open>
  No event that a node meets makes it panic, and none breaks its invariants or takes back
  what is final: the properties of the parts, for the whole.
\<close>

section \<open>What the environment guarantees\<close>

text \<open>
  SQLite reports one of the conflicting rows, decoded heartbeats hold hash maps, and the RPC
  clients that provide offers answer before they disconnect.
\<close>

definition env_ok :: "'pk node_env \<Rightarrow> bool" where
  "env_ok ne \<longleftrightarrow> pick_ok (env_pick (ne_rpc ne)) \<and> decode_ok (ne_decode ne) \<and>
     (\<forall>d. \<exists>r. ne_call_module ne d = Some (Received r))"

text \<open>
  Connection numbers are new; peers are others (libp2p authenticates them); an awaited answer
  belongs to a request the node sent: for a snapshot of another peer, or for a signed job;
  libp2p reports an outcome only for a request that is outstanding, and its stream behaviour
  reports no events.
\<close>

definition swarm_allowed :: "'pk node_env \<Rightarrow> 'a swarm_event \<Rightarrow> 'a node \<Rightarrow> bool" where
  "swarm_allowed ne event n \<longleftrightarrow>
     (case event of
        Mdns e \<Rightarrow> mdns_allowed e (nd_peers n)
      | Request_Response (Event_Request p r) \<Rightarrow> p \<noteq> env_me (ne_rpc ne)
      | Request_Response (Event_Response i r) \<Rightarrow> map_of (nd_response_txs n) i \<noteq> None
      | Request_Response (Event_OutboundFailure i) \<Rightarrow> map_of (nd_response_txs n) i \<noteq> None
      | Stream_Event \<Rightarrow> False
      | _ \<Rightarrow> True)"

fun node_allowed :: "'pk node_env \<Rightarrow> 'a occurrence \<Rightarrow> 'a node \<Rightarrow> bool" where
  "node_allowed ne (Rpc_Opened c, t, uuid) n \<longleftrightarrow> c \<notin> fst ` set (nd_connections n)"
| "node_allowed ne (Rpc_Request c r, t, uuid) n \<longleftrightarrow> request_allowed ne r n"
| "node_allowed ne (Swarm_Event event, t, uuid) n \<longleftrightarrow> swarm_allowed ne event n"
| "node_allowed ne (Create_Answer q snap response, t, uuid) n \<longleftrightarrow> response \<noteq> Sender_Dropped \<and>
     (\<exists>s \<in> set (offer_snapshots (nd_db n)). snap_rowid s = cr_offer_snapshot_id q \<and>
        snap_provider_peer_id s \<noteq> env_me (ne_rpc ne))"
| "node_allowed ne (Confirm_Answer rid response, t, uuid) n \<longleftrightarrow>
     response \<noteq> Sender_Dropped \<and> signed_row rid (nd_db n)"
| "node_allowed ne (_, t, uuid) n \<longleftrightarrow> True"

section \<open>The handlers\<close>

definition step_ok :: "peer_id \<Rightarrow> 'a node \<Rightarrow> 'a node outcome \<Rightarrow> bool" where
  "step_ok me n res \<longleftrightarrow> (\<exists>n'. res = Return n' \<and> node_ok me n' \<and> node_facts n \<subseteq> node_facts n')"

lemma step_okI: "node_ok me n' \<Longrightarrow> node_facts n \<subseteq> node_facts n' \<Longrightarrow> step_ok me n (Return n')"
  by (simp add: step_ok_def)

lemma node_okD:
  assumes "node_ok me n"
  shows "provider_ok (nd_provider n)" and "wf_database (nd_db n)" and "ledger_ok me (nd_db n)"
    and "offers_recorded me (nd_provider n) (nd_db n)" and "peers_ok (nd_peers n)"
    and "system_ok me (node_system n)"
    and "map_of (nd_connections n) c = Some cn \<Longrightarrow> cn_id cn = c"
  using assms by (simp_all add: node_ok_def system_ok_def)

lemma step_ok_ledger:
  "node_ok me n \<Longrightarrow> ledger_step me (nd_db n) db \<Longrightarrow> step_ok me n (Return (n\<lparr>nd_db := db\<rparr>))"
  by (intro step_okI node_ledger_step)

lemma unique_snapshot:
  assumes "wf_database db" and "s \<in> set (offer_snapshots db)" and "snap_rowid s = sid"
    and "snap_provider_peer_id s \<noteq> c" and "s' \<in> set (offer_snapshots db)" and "snap_rowid s' = sid"
  shows "snap_provider_peer_id s' \<noteq> c"
  using assms wf_rowid_eq [OF wf_databaseD [OF assms(1)], of s' s] by auto

text \<open>Requests of peers.\<close>

lemma create_request_run:
  assumes "node_ok me n" and "p \<noteq> me" and "\<forall>d. \<exists>r. call_module d = Some (Received r)"
  shows "\<exists>db res. handle_create_job_request call_module uuid now1 now2 me p r (nd_provider n) (nd_db n) =
    Return (db, res) \<and> ledger_step me (nd_db n) db"
proof -
  obtain offer where offer: "find_offer (nd_provider n) (cj_protocol_id r) (cj_offer_id r) = Return offer"
    "map_option snd offer = provided (nd_provider n) (cj_protocol_id r, cj_offer_id r)"
    using find_offer_safe [OF node_okD(1) [OF assms(1)]] by blast
  show ?thesis
  proof (cases offer)
    case None
    with offer(1) show ?thesis by (auto simp: handle_create_job_request_def intro: ledger_step.idle)
  next
    case (Some mx)
    obtain m x where mx: "mx = (m, x)" by (cases mx)
    with Some offer(2) have "provided (nd_provider n) (cj_protocol_id r, cj_offer_id r) = Some x" by simp
    with node_okD(4) [OF assms(1)]
    have "(po_snapshot_rowid x, (me, cj_protocol_id r, cj_offer_id r), po_protocol_payload x)
        \<in> snapshot_idents (offer_snapshots (nd_db n))" by (simp add: offers_recorded_def)
    from snapshot_identsD [OF this] obtain s where s: "s \<in> set (offer_snapshots (nd_db n))"
      "snap_rowid s = po_snapshot_rowid x" "snap_provider_peer_id s = me" by blast
    let ?ts = "timestamp now1"
    obtain db rid where job: "create_job (nd_db n) (po_snapshot_rowid x) p (cj_currency r)
        (cj_job_args r) uuid ?ts now2 = Return (db, rid)"
      using create_job_Return [OF s(1,2)] by blast
    have "ledger_step me (nd_db n) db"
      by (rule create_job_step [OF job]) (rule unique_snapshot [OF node_okD(2) [OF assms(1)] s(1,2)],
        use s(3) assms(2) in simp_all)
    moreover obtain answer where "call_module (ProviderCreateJob me (cj_protocol_id r) (cj_offer_id r)
        uuid ?ts (cj_job_args r)) = Some (Received answer)" using assms(3) by blast
    ultimately show ?thesis
      using offer(1) Some mx job
      by (auto simp: handle_create_job_request_def Let_def intro: ledger_step.idle
          split: inbound_response_data.split provider_create_job_response.split)
  qed
qed

lemma peer_request_run:
  assumes "node_ok me n" and "p \<noteq> me" and "\<forall>d. \<exists>r. call_module d = Some (Received r)"
  shows "\<exists>db res. handle_request cr call_module uuid now1 now2 me p r (nd_provider n) (nd_db n) =
    Return (db, res) \<and> ledger_step me (nd_db n) db"
proof (cases r)
  case (CreateJob q)
  with create_request_run [OF assms] show ?thesis by (simp add: handle_request_def)
next
  case (GetJob q)
  then show ?thesis by (auto simp: handle_request_def intro: ledger_step.idle)
next
  case (ConfirmJob q)
  with handle_confirm_job_request_run [OF node_okD(3) [OF assms(1)]] show ?thesis
    by (simp add: handle_request_def)
qed

lemma create_answer_run:
  assumes "node_ok me n" and "response \<noteq> Sender_Dropped"
    and "s \<in> set (offer_snapshots (nd_db n))" and "snap_rowid s = cr_offer_snapshot_id q"
    and "snap_provider_peer_id s \<noteq> me"
  shows "\<exists>db res. consumer_create_job_finish me q snap now response (nd_db n) = Return (db, res) \<and>
    ledger_step me (nd_db n) db"
proof -
  have created: "\<exists>db rid. create_job (nd_db n) (cr_offer_snapshot_id q) me (cr_currency q)
      (cr_job_args q) jid ts now = Return (db, rid) \<and> ledger_step me (nd_db n) db" for jid ts
  proof -
    obtain db rid where job: "create_job (nd_db n) (cr_offer_snapshot_id q) me (cr_currency q)
        (cr_job_args q) jid ts now = Return (db, rid)"
      using create_job_Return [OF assms(3,4)] by blast
    with create_job_step [OF job unique_snapshot [OF node_okD(2) [OF assms(1)] assms(3-5)]]
    show ?thesis by blast
  qed
  have finished: "\<exists>db res. and_then (create_job (nd_db n) (cr_offer_snapshot_id q) me (cr_currency q)
      (cr_job_args q) jid ts now) (\<lambda>(db', rid). Return (db', CCreateJob_Ok (os_provider_peer_id snap) jid)) =
      Return (db, res) \<and> ledger_step me (nd_db n) db" for jid ts
    using created [of jid ts] by auto
  show ?thesis
    using assms(2) finished
    by (auto simp: consumer_create_job_finish_def intro: ledger_step.idle
        split: received.split sum.split p2p_response.split create_job_response.split)
qed

text \<open>Providing an offer, and closing a connection.\<close>

lemma system_ok_cong:
  assumes "ps_provider s' = ps_provider s" and "ps_db s' = ps_db s"
    and "\<And>c. map_of (ps_connections s') c = map_of (ps_connections s) c"
  shows "system_ok me s' = system_ok me s"
  using assms by (simp add: system_ok_def)

lemma upsert_grows:
  assumes "upsert pick db me o' p x = Return (db', rid)"
  shows "set (peers db) \<subseteq> set (peers db')" and "service_jobs db' = service_jobs db"
  using assms by (auto simp: upsert_def Let_def ensure_peer_def split: if_splits)

lemma provide_database:
  assumes "handle_provider_provide pick me now c p o' x st db mid = Return (st', db', mid', res)"
    and "wf_database db" and "pick_ok pick"
    and "active_payload (offer_snapshots db) (me, p, o') \<in> {None, Some x}"
  shows "wf_database db'" and "set (peers db) \<subseteq> set (peers db')"
    and "service_jobs db' = service_jobs db"
    and "snapshot_idents (offer_snapshots db) \<subseteq> snapshot_idents (offer_snapshots db')"
proof -
  have pick: "rs \<noteq> [] \<Longrightarrow> pick rs \<in> set rs" for rs using assms(3) by (simp add: pick_ok_def)
  obtain db1 rid where up: "upsert pick db me o' p x = Return (db1, rid)" "wf_database db1"
    "snapshot_idents (offer_snapshots db) \<subseteq> snapshot_idents (offer_snapshots db1)"
    using upsert_run [OF assms(2) pick assms(4)] by blast
  have "db' = db \<or> db' = db1"
    using assms(1) up(1)
    by (auto simp: handle_provider_provide_def Let_def split: if_splits option.splits)
  with up upsert_grows [OF up(1)] assms(2)
  show "wf_database db'" and "set (peers db) \<subseteq> set (peers db')"
    and "service_jobs db' = service_jobs db"
    and "snapshot_idents (offer_snapshots db) \<subseteq> snapshot_idents (offer_snapshots db')" by auto
qed

lemma node_facts_grown:
  assumes "set (peers (nd_db n)) \<subseteq> set (peers (nd_db n'))"
    and "service_jobs (nd_db n') = service_jobs (nd_db n)"
    and "snapshot_idents (offer_snapshots (nd_db n)) \<subseteq> snapshot_idents (offer_snapshots (nd_db n'))"
  shows "node_facts n \<subseteq> node_facts n'"
proof -
  have "gossip_facts (nd_db n) \<subseteq> gossip_facts (nd_db n')"
    using assms(1) by (intro gossip_factsI [OF assms(3)]) auto
  then show ?thesis using assms(2) by (auto simp: node_facts_def ledger_facts_def)
qed

lemma provide_request_ok:
  assumes "node_ok me n" and "map_of (nd_connections n) c = Some cn" and "pick_ok (env_pick env)"
    and "request_allowed ne (ProviderProvide q) n" and "env_me (ne_rpc ne) = me" and "env_me env = me"
  shows "\<exists>cn' sh effect event. handle_inbound_request env (ProviderProvide q) cn
      \<lparr>sh_provider = nd_provider n, sh_db = nd_db n\<rparr> = Return (cn', sh, effect, event) \<and>
    step_ok me n (Return (n\<lparr>nd_provider := sh_provider sh, nd_db := sh_db sh,
      nd_connections := AList.update c cn' (nd_connections n)\<rparr>))"
proof -
  let ?s = "node_system n"
  have active: "active_payload (offer_snapshots (nd_db n)) (me, pp_protocol_id q, pp_offer_id q)
      \<in> {None, Some (pp_protocol_payload q)}"
    using assms(4,5) by (simp add: request_allowed_def)
  have "c \<in> fst ` set (nd_connections n)" using map_of_SomeD [OF assms(2)] by force
  moreover have "module_ids.not_full (nd_provider n)" using assms(4) by (simp add: request_allowed_def)
  ultimately have "provider_op_allowed (env_pick env) me (Provide_Offer c q, env_now env) ?s"
    using assms(3) active by (simp add: pick_ok_def)
  from provider_runs.step_safe [OF node_okD(6) [OF assms(1)] this] obtain s' where
    s': "provider_step (env_pick env) me (Provide_Offer c q, env_now env) ?s = Return s'" "system_ok me s'"
    by blast
  then obtain st' db' mid' res where
    run: "handle_provider_provide (env_pick env) me (env_now env) c (pp_protocol_id q) (pp_offer_id q)
      (pp_protocol_payload q) (nd_provider n) (nd_db n) (cn_provider_module_id cn) =
      Return (st', db', mid', res)"
    and s'_eq: "s' = ?s\<lparr>ps_provider := st', ps_db := db',
      ps_connections := AList.update c mid' (ps_connections ?s)\<rparr>"
    using assms(2) by auto
  let ?cn = "cn\<lparr>cn_provider_module_id := mid'\<rparr>"
  let ?n = "n\<lparr>nd_provider := st', nd_db := db', nd_connections := AList.update c ?cn (nd_connections n)\<rparr>"
  have id: "cn_id cn = c" using node_okD(7) [OF assms(1,2)] .
  note db = provide_database [OF run node_okD(2) [OF assms(1)] assms(3) active]
  have "system_ok me (node_system ?n) = system_ok me s'"
    by (rule system_ok_cong) (simp_all add: s'_eq)
  moreover have "ledger_ok me db'"
    by (rule ledger_ok_grown [OF node_okD(3) [OF assms(1)] db(1,3,4)])
  ultimately have "node_ok me ?n" using assms(1) s'(2) id by (simp add: node_ok_def)
  moreover have "node_facts n \<subseteq> node_facts ?n" by (rule node_facts_grown) (use db in simp_all)
  moreover have "handle_inbound_request env (ProviderProvide q) cn
      \<lparr>sh_provider = nd_provider n, sh_db = nd_db n\<rparr> =
    Return (?cn, \<lparr>sh_provider = st', sh_db = db'\<rparr>, Respond (R_ProviderProvide res), None)"
    using run assms(6) id by (simp add: handle_inbound_request_def respond_def Let_def)
  ultimately show ?thesis by (auto intro: step_okI)
qed

lemma close_connection_ok:
  assumes "node_ok me n" and "map_of (nd_connections n) c = Some cn"
  shows "step_ok me n (close_connection now c cn n)"
proof -
  let ?s = "node_system n"
  obtain s' where s': "provider_step hd me (Close_Connection c, now) ?s = Return s'" "system_ok me s'"
    using provider_runs.step_safe [OF node_okD(6) [OF assms(1)], of hd "(Close_Connection c, now)"] by auto
  obtain st where st: "close_connection now c cn n =
      Return (n\<lparr>nd_provider := st, nd_connections := AList.delete c (nd_connections n)\<rparr>)"
    "ps_provider s' = st" "ps_db s' = nd_db n"
    "ps_connections s' = AList.delete c (ps_connections ?s)"
  proof (cases "cn_provider_module_id cn")
    case None
    then have "s' = ?s\<lparr>ps_connections := AList.delete c (ps_connections ?s)\<rparr>" using s'(1) assms(2) by simp
    with None show ?thesis by (intro that [of "nd_provider n"]) (simp_all add: close_connection_def)
  next
    case (Some i)
    then obtain st where "close_provider_module now i (nd_provider n) = Return st"
      "s' = ?s\<lparr>ps_provider := st, ps_connections := AList.delete c (ps_connections ?s)\<rparr>"
      using s'(1) assms(2) by auto
    with Some show ?thesis by (intro that [of st]) (simp_all add: close_connection_def)
  qed
  let ?n = "n\<lparr>nd_provider := st, nd_connections := AList.delete c (nd_connections n)\<rparr>"
  have "system_ok me (node_system ?n) = system_ok me s'"
    by (rule system_ok_cong) (simp_all add: st(2-4) map_of_delete_eq)
  with s'(2) assms(1) have "node_ok me ?n"
    by (auto simp: node_ok_def map_of_delete_eq split: if_splits)
  moreover have "node_facts n \<subseteq> node_facts ?n" by (simp add: node_facts_def)
  ultimately show ?thesis unfolding st(1) by (rule step_okI)
qed

lemma rpc_request_ok:
  assumes "node_ok me n" and "map_of (nd_connections n) c = Some cn" and "pick_ok (env_pick env)"
    and "request_allowed ne r n" and "env_me (ne_rpc ne) = me" and "env_me env = me"
  shows "\<exists>cn' sh effect event. handle_inbound_request env r cn
      \<lparr>sh_provider = nd_provider n, sh_db = nd_db n\<rparr> = Return (cn', sh, effect, event) \<and>
    step_ok me n (Return (n\<lparr>nd_provider := sh_provider sh, nd_db := sh_db sh,
      nd_connections := AList.update c cn' (nd_connections n)\<rparr>))"
proof (cases "\<exists>q. r = ProviderProvide q")
  case True
  with provide_request_ok [OF assms(1-3) _ assms(5,6)] assms(4) show ?thesis by blast
next
  case False
  let ?sh = "\<lparr>sh_provider = nd_provider n, sh_db = nd_db n\<rparr>"
  obtain cn' sh effect event where run:
    "handle_inbound_request env r cn ?sh = Return (cn', sh, effect, event)"
    "sh_provider sh = nd_provider n" "ledger_step me (nd_db n) (sh_db sh)" "cn_id cn' = cn_id cn"
    "cn_provider_module_id cn' = cn_provider_module_id cn"
    using inbound_request_run [where sh = ?sh and cn = cn, OF _ _ assms(4) _ assms(6)] False
      node_okD(2) [OF assms(1)] by auto
  let ?n1 = "n\<lparr>nd_db := sh_db sh\<rparr>"
  let ?n = "n\<lparr>nd_provider := sh_provider sh, nd_db := sh_db sh,
    nd_connections := AList.update c cn' (nd_connections n)\<rparr>"
  have n1: "node_ok me ?n1" "node_facts n \<subseteq> node_facts ?n1"
    using node_ledger_step [OF assms(1) run(3)] by blast+
  have "system_ok me (node_system ?n) = system_ok me (node_system ?n1)"
    using assms(2) run(5) by (intro system_ok_cong) (simp_all add: run(2))
  moreover have "cn_id cn' = c" using run(4) node_okD(7) [OF assms(1,2)] by simp
  ultimately have "node_ok me ?n" using n1(1) by (simp add: node_ok_def)
  moreover have "node_facts ?n = node_facts ?n1" by (simp add: node_facts_def)
  ultimately show ?thesis using run(1) n1(2) by (auto intro: step_okI)
qed

lemma heartbeat_tick_run:
  assumes "provider_ok st"
  shows "\<exists>r. maybe_send_heartbeat cfg now publish st = Return r"
  using heartbeat_offers_run [OF assms] by (auto simp: maybe_send_heartbeat_def Let_def)

lemma opened_ok:
  assumes "node_ok me n" and "c \<notin> fst ` set (nd_connections n)"
  shows "step_ok me n (Return (n\<lparr>nd_connections := AList.update c (open_connection c) (nd_connections n)\<rparr>))"
proof (rule step_okI)
  let ?n = "n\<lparr>nd_connections := AList.update c (open_connection c) (nd_connections n)\<rparr>"
  let ?s = "node_system n"
  have "provider_op_allowed hd me (Open_Connection c, 0) ?s" using assms(2) by simp
  from provider_runs.step_safe [OF node_okD(6) [OF assms(1)] this]
  have "system_ok me (?s\<lparr>ps_connections := AList.update c None (ps_connections ?s)\<rparr>)" by simp
  moreover have "system_ok me (node_system ?n) =
      system_ok me (?s\<lparr>ps_connections := AList.update c None (ps_connections ?s)\<rparr>)"
    by (rule system_ok_cong) (simp_all add: open_connection_def)
  ultimately show "node_ok me ?n" using assms(1) by (simp add: node_ok_def open_connection_def)
qed (simp add: node_facts_def)

text \<open>The event loop's own fields are not in the invariant.\<close>

lemma loop_fields_ok:
  assumes "node_ok me n"
  shows "step_ok me n (Return (n\<lparr>nd_response_txs := txs\<rparr>))"
    and "step_ok me n (Return (n\<lparr>nd_p2p_running := b\<rparr>))"
  using assms by (auto intro!: step_okI simp: node_ok_def node_system_def node_facts_def)

lemma step_ok_same: "node_ok me n \<Longrightarrow> step_ok me n (Return n)"
  by (intro step_okI) simp_all

lemma peers_only_ok:
  assumes "node_ok me n" and "peers_ok m"
  shows "step_ok me n (Return (n\<lparr>nd_peers := m\<rparr>))"
  using assms by (intro step_okI) (simp_all add: node_ok_def node_system_def node_facts_def)

lemma deliver_ok:
  assumes "node_ok me n" and "map_of (nd_response_txs n) i \<noteq> None"
  shows "\<exists>txs d. deliver i res (nd_response_txs n) = Return (txs, d) \<and>
    step_ok me n (Return (n\<lparr>nd_response_txs := txs\<rparr>))"
  using assms(2) loop_fields_ok(1) [OF assms(1)] by (auto simp: deliver_def)

lemma reqres_event_ok:
  assumes "node_ok (env_me (ne_rpc ne)) n" and "env_ok ne"
    and "swarm_allowed ne (Request_Response ev) n"
  shows "step_ok (env_me (ne_rpc ne)) n (handle_event ne t uuid (Request_Response ev) n)"
proof (cases ev)
  case (Event_Request p r)
  with assms(2,3) have "p \<noteq> env_me (ne_rpc ne)" "\<forall>d. \<exists>r. ne_call_module ne d = Some (Received r)"
    by (simp_all add: env_ok_def swarm_allowed_def)
  from peer_request_run [OF assms(1) this, of "env_crypto (ne_rpc ne)" uuid "fst t" "fst (snd t)" r]
    step_ok_ledger [OF assms(1)] Event_Request show ?thesis by (auto simp: p2p_simps)
next
  case (Event_Response i r)
  with assms(3) deliver_ok [OF assms(1), of i "Inr r"] show ?thesis
    by (auto simp: p2p_simps swarm_allowed_def)
next
  case (Event_OutboundFailure i)
  with assms(3) deliver_ok [OF assms(1), of i "Inl OutboundFailure"] show ?thesis
    by (auto simp: p2p_simps swarm_allowed_def)
qed (use step_ok_same [OF assms(1)] in \<open>simp_all add: p2p_simps\<close>)

lemma swarm_event_ok:
  assumes "node_ok (env_me (ne_rpc ne)) n" and "env_ok ne" and "swarm_allowed ne event n"
  shows "step_ok (env_me (ne_rpc ne)) n (handle_event ne t uuid event n)"
proof (cases event)
  case (Mdns ev)
  with assms(3) have "mdns_allowed ev (nd_peers n)" by (simp add: swarm_allowed_def)
  from mdns.step_safe [OF node_okD(5) [OF assms(1)] this] peers_only_ok [OF assms(1)] Mdns
  show ?thesis by (auto simp: p2p_simps)
next
  case (Request_Response ev)
  with reqres_event_ok [OF assms(1,2)] assms(3) show ?thesis by simp
next
  case (Gossipsub g)
  have "pick_ok (env_pick (ne_rpc ne))" "decode_ok (ne_decode ne)"
    using assms(2) by (simp_all add: env_ok_def)
  from gossip_step_sound [OF node_okD(2) [OF assms(1)] this, of "ne_topic ne" "(g, t)"]
  obtain db events where
    "handle_gossipsub_event (ne_decode ne) (env_pick (ne_rpc ne)) (ne_topic ne) g t (nd_db n) =
      Return (db, events)" "heartbeat_sound (nd_db n) db"
    by (auto simp: gossip_step_def)
  with step_okI [OF node_heartbeat [OF assms(1)]] Gossipsub show ?thesis by (auto simp: p2p_simps)
next
  case Stream_Event
  with assms(3) show ?thesis by (simp add: swarm_allowed_def)
qed (use step_ok_same [OF assms(1)] in \<open>simp_all add: p2p_simps\<close>)

lemma heartbeat_branch_ok:
  assumes "node_ok me n"
  shows "step_ok me n (p2p_branch ne t uuid Heartbeat_Tick n)"
proof -
  obtain m res where "maybe_send_heartbeat (ne_config ne) (fst t) (ne_publish ne) (nd_provider n) =
      Return (m, res)"
    using heartbeat_tick_run [OF node_okD(1) [OF assms], of "ne_config ne" "fst t" "ne_publish ne"] by auto
  with step_ok_same [OF assms] loop_fields_ok(2) [OF assms] show ?thesis
    by (auto simp: p2p_simps split: sum.split)
qed

lemma p2p_branch_ok:
  assumes "node_ok (env_me (ne_rpc ne)) n" and "env_ok ne" and "node_allowed ne (e, t, uuid) n"
  shows "step_ok (env_me (ne_rpc ne)) n (p2p_branch ne t uuid e n)"
proof (cases "e = Heartbeat_Tick")
  case True
  with heartbeat_branch_ok [OF assms(1)] show ?thesis by simp
next
  case False
  with step_ok_same [OF assms(1)] loop_fields_ok [OF assms(1)] swarm_event_ok [OF assms(1,2)] assms(3)
  show ?thesis by (cases e) (auto simp: p2p_simps)
qed

lemma node_step_safe:
  assumes "node_ok (env_me (ne_rpc ne)) n" and "env_ok ne" and "node_allowed ne e n"
  shows "step_ok (env_me (ne_rpc ne)) n (node_step ne e n)"
  using assms
proof (cases "(ne, e, n)" rule: node_step.cases)
  case (1 ne' c t uuid n')
  with assms show ?thesis by (simp add: opened_ok)
next
  case (2 ne' c r t uuid n')
  have n: "step_ok (env_me (ne_rpc ne)) n (Return n)" using assms(1) by (intro step_okI) simp_all
  show ?thesis
  proof (cases "map_of (nd_connections n) c")
    case (Some cn)
    with rpc_request_ok [OF assms(1) Some, where env = "(ne_rpc ne)\<lparr>env_now := fst t\<rparr>" and ne = ne and r = r]
      assms(2,3) 2 show ?thesis by (auto simp: env_ok_def)
  qed (use 2 n in simp)
next
  case (3 ne' c t uuid n')
  have n: "step_ok (env_me (ne_rpc ne)) n (Return n)" using assms(1) by (intro step_okI) simp_all
  with 3 close_connection_ok [OF assms(1)] show ?thesis by (auto split: option.split)
next
  case (4 ne' q snap response t uuid n')
  with assms(3) obtain s where "response \<noteq> Sender_Dropped" "s \<in> set (offer_snapshots (nd_db n))"
    "snap_rowid s = cr_offer_snapshot_id q" "snap_provider_peer_id s \<noteq> env_me (ne_rpc ne)"
    by auto
  from create_answer_run [OF assms(1) this, where now = "fst t" and snap = snap] 4
    step_ok_ledger [OF assms(1)] show ?thesis by auto
next
  case (5 ne' rid response t uuid n')
  with assms(3) have "signed_row rid (nd_db n)" "response \<noteq> Sender_Dropped" by simp_all
  from confirm_job_finish_run [OF node_okD(3) [OF assms(1)] this, of "ne_debug ne" "fst t"] 5
    step_ok_ledger [OF assms(1)] show ?thesis by auto
qed (use p2p_branch_ok [OF assms(1,2)] assms(3) in auto)

interpretation node_runs: monotone_system "node_step ne" "node_ok (env_me (ne_rpc ne))"
    "\<lambda>e n. env_ok ne \<and> node_allowed ne e n" node_facts
  for ne
proof unfold_locales
  show "\<exists>n'. node_step ne e n = Return n' \<and> node_ok (env_me (ne_rpc ne)) n'"
    if "node_ok (env_me (ne_rpc ne)) n" "env_ok ne \<and> node_allowed ne e n"
    for e and n :: "'c node"
    using node_step_safe [of ne n e] that by (auto simp: step_ok_def)
  show "node_facts n \<subseteq> node_facts n'"
    if "node_ok (env_me (ne_rpc ne)) n" "env_ok ne \<and> node_allowed ne e n" "node_step ne e n = Return n'"
    for e and n n' :: "'c node"
    using node_step_safe [of ne n e] that by (auto simp: step_ok_def)
qed

lemma legal_with_env:
  "env_ok ne \<Longrightarrow> legal_run (node_step ne) (node_allowed ne) es n \<Longrightarrow>
     legal_run (node_step ne) (\<lambda>e n. env_ok ne \<and> node_allowed ne e n) es n"
  by (induction es arbitrary: n) (auto split: outcome.splits)

lemma node_run:
  assumes "node_ok (env_me (ne_rpc ne)) n" and "env_ok ne"
    and "legal_run (node_step ne) (node_allowed ne) es n"
  shows "\<exists>n'. fold_outcome (node_step ne) es n = Return n' \<and> node_ok (env_me (ne_rpc ne)) n' \<and>
    node_facts n \<subseteq> node_facts n'"
  using node_runs.run_safe [OF assms(1) legal_with_env [OF assms(2,3)]]
    node_runs.run_mono [OF assms(1) legal_with_env [OF assms(2,3)]] by blast

text \<open>A node that starts with a database that is in order.\<close>

lemma started_node_ok:
  assumes "ledger_ok me db"
  shows "node_ok me (start_node now db)"
proof -
  let ?n = "start_node now db"
  have "provided (initial_provider_state now) k = None" for k
    by (simp add: provided_def initial_provider_state_def nested_get_def)
  then have "system_ok me (node_system ?n)"
    using ledger_ok_wf [OF assms] provider_ok_initial [of now]
    by (simp add: system_ok_def offers_recorded_def module_ids.below_def node_system_def start_node_def)
      (simp add: initial_provider_state_def)
  with assms show ?thesis by (simp add: node_ok_def peers_ok_def start_node_def)
qed

text \<open>An answer may be handled in any later state in which the node's facts still hold.\<close>

lemma node_facts_sub:
  assumes "node_facts n \<subseteq> node_facts n'"
  shows "ledger_facts (nd_db n) \<subseteq> ledger_facts (nd_db n')"
    and "gossip_facts (nd_db n) \<subseteq> gossip_facts (nd_db n')"
  using assms by (auto simp: node_facts_def)

lemma known_snapshot_persists:
  assumes "node_facts n \<subseteq> node_facts n'" and "consumer_create_job_start (nd_db n) q = Inr (p, r, snap)"
  shows "\<exists>s \<in> set (offer_snapshots (nd_db n')). snap_rowid s = cr_offer_snapshot_id q \<and>
    snap_provider_peer_id s = p"
proof -
  obtain s where s: "s \<in> set (offer_snapshots (nd_db n))" "snap_rowid s = cr_offer_snapshot_id q"
    "snap_provider_peer_id s = p"
    using assms(2) by (auto simp: consumer_create_job_start_def offers_find_def row_to_snapshot_def
        split: option.splits if_splits dest!: find_SomeD)
  have "(snap_rowid s, snap_key s, snap_protocol_payload s) \<in> snapshot_idents (offer_snapshots (nd_db n))"
    using s(1) by (auto simp: snapshot_idents_def snap_ident_def)
  then have "(snap_rowid s, snap_key s, snap_protocol_payload s) \<in> snapshot_idents (offer_snapshots (nd_db n'))"
    using node_facts_sub(2) [OF assms(1)] by (auto simp flip: Snapshot_fact)
  then show ?thesis
    using s(2,3) by (auto simp: snapshot_idents_def snap_ident_def snap_key_def)
qed

section \<open>Properties\<close>


definition empty_node :: "nat node" where
  "empty_node = start_node 5 empty_database"

definition demo_node_env :: "bytes node_env" where
  "demo_node_env = \<lparr>ne_rpc = demo_env,
     ne_call_module = (\<lambda>d. Some (Received (ProviderCreateJobResponse PCreate_Ok))),
     ne_decode = (\<lambda>b. None), ne_topic = ''heartbeat'', ne_debug = (\<lambda>r. ''e''),
     ne_config = \<lparr>pc_name = None, pc_teaser = None, pc_description = None\<rparr>,
     ne_publish = (\<lambda>m. None)\<rparr>"

lemma demo_node_env_simps [simp]:
  "ne_rpc demo_node_env = demo_env" "env_me demo_env = PeerId [1]" "env_ok demo_node_env"
  by (simp_all add: demo_node_env_def env_ok_def demo_env_def decode_ok_def)

lemma empty_node_ok: "node_ok (PeerId [1]) empty_node"
proof -
  have "ledger_ok (PeerId [1]) empty_database"
    using wf_empty_database by (simp add: ledger_ok_def no_self_jobs_def joined_jobs_def empty_database_def)
  from started_node_ok [OF this] show ?thesis by (simp add: empty_node_def)
qed

definition demo_day :: "nat occurrence list" where
  "demo_day = [(Rpc_Opened 1, (6, 6, 6), ''u''),
     (Rpc_Request 1 SubscribeToActiveProviders, (7, 7, 7), ''u''),
     (Swarm_Event (Mdns (Discovered [(PeerId [2], 9)])), (8, 8, 8), ''u''),
     (Swarm_Event (Request_Response (Event_Request (PeerId [2])
       (GetJob \<lparr>gj_provider_job_id = ''j''\<rparr>))), (9, 9, 9), ''u''),
     (Swarm_Event (Gossipsub (Gossip_Message ''heartbeat'' (Some (PeerId [2])) [])), (10, 10, 10), ''u''),
     (Heartbeat_Tick, (11, 11, 11), ''u''),
     (Rpc_Closed 1, (12, 12, 12), ''u'')]"

lemma demo_day_legal: "legal_run (node_step demo_node_env) (node_allowed demo_node_env) demo_day empty_node"
  by (simp add: demo_day_def empty_node_def start_node_def request_allowed_def swarm_allowed_def split: outcome.split)



text \<open>A Consumer that has a signed job of the shop and orders another one.\<close>

definition shopper :: "nat node" where
  "shopper = empty_node\<lparr>nd_db := shop_with signed_shop_job\<rparr>"

lemma ledger_ok_signed: "ledger_ok (PeerId [2]) (shop_with signed_shop_job)"
  by (simp add: ledger_ok_def wf_database_def shop_with_def shop_def empty_database_def
      peer_ids_def new_peer_def wf_snapshots_def no_self_jobs_def joined_jobs_def shop_job_def
      signed_shop_job_def signed_by_consumer_def job_ok_def)


end
