(* ===== verification/Startup.thy ===== *)
theory Startup
  imports Node_Properties
begin

text \<open>
  Starting a node: the user's configuration (\<open>src/src/main.rs\<close>), the configuration and the
  shared state made from it (\<open>SharedState::new\<close>, \<open>src/src/state.rs\<close>), and the keypair file
  (\<open>read_or_create_keypair\<close>, \<open>src/src/p2p.rs\<close>). Paths are strings; the operating system,
  SQLite and libp2p are the fields of a record.
\<close>

section \<open>Configuration\<close>

type_synonym u16 = "16 word"

record user_provider_config =
  up_name :: "string option"
  up_teaser :: "string option"
  up_description :: "string option"

record user_server_config =
  us_port :: "u16 option"

record user_config =
  uc_database_path :: "string option"
  uc_keypair_path :: "string option"
  uc_data_dir :: "string option"
  uc_bootstrap :: "string list option"
  uc_server :: "user_server_config option"
  uc_provider :: "user_provider_config option"

record server_config =
  sc_port :: u16

record 'a config =
  cfg_database_path :: string
  cfg_keypair_path :: string
  cfg_data_dir :: string
  cfg_bootstrap_multiaddrs :: "'a list"
  cfg_server :: server_config
  cfg_provider :: provider_config

definition default_db_name :: string where "default_db_name = ''db.sqlite''"

definition default_keypair_file_name :: string where "default_keypair_file_name = ''keypair.bin''"

definition default_server_port :: u16 where "default_server_port = 4269"

definition provider_config_from :: "user_provider_config option \<Rightarrow> provider_config" where
  "provider_config_from v =
     \<lparr>pc_name = Option.bind v up_name, pc_teaser = Option.bind v up_teaser,
      pc_description = Option.bind v up_description\<rparr>"

section \<open>Starting\<close>

record ('kp, 'a) os =
  os_data_local_dir :: "string option"
  os_create_dir_all :: "string \<Rightarrow> bool"
  os_join :: "string \<Rightarrow> string \<Rightarrow> string"
  os_parent :: "string \<Rightarrow> string option"
  os_read :: "string \<Rightarrow> bytes option"
  os_write :: "string \<Rightarrow> bytes \<Rightarrow> bool"
  os_open_sqlite :: "string \<Rightarrow> database option"
  os_keypair_from_protobuf :: "bytes \<Rightarrow> 'kp option"
  os_keypair_to_protobuf :: "'kp \<Rightarrow> bytes option"
  os_generate_ed25519 :: 'kp
  os_multiaddr_from_str :: "string \<Rightarrow> 'a option"
  os_now :: datetime

datatype startup_error = Startup_Io | Startup_Db | Startup_Keypair | Startup_Multiaddr

text \<open>The keypair, and the file written for it, if any.\<close>

definition read_or_create_keypair ::
  "('kp, 'a) os \<Rightarrow> string \<Rightarrow> (startup_error + 'kp \<times> (string \<times> bytes) option) outcome" where
  "read_or_create_keypair os keypair_path =
     (case os_read os keypair_path of
        Some read \<Rightarrow>
          Return (case os_keypair_from_protobuf os read of
              None \<Rightarrow> Inl Startup_Keypair
            | Some keypair \<Rightarrow> Inr (keypair, None))
      | None \<Rightarrow>
          (let keypair = os_generate_ed25519 os
           in case os_keypair_to_protobuf os keypair of
                None \<Rightarrow> Return (Inl Startup_Keypair)
              | Some encoded \<Rightarrow>
                  (case os_parent os keypair_path of
                     None \<Rightarrow> Panic
                   | Some parent \<Rightarrow>
                       Return (if os_create_dir_all os parent \<and> os_write os keypair_path encoded
                         then Inr (keypair, Some (keypair_path, encoded))
                         else Inl Startup_Io))))"

fun parse_multiaddrs :: "(string \<Rightarrow> 'a option) \<Rightarrow> string list \<Rightarrow> 'a list option" where
  "parse_multiaddrs from_str [] = Some []"
| "parse_multiaddrs from_str (s # ss) =
     (case from_str s of
        None \<Rightarrow> None
      | Some a \<Rightarrow> map_option ((#) a) (parse_multiaddrs from_str ss))"

definition choose_data_dir :: "('kp, 'a) os \<Rightarrow> user_config option \<Rightarrow> (startup_error + string) outcome" where
  "choose_data_dir os user_config =
     (case Option.bind user_config uc_data_dir of
        Some path \<Rightarrow> Return (Inr path)
      | None \<Rightarrow>
          (case os_data_local_dir os of
             None \<Rightarrow> Panic
           | Some path \<Rightarrow> Return (if os_create_dir_all os path then Inr path else Inl Startup_Io)))"

text \<open>What the user sets, or its default.\<close>

definition database_path_of :: "('kp, 'a) os \<Rightarrow> user_config option \<Rightarrow> string \<Rightarrow> string" where
  "database_path_of os user_config data_dir =
     (case Option.bind user_config uc_database_path of
        Some path \<Rightarrow> path | None \<Rightarrow> os_join os data_dir default_db_name)"

definition keypair_path_of :: "('kp, 'a) os \<Rightarrow> user_config option \<Rightarrow> string \<Rightarrow> string" where
  "keypair_path_of os user_config data_dir =
     (case Option.bind user_config uc_keypair_path of
        Some path \<Rightarrow> path | None \<Rightarrow> os_join os data_dir default_keypair_file_name)"

definition bootstrap_of :: "('kp, 'a) os \<Rightarrow> user_config option \<Rightarrow> 'a list option" where
  "bootstrap_of os user_config =
     (case Option.bind user_config uc_bootstrap of
        Some ss \<Rightarrow> parse_multiaddrs (os_multiaddr_from_str os) ss | None \<Rightarrow> Some [])"

definition server_port_of :: "user_config option \<Rightarrow> u16" where
  "server_port_of user_config =
     (case Option.bind user_config (\<lambda>c. Option.bind (uc_server c) us_port) of
        Some port \<Rightarrow> port | None \<Rightarrow> default_server_port)"

text \<open>Opening the database: SQLite and the migrations, then the cleanup, which does nothing yet.\<close>

definition cleanup :: "database \<Rightarrow> bool \<Rightarrow> database" where
  "cleanup conn initial = conn"

definition db_open :: "('kp, 'a) os \<Rightarrow> string \<Rightarrow> database option" where
  "db_open os path = map_option (\<lambda>conn. cleanup conn True) (os_open_sqlite os path)"

lemma db_open_eq [simp]: "db_open os path = os_open_sqlite os path"
  by (simp add: db_open_def cleanup_def option.map_ident)

text \<open>
  \<open>SharedState::new\<close>: the configuration, the keypair, the file written for it, and the node as
  it starts, with the database on disk and nothing provided, connected or discovered.
\<close>

definition shared_state_new ::
  "('kp, 'a) os \<Rightarrow> user_config option \<Rightarrow>
     (startup_error + 'a config \<times> 'kp \<times> (string \<times> bytes) option \<times> 'b node) outcome" where
  "shared_state_new os user_config =
     and_then (choose_data_dir os user_config) (\<lambda>dir. case dir of
       Inl e \<Rightarrow> Return (Inl e)
     | Inr data_dir \<Rightarrow>
         (case db_open os (database_path_of os user_config data_dir) of
            None \<Rightarrow> Return (Inl Startup_Db)
          | Some db \<Rightarrow>
              and_then (read_or_create_keypair os (keypair_path_of os user_config data_dir)) (\<lambda>key. case key of
                Inl e \<Rightarrow> Return (Inl e)
              | Inr (keypair, written) \<Rightarrow>
                  (case bootstrap_of os user_config of
                     None \<Rightarrow> Return (Inl Startup_Multiaddr)
                   | Some addrs \<Rightarrow> Return (Inr
                       (\<lparr>cfg_database_path = database_path_of os user_config data_dir,
                         cfg_keypair_path = keypair_path_of os user_config data_dir,
                         cfg_data_dir = data_dir, cfg_bootstrap_multiaddrs = addrs,
                         cfg_server = \<lparr>sc_port = server_port_of user_config\<rparr>,
                         cfg_provider = provider_config_from (Option.bind user_config uc_provider)\<rparr>,
                        keypair, written,
                        start_node (os_now os) db))))))"

section \<open>Lemmas\<close>

lemma shared_state_newE:
  assumes "shared_state_new os u = Return (Inr (cfg, keypair, written, n))"
  obtains dir db addrs where "choose_data_dir os u = Return (Inr dir)"
    "os_open_sqlite os (database_path_of os u dir) = Some db"
    "read_or_create_keypair os (keypair_path_of os u dir) = Return (Inr (keypair, written))"
    "bootstrap_of os u = Some addrs"
    "cfg = \<lparr>cfg_database_path = database_path_of os u dir, cfg_keypair_path = keypair_path_of os u dir,
      cfg_data_dir = dir, cfg_bootstrap_multiaddrs = addrs,
      cfg_server = \<lparr>sc_port = server_port_of u\<rparr>,
      cfg_provider = provider_config_from (Option.bind u uc_provider)\<rparr>"
    "n = start_node (os_now os) db"
proof -
  obtain res where res: "choose_data_dir os u = Return res"
    using assms by (auto simp: shared_state_new_def)
  obtain dir where "res = Inr dir" using assms by (cases res) (simp_all add: shared_state_new_def res)
  with res have dir: "choose_data_dir os u = Return (Inr dir)" by simp
  obtain db where db: "os_open_sqlite os (database_path_of os u dir) = Some db"
    using assms by (cases "os_open_sqlite os (database_path_of os u dir)") (simp_all add: shared_state_new_def dir)
  obtain key where key: "read_or_create_keypair os (keypair_path_of os u dir) = Return key"
    using assms by (auto simp: shared_state_new_def dir db)
  obtain kp w where kp: "key = Inr (kp, w)"
    using assms by (cases key) (auto simp: shared_state_new_def dir db key)
  obtain addrs where addrs: "bootstrap_of os u = Some addrs"
    using assms by (cases "bootstrap_of os u") (simp_all add: shared_state_new_def dir db key kp)
  from assms show ?thesis
    by (intro that [OF dir db _ addrs]) (auto simp: shared_state_new_def dir db key kp addrs)
qed

lemma keypair_read:
  "os_read os p = Some b \<Longrightarrow> os_keypair_from_protobuf os b = Some kp \<Longrightarrow>
     read_or_create_keypair os p = Return (Inr (kp, None))"
  by (simp add: read_or_create_keypair_def)

lemma keypair_file:
  assumes "read_or_create_keypair os p = Return (Inr (kp, written))"
    and "\<And>kp b. os_keypair_to_protobuf os kp = Some b \<Longrightarrow> os_keypair_from_protobuf os b = Some kp"
  obtains b where "os_keypair_from_protobuf os b = Some kp"
    "written = None \<and> os_read os p = Some b \<or> written = Some (p, b)"
proof (cases "os_read os p")
  case None
  with assms(1) obtain b where "os_keypair_to_protobuf os kp = Some b" "written = Some (p, b)"
    by (auto simp: read_or_create_keypair_def Let_def split: option.splits if_splits)
  with assms(2) that show ?thesis by blast
next
  case (Some b)
  with assms(1) that show ?thesis by (auto simp: read_or_create_keypair_def split: option.splits)
qed

text \<open>Starting again, with the files and the database the last run left behind.\<close>

lemma shared_state_again:
  assumes "shared_state_new os u = Return (Inr (cfg, keypair, written, n))"
    and "\<And>kp b. os_keypair_to_protobuf os kp = Some b \<Longrightarrow> os_keypair_from_protobuf os b = Some kp"
    and "os' = os\<lparr>os_read := files, os_open_sqlite := dbs,
      os_generate_ed25519 := fresh, os_now := now\<rparr>"
    and "\<And>p b. os_read os p = Some b \<Longrightarrow> files p = Some b"
    and "\<And>p b. written = Some (p, b) \<Longrightarrow> files p = Some b"
    and "dbs (cfg_database_path cfg) = Some db"
  shows "shared_state_new os' u = Return (Inr (cfg, keypair, None,
    start_node now db))"
proof -
  obtain dir db0 addrs where start: "choose_data_dir os u = Return (Inr dir)"
    "read_or_create_keypair os (keypair_path_of os u dir) = Return (Inr (keypair, written))"
    "bootstrap_of os u = Some addrs"
    "cfg = \<lparr>cfg_database_path = database_path_of os u dir, cfg_keypair_path = keypair_path_of os u dir,
      cfg_data_dir = dir, cfg_bootstrap_multiaddrs = addrs,
      cfg_server = \<lparr>sc_port = server_port_of u\<rparr>,
      cfg_provider = provider_config_from (Option.bind u uc_provider)\<rparr>"
    using shared_state_newE [OF assms(1)] by metis
  have sel: "os_join os' = os_join os" "os_multiaddr_from_str os' = os_multiaddr_from_str os"
    "os_data_local_dir os' = os_data_local_dir os" "os_create_dir_all os' = os_create_dir_all os"
    "os_read os' = files" "os_open_sqlite os' = dbs" "os_now os' = now"
    "os_keypair_from_protobuf os' = os_keypair_from_protobuf os"
    by (simp_all add: assms(3))
  have same: "choose_data_dir os' u = choose_data_dir os u" "bootstrap_of os' u = bootstrap_of os u"
    "database_path_of os' u = database_path_of os u" "keypair_path_of os' u = keypair_path_of os u"
    unfolding choose_data_dir_def bootstrap_of_def database_path_of_def keypair_path_of_def sel
    by (rule refl)+
  obtain b where "os_keypair_from_protobuf os b = Some keypair" "files (keypair_path_of os u dir) = Some b"
    using keypair_file [OF start(2) assms(2)] assms(4,5) by metis
  then have "read_or_create_keypair os' (keypair_path_of os u dir) = Return (Inr (keypair, None))"
    using keypair_read [of os'] by (simp add: sel)
  with start assms(6) show ?thesis by (simp add: shared_state_new_def same sel)
qed

section \<open>Properties\<close>

text \<open>C8: a node recovers from a restart. It starts in order from a database that is in order; and when it
  is stopped after any legal run and started again with the same configuration, on the
  files it left behind, it reads back the same keypair and generates none, hence has the same peer ID, makes the
  same configuration, is in order again, and remembers everything that was final: jobs,
  failures, confirmations, snapshots and heartbeats seen.\<close>

theorem restart_recovers:
  fixes os :: "('kp, 'a) os" and n0 :: "'b node"
  assumes "shared_state_new os u = Return (Inr (cfg, keypair, written, n0))"
    and "\<And>kp b. os_keypair_to_protobuf os kp = Some b \<Longrightarrow> os_keypair_from_protobuf os b = Some kp"
    and "env_me (ne_rpc ne) = to_peer_id keypair" and "ledger_ok (to_peer_id keypair) (nd_db n0)"
    and "env_ok ne" and "legal_run (node_step ne) (node_allowed ne) es n0"
    and "fold_outcome (node_step ne) es n0 = Return n"
    and "os' = os\<lparr>os_read := files, os_open_sqlite := dbs,
      os_generate_ed25519 := fresh, os_now := now\<rparr>"
    and "\<And>p b. os_read os p = Some b \<Longrightarrow> files p = Some b"
    and "\<And>p b. written = Some (p, b) \<Longrightarrow> files p = Some b"
    and "dbs (cfg_database_path cfg) = Some (nd_db n)"
  shows "\<exists>n' :: 'b node. shared_state_new os' u = Return (Inr (cfg, keypair, None, n')) \<and>
    node_ok (to_peer_id keypair) n0 \<and> node_ok (to_peer_id keypair) n' \<and>
    node_facts n' = node_facts n \<and> node_facts n0 \<subseteq> node_facts n'"
proof -
  have n0_eq: "n0 = start_node (os_now os) (nd_db n0)"
    by (rule shared_state_newE [OF assms(1)]) simp
  have n0: "node_ok (to_peer_id keypair) n0" by (subst n0_eq) (rule started_node_ok [OF assms(4)])
  then have run: "node_ok (to_peer_id keypair) n" "node_facts n0 \<subseteq> node_facts n"
    using node_run [of ne n0 es] assms(3,5-7) by auto
  let ?n' = "start_node now (nd_db n) :: 'b node"
  have "shared_state_new os' u = Return (Inr (cfg, keypair, None, ?n'))"
    by (rule shared_state_again [OF assms(1,2,8-11)])
  moreover have "node_ok (to_peer_id keypair) ?n'" by (rule started_node_ok [OF node_okD(3) [OF run(1)]])
  moreover have "node_facts ?n' = node_facts n" by (simp add: node_facts_def)
  ultimately show ?thesis using n0 run(2) by (intro exI [of _ ?n']) simp
qed

text \<open>A first start without any configuration or file, and the next one.\<close>

definition demo_os :: "(bytes, string) os" where
  "demo_os = \<lparr>os_data_local_dir = Some ''/d'', os_create_dir_all = (\<lambda>p. True),
     os_join = (\<lambda>d f. d @ ''/'' @ f), os_parent = (\<lambda>p. Some ''/d''), os_read = (\<lambda>p. None),
     os_write = (\<lambda>p b. True), os_open_sqlite = (\<lambda>p. Some empty_database),
     os_keypair_from_protobuf = Some, os_keypair_to_protobuf = Some, os_generate_ed25519 = [7],
     os_multiaddr_from_str = Some, os_now = 5\<rparr>"

definition demo_config :: "string config" where
  "demo_config = \<lparr>cfg_database_path = ''/d/db.sqlite'', cfg_keypair_path = ''/d/keypair.bin'',
     cfg_data_dir = ''/d'', cfg_bootstrap_multiaddrs = [], cfg_server = \<lparr>sc_port = 4269\<rparr>,
     cfg_provider = \<lparr>pc_name = None, pc_teaser = None, pc_description = None\<rparr>\<rparr>"

lemma demo_keypair: "read_or_create_keypair demo_os p = Return (Inr ([7], Some (p, [7])))"
  by (simp add: read_or_create_keypair_def demo_os_def Let_def)

lemma demo_start:
  "shared_state_new demo_os None = Return (Inr (demo_config, [7], Some (''/d/keypair.bin'', [7]), empty_node))"
proof -
  have "choose_data_dir demo_os None = Return (Inr ''/d'')"
    "database_path_of demo_os None ''/d'' = ''/d/db.sqlite''"
    "keypair_path_of demo_os None ''/d'' = ''/d/keypair.bin''"
    "os_open_sqlite demo_os p = Some empty_database" "os_now demo_os = 5" for p
    by (simp_all add: demo_os_def choose_data_dir_def database_path_of_def keypair_path_of_def
        default_db_name_def default_keypair_file_name_def)
  then show ?thesis
    by (simp add: shared_state_new_def demo_keypair bootstrap_of_def server_port_of_def
        provider_config_from_def demo_config_def empty_node_def default_server_port_def)
qed

theorem restart_recovers_witness:
  "\<exists>n n' :: nat node. fold_outcome (node_step demo_node_env) demo_day empty_node = Return n \<and>
    shared_state_new (demo_os\<lparr>os_read := (\<lambda>p. if p = ''/d/keypair.bin'' then Some [7] else None),
      os_open_sqlite := (\<lambda>p. Some (nd_db n)),
      os_generate_ed25519 := [8], os_now := 20\<rparr>) None =
      Return (Inr (demo_config, [7], None, n')) \<and> node_facts n' = node_facts n"
proof -
  obtain n where n: "fold_outcome (node_step demo_node_env) demo_day empty_node = Return n"
    using node_run [of demo_node_env empty_node demo_day] empty_node_ok demo_day_legal by auto
  have me: "env_me (ne_rpc demo_node_env) = (\<lambda>k. PeerId [1]) [7]" by simp
  have db: "ledger_ok ((\<lambda>k. PeerId [1]) [7]) (nd_db empty_node)"
    using node_okD(3) [OF empty_node_ok] by simp
  let ?files = "\<lambda>p. if p = ''/d/keypair.bin'' then Some [7 :: u8] else None"
  have os: "os_keypair_to_protobuf demo_os kp = Some b \<Longrightarrow> os_keypair_from_protobuf demo_os b = Some kp"
    "os_read demo_os p = Some b \<Longrightarrow> ?files p = Some b"
    "Some (''/d/keypair.bin'', [7]) = Some (p, b) \<Longrightarrow> ?files p = Some b" for kp b p
    by (auto simp: demo_os_def)
  have "\<exists>n' :: nat node. shared_state_new (demo_os\<lparr>os_read := ?files,
      os_open_sqlite := (\<lambda>p. Some (nd_db n)),
      os_generate_ed25519 := [8], os_now := 20\<rparr>) None =
      Return (Inr (demo_config, [7], None, n')) \<and>
    node_ok ((\<lambda>k. PeerId [1]) [7]) empty_node \<and> node_ok ((\<lambda>k. PeerId [1]) [7]) n' \<and>
    node_facts n' = node_facts n \<and> node_facts empty_node \<subseteq> node_facts n'"
    by (rule restart_recovers [where files = ?files and dbs = "\<lambda>p. Some (nd_db n)" and fresh = "[8]" and now = 20,
        OF demo_start _ me db demo_node_env_simps(3) demo_day_legal n refl]) (use os in auto)
  with n show ?thesis by blast
qed

end
