(* ===== verification/P2p_Lock.thy ===== *)
theory P2p_Lock
  imports Main
begin

text \<open>
  The lock of \<open>P2pState\<close> between the tasks that send confirmations (\<open>confirm_job\<close>,
  \<open>src/src/p2p/job_confirmation_scheduler.rs\<close>) and the event loop of the node
  (\<open>src/src/p2p.rs\<close>), which is the only receiver of the bounded channel the requests go into
  (\<open>src/src/main.rs\<close>).
\<close>

section \<open>The tasks\<close>

text \<open>
  A confirmation task locks the state, sends its request while it holds the lock (the guard
  lives to the end of the statement) and then waits for the answer without it. The event
  loop takes requests out of the channel, and locks the state for every mDNS event.
\<close>

datatype confirm_status = Wants_Lock | Sending | Sent

datatype loop_state = Selecting | Wants_P2p | Handling_Mdns

datatype holder = Nobody | Confirm_Task nat | Event_Loop

record lock_world =
  lw_tasks :: "confirm_status list"
  lw_loop :: loop_state
  lw_holder :: holder
  lw_channel :: "nat list"
  lw_taken :: "nat list"

definition reqres_channel_size :: nat where "reqres_channel_size = 32"

text \<open>One round of the confirmation loop spawns a task for each of \<open>n\<close> unconfirmed jobs.\<close>

definition confirmation_tasks :: "nat \<Rightarrow> lock_world" where
  "confirmation_tasks n = \<lparr>lw_tasks = replicate n Wants_Lock, lw_loop = Selecting,
     lw_holder = Nobody, lw_channel = [], lw_taken = []\<rparr>"

inductive lock_step :: "lock_world \<Rightarrow> lock_world \<Rightarrow> bool" where
  task_locks: "i < length (lw_tasks s) \<Longrightarrow> lw_tasks s ! i = Wants_Lock \<Longrightarrow> lw_holder s = Nobody \<Longrightarrow>
    lock_step s (s\<lparr>lw_tasks := (lw_tasks s)[i := Sending], lw_holder := Confirm_Task i\<rparr>)"
| task_sends: "i < length (lw_tasks s) \<Longrightarrow> lw_tasks s ! i = Sending \<Longrightarrow>
    length (lw_channel s) < reqres_channel_size \<Longrightarrow>
    lock_step s (s\<lparr>lw_tasks := (lw_tasks s)[i := Sent], lw_holder := Nobody,
      lw_channel := lw_channel s @ [i]\<rparr>)"
| mdns_event: "lw_loop s = Selecting \<Longrightarrow> lock_step s (s\<lparr>lw_loop := Wants_P2p\<rparr>)"
| loop_locks: "lw_loop s = Wants_P2p \<Longrightarrow> lw_holder s = Nobody \<Longrightarrow>
    lock_step s (s\<lparr>lw_loop := Handling_Mdns, lw_holder := Event_Loop\<rparr>)"
| loop_done: "lw_loop s = Handling_Mdns \<Longrightarrow>
    lock_step s (s\<lparr>lw_loop := Selecting, lw_holder := Nobody\<rparr>)"
| loop_takes: "lw_loop s = Selecting \<Longrightarrow> lw_channel s = i # c \<Longrightarrow>
    lock_step s (s\<lparr>lw_channel := c, lw_taken := lw_taken s @ [i]\<rparr>)"

inductive_cases lock_stepE: "lock_step s s'"

inductive lock_run :: "lock_world \<Rightarrow> lock_world \<Rightarrow> bool" for s where
  start: "lock_run s s"
| step: "lock_run s s1 \<Longrightarrow> lock_step s1 s2 \<Longrightarrow> lock_run s s2"

section \<open>The invariant\<close>

definition sent_count :: "lock_world \<Rightarrow> nat" where
  "sent_count s = length (filter (\<lambda>t. t = Sent) (lw_tasks s))"

definition lock_inv :: "nat \<Rightarrow> lock_world \<Rightarrow> bool" where
  "lock_inv n s \<longleftrightarrow> length (lw_tasks s) = n \<and>
     (\<forall>i < n. lw_tasks s ! i = Sending \<longleftrightarrow> lw_holder s = Confirm_Task i) \<and>
     (\<forall>i. lw_holder s = Confirm_Task i \<longrightarrow> i < n) \<and>
     (lw_holder s = Event_Loop \<longleftrightarrow> lw_loop s = Handling_Mdns) \<and>
     length (lw_channel s) \<le> sent_count s"

lemma filter_update_other:
  assumes "i < length ts" and "\<not> P (ts ! i)"
  shows "length (filter P (ts[i := x])) = length (filter P ts) + (if P x then 1 else 0)"
  using assms by (induction ts arbitrary: i) (auto split: nat.splits)

lemma lock_inv_start: "lock_inv n (confirmation_tasks n)"
  by (auto simp: lock_inv_def confirmation_tasks_def sent_count_def)

lemma lock_inv_step:
  assumes "lock_step s s'" and "lock_inv n s"
  shows "lock_inv n s'"
  using assms
proof (cases rule: lock_step.cases)
  case (task_locks i)
  with assms(2) show ?thesis
    by (auto simp: lock_inv_def sent_count_def filter_update_other nth_list_update)
next
  case (task_sends i)
  with assms(2) show ?thesis
    by (auto simp: lock_inv_def sent_count_def filter_update_other nth_list_update)
qed (auto simp: lock_inv_def sent_count_def)

lemma lock_inv_run: "lock_run s s' \<Longrightarrow> lock_inv n s \<Longrightarrow> lock_inv n s'"
  by (induction rule: lock_run.induct) (auto intro: lock_inv_step)

text \<open>While a task is sending, not all have sent.\<close>

lemma sending_count:
  assumes "i < length (lw_tasks s)" and "lw_tasks s ! i = Sending"
  shows "sent_count s < length (lw_tasks s)"
proof -
  have "lw_tasks s ! i \<in> set (lw_tasks s)" using assms(1) by simp
  with assms(2) have "\<exists>t \<in> set (lw_tasks s). t \<noteq> Sent" by (metis confirm_status.distinct(5))
  then show ?thesis unfolding sent_count_def by (auto intro: length_filter_less)
qed

lemma few_tasks_progress:
  assumes "lock_inv n s" and "n \<le> reqres_channel_size"
  shows "\<exists>s'. lock_step s s'"
proof (cases "lw_loop s")
  case Selecting
  then show ?thesis by (blast intro: lock_step.mdns_event)
next
  case Handling_Mdns
  then show ?thesis by (blast intro: lock_step.loop_done)
next
  case Wants_P2p
  show ?thesis
  proof (cases "lw_holder s")
    case Nobody
    with Wants_P2p show ?thesis by (blast intro: lock_step.loop_locks)
  next
    case Event_Loop
    with Wants_P2p assms(1) show ?thesis by (simp add: lock_inv_def)
  next
    case (Confirm_Task i)
    with assms(1) have i: "i < length (lw_tasks s)" "lw_tasks s ! i = Sending"
      by (auto simp: lock_inv_def)
    from sending_count [OF this] assms have "length (lw_channel s) < reqres_channel_size"
      by (simp add: lock_inv_def)
    with i show ?thesis by (blast intro: lock_step.task_sends)
  qed
qed

section \<open>How it comes to a standstill\<close>

definition filled :: "nat \<Rightarrow> nat \<Rightarrow> lock_world" where
  "filled n k = \<lparr>lw_tasks = replicate k Sent @ replicate (n - k) Wants_Lock, lw_loop = Selecting,
     lw_holder = Nobody, lw_channel = [0..<k], lw_taken = []\<rparr>"

definition locking :: "nat \<Rightarrow> nat \<Rightarrow> lock_world" where
  "locking n k = (filled n k)\<lparr>lw_tasks := replicate k Sent @ Sending # replicate (n - Suc k) Wants_Lock,
     lw_holder := Confirm_Task k\<rparr>"

lemma filled_locks:
  assumes "k < n"
  shows "lock_step (filled n k) (locking n k)"
proof -
  have "replicate (n - k) Wants_Lock = Wants_Lock # replicate (n - Suc k) Wants_Lock"
    using assms by (simp flip: replicate_Suc add: Suc_diff_Suc)
  then have "lw_tasks (filled n k) ! k = Wants_Lock"
    "(lw_tasks (filled n k))[k := Sending] = lw_tasks (locking n k)"
    by (simp_all add: filled_def locking_def nth_append list_update_append)
  with lock_step.task_locks [of k "filled n k"] assms show ?thesis
    by (simp add: filled_def locking_def)
qed

lemma locking_sends:
  assumes "k < n" and "k < reqres_channel_size"
  shows "lock_step (locking n k) (filled n (Suc k))"
proof -
  have "lw_tasks (locking n k) ! k = Sending"
    "(lw_tasks (locking n k))[k := Sent] = lw_tasks (filled n (Suc k))"
    by (simp_all add: filled_def locking_def nth_append list_update_append replicate_append_same
        flip: append_Cons replicate_Suc)
  with lock_step.task_sends [of k "locking n k"] assms show ?thesis
    by (simp add: filled_def locking_def)
qed

lemma lock_run_trans: "lock_run s1 s2 \<Longrightarrow> lock_run s s1 \<Longrightarrow> lock_run s s2"
  by (induction rule: lock_run.induct) (auto intro: lock_run.step)

lemma fill_run: "k \<le> n \<Longrightarrow> k \<le> reqres_channel_size \<Longrightarrow> lock_run (confirmation_tasks n) (filled n k)"
proof (induction k)
  case 0
  then show ?case by (simp add: filled_def confirmation_tasks_def lock_run.start)
next
  case (Suc k)
  then show ?case
    using lock_run.step [OF lock_run.step [OF _ filled_locks] locking_sends, of "confirmation_tasks n" n k]
    by simp
qed

lemma many_tasks_stuck:
  assumes "reqres_channel_size < n"
  shows "\<exists>s. lock_run (confirmation_tasks n) s \<and> (\<forall>s'. \<not> lock_step s s')"
proof -
  let ?k = reqres_channel_size
  let ?s = "(locking n ?k)\<lparr>lw_loop := Wants_P2p\<rparr>"
  have "lock_run (confirmation_tasks n) (locking n ?k)"
    using lock_run.step [OF fill_run filled_locks] assms by simp
  then have "lock_run (confirmation_tasks n) ?s"
    by (rule lock_run.step) (rule lock_step.mdns_event, simp add: locking_def filled_def)
  moreover have "\<not> lock_step ?s s'" for s'
    by (auto elim!: lock_stepE simp: locking_def filled_def)
  ultimately show ?thesis by blast
qed

section \<open>Properties\<close>


end
