(* ===== verification/Confirmation_Loop.thy ===== *)
theory Confirmation_Loop
  imports Peers Exchange_Properties
begin

text \<open>
  The job confirmation loop (\<open>job_confirmation_loop\<close>,
  \<open>src/src/p2p/job_confirmation_scheduler.rs\<close>) among the tasks it shares state with, step by
  step: the guard of the database lives through the whole \<open>for\<close> loop, the lock on the peers is
  taken anew for every job, and \<open>notify_waiters\<close> wakes the loop only while it waits.
\<close>

section \<open>State and events\<close>

datatype conf_phase =
    Querying
  | Spawning "unconfirmed_job list"
  | About_To_Wait
  | Waiting
  | Stopped
  | Crashed

text \<open>\<open>cw_spawned\<close> holds the jobs for which the current round has spawned a task.\<close>

record 'a conf_world =
  cw_db :: database
  cw_peers :: "'a discovered"
  cw_phase :: conf_phase
  cw_spawned :: "unconfirmed_job list"

datatype 'a conf_event =
    Conf_Query
  | Conf_Next
  | Conf_Wait
  | Conf_Stop
  | Client_Completes consumer_complete_job_request datetime
  | Other_Write database
  | Peers_Change "'a mdns_event"

definition conf_start :: "database \<Rightarrow> 'a discovered \<Rightarrow> 'a conf_world" where
  "conf_start db m = \<lparr>cw_db = db, cw_peers = m, cw_phase = Querying, cw_spawned = []\<rparr>"

text \<open>\<open>Notify::notify_waiters\<close>: nothing is remembered for a loop that does not wait.\<close>

definition notify_waiters :: "'a conf_world \<Rightarrow> 'a conf_world" where
  "notify_waiters w = (if cw_phase w = Waiting then w\<lparr>cw_phase := Querying\<rparr> else w)"

definition db_unlocked :: "'a conf_world \<Rightarrow> bool" where
  "db_unlocked w \<longleftrightarrow> (case cw_phase w of Spawning js \<Rightarrow> False | _ \<Rightarrow> True)"

text \<open>The loop itself.\<close>

fun loop_moves :: "peer_id \<Rightarrow> 'a conf_event \<Rightarrow> 'a conf_world \<Rightarrow> 'a conf_world option" where
  "loop_moves me Conf_Query w =
     (if cw_phase w \<noteq> Querying then None
      else Some (case query_unconfirmed_jobs (cw_db w) me of
          Panic \<Rightarrow> w\<lparr>cw_phase := Crashed\<rparr>
        | Return js \<Rightarrow> w\<lparr>cw_phase := Spawning js, cw_spawned := []\<rparr>))"
| "loop_moves me Conf_Next w =
     (case cw_phase w of
        Spawning [] \<Rightarrow> Some (w\<lparr>cw_phase := About_To_Wait\<rparr>)
      | Spawning (job # js) \<Rightarrow> Some (w\<lparr>cw_phase := Spawning js,
          cw_spawned := (if map_of (cw_peers w) (uj_provider_peer_id job) \<noteq> None
            then cw_spawned w @ [job] else cw_spawned w)\<rparr>)
      | _ \<Rightarrow> None)"
| "loop_moves me Conf_Wait w =
     (if cw_phase w = About_To_Wait then Some (w\<lparr>cw_phase := Waiting\<rparr>) else None)"
| "loop_moves me Conf_Stop w =
     (if cw_phase w = Waiting then Some (w\<lparr>cw_phase := Stopped\<rparr>) else None)"
| "loop_moves me _ w = None"

text \<open>
  The other tasks. Completing a job signals while it still holds the database; the other
  writers confirm or fail jobs or record errors, so they add no unconfirmed job; the mDNS
  handler signals under the lock of the peers.
\<close>

definition adds_none :: "peer_id \<Rightarrow> database \<Rightarrow> database \<Rightarrow> bool" where
  "adds_none me db db' \<longleftrightarrow>
     (case (query_unconfirmed_jobs db me, query_unconfirmed_jobs db' me) of
        (Return js, Return js') \<Rightarrow> set js' \<subseteq> set js | _ \<Rightarrow> False)"

fun conf_step ::
  "'pk crypto \<Rightarrow> (bytes \<Rightarrow> bytes) \<Rightarrow> peer_id \<Rightarrow> 'a conf_event \<Rightarrow> 'a conf_world \<Rightarrow> 'a conf_world option" where
  "conf_step cr sign me (Client_Completes r now) w =
     (if \<not> db_unlocked w then None
      else case handle_consumer_complete_job_request cr sign now me r (cw_db w) of
          (db, res, Some event) \<Rightarrow> Some (notify_waiters (w\<lparr>cw_db := db\<rparr>))
        | (db, res, None) \<Rightarrow> Some (w\<lparr>cw_db := db\<rparr>))"
| "conf_step cr sign me (Other_Write db) w =
     (if db_unlocked w \<and> adds_none me (cw_db w) db then Some (w\<lparr>cw_db := db\<rparr>) else None)"
| "conf_step cr sign me (Peers_Change e) w =
     (case handle_mdns_event e (cw_peers w) of
        Panic \<Rightarrow> None
      | Return m \<Rightarrow> Some (notify_waiters (w\<lparr>cw_peers := m\<rparr>)))"
| "conf_step cr sign me e w = loop_moves me e w"

fun conf_run ::
  "'pk crypto \<Rightarrow> (bytes \<Rightarrow> bytes) \<Rightarrow> peer_id \<Rightarrow> 'a conf_event list \<Rightarrow> 'a conf_world \<Rightarrow> 'a conf_world option" where
  "conf_run cr sign me [] w = Some w"
| "conf_run cr sign me (e # es) w = Option.bind (conf_step cr sign me e w) (conf_run cr sign me es)"

text \<open>No signal falls into a round: none between the query and the wait.\<close>

fun signals :: "'a conf_event \<Rightarrow> bool" where
  "signals (Client_Completes r now) = True"
| "signals (Peers_Change e) = True"
| "signals _ = False"

definition heard :: "'a conf_event \<Rightarrow> 'a conf_world \<Rightarrow> bool" where
  "heard e w \<longleftrightarrow> (signals e \<longrightarrow> (case cw_phase w of Spawning js \<Rightarrow> False | About_To_Wait \<Rightarrow> False | _ \<Rightarrow> True))"

fun all_heard ::
  "'pk crypto \<Rightarrow> (bytes \<Rightarrow> bytes) \<Rightarrow> peer_id \<Rightarrow> 'a conf_event list \<Rightarrow> 'a conf_world \<Rightarrow> bool" where
  "all_heard cr sign me [] w \<longleftrightarrow> True"
| "all_heard cr sign me (e # es) w \<longleftrightarrow> heard e w \<and>
     (case conf_step cr sign me e w of None \<Rightarrow> True | Some w' \<Rightarrow> all_heard cr sign me es w')"

section \<open>The invariant\<close>

text \<open>Every unconfirmed job whose Provider is known has a task, or is still in the queue \<open>js\<close>.\<close>

definition covered :: "peer_id \<Rightarrow> unconfirmed_job list \<Rightarrow> 'a conf_world \<Rightarrow> bool" where
  "covered me js w \<longleftrightarrow> (\<exists>all. query_unconfirmed_jobs (cw_db w) me = Return all \<and>
     (\<forall>j \<in> set all. map_of (cw_peers w) (uj_provider_peer_id j) \<noteq> None \<longrightarrow>
        j \<in> set (cw_spawned w) \<or> j \<in> set js))"

definition conf_inv :: "peer_id \<Rightarrow> 'a conf_world \<Rightarrow> bool" where
  "conf_inv me w \<longleftrightarrow>
     (case cw_phase w of
        Spawning js \<Rightarrow> covered me js w
      | About_To_Wait \<Rightarrow> covered me [] w
      | Waiting \<Rightarrow> covered me [] w
      | _ \<Rightarrow> True)"

lemma conf_inv_phase: "cw_phase w \<in> {Querying, Stopped, Crashed} \<Longrightarrow> conf_inv me w"
  by (auto simp: conf_inv_def)

lemma loop_moves_inv:
  assumes "conf_inv me w" and "loop_moves me e w = Some w'"
  shows "conf_inv me w'"
proof (cases e)
  case Conf_Query
  with assms show ?thesis
    by (cases "query_unconfirmed_jobs (cw_db w) me") (auto simp: conf_inv_def covered_def split: if_splits)
next
  case Conf_Next
  with assms show ?thesis
    by (auto simp: conf_inv_def covered_def split: conf_phase.splits list.splits if_splits)
      (metis option.distinct(1))+
qed (use assms in \<open>auto simp: conf_inv_def covered_def split: if_splits\<close>)

lemma other_write_inv:
  assumes "conf_inv me w" and "db_unlocked w" and "adds_none me (cw_db w) db"
  shows "conf_inv me (w\<lparr>cw_db := db\<rparr>)"
proof -
  have "covered me js (w\<lparr>cw_db := db\<rparr>)" if "covered me js w" for js
    using that assms(3) unfolding covered_def adds_none_def
    by (auto split: outcome.splits prod.splits)
  with assms(1,2) show ?thesis by (auto simp: conf_inv_def db_unlocked_def split: conf_phase.splits)
qed

text \<open>A signal that is heard starts a new round; so does one before the query.\<close>

lemma signal_phase:
  assumes "heard e w" and "signals e" and "conf_step cr sign me e w = Some w'"
  shows "cw_phase w' \<in> {Querying, Stopped, Crashed} \<or>
    (\<exists>r now. e = Client_Completes r now) \<and> cw_phase w' = cw_phase w \<and> cw_db w' = cw_db w \<and>
      cw_peers w' = cw_peers w \<and> cw_spawned w' = cw_spawned w"
proof (cases e)
  case (Client_Completes r now)
  obtain db res event where run: "handle_consumer_complete_job_request cr sign now me r (cw_db w) =
      (db, res, event)" by (metis prod_cases3)
  moreover have "db = cw_db w" if "event = None"
    using run that by (auto simp: handle_consumer_complete_job_request_def split: sum.splits)
  ultimately show ?thesis
    using assms Client_Completes
    by (auto simp: heard_def notify_waiters_def split: option.splits if_splits conf_phase.splits)
qed (use assms in \<open>auto simp: heard_def notify_waiters_def split: outcome.splits if_splits conf_phase.splits\<close>)

lemma conf_step_inv:
  assumes "conf_inv me w" and "heard e w" and "conf_step cr sign me e w = Some w'"
  shows "conf_inv me w'"
proof (cases "signals e")
  case True
  with signal_phase [OF assms(2) True assms(3)] conf_inv_phase [of w' me] assms(1) show ?thesis
    by (auto simp: conf_inv_def covered_def cong: conf_phase.case_cong)
next
  case False
  show ?thesis
  proof (cases "\<exists>db. e = Other_Write db")
    case True
    with assms show ?thesis by (auto intro: other_write_inv split: if_splits)
  next
    case other: False
    with False assms(3) have "loop_moves me e w = Some w'" by (cases e) simp_all
    from loop_moves_inv [OF assms(1) this] show ?thesis .
  qed
qed

lemma conf_run_inv:
  "conf_run cr sign me es w = Some w' \<Longrightarrow> all_heard cr sign me es w \<Longrightarrow> conf_inv me w \<Longrightarrow> conf_inv me w'"
  by (induction es arbitrary: w) (fastforce simp: bind_eq_Some_conv dest: conf_step_inv)+

section \<open>Properties\<close>

text \<open>C20: a signed job is not forgotten, as long as every signal finds the loop waiting. If no job is
  completed and no peer appears between the query of a round and its wait, then whenever the
  loop waits, the last round has spawned a task for every job it would find to confirm now:
  for each own job that is signed and unconfirmed and whose Provider is discovered.\<close>

theorem waiting_loop_missed_nothing:
  assumes "conf_run cr sign me es (conf_start db m) = Some w"
    and "all_heard cr sign me es (conf_start db m)" and "cw_phase w = Waiting"
  shows "\<exists>round. job_confirmation_round me (cw_peers w) (cw_db w) = Return round \<and>
    set round \<subseteq> set (cw_spawned w)"
proof -
  have "conf_inv me (conf_start db m)" by (simp add: conf_inv_def conf_start_def)
  from conf_run_inv [OF assms(1,2) this] assms(3) have "covered me [] w" by (simp add: conf_inv_def)
  then show ?thesis unfolding covered_def job_confirmation_round_def by auto
qed

text \<open>A Consumer with a signed job: its Provider is discovered while the loop waits, or too early.\<close>

definition shop_arrives :: "nat conf_event" where
  "shop_arrives = Peers_Change (Discovered [(PeerId [1], 7)])"

lemma shop_unconfirmed:
  "query_unconfirmed_jobs (shop_with signed_shop_job) (PeerId [2]) =
     Return [\<lparr>uj_rowid = 1, uj_provider_peer_id = PeerId [1], uj_provider_job_id = ''j'',
       uj_hash = shop_hash, uj_consumer_signature = 9 # shop_hash\<rparr>]"
  by (simp add: query_unconfirmed_jobs_def joined_jobs_def shop_with_def shop_def signed_shop_job_def
      signed_by_consumer_def shop_job_def row_to_unconfirmed_def)

theorem waiting_loop_missed_nothing_witness:
  "\<exists>w. conf_run plain_crypto id (PeerId [2]) [Conf_Query, Conf_Next, Conf_Next, Conf_Wait,
       shop_arrives, Conf_Query, Conf_Next, Conf_Next, Conf_Wait]
       (conf_start (shop_with signed_shop_job) []) = Some w \<and>
     (\<exists>round. job_confirmation_round (PeerId [2]) (cw_peers w) (cw_db w) = Return round \<and>
       set round \<subseteq> set (cw_spawned w) \<and> round \<noteq> [])"
proof -
  let ?es = "[Conf_Query, Conf_Next, Conf_Next, Conf_Wait,
       shop_arrives, Conf_Query, Conf_Next, Conf_Next, Conf_Wait]"
  let ?w = "conf_start (shop_with signed_shop_job) [] :: nat conf_world"
  obtain w where w: "conf_run plain_crypto id (PeerId [2]) ?es ?w = Some w" "cw_phase w = Waiting"
    "all_heard plain_crypto id (PeerId [2]) ?es ?w"
    "cw_db w = shop_with signed_shop_job" "map_of (cw_peers w) (PeerId [1]) \<noteq> None"
    by (simp add: conf_start_def shop_unconfirmed shop_arrives_def notify_waiters_def heard_def
        discover_address_def)
  from waiting_loop_missed_nothing [OF w(1,3,2)] obtain round where
    "job_confirmation_round (PeerId [2]) (cw_peers w) (cw_db w) = Return round"
    "set round \<subseteq> set (cw_spawned w)" by blast
  moreover from this(1) w(4,5) have "round \<noteq> []"
    by (auto simp: job_confirmation_round_def shop_unconfirmed)
  ultimately show ?thesis using w(1) by blast
qed

text \<open>
  And the condition is needed: a Provider discovered after its job was looked at in the round
  is not noticed. The loop waits, the Provider is known, and nothing was sent.
\<close>

lemma early_signal_lost:
  "\<exists>w. conf_run plain_crypto id (PeerId [2]) [Conf_Query, Conf_Next, shop_arrives, Conf_Next, Conf_Wait]
       (conf_start (shop_with signed_shop_job) []) = Some w \<and>
     cw_phase w = Waiting \<and> cw_spawned w = [] \<and> job_confirmation_round (PeerId [2]) (cw_peers w) (cw_db w) \<noteq> Return []"
  by (simp add: conf_start_def shop_unconfirmed shop_arrives_def notify_waiters_def
      discover_address_def job_confirmation_round_def)

end
