(* ===== verification/Supervision.thy ===== *)
theory Supervision
  imports Main
begin

text \<open>
  The tasks of the program and how it ends (\<open>main\<close>, \<open>src/src/main.rs\<close>; \<open>run\<close>,
  \<open>src/src/rpc/server.rs\<close>): the P2P task and the server task, which owns the tasks of the RPC
  connections, under one shutdown token.
\<close>

section \<open>State and events\<close>

text \<open>
  A connection sticks when its task waits for room in a queue that only this task empties
  (\<open>Rpc_Connection\<close>, status \<open>Blocked\<close>). A server whose \<open>accept\<close> failed is \<open>Deaf\<close>: the pattern
  of its \<open>select!\<close> branch does not match, so the branch is disabled and only the token is left.
\<close>

datatype task = Task_Running | Task_Finished | Task_Panicked

datatype connection_task = Conn_Running | Conn_Stuck | Conn_Done | Conn_Panicked

datatype server_phase = Binding | Accepting | Deaf | Joining_All | Server_Finished | Server_Panicked

datatype main_phase = Joining_Tasks | Tracking | Exited

record main_world =
  mw_token :: bool
  mw_p2p :: task
  mw_server :: server_phase
  mw_connections :: "connection_task list"
  mw_main :: main_phase

datatype main_event =
    Ctrl_C
  | P2p_Fails | P2p_Sees_Token | P2p_Source_Closed | P2p_Panics
  | Bind_Fails | Bound | Accepts | Accept_Fails | Server_Sees_Token | Server_Joins | Server_Join_Panics
  | Connection_Ends nat | Connection_Sticks nat | Connection_Panics nat
  | Main_Joins | Main_Sees_Panic | Main_Exits

definition main_start :: main_world where
  "main_start = \<lparr>mw_token = False, mw_p2p = Task_Running, mw_server = Binding, mw_connections = [],
     mw_main = Joining_Tasks\<rparr>"

text \<open>What a connection's task does, if it still runs.\<close>

definition connection_becomes :: "nat \<Rightarrow> connection_task \<Rightarrow> main_world \<Rightarrow> main_world option" where
  "connection_becomes i t w =
     (if i < length (mw_connections w) \<and> mw_connections w ! i = Conn_Running
      then Some (w\<lparr>mw_connections := (mw_connections w)[i := t]\<rparr>) else None)"

text \<open>The server task; \<open>join_all\<close> passes on the panic of a connection and aborts the others.\<close>

fun server_step :: "main_event \<Rightarrow> main_world \<Rightarrow> main_world option" where
  "server_step Bind_Fails w =
     (if mw_server w = Binding then Some (w\<lparr>mw_server := Server_Finished, mw_token := True\<rparr>) else None)"
| "server_step Bound w = (if mw_server w = Binding then Some (w\<lparr>mw_server := Accepting\<rparr>) else None)"
| "server_step Accepts w =
     (if mw_server w = Accepting then Some (w\<lparr>mw_connections := mw_connections w @ [Conn_Running]\<rparr>)
      else None)"
| "server_step Accept_Fails w =
     (if mw_server w = Accepting then Some (w\<lparr>mw_server := Deaf\<rparr>) else None)"
| "server_step Server_Sees_Token w =
     (if mw_token w \<and> mw_server w \<in> {Accepting, Deaf} then Some (w\<lparr>mw_server := Joining_All\<rparr>) else None)"
| "server_step Server_Joins w =
     (if mw_server w = Joining_All \<and> list_all (\<lambda>c. c = Conn_Done) (mw_connections w)
      then Some (w\<lparr>mw_server := Server_Finished\<rparr>) else None)"
| "server_step Server_Join_Panics w =
     (if mw_server w = Joining_All \<and> Conn_Panicked \<in> set (mw_connections w)
      then Some (w\<lparr>mw_server := Server_Panicked, mw_connections := []\<rparr>) else None)"
| "server_step _ w = None"

text \<open>
  The P2P task, and \<open>main\<close> itself: an error of a task is caught in the task, which cancels the
  token; \<open>try_join!\<close> returns when both have finished or one has panicked.
\<close>

fun main_step :: "main_event \<Rightarrow> main_world \<Rightarrow> main_world option" where
  "main_step Ctrl_C w = Some (w\<lparr>mw_token := True\<rparr>)"
| "main_step P2p_Fails w =
     (if mw_p2p w = Task_Running then Some (w\<lparr>mw_p2p := Task_Finished, mw_token := True\<rparr>) else None)"
| "main_step P2p_Sees_Token w =
     (if mw_p2p w = Task_Running \<and> mw_token w then Some (w\<lparr>mw_p2p := Task_Finished\<rparr>) else None)"
| "main_step P2p_Source_Closed w =
     (if mw_p2p w = Task_Running then Some (w\<lparr>mw_p2p := Task_Finished\<rparr>) else None)"
| "main_step P2p_Panics w =
     (if mw_p2p w = Task_Running then Some (w\<lparr>mw_p2p := Task_Panicked\<rparr>) else None)"
| "main_step (Connection_Ends i) w = connection_becomes i Conn_Done w"
| "main_step (Connection_Sticks i) w = connection_becomes i Conn_Stuck w"
| "main_step (Connection_Panics i) w = connection_becomes i Conn_Panicked w"
| "main_step Main_Joins w =
     (if mw_main w = Joining_Tasks \<and> mw_p2p w = Task_Finished \<and> mw_server w = Server_Finished
      then Some (w\<lparr>mw_main := Tracking\<rparr>) else None)"
| "main_step Main_Sees_Panic w =
     (if mw_main w = Joining_Tasks \<and> (mw_p2p w = Task_Panicked \<or> mw_server w = Server_Panicked)
      then Some (w\<lparr>mw_main := Tracking, mw_token := True\<rparr>) else None)"
| "main_step Main_Exits w =
     (if mw_main w = Tracking \<and> mw_p2p w \<noteq> Task_Running \<and>
         mw_server w \<in> {Server_Finished, Server_Panicked}
      then Some (w\<lparr>mw_main := Exited\<rparr>) else None)"
| "main_step e w = server_step e w"

fun main_run :: "main_event list \<Rightarrow> main_world \<Rightarrow> main_world option" where
  "main_run [] w = Some w"
| "main_run (e # es) w = Option.bind (main_step e w) (main_run es)"

text \<open>A run is calm when nothing panics in it; and then the program can exit or not.\<close>

definition panics :: "main_event \<Rightarrow> bool" where
  "panics e \<longleftrightarrow> e = P2p_Panics \<or> (\<exists>i. e = Connection_Panics i)"

definition can_exit :: "main_world \<Rightarrow> bool" where
  "can_exit w \<longleftrightarrow> (\<exists>es w'. list_all (\<lambda>e. \<not> panics e) es \<and> main_run es w = Some w' \<and> mw_main w' = Exited)"

section \<open>The invariant of calm runs\<close>

definition calm :: "main_world \<Rightarrow> bool" where
  "calm w \<longleftrightarrow> mw_p2p w \<noteq> Task_Panicked \<and> mw_server w \<noteq> Server_Panicked \<and>
     Conn_Panicked \<notin> set (mw_connections w) \<and>
     (mw_server w = Server_Finished \<longrightarrow> list_all (\<lambda>c. c = Conn_Done) (mw_connections w)) \<and>
     (mw_server w = Binding \<longrightarrow> mw_connections w = []) \<and>
     (mw_main w \<noteq> Joining_Tasks \<longrightarrow> mw_p2p w = Task_Finished \<and> mw_server w = Server_Finished)"

lemma calm_start: "calm main_start"
  by (simp add: calm_def main_start_def)

lemma calm_becomes:
  assumes "calm w" and "connection_becomes i t w = Some w'" and "t \<noteq> Conn_Panicked"
  shows "calm w'"
  using assms set_update_subset_insert [of "mw_connections w" i t]
  by (auto simp: calm_def connection_becomes_def list_all_length split: if_splits)

lemma calm_step:
  assumes "calm w" and "main_step e w = Some w'" and "\<not> panics e"
  shows "calm w'"
  using assms calm_becomes [OF assms(1)]
  by (cases e) (auto simp: calm_def panics_def split: if_splits)

lemma calm_run:
  "main_run es w = Some w' \<Longrightarrow> calm w \<Longrightarrow> list_all (\<lambda>e. \<not> panics e) es \<Longrightarrow> calm w'"
  by (induction es arbitrary: w) (auto simp: bind_eq_Some_conv intro: calm_step)

section \<open>Stuck connections\<close>

lemma stuck_step:
  assumes "Conn_Stuck \<in> set (mw_connections w)" and "calm w" and "main_step e w = Some w'" and "\<not> panics e"
  shows "Conn_Stuck \<in> set (mw_connections w')"
proof -
  have "Conn_Stuck \<in> set (mw_connections w')" if becomes: "connection_becomes i t w = Some w'" for i t
  proof -
    obtain k where k: "k < length (mw_connections w)" "mw_connections w ! k = Conn_Stuck"
      using assms(1) by (auto simp: in_set_conv_nth)
    with becomes have "mw_connections w' ! k = Conn_Stuck" "k < length (mw_connections w')"
      by (auto simp: connection_becomes_def nth_list_update split: if_splits)
    then show ?thesis by (auto simp: in_set_conv_nth)
  qed
  with assms show ?thesis by (cases e) (auto simp: calm_def split: if_splits)
qed

lemma stuck_run:
  "main_run es w = Some w' \<Longrightarrow> Conn_Stuck \<in> set (mw_connections w) \<Longrightarrow> calm w \<Longrightarrow>
     list_all (\<lambda>e. \<not> panics e) es \<Longrightarrow> Conn_Stuck \<in> set (mw_connections w')"
  by (induction es arbitrary: w) (auto simp: bind_eq_Some_conv dest: stuck_step calm_step)

lemma exited_not_stuck: "calm w \<Longrightarrow> mw_main w = Exited \<Longrightarrow> Conn_Stuck \<notin> set (mw_connections w)"
  by (auto simp: calm_def list_all_iff)

section \<open>Ending\<close>

text \<open>Connections that run can end one after the other.\<close>

lemma connections_end:
  assumes "Conn_Stuck \<notin> set (mw_connections w)" and "Conn_Panicked \<notin> set (mw_connections w)"
  shows "\<exists>es. list_all (\<lambda>e. \<not> panics e) es \<and> main_run es w =
    Some (w\<lparr>mw_connections := replicate (length (mw_connections w)) Conn_Done\<rparr>)"
  using assms
proof (induction "length (filter (\<lambda>c. c = Conn_Running) (mw_connections w))" arbitrary: w)
  case 0
  then have "c = Conn_Done" if "c \<in> set (mw_connections w)" for c
    using that by (cases c) (auto simp: filter_empty_conv)
  then have "mw_connections w = replicate (length (mw_connections w)) Conn_Done"
    by (simp add: list_eq_iff_nth_eq)
  then have "w\<lparr>mw_connections := replicate (length (mw_connections w)) Conn_Done\<rparr> = w"
    by (cases w) simp
  then show ?case by (intro exI [of _ "[]"]) simp
next
  case (Suc n)
  let ?cs = "mw_connections w"
  obtain i where i: "i < length ?cs" "?cs ! i = Conn_Running"
    using Suc.hyps(2) by (metis (mono_tags, lifting) filter_False in_set_conv_nth list.size(3) nat.distinct(1))
  let ?w = "w\<lparr>mw_connections := ?cs[i := Conn_Done]\<rparr>"
  have cs: "?cs = take i ?cs @ Conn_Running # drop (Suc i) ?cs"
    using id_take_nth_drop [OF i(1)] i(2) by simp
  have upd: "?cs[i := Conn_Done] = take i ?cs @ Conn_Done # drop (Suc i) ?cs"
    by (rule upd_conv_take_nth_drop [OF i(1)])
  have "length (filter (\<lambda>c. c = Conn_Running) ?cs) =
      Suc (length (filter (\<lambda>c. c = Conn_Running) (?cs[i := Conn_Done])))"
    by (subst cs) (simp add: upd)
  then have "n = length (filter (\<lambda>c. c = Conn_Running) (mw_connections ?w))" using Suc.hyps(2) by simp
  moreover have "Conn_Stuck \<notin> set (mw_connections ?w)" "Conn_Panicked \<notin> set (mw_connections ?w)"
    using Suc.prems set_update_subset_insert [of ?cs i Conn_Done] by auto
  ultimately obtain es where es: "list_all (\<lambda>e. \<not> panics e) es"
    "main_run es ?w = Some (?w\<lparr>mw_connections := replicate (length (mw_connections ?w)) Conn_Done\<rparr>)"
    using Suc.hyps(1) by blast
  have "main_step (Connection_Ends i) w = Some ?w" using i by (simp add: connection_becomes_def)
  with es show ?case by (intro exI [of _ "Connection_Ends i # es"]) (simp add: panics_def)
qed

lemma can_exit_step:
  assumes "main_step e w = Some w'" and "\<not> panics e" and "can_exit w'"
  shows "can_exit w"
proof -
  from assms(3) obtain es w2 where "list_all (\<lambda>e. \<not> panics e) es" "main_run es w' = Some w2"
    "mw_main w2 = Exited" unfolding can_exit_def by blast
  with assms(1,2) show ?thesis unfolding can_exit_def by (intro exI [of _ "e # es"] exI [of _ w2]) simp
qed

lemma can_exit_run:
  "main_run es w = Some w' \<Longrightarrow> list_all (\<lambda>e. \<not> panics e) es \<Longrightarrow> can_exit w' \<Longrightarrow> can_exit w"
  by (induction es arbitrary: w) (auto simp: bind_eq_Some_conv intro: can_exit_step)

text \<open>From the end of the program backwards.\<close>

lemma can_exit_finished:
  assumes "calm w" and "mw_server w = Server_Finished" and "mw_token w"
  shows "can_exit w"
proof -
  have exited: "can_exit w" if "mw_main w = Exited" for w
    unfolding can_exit_def using that by (intro exI [of _ "[]"]) simp
  have tracking: "can_exit w" if "mw_main w = Tracking" "mw_p2p w = Task_Finished"
    "mw_server w = Server_Finished" for w
    by (rule can_exit_step [of Main_Exits w "w\<lparr>mw_main := Exited\<rparr>"])
      (use that exited in \<open>simp_all add: panics_def\<close>)
  have finished: "can_exit w" if "mw_main w = Joining_Tasks" "mw_p2p w = Task_Finished"
    "mw_server w = Server_Finished" for w
    by (rule can_exit_step [of Main_Joins w "w\<lparr>mw_main := Tracking\<rparr>"])
      (use that tracking in \<open>simp_all add: panics_def\<close>)
  have joining: "can_exit w" if "mw_main w = Joining_Tasks" "mw_p2p w = Task_Running"
    "mw_server w = Server_Finished" "mw_token w" for w
    by (rule can_exit_step [of P2p_Sees_Token w "w\<lparr>mw_p2p := Task_Finished\<rparr>"])
      (use that finished in \<open>simp_all add: panics_def\<close>)
  from assms show ?thesis
    by (cases "mw_main w"; cases "mw_p2p w") (auto simp: calm_def intro: exited tracking finished joining)
qed

lemma can_exit_calm:
  assumes "calm w" and "Conn_Stuck \<notin> set (mw_connections w)"
  shows "can_exit w"
proof -
  have joining: "can_exit w" if w: "calm w" "mw_server w = Joining_All" "mw_token w"
    "Conn_Stuck \<notin> set (mw_connections w)" for w
  proof -
    let ?w = "w\<lparr>mw_connections := replicate (length (mw_connections w)) Conn_Done\<rparr>"
    obtain es where es: "list_all (\<lambda>e. \<not> panics e) es" "main_run es w = Some ?w"
      using connections_end [of w] w by (auto simp: calm_def)
    have "calm (?w\<lparr>mw_server := Server_Finished\<rparr>)"
      using w by (auto simp: calm_def list_all_iff)
    then have "can_exit (?w\<lparr>mw_server := Server_Finished\<rparr>)" using w(3) by (intro can_exit_finished) simp_all
    then have "can_exit ?w"
      by (rule can_exit_step [of Server_Joins, rotated 2]) (use w in \<open>simp_all add: panics_def list_all_iff\<close>)
    from can_exit_run [OF es(2,1) this] show ?thesis .
  qed
  have hearing: "can_exit w" if w: "calm w" "mw_server w \<in> {Accepting, Deaf}" "mw_token w"
    "Conn_Stuck \<notin> set (mw_connections w)" for w
  proof (rule can_exit_step [of Server_Sees_Token w "w\<lparr>mw_server := Joining_All\<rparr>"])
    have "calm (w\<lparr>mw_server := Joining_All\<rparr>)" using w by (auto simp: calm_def)
    then show "can_exit (w\<lparr>mw_server := Joining_All\<rparr>)" using w by (intro joining) simp_all
  qed (use w in \<open>simp_all add: panics_def\<close>)
  let ?w = "w\<lparr>mw_token := True\<rparr>"
  have calm: "calm ?w" using assms(1) by (simp add: calm_def)
  have "can_exit ?w"
  proof (cases "mw_server w")
    case Binding
    have "calm (?w\<lparr>mw_server := Accepting\<rparr>)" using calm Binding by (auto simp: calm_def)
    then have "can_exit (?w\<lparr>mw_server := Accepting\<rparr>)" using assms(2) by (intro hearing) simp_all
    then show ?thesis by (rule can_exit_step [of Bound, rotated 2]) (simp_all add: Binding panics_def)
  next
    case Server_Panicked
    with assms(1) show ?thesis by (simp add: calm_def)
  qed (use calm assms(2) joining [of ?w] hearing [of ?w] can_exit_finished [of ?w] in simp_all)
  then show ?thesis by (rule can_exit_step [of Ctrl_C, rotated 2]) (simp_all add: panics_def)
qed

text \<open>A server whose \<open>accept\<close> failed once takes no connection any more.\<close>

lemma deaf_step:
  assumes "main_step e w = Some w'" and "mw_server w \<notin> {Binding, Accepting}"
  shows "mw_server w' \<notin> {Binding, Accepting} \<and> length (mw_connections w') \<le> length (mw_connections w)"
  using assms by (cases e) (auto simp: connection_becomes_def split: if_splits)

lemma deaf_run:
  "main_run es w = Some w' \<Longrightarrow> mw_server w \<notin> {Binding, Accepting} \<Longrightarrow>
     length (mw_connections w') \<le> length (mw_connections w)"
  by (induction es arbitrary: w) (fastforce simp: bind_eq_Some_conv dest: deaf_step)+

text \<open>An error of a task is passed on to all.\<close>

lemma token_step: "main_step e w = Some w' \<Longrightarrow> mw_token w \<Longrightarrow> mw_token w'"
  by (cases e) (auto simp: connection_becomes_def split: if_splits)

lemma token_run: "main_run es w = Some w' \<Longrightarrow> mw_token w \<Longrightarrow> mw_token w'"
  by (induction es arbitrary: w) (auto simp: bind_eq_Some_conv dest: token_step)

lemma failure_sets_token:
  "main_run es w = Some w' \<Longrightarrow> e \<in> set es \<Longrightarrow> e \<in> {Ctrl_C, P2p_Fails, Bind_Fails} \<Longrightarrow> mw_token w'"
proof (induction es arbitrary: w)
  case (Cons e' es)
  obtain w1 where w1: "main_step e' w = Some w1" "main_run es w1 = Some w'"
    using Cons.prems(1) by (auto simp: bind_eq_Some_conv)
  show ?case
  proof (cases "e' = e")
    case True
    with w1(1) Cons.prems(3) have "mw_token w1" by (auto split: if_splits)
    from token_run [OF w1(2) this] show ?thesis .
  next
    case False
    with Cons.prems show ?thesis by (intro Cons.IH [OF w1(2)]) auto
  qed
qed simp

section \<open>Properties\<close>


text \<open>Two clients, one of them stuck, when the user interrupts the program.\<close>

definition demo_stop :: "main_event list" where
  "demo_stop = [Bound, Accepts, Accepts, Connection_Sticks 1, Connection_Ends 0, Ctrl_C,
     Server_Sees_Token, P2p_Sees_Token]"


end
