(* ===== verification/Cancelled_Read.thy ===== *)
theory Cancelled_Read
  imports Framing_Properties
begin

text \<open>
  Reading a frame while other things happen (\<open>handle_connection\<close>, \<open>src/src/rpc/connection.rs\<close>):
  the future of \<open>next_cbor\<close> is polled by \<open>select!\<close>, keeps the bytes it has taken in its local
  buffers, and is dropped with them when another branch of the \<open>select!\<close> is taken.
\<close>

section \<open>The future of \<open>read_cbor\<close>\<close>

text \<open>\<open>len_buf\<close> as far as it is filled, then the whole of it and \<open>buffer\<close> as far as it is filled.\<close>

datatype reading = Reading_Length bytes | Reading_Body bytes bytes

datatype polled = Ready bytes | Pending reading

definition body_length :: "bytes \<Rightarrow> nat" where
  "body_length len_buf = unat (u32_from_be_bytes len_buf)"

text \<open>\<open>read_exact\<close> takes what has arrived, up to what is missing.\<close>

definition poll_body :: "bytes \<Rightarrow> bytes \<Rightarrow> bytes \<Rightarrow> polled \<times> bytes" where
  "poll_body len_buf buffer wire =
     (let k = body_length len_buf - length buffer; buffer' = buffer @ take k wire
      in (if length buffer' = body_length len_buf then Ready buffer'
          else Pending (Reading_Body len_buf buffer'), drop k wire))"

fun poll_read :: "reading \<Rightarrow> bytes \<Rightarrow> polled \<times> bytes" where
  "poll_read (Reading_Length len_buf) wire =
     (let k = 4 - length len_buf; len_buf' = len_buf @ take k wire
      in if length len_buf' = 4 then poll_body len_buf' [] (drop k wire)
         else (Pending (Reading_Length len_buf'), drop k wire))"
| "poll_read (Reading_Body len_buf buffer) wire = poll_body len_buf buffer wire"

section \<open>The loop\<close>

text \<open>
  \<open>rd_wire\<close> are the bytes in the socket and the \<open>BufReader\<close>. A \<open>Wake\<close> polls the branches in
  the order of the source (\<open>biased\<close>), reading first; \<open>Wake True\<close> has another branch ready:
  it is taken if no frame is complete, and the next iteration starts a new future.
\<close>

record reader =
  rd_future :: reading
  rd_wire :: bytes
  rd_out :: "bytes list"

datatype read_event = Arrive bytes | Wake bool

definition start_reader :: reader where
  "start_reader = \<lparr>rd_future = Reading_Length [], rd_wire = [], rd_out = []\<rparr>"

fun select_step :: "read_event \<Rightarrow> reader \<Rightarrow> reader" where
  "select_step (Arrive b) r = r\<lparr>rd_wire := rd_wire r @ b\<rparr>"
| "select_step (Wake other) r =
     (case poll_read (rd_future r) (rd_wire r) of
        (Ready p, rest) \<Rightarrow>
          r\<lparr>rd_future := Reading_Length [], rd_wire := rest, rd_out := rd_out r @ [p]\<rparr>
      | (Pending f, rest) \<Rightarrow>
          r\<lparr>rd_future := (if other then Reading_Length [] else f), rd_wire := rest\<rparr>)"

definition select_run :: "read_event list \<Rightarrow> reader \<Rightarrow> reader" where
  "select_run es r = fold select_step es r"

fun arrivals :: "read_event list \<Rightarrow> bytes" where
  "arrivals [] = []"
| "arrivals (Arrive b # es) = b @ arrivals es"
| "arrivals (Wake other # es) = arrivals es"

text \<open>The bytes a future holds; and a run in which no future is dropped that holds any.\<close>

fun taken :: "reading \<Rightarrow> bytes" where
  "taken (Reading_Length len_buf) = len_buf"
| "taken (Reading_Body len_buf buffer) = len_buf @ buffer"

fun between_frames :: "read_event list \<Rightarrow> reader \<Rightarrow> bool" where
  "between_frames [] r \<longleftrightarrow> True"
| "between_frames (Arrive b # es) r \<longleftrightarrow> between_frames es (select_step (Arrive b) r)"
| "between_frames (Wake other # es) r \<longleftrightarrow>
     (other \<longrightarrow> (case poll_read (rd_future r) (rd_wire r) of
        (Ready p, rest) \<Rightarrow> True | (Pending f, rest) \<Rightarrow> taken f = [])) \<and>
     between_frames es (select_step (Wake other) r)"

section \<open>Polling\<close>

fun reading_ok :: "reading \<Rightarrow> bool" where
  "reading_ok (Reading_Length len_buf) \<longleftrightarrow> length len_buf < 4"
| "reading_ok (Reading_Body len_buf buffer) \<longleftrightarrow>
     length len_buf = 4 \<and> length buffer \<le> body_length len_buf"

lemma poll_body_cases:
  assumes "length buffer \<le> body_length len_buf"
  shows "\<exists>r rest. poll_body len_buf buffer wire = (r, rest) \<and>
    (case r of
       Ready p \<Rightarrow> length p = body_length len_buf \<and> buffer @ wire = p @ rest
     | Pending f \<Rightarrow> \<exists>b. f = Reading_Body len_buf b \<and> length b \<le> body_length len_buf \<and>
         buffer @ wire = b @ rest)"
  using assms by (auto simp: poll_body_def Let_def)

text \<open>No byte is lost by polling: a frame comes off the front of what is unread.\<close>

lemma poll_read_cases:
  assumes "reading_ok f"
  shows "\<exists>r rest. poll_read f wire = (r, rest) \<and>
    (case r of
       Ready p \<Rightarrow> \<exists>h. length h = 4 \<and> length p = body_length h \<and> taken f @ wire = h @ p @ rest
     | Pending f' \<Rightarrow> reading_ok f' \<and> taken f @ wire = taken f' @ rest)"
proof (cases f)
  case (Reading_Body h b)
  with assms have "length b \<le> body_length h" "length h = 4" by simp_all
  from poll_body_cases [OF this(1), of wire] this(2) Reading_Body show ?thesis
    by (elim exE conjE) (rule exI, rule exI, rule conjI, simp, auto split: polled.splits)
next
  case (Reading_Length b)
  let ?k = "4 - length b"
  let ?h = "b @ take ?k wire"
  have wire: "b @ wire = ?h @ drop ?k wire" by simp
  show ?thesis
  proof (cases "length ?h = 4")
    case True
    obtain r rest where r: "poll_body ?h [] (drop ?k wire) = (r, rest)"
      "case r of Ready p \<Rightarrow> length p = body_length ?h \<and> [] @ drop ?k wire = p @ rest
       | Pending f \<Rightarrow> \<exists>b. f = Reading_Body ?h b \<and> length b \<le> body_length ?h \<and> [] @ drop ?k wire = b @ rest"
      using poll_body_cases [of "[]" ?h "drop ?k wire"] by auto
    have poll: "poll_read f wire = (r, rest)" using True r(1) by (simp add: Reading_Length Let_def)
    show ?thesis
    proof (cases r)
      case (Ready p)
      with r(2) True have "length ?h = 4 \<and> length p = body_length ?h \<and> taken f @ wire = ?h @ p @ rest"
        by (simp add: Reading_Length) (metis append_assoc append_take_drop_id)
      with poll Ready show ?thesis by auto
    next
      case (Pending f')
      with r(2) obtain b' where "f' = Reading_Body ?h b'" "length b' \<le> body_length ?h"
        "drop ?k wire = b' @ rest" by auto
      with True wire have "reading_ok f'" "taken f @ wire = taken f' @ rest"
        by (simp_all add: Reading_Length)
      with poll Pending show ?thesis by auto
    qed
  next
    case False
    with assms have "poll_read f wire = (Pending (Reading_Length ?h), drop ?k wire)" "length ?h < 4"
      by (auto simp: Reading_Length Let_def)
    with wire show ?thesis by (simp add: Reading_Length)
  qed
qed

lemma frame_front:
  assumes "frame q @ s = h @ p @ s'" and "length h = 4" and "length p = body_length h" and "length q < 2 ^ 32"
  shows "p = q \<and> s' = s"
proof -
  have h: "h = u32_to_be_bytes (word_of_nat (length q))" "q @ s = p @ s'"
    using assms(1,2) by (simp_all add: frame_def append_eq_append_conv)
  have "unat (word_of_nat (length q) :: u32) = length q"
    using assms(4) by (simp add: unat_of_nat take_bit_nat_eq_self)
  with assms(3) h(1) have "length p = length q" by (simp add: body_length_def)
  with h(2) show ?thesis by simp
qed

section \<open>The invariant\<close>

text \<open>What is read and what is unread make up the frames that are sent.\<close>

definition in_step :: "bytes list \<Rightarrow> bytes \<Rightarrow> reader \<Rightarrow> bool" where
  "in_step ps later r \<longleftrightarrow> reading_ok (rd_future r) \<and>
     (\<exists>unread. ps = rd_out r @ unread \<and>
        taken (rd_future r) @ rd_wire r @ later = concat (map frame unread))"

lemma in_step_wake:
  assumes "in_step ps later r" and "\<forall>p \<in> set ps. length p < 2 ^ 32" and "between_frames [Wake other] r"
  shows "in_step ps later (select_step (Wake other) r)"
proof -
  obtain unread where ok: "reading_ok (rd_future r)" "ps = rd_out r @ unread"
    "taken (rd_future r) @ rd_wire r @ later = concat (map frame unread)"
    using assms(1) by (auto simp: in_step_def)
  obtain x rest where poll: "poll_read (rd_future r) (rd_wire r) = (x, rest)"
    "case x of
       Ready p \<Rightarrow> \<exists>h. length h = 4 \<and> length p = body_length h \<and> taken (rd_future r) @ rd_wire r = h @ p @ rest
     | Pending f' \<Rightarrow> reading_ok f' \<and> taken (rd_future r) @ rd_wire r = taken f' @ rest"
    using poll_read_cases [OF ok(1), of "rd_wire r"] by auto
  show ?thesis
  proof (cases x)
    case (Ready p)
    with poll(2) obtain h where h: "length h = 4" "length p = body_length h"
      "taken (rd_future r) @ rd_wire r = h @ p @ rest" by auto
    then have bytes: "concat (map frame unread) = h @ p @ rest @ later" using ok(3) by (metis append_assoc)
    with h(1) obtain q unread' where u: "unread = q # unread'" by (cases unread) auto
    have "p = q \<and> rest @ later = concat (map frame unread')"
      by (rule frame_front [OF _ h(1,2)]) (use bytes u ok(2) assms(2) in simp_all)
    with ok(2) u Ready poll(1) show ?thesis by (simp add: in_step_def)
  next
    case (Pending f')
    with poll(2) have "reading_ok f'" and eq: "taken (rd_future r) @ rd_wire r = taken f' @ rest"
      by simp_all
    moreover have "taken f' @ rest @ later = concat (map frame unread)"
      using ok(3) arg_cong [OF eq, of "\<lambda>b. b @ later"] by simp
    ultimately have f': "reading_ok f'" "taken f' @ rest @ later = concat (map frame unread)" by blast+
    with Pending poll(1) ok(2) assms(3) show ?thesis by (auto simp: in_step_def)
  qed
qed

lemma in_step_run:
  "in_step ps (arrivals es @ later) r \<Longrightarrow> \<forall>p \<in> set ps. length p < 2 ^ 32 \<Longrightarrow> between_frames es r \<Longrightarrow>
     in_step ps later (select_run es r)"
proof (induction es arbitrary: r)
  case (Cons e es)
  show ?case
  proof (cases e)
    case (Arrive b)
    with Cons show ?thesis by (simp add: select_run_def in_step_def)
  next
    case (Wake other)
    with Cons.prems have "in_step ps (arrivals es @ later) (select_step e r)"
      using in_step_wake [of ps "arrivals es @ later" r other] by auto
    with Cons.IH Cons.prems Wake show ?thesis by (simp add: select_run_def)
  qed
qed (simp add: select_run_def)

section \<open>Properties\<close>

text \<open>C27: reading stays in step as long as it is interrupted only between frames. Whatever pieces the bytes
  arrive in and however often the loop turns to its other branches, if it does so only while
  no byte of an incomplete frame has been taken, then the frames read so far are the first of
  the frames the client sent, and exactly the others are unread.\<close>

theorem interrupted_between_frames:
  assumes "arrivals es @ later = concat (map frame ps)" and "\<forall>p \<in> set ps. length p < 2 ^ 32"
    and "between_frames es start_reader"
  shows "\<exists>unread. ps = rd_out (select_run es start_reader) @ unread \<and>
    taken (rd_future (select_run es start_reader)) @ rd_wire (select_run es start_reader) @ later =
      concat (map frame unread)"
proof -
  have "in_step ps (arrivals es @ later) start_reader"
    using assms(1) by (simp add: in_step_def start_reader_def)
  from in_step_run [OF this assms(2,3)] show ?thesis by (simp add: in_step_def)
qed

text \<open>Two frames in three pieces, and a turn to the other branches between them.\<close>

definition demo_pieces :: "read_event list" where
  "demo_pieces = [Arrive [0, 0], Wake False, Arrive [0, 1, 7], Wake True, Wake True,
     Arrive [0, 0, 0, 1, 8], Wake True]"

lemma demo_lengths [simp]:
  "body_length [0, 0, 0, 1] = 1" "body_length [0, 0, 0, 5] = 5"
  "u32_to_be_bytes 1 = [0, 0, 0, 1]" "u32_to_be_bytes 5 = [0, 0, 0, 5]"
  by (simp_all add: body_length_def u32_from_be_bytes_def u32_to_be_bytes_def)

lemma demo_reads:
  "rd_out (select_run demo_pieces start_reader) = [[7], [8]]"
  "between_frames demo_pieces start_reader"
  by (simp_all add: demo_pieces_def select_run_def start_reader_def poll_body_def Let_def)

theorem interrupted_between_frames_witness:
  "rd_out (select_run demo_pieces start_reader) = [[7], [8]] \<and>
   (\<exists>unread. [[7], [8]] = rd_out (select_run demo_pieces start_reader) @ unread)"
proof
  have "arrivals demo_pieces @ [] = concat (map frame [[7], [8]])"
    by (simp add: demo_pieces_def frame_def)
  then show "\<exists>unread. [[7], [8]] = rd_out (select_run demo_pieces start_reader) @ unread"
    using interrupted_between_frames [of demo_pieces "[]" "[[7], [8]]", OF _ _ demo_reads(2)] by auto
qed (rule demo_reads(1))

text \<open>
  A turn in the middle of a frame loses what was taken of it: the length of this frame is
  dropped, and its content is taken for a frame of its own.
\<close>

lemma cancelled_read_desyncs:
  "arrivals [Arrive [0, 0, 0, 5], Wake True, Arrive [0, 0, 0, 1, 7], Wake False] =
     concat (map frame [[0, 0, 0, 1, 7]])"
  "rd_out (select_run [Arrive [0, 0, 0, 5], Wake True, Arrive [0, 0, 0, 1, 7], Wake False] start_reader) = [[7]]"
  by (simp_all add: frame_def select_run_def start_reader_def poll_body_def Let_def)

end
