(* ===== verification/Spec2Isabelle.thy ===== *)
theory Spec2Isabelle
  imports Db_Properties Gossip_Properties Framing_Properties Subscription_Properties
    Job_Connection_Properties Rpc_Progress Startup P2p_Lock Confirmation_Loop
    Supervision Cancelled_Read
begin

text \<open>
  A verification development for derouter (Rust, \<open>src/src\<close>), a peer-to-peer node through
  which Providers offer services and Consumers buy jobs. The same program plays both parts.

  \<^bold>\<open>The program.\<close> A node keeps a SQLite database of peers, offer snapshots and jobs
  (\<open>db\<close>). Local clients talk to it over TCP, each connection a Yamux session with one stream
  of CBOR frames (\<open>rpc\<close>): a Provider's client, its module, provides offers and serves jobs; a
  Consumer's client queries offers, orders jobs, completes them and opens byte streams to the
  module that serves a job. Nodes talk to each other over libp2p (\<open>p2p\<close>): heartbeats gossip
  the offers, requests create, query and confirm jobs, streams carry job connections, mDNS
  finds peers. When a Consumer completes a job it signs a hash of its terms and result; a
  loop sends the signature to the Provider, which verifies and records it.

  \<^bold>\<open>Conventions.\<close> A Rust function that may panic returns \<open>outcome\<close> (\<open>Return\<close> or \<open>Panic\<close>); a
  \<open>Result\<close> is a sum with the error on the left; a \<open>HashMap\<close> is an association list, also nested;
  a table is a list of records; \<open>u32\<close>, \<open>u16\<close> and \<open>u8\<close> are words, an \<open>i64\<close> a row ID or a
  time in nanoseconds is an \<open>int\<close>. Code that is not in the repository is a parameter: SHA-256,
  hex, decimal parsing and signatures (\<open>crypto\<close>), CBOR, the choice SQLite makes among
  conflicting rows (\<open>pick\<close>), the answer of a module (\<open>call_module\<close>), libp2p's outcomes, the
  file system (\<open>os\<close>). What a theorem needs of them it states as a hypothesis, and a witness
  instantiates it. Clock readings and UUIDs are arguments.

  \<^bold>\<open>The theories.\<close>

  \<^item> \<open>Prelude\<close>: machine integers, outcomes, hash maps, tables; and the interfaces the
    components are clients of: \<open>safe_system\<close>, \<open>monotone_system\<close> and \<open>refined_system\<close> (an
    operation keeps an invariant, keeps facts, refines an abstract step: so does every run),
    \<open>keyed_loop\<close> (a loop whose iterations each settle one key), \<open>id_source\<close> (a counter gives
    new keys). Each is interpreted on the model's own definitions where those are declared.
  \<^item> \<open>Db_Schema\<close> (\<open>db/migrations\<close>, \<open>dto.rs\<close>): rows and records; \<open>wf_database\<close> is what the
    constraints of the schema guarantee.
  \<^item> \<open>Offers\<close>, \<open>Snapshot_Table\<close> (\<open>db/offers.rs\<close>, \<open>db/providers.rs\<close>): \<open>upsert\<close>, the queries; what
    a write does to the table, row by row.
  \<^item> \<open>Job_Hash\<close>, \<open>Jobs\<close> (\<open>db/service_jobs\<close>): the job hash and one definition per function.
    \<open>Job_Machine\<close> is the specification, a state machine of one row with its phases Open,
    Completed, Signed, Confirmed and its failure; \<open>Job_Ledger\<close> shows that every operation
    refines it and keeps the invariant \<open>ledger_ok\<close> and the final facts \<open>ledger_facts\<close>;
    \<open>Job_System\<close> and \<open>Job_Properties\<close> carry this over runs; \<open>Settlement\<close> and
    \<open>Settlement_Properties\<close> follow one job through completion, signature and confirmation;
    \<open>Db_Properties\<close> has the properties of hash, offers and queries.
  \<^item> \<open>Frames\<close>, \<open>Framing\<close>, \<open>Framing_Properties\<close> (\<open>p2p/proto\<close>, \<open>rpc/procedure\<close>, \<open>util/cbor.rs\<close>):
    the messages, and how they are cut out of a byte stream.
  \<^item> \<open>Provider_State\<close>, \<open>Provider_System\<close> (\<open>state.rs\<close>, \<open>rpc/procedure/provider/provide.rs\<close>): the two
    tables of provided offers, kept in step while connections come and go; the specification
    is a notice board.
  \<^item> \<open>Heartbeat\<close>, \<open>Reconcile\<close>, \<open>Heartbeat_Send\<close>, \<open>Gossip\<close>, \<open>Gossip_Properties\<close> (\<open>p2p/gossipsub\<close>):
    sending and receiving heartbeats; the loops of \<open>handle_heartbeat\<close> settle one offer each.
  \<^item> \<open>Reqres\<close>, \<open>Consumer\<close>, \<open>Exchange\<close>, \<open>Exchange_Properties\<close> (\<open>p2p/reqres\<close>,
    \<open>rpc/procedure/consumer\<close>, \<open>p2p/job_confirmation_scheduler.rs\<close>): the requests between
    two nodes, on both sides.
  \<^item> \<open>Subscriptions\<close>, \<open>Rpc_Handlers\<close>, \<open>Rpc_Connection\<close> and their properties
    (\<open>rpc/connection.rs\<close>, \<open>rpc/procedure\<close>): the handlers, the \<open>select!\<close> loop of a connection
    with its bounded queues as a step relation, and what a subscriber is told;
    \<open>Rpc_Progress\<close>: the loop comes to rest, and answers in kind; \<open>Cancelled_Read\<close>: what becomes of
    a frame when \<open>select!\<close> drops the future that reads it.
  \<^item> \<open>Job_Connection\<close>, \<open>Job_Connection_Properties\<close> (\<open>p2p/stream\<close>, \<open>open_job_connection.rs\<close>): how
    the streams of a Consumer and a module are joined.
  \<^item> \<open>Peers\<close> (\<open>p2p.rs\<close>): the addresses known from mDNS. \<open>P2p_Lock\<close>, \<open>Confirmation_Loop\<close>: the
    confirmation loop among the tasks it shares a lock, a channel and signals with.
  \<^item> \<open>Node\<close>, \<open>Node_Properties\<close>: the whole node, every event of \<open>p2p.rs\<close> and of its RPC
    connections on the state they share; \<open>Lifecycle\<close>: two nodes and a sale from the order to
    its confirmation; \<open>Startup\<close> (\<open>state.rs\<close>, \<open>main.rs\<close>): configuration, keypair and restart;
    \<open>Supervision\<close> (\<open>main.rs\<close>, \<open>rpc/server.rs\<close>): the tasks and how the program ends.

  \<^bold>\<open>What is shown.\<close> Over any run of legal events no handler panics, the constraints of the
  database, the ledger of jobs and the offer tables stay in order, and what is final stays:
  terms, failures, confirmations, snapshot IDs, heartbeats seen. Heartbeats make the
  receiver's offers those of the sender, and subscribers see them. A sale ends Confirmed on
  both nodes under one signature, and only under a verified one. Responses reach the
  request they answer. The theorems also say where the code falls short: what a hash does
  not bind, a lost answer, a lost signal, a read cut off in the middle, queues that block the task that
  empties them, a lock held across a full channel.

  \<^bold>\<open>Bounds.\<close> The channels have the sizes of the source: 16 for the two queues of a connection, 32
  for broadcast events and for outbound requests. \<open>loop_cost\<close> bounds the iterations of a
  connection's loop by the frames, requests and events that wait; no other fuel is used.
  Timestamps on the wire and in the database are truncated to seconds where the code does so.

  \<^bold>\<open>Granularity.\<close> A handler that holds its locks from start to end is one step of \<open>node_step\<close>.
  A handler that waits for another node is two, before and after the answer, and anything may
  happen in between. Where interleaving matters inside a handler, it is a step relation of
  its own: \<open>Rpc_Connection\<close>, which takes frames whole, as \<open>Cancelled_Read\<close> shows it may between
  frames; \<open>P2p_Lock\<close>, \<open>Confirmation_Loop\<close>, \<open>Supervision\<close>.

  \<^bold>\<open>Not modelled.\<close> Logging (\<open>logger.rs\<close> and all log lines) and the lock wrappers that log
  (\<open>util/logged_mutex.rs\<close>, \<open>util/logged_rw_lock.rs\<close>), which keep no state of the program; building
  the libp2p swarm (\<open>p2p.rs\<close>, the first half of \<open>run\<close>) and polling Yamux (\<open>util/yamux.rs\<close>),
  which only configure third-party code; SQLite's migrations and statement cache (\<open>db.rs\<close>);
  the parsing of arguments and of the configuration file (\<open>main.rs\<close>). The bytes copied
  between two joined streams of a job connection are left to tokio.
\<close>

end
